(* ===== verification/Gov_Prelude.thy ===== *)
theory Gov_Prelude
  imports Main "HOL-Library.Word" "HOL-Library.AList"
begin

text \<open>
  The shared base of the development: the machine integer types of the program and Rust's
  saturating subtraction on them, the result type and the two combinators by which the models
  thread a state through fallible calls (the question mark operator, and a match with a cleanup
  arm), decimal printing for the messages the program formats, generic facts on maps and
  association lists, and the collections of simplification rules the components extend.
\<close>

section \<open>Collections\<close>

named_theorems gov_defs "definitions unfolded when an operation is executed symbolically"
named_theorems gov_split "case splits of the result combinators"

section \<open>Machine integers\<close>

type_synonym u32 = "32 word"
type_synonym u64 = "64 word"

definition saturating_sub :: "u64 \<Rightarrow> u64 \<Rightarrow> u64" where
  "saturating_sub a b = (if b \<le> a then a - b else 0)"

lemma unat_saturating_sub: "unat (saturating_sub a b) = unat a - unat b"
  by (auto simp: saturating_sub_def unat_sub word_le_nat_alt)

lemma saturating_sub_self [simp]: "saturating_sub a a = 0"
  by (simp add: saturating_sub_def)

lemma saturating_sub_mono_left:
  assumes "a \<le> a'"
  shows "saturating_sub a b \<le> saturating_sub a' b"
proof -
  have "unat a \<le> unat a'" using assms by (simp add: word_le_nat_alt)
  then have "unat a - unat b \<le> unat a' - unat b" by simp
  then show ?thesis by (simp add: word_le_nat_alt unat_saturating_sub)
qed

definition saturating_add :: "u64 \<Rightarrow> u64 \<Rightarrow> u64" where
  "saturating_add a b = word_of_nat (min (unat a + unat b) (2 ^ 64 - 1))"

lemma unat_saturating_add: "unat (saturating_add a b) = min (unat a + unat b) (2 ^ 64 - 1)"
  by (simp add: saturating_add_def unat_of_nat)

section \<open>Results and state\<close>

type_synonym ('e, 'a) result = "'e + 'a"

text \<open>
  A call that may fail and changes a state yields a pair of its result and the state after it.
  \<open>and_then\<close> is the source's question mark: an error returns at once, with the state the
  failing call left behind. \<open>on_err\<close> is \<open>match ... { Err(e) => cleanup, Ok(v) => rest }\<close>.
\<close>

definition and_then ::
  "('e, 'a) result \<times> 's \<Rightarrow> ('a \<Rightarrow> 's \<Rightarrow> ('e, 'b) result \<times> 's) \<Rightarrow> ('e, 'b) result \<times> 's" where
  "and_then m k = (case m of (Inl e, s) \<Rightarrow> (Inl e, s) | (Inr a, s) \<Rightarrow> k a s)"

definition on_err ::
  "('e, 'a) result \<times> 's \<Rightarrow> ('e \<Rightarrow> 's \<Rightarrow> 'r) \<Rightarrow> ('a \<Rightarrow> 's \<Rightarrow> 'r) \<Rightarrow> 'r" where
  "on_err m h k = (case m of (Inl e, s) \<Rightarrow> h e s | (Inr a, s) \<Rightarrow> k a s)"

text \<open>\<open>ok_or\<close> is \<open>Option::ok_or_else\<close>, \<open>map_err\<close> is \<open>Result::map_err\<close> and
  \<open>ensure_that\<close> is a guard with an early error return.\<close>

definition ok_or :: "'a option \<Rightarrow> 'e \<Rightarrow> ('e, 'a) result" where
  "ok_or x e = (case x of None \<Rightarrow> Inl e | Some a \<Rightarrow> Inr a)"

definition map_err :: "('e \<Rightarrow> 'f) \<Rightarrow> ('e, 'a) result \<times> 's \<Rightarrow> ('f, 'a) result \<times> 's" where
  "map_err f m = (case m of (Inl e, s) \<Rightarrow> (Inl (f e), s) | (Inr a, s) \<Rightarrow> (Inr a, s))"

definition ensure_that :: "bool \<Rightarrow> 'e \<Rightarrow> 's \<Rightarrow> ('e, unit) result \<times> 's" where
  "ensure_that b e s = (if b then (Inr (), s) else (Inl e, s))"

lemma and_then_simps [simp]:
  "and_then (Inl e, s) k = (Inl e, s)"
  "and_then (Inr a, s) k = k a s"
  by (simp_all add: and_then_def)

lemma on_err_simps [simp]:
  "on_err (Inl e, s) h k = h e s"
  "on_err (Inr a, s) h k = k a s"
  by (simp_all add: on_err_def)

lemma map_err_simps [simp]:
  "map_err f (Inl e, s) = (Inl (f e), s)"
  "map_err f (Inr a, s) = (Inr a, s)"
  by (simp_all add: map_err_def)

lemma ok_or_simps [simp]: "ok_or None e = Inl e" "ok_or (Some a) e = Inr a"
  by (simp_all add: ok_or_def)

lemma ensure_that_simps [simp]:
  "ensure_that True e s = (Inr (), s)"
  "ensure_that False e s = (Inl e, s)"
  by (simp_all add: ensure_that_def)

lemma and_then_split [gov_split]:
  "P (and_then m k) \<longleftrightarrow>
     (\<forall>e s. m = (Inl e, s) \<longrightarrow> P (Inl e, s)) \<and> (\<forall>a s. m = (Inr a, s) \<longrightarrow> P (k a s))"
  by (cases m; cases "fst m") (auto simp: and_then_def)

lemma on_err_split [gov_split]:
  "P (on_err m h k) \<longleftrightarrow>
     (\<forall>e s. m = (Inl e, s) \<longrightarrow> P (h e s)) \<and> (\<forall>a s. m = (Inr a, s) \<longrightarrow> P (k a s))"
  by (cases m; cases "fst m") (auto simp: on_err_def)

lemma and_then_InrE:
  assumes "and_then m k = (Inr b, t)"
  obtains a s where "m = (Inr a, s)" and "k a s = (Inr b, t)"
  using assms by (cases m; cases "fst m") (auto simp: and_then_def)

lemma and_then_InlE:
  assumes "and_then m k = (Inl e, t)"
  obtains (first) "m = (Inl e, t)"
  | (later) a s where "m = (Inr a, s)" and "k a s = (Inl e, t)"
  using assms by (cases m; cases "fst m") (auto simp: and_then_def)

lemma map_err_InrE:
  assumes "map_err f m = (Inr b, t)"
  obtains "m = (Inr b, t)"
  using assms by (cases m; cases "fst m") auto

lemma map_err_InlE:
  assumes "map_err f m = (Inl e, t)"
  obtains e' where "m = (Inl e', t)" and "e = f e'"
  using assms by (cases m; cases "fst m") auto

section \<open>Printing\<close>

text \<open>Decimal digits of a natural number, as the program's \<open>{}\<close> formats an unsigned integer.\<close>

fun show_nat :: "nat \<Rightarrow> string" where
  "show_nat n =
     (if n < 10 then [char_of (48 + n)] else show_nat (n div 10) @ [char_of (48 + n mod 10)])"

declare show_nat.simps [simp del]

section \<open>Strings\<close>

text \<open>The parts of Rust's string library the program uses: prefix tests, splitting at a
  character and trimming.\<close>

fun starts_with :: "string \<Rightarrow> string \<Rightarrow> bool" where
  "starts_with s [] = True"
| "starts_with [] (p # ps) = False"
| "starts_with (c # s) (p # ps) = (c = p \<and> starts_with s ps)"

lemma starts_with_iff: "starts_with s p \<longleftrightarrow> (\<exists>t. s = p @ t)"
  by (induction s p rule: starts_with.induct) auto

definition strip_prefix :: "string \<Rightarrow> string \<Rightarrow> string option" where
  "strip_prefix s p = (if starts_with s p then Some (drop (length p) s) else None)"

lemma strip_prefix_Some: "strip_prefix s p = Some t \<longleftrightarrow> s = p @ t"
  by (auto simp: strip_prefix_def starts_with_iff)

text \<open>\<open>str::split(c)\<close>: the pieces between occurrences of the separator, empty pieces
  included; the empty string has one empty piece.\<close>

fun split_at :: "char \<Rightarrow> string \<Rightarrow> string list" where
  "split_at d [] = [[]]"
| "split_at d (c # s) =
     (if c = d then [] # split_at d s
      else (case split_at d s of [] \<Rightarrow> [[c]] | p # ps \<Rightarrow> (c # p) # ps))"

lemma split_at_nonempty [simp]: "split_at d s \<noteq> []"
  by (induction s) (auto split: list.splits)

lemma split_at_no_sep: "p \<in> set (split_at d s) \<Longrightarrow> d \<notin> set p"
proof (induction s arbitrary: p)
  case Nil
  then show ?case by simp
next
  case (Cons c s)
  then show ?case by (cases "split_at d s") (auto split: if_splits)
qed

text \<open>\<open>[..].join(sep)\<close> on a list of pieces.\<close>

fun join_with :: "char \<Rightarrow> string list \<Rightarrow> string" where
  "join_with d [] = []"
| "join_with d [p] = p"
| "join_with d (p # q # ps) = p @ d # join_with d (q # ps)"

lemma join_split_at: "join_with d (split_at d s) = s"
proof (induction s)
  case Nil
  then show ?case by simp
next
  case (Cons c s)
  obtain p ps where sp: "split_at d s = p # ps"
    by (cases "split_at d s") auto
  show ?case
  proof (cases "c = d")
    case True
    with Cons sp show ?thesis by simp
  next
    case False
    with Cons sp show ?thesis by (cases ps) auto
  qed
qed

lemma split_at_append_sep: "split_at d (a @ d # b) = split_at d a @ split_at d b"
  by (induction a) (auto split: list.splits)

lemma split_at_single: "d \<notin> set p \<Longrightarrow> split_at d p = [p]"
  by (induction p) auto

lemma split_join:
  assumes "ps \<noteq> []" and "\<forall>p \<in> set ps. d \<notin> set p"
  shows "split_at d (join_with d ps) = ps"
  using assms
proof (induction d ps rule: join_with.induct)
  case (3 d p q ps)
  then show ?case by (simp add: split_at_append_sep split_at_single)
qed (simp_all add: split_at_single)

text \<open>ASCII white space, as \<open>trim\<close> removes it. The program trims identifiers, executable
  names and configuration values; the Unicode white space \<open>trim\<close> also removes is outside ASCII.\<close>

definition is_ws :: "char \<Rightarrow> bool" where
  "is_ws c \<longleftrightarrow> of_char c \<in> {9, 10, 11, 12, 13, 32 :: nat}"

definition trim :: "string \<Rightarrow> string" where
  "trim s = rev (dropWhile is_ws (rev (dropWhile is_ws s)))"

definition trim_start_matches :: "char \<Rightarrow> string \<Rightarrow> string" where
  "trim_start_matches d s = dropWhile (\<lambda>c. c = d) s"

definition trim_end_matches :: "char \<Rightarrow> string \<Rightarrow> string" where
  "trim_end_matches d s = rev (dropWhile (\<lambda>c. c = d) (rev s))"

text \<open>\<open>str::rsplit_once(c)\<close>: the parts before and after the last occurrence of the character.\<close>

definition rsplit_once :: "char \<Rightarrow> string \<Rightarrow> (string \<times> string) option" where
  "rsplit_once d s =
     (case dropWhile (\<lambda>c. c \<noteq> d) (rev s) of
        [] \<Rightarrow> None
      | _ # before \<Rightarrow> Some (rev before, rev (takeWhile (\<lambda>c. c \<noteq> d) (rev s))))"

lemma rsplit_once_Some:
  assumes "rsplit_once d s = Some (a, b)" shows "s = a @ d # b"
proof -
  from assms obtain c before where drop: "dropWhile (\<lambda>c. c \<noteq> d) (rev s) = c # before"
      and a: "a = rev before" and b: "b = rev (takeWhile (\<lambda>c. c \<noteq> d) (rev s))"
    by (auto simp: rsplit_once_def split: list.splits)
  from drop have "c = d" using hd_dropWhile [of "\<lambda>c. c \<noteq> d" "rev s"] by simp
  with drop have "rev s = takeWhile (\<lambda>c. c \<noteq> d) (rev s) @ d # before"
    using takeWhile_dropWhile_id [of "\<lambda>c. c \<noteq> d" "rev s"] by simp
  then have "s = rev (takeWhile (\<lambda>c. c \<noteq> d) (rev s) @ d # before)" by (metis rev_rev_ident)
  then show ?thesis using a b by simp
qed

lemma rsplit_once_None: "rsplit_once d s = None \<longleftrightarrow> d \<notin> set s"
proof (cases "dropWhile (\<lambda>c. c \<noteq> d) (rev s)")
  case Nil
  then have "d \<notin> set s" by (auto simp: dropWhile_eq_Nil_conv)
  then show ?thesis unfolding rsplit_once_def Nil by simp
next
  case (Cons c before)
  then have "d \<in> set s" using dropWhile_eq_Nil_conv [of "\<lambda>c. c \<noteq> d" "rev s"] by auto
  then show ?thesis unfolding rsplit_once_def Cons by simp
qed

section \<open>Transition systems\<close>

text \<open>States reached from an initial state by finitely many steps, and the interface by which
  a component's state invariant is established: it holds initially and every step keeps it.\<close>

inductive reach :: "('s \<Rightarrow> bool) \<Rightarrow> ('s \<Rightarrow> 's \<Rightarrow> bool) \<Rightarrow> 's \<Rightarrow> bool"
  for init :: "'s \<Rightarrow> bool" and step :: "'s \<Rightarrow> 's \<Rightarrow> bool" where
  reach_init: "init s \<Longrightarrow> reach init step s"
| reach_step: "reach init step s \<Longrightarrow> step s t \<Longrightarrow> reach init step t"

locale invariant_system =
  fixes init :: "'s \<Rightarrow> bool" and step :: "'s \<Rightarrow> 's \<Rightarrow> bool" and inv :: "'s \<Rightarrow> bool"
  assumes inv_init: "init s \<Longrightarrow> inv s"
    and inv_step: "inv s \<Longrightarrow> step s t \<Longrightarrow> inv t"
begin

lemma reach_inv: "reach init step s \<Longrightarrow> inv s"
  by (induction rule: reach.induct) (auto intro: inv_init inv_step)

lemma rtranclp_inv: "step\<^sup>*\<^sup>* s t \<Longrightarrow> inv s \<Longrightarrow> inv t"
  by (induction rule: rtranclp_induct) (auto intro: inv_step)

end

section \<open>Maps\<close>

lemma card_fibre_insert:
  assumes "finite (dom f)" and "f i = None"
  shows "card {j. (f(i \<mapsto> v)) j = Some w} = card {j. f j = Some w} + (if v = w then 1 else 0)"
proof -
  have fin: "finite {j. f j = Some w}"
    by (rule finite_subset [OF _ assms(1)]) auto
  have "{j. (f(i \<mapsto> v)) j = Some w} =
      (if v = w then insert i {j. f j = Some w} else {j. f j = Some w})"
    using assms(2) by auto
  then show ?thesis using fin assms(2) by simp
qed

lemma card_fibre_delete:
  assumes "finite (dom f)" and "f i = Some v"
  shows "card {j. (f(i := None)) j = Some w} = card {j. f j = Some w} - (if v = w then 1 else 0)"
proof -
  have fin: "finite {j. f j = Some w}"
    by (rule finite_subset [OF _ assms(1)]) auto
  have "{j. (f(i := None)) j = Some w} =
      (if v = w then {j. f j = Some w} - {i} else {j. f j = Some w})"
    using assms(2) by auto
  then show ?thesis using fin assms(2) by simp
qed

lemma finite_fibre [simp]: "finite (dom f) \<Longrightarrow> finite {j. f j = Some w}"
  by (rule finite_subset [of _ "dom f"]) auto

end
