(* ===== verification/Json_Value.thy ===== *)
theory Json_Value
  imports Gov_Prelude "HOL-Library.List_Lexorder" "HOL-Library.Char_ord"
begin

text \<open>
  The JSON documents the program passes between its layers (provider options, correlation,
  metadata, snapshot handles). An object is an association list kept sorted by key with one entry
  per key, as the program's JSON maps are; a number is an integer, or the literal of a number with
  a fraction, which the program never computes with.
\<close>

datatype json =
    JNull
  | JBool bool
  | JNum int
  | JFloat string
  | JStr string
  | JArr "json list"
  | JObj "(string \<times> json) list"

fun obj_insert :: "string \<Rightarrow> 'a \<Rightarrow> (string \<times> 'a) list \<Rightarrow> (string \<times> 'a) list" where
  "obj_insert k v [] = [(k, v)]"
| "obj_insert k v ((k', v') # kvs) =
     (if k = k' then (k, v) # kvs
      else if k < k' then (k, v) # (k', v') # kvs
      else (k', v') # obj_insert k v kvs)"

definition obj_of :: "(string \<times> json) list \<Rightarrow> json" where
  "obj_of kvs = JObj (foldl (\<lambda>acc (k, v). obj_insert k v acc) [] kvs)"

fun json_get :: "json \<Rightarrow> string \<Rightarrow> json option" where
  "json_get (JObj kvs) k = map_of kvs k"
| "json_get _ k = None"

text \<open>Indexing with a key yields null where the key is absent or the value is no object.\<close>

definition json_index :: "json \<Rightarrow> string \<Rightarrow> json" where
  "json_index j k = (case json_get j k of None \<Rightarrow> JNull | Some v \<Rightarrow> v)"

fun as_str :: "json \<Rightarrow> string option" where
  "as_str (JStr s) = Some s"
| "as_str _ = None"

fun as_u64 :: "json \<Rightarrow> u64 option" where
  "as_u64 (JNum i) = (if 0 \<le> i \<and> i < 2 ^ 64 then Some (word_of_int i) else None)"
| "as_u64 _ = None"

fun as_bool :: "json \<Rightarrow> bool option" where
  "as_bool (JBool b) = Some b"
| "as_bool _ = None"

fun is_object :: "json \<Rightarrow> bool" where
  "is_object (JObj _) = True"
| "is_object _ = False"

definition json_str :: "json \<Rightarrow> string \<Rightarrow> string option" where
  "json_str j k = Option.bind (json_get j k) as_str"

definition json_u64 :: "json \<Rightarrow> string \<Rightarrow> u64 option" where
  "json_u64 j k = Option.bind (json_get j k) as_u64"

text \<open>\<open>value[key] = v\<close> on a document: null becomes an object, an object gains or replaces the
  entry. On any other document the source panics; \<open>None\<close> is that panic.\<close>

fun json_set :: "json \<Rightarrow> string \<Rightarrow> json \<Rightarrow> json option" where
  "json_set (JObj kvs) k v = Some (JObj (obj_insert k v kvs))"
| "json_set JNull k v = Some (JObj [(k, v)])"
| "json_set _ k v = None"

section \<open>Lookup after insertion\<close>

lemma map_of_obj_insert: "map_of (obj_insert k v kvs) = (map_of kvs)(k \<mapsto> v)"
  by (induction kvs) (auto simp: fun_eq_iff)

lemma keys_obj_insert: "fst ` set (obj_insert k v kvs) = insert k (fst ` set kvs)"
  by (induction k v kvs rule: obj_insert.induct) (simp_all add: insert_commute)

lemma sorted_obj_insert:
  assumes "sorted_wrt (<) (map fst kvs)"
  shows "sorted_wrt (<) (map fst (obj_insert k v kvs))"
  using assms
proof (induction kvs)
  case Nil
  then show ?case by simp
next
  case (Cons p kvs)
  obtain a b where p: "p = (a, b)" by (cases p)
  have below: "\<forall>x \<in> fst ` set kvs. a < x" using Cons.prems p by auto
  have "\<forall>x \<in> fst ` set (obj_insert k v kvs). a < x" if "a < k"
    using below that by (simp add: keys_obj_insert)
  with below Cons p show ?case
    by (auto dest: less_trans simp: not_less_iff_gr_or_eq)
qed

lemma json_get_set: "json_set j k v = Some j' \<Longrightarrow> json_get j' k = Some v"
  by (cases j) (auto simp: map_of_obj_insert)

lemma json_get_set_other: "json_set j k v = Some j' \<Longrightarrow> k' \<noteq> k \<Longrightarrow> json_get j' k' = json_get j k'"
  by (cases j) (auto simp: map_of_obj_insert)

lemma json_str_JNull [simp]: "json_str JNull k = None"
  by (simp add: json_str_def)

lemma json_u64_JNull [simp]: "json_u64 JNull k = None"
  by (simp add: json_u64_def)

end
