(* ===== verification/Provider_Protocol.thy ===== *)
theory Provider_Protocol
  imports Json_Value
begin

text \<open>
  The provider control plane (\<open>src/crates/protocol/provider\<close>): the identifiers, requests and
  results of the provider operations, the control errors, and the lifecycle state machine that
  every provider instance follows. The lifecycle trait itself is a record of functions over an
  opaque world, since providers are trait objects to their callers.
\<close>

section \<open>Lifecycle states and operations (lifecycle.rs)\<close>

datatype ProviderLifecycleState =
  Unknown | Creating | Active | Pausing | Paused | Loading | Deleting | Deleted | Failed

fun is_transient :: "ProviderLifecycleState \<Rightarrow> bool" where
  "is_transient Creating = True"
| "is_transient Pausing = True"
| "is_transient Loading = True"
| "is_transient Deleting = True"
| "is_transient _ = False"

definition is_terminal :: "ProviderLifecycleState \<Rightarrow> bool" where
  "is_terminal s \<longleftrightarrow> s = Deleted"

datatype ProviderLifecycleOperation = Create | Load | Pause | Delete | Inspect

fun in_progress_state :: "ProviderLifecycleOperation \<Rightarrow> ProviderLifecycleState option" where
  "in_progress_state Create = Some Creating"
| "in_progress_state Load = Some Loading"
| "in_progress_state Pause = Some Pausing"
| "in_progress_state Delete = Some Deleting"
| "in_progress_state Inspect = None"

fun success_state :: "ProviderLifecycleOperation \<Rightarrow> ProviderLifecycleState option" where
  "success_state Create = Some Active"
| "success_state Load = Some Active"
| "success_state Pause = Some Paused"
| "success_state Delete = Some Deleted"
| "success_state Inspect = None"

datatype ProviderLifecycleEvent =
    Begin ProviderLifecycleOperation
  | CompleteSuccess ProviderLifecycleOperation
  | CompleteFailure ProviderLifecycleOperation string
  | Inspected ProviderLifecycleState

section \<open>Identifiers, requests and results (types.rs)\<close>

type_synonym ProviderKind = string
type_synonym BackendId = string
type_synonym ProviderInstanceId = string
type_synonym ProviderSnapshotId = string

datatype ProviderLifecycleReason =
  Acquire | Restore | Reclaim | Release | Shutdown | Reconcile | ErrorCleanup | UserRequested

datatype ProviderCapability =
  CapPause | CapSnapshot | CapNetworkIsolation | CapResourceLimits | CapSerializedHandle

record ProviderOperationCapabilities =
  oc_exec :: bool
  oc_file_read :: bool
  oc_file_write :: bool
  oc_search :: bool
  oc_export_file :: bool
  oc_lsp :: bool
  oc_network :: bool

record ProviderCapabilities =
  pc_lifecycle :: "ProviderCapability list"
  pc_operation_plane :: ProviderOperationCapabilities

record ProviderResourceLimits =
  rl_vcpu_count :: "u32 option"
  rl_memory_mb :: "u64 option"
  rl_disk_mb :: "u64 option"
  rl_timeout_ms :: "u64 option"

record ProviderResourceAllocation =
  ra_vcpu_count :: "u32 option"
  ra_memory_mb :: "u64 option"
  ra_disk_mb :: "u64 option"

datatype ProviderEndpoint = EpLocal | EpTcp string "16 word" | EpUnix string | EpHandle json

datatype ProviderPauseMode = Suspend | PauseSnapshot

datatype ProviderLoadSource =
    SrcSnapshot ProviderSnapshotId
  | SrcInstance ProviderInstanceId
  | SrcSerializedHandle json

record ProviderCreateRequest =
  cr_backend_id :: BackendId
  cr_owner_ref :: string
  cr_reason :: ProviderLifecycleReason
  cr_resource_limits :: ProviderResourceLimits
  cr_provider_options :: json
  cr_correlation :: json

record ProviderLoadRequest =
  lr_backend_id :: BackendId
  lr_owner_ref :: string
  lr_source :: ProviderLoadSource
  lr_reason :: ProviderLifecycleReason
  lr_resource_limits :: ProviderResourceLimits
  lr_provider_options :: json
  lr_correlation :: json

record ProviderPauseRequest =
  pr_backend_id :: BackendId
  pr_instance_id :: ProviderInstanceId
  pr_mode :: ProviderPauseMode
  pr_reason :: ProviderLifecycleReason
  pr_correlation :: json

record ProviderCheckpointRequest =
  kr_backend_id :: BackendId
  kr_instance_id :: ProviderInstanceId
  kr_reason :: ProviderLifecycleReason
  kr_correlation :: json

record ProviderDeleteRequest =
  dr_backend_id :: BackendId
  dr_instance_id :: "ProviderInstanceId option"
  dr_snapshot_id :: "ProviderSnapshotId option"
  dr_reason :: ProviderLifecycleReason
  dr_correlation :: json

record ProviderInspectRequest =
  ir_backend_id :: BackendId
  ir_instance_id :: "ProviderInstanceId option"
  ir_reason :: ProviderLifecycleReason
  ir_correlation :: json

record ProviderSnapshot =
  ps_snapshot_id :: ProviderSnapshotId
  ps_provider :: ProviderKind
  ps_source_instance_id :: "ProviderInstanceId option"
  ps_serialized_handle :: "json option"
  ps_metadata :: json
  ps_created_at_ms :: u64

record ProviderInstance =
  pi_backend_id :: BackendId
  pi_provider :: ProviderKind
  pi_instance_id :: ProviderInstanceId
  pi_state :: ProviderLifecycleState
  pi_endpoint :: "ProviderEndpoint option"
  pi_snapshot :: "ProviderSnapshot option"
  pi_capabilities :: ProviderCapabilities
  pi_resources :: ProviderResourceAllocation
  pi_metadata :: json
  pi_created_at_ms :: u64
  pi_updated_at_ms :: u64

record ProviderInstanceStatus =
  st_backend_id :: BackendId
  st_provider :: ProviderKind
  st_instance_id :: "ProviderInstanceId option"
  st_state :: ProviderLifecycleState
  st_endpoint :: "ProviderEndpoint option"
  st_snapshot :: "ProviderSnapshot option"
  st_capabilities :: ProviderCapabilities
  st_resources :: ProviderResourceAllocation
  st_last_error :: "string option"
  st_metadata :: json
  st_updated_at_ms :: u64

record ProviderDeleteOutcome =
  do_backend_id :: BackendId
  do_provider :: ProviderKind
  do_instance_id :: "ProviderInstanceId option"
  do_deleted :: bool
  do_retained_snapshots :: "ProviderSnapshotId list"
  do_deleted_snapshots :: "ProviderSnapshotId list"
  do_correlation :: json

section \<open>Control errors (error.rs)\<close>

datatype ProviderControlError =
    InvalidRequest string
  | NotFound string
  | Conflict string
  | UnsupportedCapability ProviderKind string
  | InvalidState "ProviderLifecycleState option" ProviderLifecycleOperation string
  | Timeout string u64
  | ProviderFailure ProviderKind string json
  | Transport string
  | ResourceLimitExceeded ProviderKind string nat nat

fun debug_state :: "ProviderLifecycleState \<Rightarrow> string" where
  "debug_state Unknown = ''Unknown''"
| "debug_state Creating = ''Creating''"
| "debug_state Active = ''Active''"
| "debug_state Pausing = ''Pausing''"
| "debug_state Paused = ''Paused''"
| "debug_state Loading = ''Loading''"
| "debug_state Deleting = ''Deleting''"
| "debug_state Deleted = ''Deleted''"
| "debug_state Failed = ''Failed''"

fun debug_state_option :: "ProviderLifecycleState option \<Rightarrow> string" where
  "debug_state_option None = ''None''"
| "debug_state_option (Some s) = ''Some('' @ debug_state s @ '')''"

fun debug_operation :: "ProviderLifecycleOperation \<Rightarrow> string" where
  "debug_operation Create = ''Create''"
| "debug_operation Load = ''Load''"
| "debug_operation Pause = ''Pause''"
| "debug_operation Delete = ''Delete''"
| "debug_operation Inspect = ''Inspect''"

fun display_control_error :: "ProviderControlError \<Rightarrow> string" where
  "display_control_error (InvalidRequest m) = ''invalid provider request: '' @ m"
| "display_control_error (NotFound r) = ''provider resource not found: '' @ r"
| "display_control_error (Conflict m) = ''provider resource conflict: '' @ m"
| "display_control_error (UnsupportedCapability p c) =
     ''provider '' @ p @ '' does not support capability '' @ c"
| "display_control_error (InvalidState cur opr m) =
     ''invalid lifecycle transition for '' @ debug_operation opr @ '' from ''
       @ debug_state_option cur @ '': '' @ m"
| "display_control_error (Timeout opr ms) =
     ''provider operation '' @ opr @ '' timed out after '' @ show_nat (unat ms) @ '' ms''"
| "display_control_error (ProviderFailure p m _) = ''provider '' @ p @ '' failed: '' @ m"
| "display_control_error (Transport m) = ''provider transport failed: '' @ m"
| "display_control_error (ResourceLimitExceeded p ow cur mx) =
     ''provider '' @ p @ '' resource limit exceeded for owner '' @ ow @ '': current=''
       @ show_nat cur @ '', max='' @ show_nat mx"

section \<open>The lifecycle state machine (lifecycle.rs)\<close>

definition invalid_state ::
  "ProviderLifecycleState option \<Rightarrow> ProviderLifecycleOperation \<Rightarrow> string \<Rightarrow> ProviderControlError" where
  "invalid_state current opr message = InvalidState current opr message"

fun allowed_begin :: "ProviderLifecycleState option \<Rightarrow> ProviderLifecycleOperation \<Rightarrow> bool" where
  "allowed_begin None Create = True"
| "allowed_begin None Load = True"
| "allowed_begin (Some Paused) Load = True"
| "allowed_begin (Some Active) Pause = True"
| "allowed_begin (Some Active) Delete = True"
| "allowed_begin (Some Paused) Delete = True"
| "allowed_begin (Some Failed) Delete = True"
| "allowed_begin _ _ = False"

definition begin_op ::
  "ProviderLifecycleState option \<Rightarrow> ProviderLifecycleOperation
     \<Rightarrow> (ProviderControlError, ProviderLifecycleState) result" where
  "begin_op current opr =
     (if opr = Inspect then Inr (case current of None \<Rightarrow> Unknown | Some s \<Rightarrow> s)
      else if current = Some Deleted \<and> opr = Delete then Inr Deleted
      else if \<not> allowed_begin current opr
        then Inl (invalid_state current opr ''operation is not valid for current state'')
      else Inr (the (in_progress_state opr)))"

definition complete_success ::
  "ProviderLifecycleState \<Rightarrow> ProviderLifecycleOperation
     \<Rightarrow> (ProviderControlError, ProviderLifecycleState) result" where
  "complete_success current opr =
     (if current = Deleted \<and> opr = Delete then Inr current
      else case in_progress_state opr of
        None \<Rightarrow> Inl (invalid_state (Some current) opr ''inspect has no completion transition'')
      | Some expected \<Rightarrow>
          if current \<noteq> expected
          then Inl (invalid_state (Some current) opr
                 (''expected '' @ debug_state expected @ '' before success completion''))
          else Inr (the (success_state opr)))"

definition complete_failure ::
  "ProviderLifecycleState \<Rightarrow> ProviderLifecycleOperation
     \<Rightarrow> (ProviderControlError, ProviderLifecycleState) result" where
  "complete_failure current opr =
     (if opr = Inspect then Inr current
      else if current = Deleted \<and> opr = Delete then Inr current
      else if current \<noteq> the (in_progress_state opr)
        then Inl (invalid_state (Some current) opr
               (''expected '' @ debug_state (the (in_progress_state opr))
                  @ '' before failure completion''))
      else Inr Failed)"

fun transition ::
  "ProviderLifecycleState option \<Rightarrow> ProviderLifecycleEvent
     \<Rightarrow> (ProviderControlError, ProviderLifecycleState) result" where
  "transition current (Begin opr) = begin_op current opr"
| "transition current (CompleteSuccess opr) =
     complete_success (case current of None \<Rightarrow> Unknown | Some s \<Rightarrow> s) opr"
| "transition current (CompleteFailure opr _) =
     complete_failure (case current of None \<Rightarrow> Unknown | Some s \<Rightarrow> s) opr"
| "transition current (Inspected s) = Inr s"

lemmas lifecycle_defs = begin_op_def complete_success_def complete_failure_def invalid_state_def

section \<open>Accepted traces\<close>

text \<open>The run of a sequence of events against the machine; it stops at the first rejected one.\<close>

fun run_events ::
  "ProviderLifecycleState option \<Rightarrow> ProviderLifecycleEvent list
     \<Rightarrow> (ProviderControlError, ProviderLifecycleState option) result" where
  "run_events current [] = Inr current"
| "run_events current (e # es) =
     (case transition current e of Inl err \<Rightarrow> Inl err | Inr s \<Rightarrow> run_events (Some s) es)"

text \<open>The abstract discipline of an instance: nothing runs on it, one operation runs, or it is gone.\<close>

datatype Occupation = Free | Busy ProviderLifecycleOperation | Gone

fun occupation :: "ProviderLifecycleState option \<Rightarrow> Occupation" where
  "occupation (Some Creating) = Busy Create"
| "occupation (Some Loading) = Busy Load"
| "occupation (Some Pausing) = Busy Pause"
| "occupation (Some Deleting) = Busy Delete"
| "occupation (Some Deleted) = Gone"
| "occupation _ = Free"

fun ended :: "Occupation \<Rightarrow> ProviderLifecycleOperation \<Rightarrow> Occupation \<Rightarrow> Occupation option" where
  "ended (Busy running) opr after = (if running = opr then Some after else None)"
| "ended Gone opr after = (if opr = Delete then Some Gone else None)"
| "ended Free opr after = None"

fun discipline :: "Occupation \<Rightarrow> ProviderLifecycleEvent \<Rightarrow> Occupation option" where
  "discipline now (Begin opr) =
     (if opr = Inspect then Some now
      else case now of
        Free \<Rightarrow> Some (Busy opr)
      | Busy running \<Rightarrow> None
      | Gone \<Rightarrow> if opr = Delete then Some Gone else None)"
| "discipline now (CompleteSuccess opr) = ended now opr (if opr = Delete then Gone else Free)"
| "discipline now (CompleteFailure opr message) = (if opr = Inspect then Some now else ended now opr Free)"
| "discipline now (Inspected s) = Some (occupation (Some s))"

fun disciplined :: "Occupation \<Rightarrow> ProviderLifecycleEvent list \<Rightarrow> Occupation option" where
  "disciplined now [] = Some now"
| "disciplined now (e # es) = Option.bind (discipline now e) (\<lambda>after. disciplined after es)"

lemma occupation_unknown [simp]: "occupation (Some (case cur of None \<Rightarrow> Unknown | Some s \<Rightarrow> s)) = occupation cur"
  by (cases cur) simp_all

lemma begin_disciplined:
  assumes "begin_op cur opr = Inr s"
  shows "discipline (occupation cur) (Begin opr) = Some (occupation (Some s))"
proof (cases "opr = Inspect \<or> cur = Some Deleted \<and> opr = Delete")
  case True
  with assms show ?thesis by (auto simp: begin_op_def)
next
  case False
  with assms have ok: "allowed_begin cur opr" and "s = the (in_progress_state opr)"
    by (auto simp: begin_op_def split: if_splits)
  then have "occupation (Some s) = Busy opr" using False by (cases opr) auto
  moreover have "occupation cur = Free" using ok by (cases rule: allowed_begin.elims(2)) auto
  ultimately show ?thesis using False by simp
qed

lemma success_disciplined:
  "discipline (occupation (Some s)) (CompleteSuccess opr) =
     (case complete_success s opr of Inl err \<Rightarrow> None | Inr s' \<Rightarrow> Some (occupation (Some s')))"
  by (cases s; cases opr) (simp_all add: complete_success_def)

lemma failure_disciplined:
  "discipline (occupation (Some s)) (CompleteFailure opr message) =
     (case complete_failure s opr of Inl err \<Rightarrow> None | Inr s' \<Rightarrow> Some (occupation (Some s')))"
  by (cases s; cases opr) (simp_all add: complete_failure_def)

lemma transition_disciplined:
  assumes "transition cur e = Inr s"
  shows "discipline (occupation cur) e = Some (occupation (Some s))"
proof (cases e)
  case (Begin opr)
  with assms begin_disciplined [of cur opr s] show ?thesis by simp
next
  case (CompleteSuccess opr)
  with assms success_disciplined [of "case cur of None \<Rightarrow> Unknown | Some s \<Rightarrow> s" opr] show ?thesis by simp
next
  case (CompleteFailure opr message)
  with assms failure_disciplined [of "case cur of None \<Rightarrow> Unknown | Some s \<Rightarrow> s" opr message] show ?thesis by simp
qed (use assms in simp)

lemma run_disciplined: "run_events cur es = Inr st \<Longrightarrow> disciplined (occupation cur) es = Some (occupation st)"
  by (induction es arbitrary: cur) (auto dest: transition_disciplined split: sum.splits)

lemma completion_accepted:
  assumes "\<nexists>opr. e = Begin opr"
  shows "(\<exists>s. transition cur e = Inr s) \<longleftrightarrow> discipline (occupation cur) e \<noteq> None"
  using assms
    success_disciplined [of "case cur of None \<Rightarrow> Unknown | Some s \<Rightarrow> s"]
    failure_disciplined [of "case cur of None \<Rightarrow> Unknown | Some s \<Rightarrow> s"]
  by (cases e) (simp_all split: sum.splits)



text \<open>Deletion is final until an inspection reports another state.\<close>

lemma lifecycle_deleted_final:
  assumes "run_events (Some Deleted) es = Inr st" and "\<forall>e \<in> set es. \<forall>s. e \<noteq> Inspected s"
  shows "st = Some Deleted"
  using assms
proof (induction es)
  case (Cons e es)
  obtain s where s: "transition (Some Deleted) e = Inr s" and rest: "run_events (Some s) es = Inr st"
    using Cons.prems(1) by (auto split: sum.splits)
  have "discipline Gone e = Some Gone"
    using transition_disciplined [OF s] Cons.prems(2) by (cases e) (auto split: if_splits)
  with transition_disciplined [OF s] have "occupation (Some s) = Gone" by simp
  then have "s = Deleted" by (cases s) auto
  with Cons rest show ?case by simp
qed simp

end
