(* ===== verification/Instance_Manager.thy ===== *)
theory Instance_Manager
  imports Provider_Protocol
begin

text \<open>
  The instance manager (\<open>src/crates/manager/src/lib.rs\<close>): quota accounting, creation with
  retries, the registry of running instances, release with a queue of pending retries, and
  reconciliation with the durable ledger. The provider, the attach adapter and the ledger are
  trait objects, modelled as records of functions over an opaque world; the clock, the sleep and
  the generator of request identifiers act on the same world. Each operation of the manager is
  one definition that takes the manager's state and returns its result and the state after it.
  A poisoned mutex, which needs a panic inside one of the short critical sections, does not occur
  in the model. Durations and instants are natural numbers of milliseconds and the \<open>usize\<close>
  counters are natural numbers; both are far from their machine bounds.
\<close>

section \<open>Collaborators\<close>

record 'w ProviderLifecycle =
  pl_create :: "ProviderCreateRequest \<Rightarrow> 'w \<Rightarrow> (ProviderControlError, ProviderInstance) result \<times> 'w"
  pl_load :: "ProviderLoadRequest \<Rightarrow> 'w \<Rightarrow> (ProviderControlError, ProviderInstance) result \<times> 'w"
  pl_pause :: "ProviderPauseRequest \<Rightarrow> 'w \<Rightarrow> (ProviderControlError, ProviderSnapshot) result \<times> 'w"
  pl_checkpoint ::
    "ProviderCheckpointRequest \<Rightarrow> 'w \<Rightarrow> (ProviderControlError, ProviderSnapshot) result \<times> 'w"
  pl_delete ::
    "ProviderDeleteRequest \<Rightarrow> 'w \<Rightarrow> (ProviderControlError, ProviderDeleteOutcome) result \<times> 'w"
  pl_inspect ::
    "ProviderInspectRequest \<Rightarrow> 'w \<Rightarrow> (ProviderControlError, ProviderInstanceStatus) result \<times> 'w"
  pl_list_instances :: "'w \<Rightarrow> (ProviderControlError, ProviderInstance list) result \<times> 'w"

record ActiveLedgerEntry =
  le_runtime_id :: string
  le_owner_ref :: string
  le_instance :: ProviderInstance

record 'w ProviderInstanceLedger =
  lg_record_created ::
    "string \<Rightarrow> string \<Rightarrow> ProviderInstance \<Rightarrow> 'w \<Rightarrow> (ProviderControlError, unit) result \<times> 'w"
  lg_record_deleted :: "string \<Rightarrow> 'w \<Rightarrow> (ProviderControlError, unit) result \<times> 'w"
  lg_list_active ::
    "ProviderKind \<Rightarrow> 'w \<Rightarrow> (ProviderControlError, ActiveLedgerEntry list) result \<times> 'w"

type_synonym ('w, 'b) OperationAttach =
  "ProviderInstance \<Rightarrow> 'w \<Rightarrow> (ProviderControlError, 'b) result \<times> 'w"

record 'w Ambient =
  am_new_uuid :: "'w \<Rightarrow> string \<times> 'w"
  am_now :: "'w \<Rightarrow> nat \<times> 'w"
  am_sleep :: "nat \<Rightarrow> 'w \<Rightarrow> 'w"

section \<open>Configuration and state\<close>

definition ADMIN_OWNER_REF :: string where
  "ADMIN_OWNER_REF = ''admin''"

definition DEFAULT_MAX_CONCURRENT_CREATES :: nat where
  "DEFAULT_MAX_CONCURRENT_CREATES = 16"

record RetryPolicy =
  rp_max_attempts :: u32
  rp_base_delay :: nat
  rp_max_delay :: nat

definition default_RetryPolicy :: RetryPolicy where
  "default_RetryPolicy = \<lparr> rp_max_attempts = 3, rp_base_delay = 200, rp_max_delay = 2000 \<rparr>"

record InstanceManagerConfig =
  mc_max_sandboxes_per_owner :: nat
  mc_max_sandboxes_global :: nat
  mc_max_concurrent_creates :: nat
  mc_retry :: RetryPolicy

definition new_InstanceManagerConfig :: "nat \<Rightarrow> nat \<Rightarrow> InstanceManagerConfig" where
  "new_InstanceManagerConfig per_owner global_cap =
     \<lparr> mc_max_sandboxes_per_owner = per_owner, mc_max_sandboxes_global = global_cap,
       mc_max_concurrent_creates = DEFAULT_MAX_CONCURRENT_CREATES,
       mc_retry = default_RetryPolicy \<rparr>"

fun is_retryable :: "ProviderControlError \<Rightarrow> bool" where
  "is_retryable (Transport _) = True"
| "is_retryable (Timeout _ _) = True"
| "is_retryable (ProviderFailure _ _ _) = True"
| "is_retryable _ = False"

record ReconcileOutcome =
  ro_confirmed :: "ActiveLedgerEntry list"
  ro_orphaned :: "ActiveLedgerEntry list"

record 'b BoundInstance =
  bi_instance :: ProviderInstance
  bi_backend :: 'b

record QuotaState =
  q_counts :: "string \<rightharpoonup> nat"
  q_owners_by_instance :: "string \<rightharpoonup> string"
  q_total :: nat

record 'b PendingRelease =
  pd_runtime_id :: string
  pd_record :: "'b BoundInstance"
  pd_attempt :: u32
  pd_next_retry_at :: nat

text \<open>\<open>im_runtime_locks\<close> counts, for each runtime identifier that has a lock, the references
  callers hold to it besides the table's own. The admission semaphore delays a creation and never
  changes its result, so it is no part of this sequential state.\<close>

record ('w, 'b) InstanceManager =
  im_lifecycle :: "'w ProviderLifecycle"
  im_attach :: "('w, 'b) OperationAttach"
  im_ledger :: "'w ProviderInstanceLedger"
  im_ambient :: "'w Ambient"
  im_kind :: ProviderKind
  im_config :: InstanceManagerConfig
  im_instances :: "string \<rightharpoonup> 'b BoundInstance"
  im_quota :: QuotaState
  im_restore_errors :: "string \<rightharpoonup> ProviderControlError"
  im_runtime_locks :: "string \<rightharpoonup> nat"
  im_pending_release :: "'b PendingRelease list"
  im_world :: 'w

definition default_QuotaState :: QuotaState where
  "default_QuotaState =
     \<lparr> q_counts = Map.empty, q_owners_by_instance = Map.empty, q_total = 0 \<rparr>"

definition new_InstanceManager ::
  "'w ProviderLifecycle \<Rightarrow> ('w, 'b) OperationAttach \<Rightarrow> 'w ProviderInstanceLedger \<Rightarrow> 'w Ambient
     \<Rightarrow> ProviderKind \<Rightarrow> InstanceManagerConfig \<Rightarrow> 'w \<Rightarrow> ('w, 'b) InstanceManager" where
  "new_InstanceManager lifecycle attach ledger ambient kind config w =
     \<lparr> im_lifecycle = lifecycle, im_attach = attach, im_ledger = ledger, im_ambient = ambient,
       im_kind = kind, im_config = config, im_instances = Map.empty,
       im_quota = default_QuotaState, im_restore_errors = Map.empty,
       im_runtime_locks = Map.empty, im_pending_release = [], im_world = w \<rparr>"

text \<open>A call of a collaborator: it reads and replaces the world and nothing else of the state.\<close>

definition call_world :: "('w \<Rightarrow> 'r \<times> 'w) \<Rightarrow> ('w, 'b) InstanceManager \<Rightarrow> 'r \<times> ('w, 'b) InstanceManager" where
  "call_world f s = (let (r, w) = f (im_world s) in (r, s\<lparr>im_world := w\<rparr>))"

definition active_count :: "('w, 'b) InstanceManager \<Rightarrow> string \<Rightarrow> nat" where
  "active_count s owner_ref = (case q_counts (im_quota s) owner_ref of None \<Rightarrow> 0 | Some c \<Rightarrow> c)"

definition global_active_count :: "('w, 'b) InstanceManager \<Rightarrow> nat" where
  "global_active_count s = q_total (im_quota s)"

definition pending_release_count :: "('w, 'b) InstanceManager \<Rightarrow> nat" where
  "pending_release_count s = length (im_pending_release s)"

section \<open>Locks per runtime identifier\<close>

definition get_runtime_lock ::
  "string \<Rightarrow> ('w, 'b) InstanceManager \<Rightarrow> ('w, 'b) InstanceManager" where
  "get_runtime_lock runtime_id s =
     s\<lparr>im_runtime_locks := (im_runtime_locks s)(runtime_id \<mapsto>
         (case im_runtime_locks s runtime_id of None \<Rightarrow> 1 | Some n \<Rightarrow> n + 1))\<rparr>"

definition release_runtime_lock ::
  "string \<Rightarrow> ('w, 'b) InstanceManager \<Rightarrow> ('w, 'b) InstanceManager" where
  "release_runtime_lock runtime_id s =
     (case im_runtime_locks s runtime_id of
        None \<Rightarrow> s
      | Some n \<Rightarrow> s\<lparr>im_runtime_locks := (im_runtime_locks s)(runtime_id :=
          (if n - 1 = 0 then None else Some (n - 1)))\<rparr>)"

section \<open>Quota\<close>

definition decrement :: "(string \<rightharpoonup> nat) \<Rightarrow> string \<Rightarrow> (string \<rightharpoonup> nat)" where
  "decrement counts owner_ref =
     (case counts owner_ref of
        None \<Rightarrow> counts
      | Some c \<Rightarrow> if c - 1 = 0 then counts(owner_ref := None) else counts(owner_ref \<mapsto> c - 1))"

definition reserve ::
  "string \<Rightarrow> u32 option \<Rightarrow> ('w, 'b) InstanceManager
     \<Rightarrow> (ProviderControlError, unit) result \<times> ('w, 'b) InstanceManager" where
  "reserve owner_ref owner_limit s =
     (let q = im_quota s;
          current = (case q_counts q owner_ref of None \<Rightarrow> 0 | Some c \<Rightarrow> c);
          max_per_owner = (case owner_limit of
             Some limit \<Rightarrow> unat limit
           | None \<Rightarrow> mc_max_sandboxes_per_owner (im_config s));
          global_cap = mc_max_sandboxes_global (im_config s)
      in if owner_ref \<noteq> ADMIN_OWNER_REF \<and> max_per_owner \<le> current
         then (Inl (ResourceLimitExceeded (im_kind s) owner_ref current max_per_owner), s)
         else if owner_ref \<noteq> ADMIN_OWNER_REF \<and> global_cap \<le> q_total q
         then (Inl (ResourceLimitExceeded (im_kind s) (owner_ref @ '' (global cap)'')
                 (q_total q) global_cap), s)
         else (Inr (), s\<lparr>im_quota := q\<lparr>q_counts := (q_counts q)(owner_ref \<mapsto> current + 1),
                                      q_total := q_total q + 1\<rparr>\<rparr>))"

definition rollback_reservation ::
  "string \<Rightarrow> ('w, 'b) InstanceManager \<Rightarrow> ('w, 'b) InstanceManager" where
  "rollback_reservation owner_ref s =
     (let q = im_quota s
      in s\<lparr>im_quota := q\<lparr>q_counts := decrement (q_counts q) owner_ref, q_total := q_total q - 1\<rparr>\<rparr>)"

definition track_instance ::
  "string \<Rightarrow> string \<Rightarrow> ('w, 'b) InstanceManager \<Rightarrow> ('w, 'b) InstanceManager" where
  "track_instance instance_id owner_ref s =
     (let q = im_quota s
      in s\<lparr>im_quota := q\<lparr>q_owners_by_instance :=
            (q_owners_by_instance q)(instance_id \<mapsto> owner_ref)\<rparr>\<rparr>)"

definition release_instance ::
  "string \<Rightarrow> ('w, 'b) InstanceManager \<Rightarrow> ('w, 'b) InstanceManager" where
  "release_instance instance_id s =
     (let q = im_quota s
      in case q_owners_by_instance q instance_id of
           None \<Rightarrow> s
         | Some owner_ref \<Rightarrow>
             s\<lparr>im_quota := q\<lparr>q_owners_by_instance := (q_owners_by_instance q)(instance_id := None),
                             q_counts := decrement (q_counts q) owner_ref,
                             q_total := q_total q - 1\<rparr>\<rparr>)"

definition rehydrate_one ::
  "string \<Rightarrow> string \<Rightarrow> ('w, 'b) InstanceManager \<Rightarrow> ('w, 'b) InstanceManager" where
  "rehydrate_one instance_id owner_ref s =
     (let q = im_quota s
      in if q_owners_by_instance q instance_id \<noteq> None then s
         else s\<lparr>im_quota := q\<lparr>
                q_counts := (q_counts q)(owner_ref \<mapsto>
                  (case q_counts q owner_ref of None \<Rightarrow> 0 | Some c \<Rightarrow> c) + 1),
                q_total := q_total q + 1,
                q_owners_by_instance := (q_owners_by_instance q)(instance_id \<mapsto> owner_ref)\<rparr>\<rparr>)"

section \<open>Creation with retries\<close>

text \<open>A failed rollback is only logged, so its outcome is dropped.\<close>

definition rollback_create ::
  "ProviderInstance \<Rightarrow> ('w, 'b) InstanceManager \<Rightarrow> ('w, 'b) InstanceManager" where
  "rollback_create inst s =
     snd (call_world (pl_delete (im_lifecycle s)
       \<lparr> dr_backend_id = pi_backend_id inst, dr_instance_id = Some (pi_instance_id inst),
         dr_snapshot_id = None, dr_reason = ErrorCleanup, dr_correlation = JNull \<rparr>) s)"

definition default_ProviderResourceLimits :: ProviderResourceLimits where
  "default_ProviderResourceLimits =
     \<lparr> rl_vcpu_count = None, rl_memory_mb = None, rl_disk_mb = None, rl_timeout_ms = None \<rparr>"

definition create_request :: "BackendId \<Rightarrow> string \<Rightarrow> json \<Rightarrow> string \<Rightarrow> ProviderCreateRequest" where
  "create_request backend_id owner_ref provider_options request_id =
     \<lparr> cr_backend_id = backend_id, cr_owner_ref = owner_ref, cr_reason = Acquire,
       cr_resource_limits = default_ProviderResourceLimits,
       cr_provider_options = provider_options,
       cr_correlation = obj_of [(''request_id'', JStr request_id)] \<rparr>"

text \<open>The body of the retry loop after \<open>attempt\<close> earlier attempts. The loop increments its
  counter, so it stops after at most \<open>max_attempts\<close> rounds (one if that is zero).\<close>

function create_loop ::
  "ProviderCreateRequest \<Rightarrow> nat \<Rightarrow> nat \<Rightarrow> ('w, 'b) InstanceManager
     \<Rightarrow> (ProviderControlError, ProviderInstance) result \<times> ('w, 'b) InstanceManager" where
  "create_loop req attempt delay s =
     (case call_world (pl_create (im_lifecycle s) req) s of
        (Inr inst, s') \<Rightarrow> (Inr inst, s')
      | (Inl error, s') \<Rightarrow>
          if unat (rp_max_attempts (mc_retry (im_config s))) \<le> attempt + 1 \<or> \<not> is_retryable error
          then (Inl error, s')
          else create_loop req (attempt + 1)
                 (min (delay * 2) (rp_max_delay (mc_retry (im_config s))))
                 (s'\<lparr>im_world := am_sleep (im_ambient s) delay (im_world s')\<rparr>))"
  by pat_completeness auto

lemma call_world_config [simp]:
  "im_config (snd (call_world f s)) = im_config s"
  by (simp add: call_world_def split_beta)

termination create_loop
proof (relation "measure (\<lambda>(req, attempt, delay, s).
    unat (rp_max_attempts (mc_retry (im_config s))) - attempt)", simp, goal_cases)
  case (1 req attempt delay s r s' error)
  have "im_config s' = im_config s"
    using call_world_config [of "pl_create (im_lifecycle s) req" s] 1 by (metis snd_conv)
  with 1 show ?case by auto
qed

declare create_loop.simps [simp del]

definition create_with_retry ::
  "BackendId \<Rightarrow> string \<Rightarrow> json \<Rightarrow> ('w, 'b) InstanceManager
     \<Rightarrow> (ProviderControlError, ProviderInstance) result \<times> ('w, 'b) InstanceManager" where
  "create_with_retry backend_id owner_ref provider_options s =
     (let (request_id, s') = call_world (am_new_uuid (im_ambient s)) s
      in create_loop (create_request backend_id owner_ref provider_options request_id) 0
           (rp_base_delay (mc_retry (im_config s))) s')"

section \<open>Starting an instance\<close>

definition register ::
  "string \<Rightarrow> ProviderInstance \<Rightarrow> 'b \<Rightarrow> ('w, 'b) InstanceManager \<Rightarrow> ('w, 'b) InstanceManager" where
  "register runtime_id inst backend s =
     s\<lparr>im_instances := (im_instances s)(runtime_id \<mapsto>
         \<lparr> bi_instance = inst, bi_backend = backend \<rparr>)\<rparr>"

text \<open>The part the two ways of starting an instance share: attach the operation backend, record
  the instance in the ledger, then track and register it; on a failure undo what was done.\<close>

definition bind_instance ::
  "string \<Rightarrow> string \<Rightarrow> ProviderInstance \<Rightarrow> ('w, 'b) InstanceManager
     \<Rightarrow> (ProviderControlError, 'b) result \<times> ('w, 'b) InstanceManager" where
  "bind_instance runtime_id owner_ref inst s =
     on_err (call_world (im_attach s inst) s)
       (\<lambda>e s. (Inl e, rollback_reservation owner_ref (rollback_create inst s)))
       (\<lambda>backend s.
          on_err (call_world (lg_record_created (im_ledger s) runtime_id owner_ref inst) s)
            (\<lambda>e s. (Inl e, rollback_reservation owner_ref (rollback_create inst s)))
            (\<lambda>_ s. (Inr backend,
               register runtime_id inst backend
                 (track_instance (pi_instance_id inst) owner_ref s))))"

definition start_instance_locked ::
  "string \<Rightarrow> BackendId \<Rightarrow> string \<Rightarrow> json \<Rightarrow> u32 option \<Rightarrow> ('w, 'b) InstanceManager
     \<Rightarrow> (ProviderControlError, 'b) result \<times> ('w, 'b) InstanceManager" where
  "start_instance_locked runtime_id backend_id owner_ref provider_options owner_limit s =
     (if im_instances s runtime_id \<noteq> None
      then (Inl (Conflict (''runtime_id '' @ [CHR 0x27] @ runtime_id @ [CHR 0x27]
              @ '' already has an active provider instance ''
              @ ''(concurrent or duplicate start_instance rejected)'')), s)
      else and_then (reserve owner_ref owner_limit s) (\<lambda>_ s.
        on_err (create_with_retry backend_id owner_ref provider_options s)
          (\<lambda>e s. (Inl e, rollback_reservation owner_ref s))
          (\<lambda>inst s. bind_instance runtime_id owner_ref inst s)))"

definition start_instance ::
  "string \<Rightarrow> BackendId \<Rightarrow> string \<Rightarrow> json \<Rightarrow> u32 option \<Rightarrow> ('w, 'b) InstanceManager
     \<Rightarrow> (ProviderControlError, 'b) result \<times> ('w, 'b) InstanceManager" where
  "start_instance runtime_id backend_id owner_ref provider_options owner_limit s =
     (let (r, s) = start_instance_locked runtime_id backend_id owner_ref provider_options
             owner_limit (get_runtime_lock runtime_id s)
      in (r, release_runtime_lock runtime_id s))"

definition load_request ::
  "string \<Rightarrow> BackendId \<Rightarrow> string \<Rightarrow> ProviderSnapshotId \<Rightarrow> json \<Rightarrow> ProviderLoadRequest" where
  "load_request runtime_id backend_id owner_ref snapshot_id provider_options =
     \<lparr> lr_backend_id = backend_id, lr_owner_ref = owner_ref, lr_source = SrcSnapshot snapshot_id,
       lr_reason = Restore, lr_resource_limits = default_ProviderResourceLimits,
       lr_provider_options = provider_options,
       lr_correlation = obj_of [(''request_id'', JStr (''load:'' @ runtime_id))] \<rparr>"

definition load_instance_from_snapshot_locked ::
  "string \<Rightarrow> BackendId \<Rightarrow> string \<Rightarrow> ProviderSnapshotId \<Rightarrow> json \<Rightarrow> u32 option
     \<Rightarrow> ('w, 'b) InstanceManager
     \<Rightarrow> (ProviderControlError, 'b) result \<times> ('w, 'b) InstanceManager" where
  "load_instance_from_snapshot_locked runtime_id backend_id owner_ref snapshot_id
       provider_options owner_limit s =
     (if im_instances s runtime_id \<noteq> None
      then (Inl (Conflict (''runtime_id '' @ [CHR 0x27] @ runtime_id @ [CHR 0x27]
              @ '' already has an active provider instance'')), s)
      else and_then (reserve owner_ref owner_limit s) (\<lambda>_ s.
        on_err (call_world (pl_load (im_lifecycle s)
                 (load_request runtime_id backend_id owner_ref snapshot_id provider_options)) s)
          (\<lambda>e s. (Inl e, rollback_reservation owner_ref s))
          (\<lambda>inst s. bind_instance runtime_id owner_ref inst s)))"

definition load_instance_from_snapshot ::
  "string \<Rightarrow> BackendId \<Rightarrow> string \<Rightarrow> ProviderSnapshotId \<Rightarrow> json \<Rightarrow> u32 option
     \<Rightarrow> ('w, 'b) InstanceManager
     \<Rightarrow> (ProviderControlError, 'b) result \<times> ('w, 'b) InstanceManager" where
  "load_instance_from_snapshot runtime_id backend_id owner_ref snapshot_id provider_options
       owner_limit s =
     (let (r, s) = load_instance_from_snapshot_locked runtime_id backend_id owner_ref snapshot_id
             provider_options owner_limit (get_runtime_lock runtime_id s)
      in (r, release_runtime_lock runtime_id s))"

section \<open>Operations on a registered instance\<close>

definition checkpoint_instance_correlated ::
  "string \<Rightarrow> json \<Rightarrow> ('w, 'b) InstanceManager
     \<Rightarrow> (ProviderControlError, ProviderSnapshot) result \<times> ('w, 'b) InstanceManager" where
  "checkpoint_instance_correlated runtime_id correlation s =
     (case im_instances s runtime_id of
        None \<Rightarrow> (Inl (NotFound runtime_id), s)
      | Some bound \<Rightarrow>
          if CapSnapshot \<notin> set (pc_lifecycle (pi_capabilities (bi_instance bound)))
          then (Inl (UnsupportedCapability (im_kind s) ''checkpoint''), s)
          else call_world (pl_checkpoint (im_lifecycle s)
            \<lparr> kr_backend_id = pi_backend_id (bi_instance bound),
              kr_instance_id = pi_instance_id (bi_instance bound),
              kr_reason = UserRequested, kr_correlation = correlation \<rparr>) s)"

definition checkpoint_instance ::
  "string \<Rightarrow> ('w, 'b) InstanceManager
     \<Rightarrow> (ProviderControlError, ProviderSnapshot) result \<times> ('w, 'b) InstanceManager" where
  "checkpoint_instance runtime_id s = checkpoint_instance_correlated runtime_id JNull s"

definition inspect_request :: "ProviderInstance \<Rightarrow> ProviderInspectRequest" where
  "inspect_request inst =
     \<lparr> ir_backend_id = pi_backend_id inst, ir_instance_id = Some (pi_instance_id inst),
       ir_reason = Reconcile, ir_correlation = JNull \<rparr>"

definition inspect_instance ::
  "string \<Rightarrow> ('w, 'b) InstanceManager
     \<Rightarrow> (ProviderControlError, ProviderInstanceStatus) result \<times> ('w, 'b) InstanceManager" where
  "inspect_instance runtime_id s =
     (case im_instances s runtime_id of
        None \<Rightarrow> (Inl (NotFound runtime_id), s)
      | Some bound \<Rightarrow>
          call_world (pl_inspect (im_lifecycle s) (inspect_request (bi_instance bound))) s)"

definition drop_value :: "('e, 'a) result \<times> 's \<Rightarrow> ('e, unit) result \<times> 's" where
  "drop_value m = (case m of (Inl e, s) \<Rightarrow> (Inl e, s) | (Inr _, s) \<Rightarrow> (Inr (), s))"

definition delete_snapshot ::
  "BackendId \<Rightarrow> ProviderSnapshotId \<Rightarrow> ('w, 'b) InstanceManager
     \<Rightarrow> (ProviderControlError, unit) result \<times> ('w, 'b) InstanceManager" where
  "delete_snapshot backend_id snapshot_id s =
     drop_value (call_world (pl_delete (im_lifecycle s)
       \<lparr> dr_backend_id = backend_id, dr_instance_id = None, dr_snapshot_id = Some snapshot_id,
         dr_reason = UserRequested, dr_correlation = JNull \<rparr>) s)"

definition abort_pending_snapshot_load ::
  "string \<Rightarrow> ('w, 'b) InstanceManager
     \<Rightarrow> (ProviderControlError, unit) result \<times> ('w, 'b) InstanceManager" where
  "abort_pending_snapshot_load runtime_id s =
     (if im_kind s \<noteq> ''docker'' then (Inr (), s)
      else drop_value (call_world (pl_delete (im_lifecycle s)
        \<lparr> dr_backend_id = ''docker'', dr_instance_id = None, dr_snapshot_id = None,
          dr_reason = ErrorCleanup,
          dr_correlation = obj_of [(''abort_load_request'', JStr (''load:'' @ runtime_id))] \<rparr>) s))"

definition backend_for ::
  "('w, 'b) InstanceManager \<Rightarrow> string \<Rightarrow> (ProviderControlError, 'b) result" where
  "backend_for s runtime_id =
     (case im_instances s runtime_id of
        Some bound \<Rightarrow> Inr (bi_backend bound)
      | None \<Rightarrow> Inl (case im_restore_errors s runtime_id of
                      Some e \<Rightarrow> e | None \<Rightarrow> NotFound runtime_id))"

section \<open>Releasing an instance\<close>

definition release_request :: "ProviderInstance \<Rightarrow> ProviderDeleteRequest" where
  "release_request inst =
     \<lparr> dr_backend_id = pi_backend_id inst, dr_instance_id = Some (pi_instance_id inst),
       dr_snapshot_id = None, dr_reason = Release, dr_correlation = JNull \<rparr>"

definition delete_instance ::
  "'b BoundInstance \<Rightarrow> ('w, 'b) InstanceManager
     \<Rightarrow> (ProviderControlError, unit) result \<times> ('w, 'b) InstanceManager" where
  "delete_instance bound s =
     drop_value (call_world (pl_delete (im_lifecycle s) (release_request (bi_instance bound))) s)"

text \<open>A failed ledger write is logged and dropped.\<close>

definition finish_release ::
  "string \<Rightarrow> 'b BoundInstance \<Rightarrow> ('w, 'b) InstanceManager \<Rightarrow> ('w, 'b) InstanceManager" where
  "finish_release runtime_id bound s =
     (let s = snd (call_world (lg_record_deleted (im_ledger s) runtime_id) s);
          s = release_instance (pi_instance_id (bi_instance bound)) s
      in s\<lparr>im_instances := (im_instances s)(runtime_id := None)\<rparr>)"

definition stop_instance_locked ::
  "string \<Rightarrow> ('w, 'b) InstanceManager
     \<Rightarrow> (ProviderControlError, unit) result \<times> ('w, 'b) InstanceManager" where
  "stop_instance_locked runtime_id s =
     (case im_instances s runtime_id of
        None \<Rightarrow> (Inl (NotFound runtime_id), s)
      | Some bound \<Rightarrow>
          on_err (delete_instance bound s)
            (\<lambda>e s.
               let (now, s) = call_world (am_now (im_ambient s)) s
               in (Inl e, s\<lparr>im_pending_release := im_pending_release s @
                    [\<lparr> pd_runtime_id = runtime_id, pd_record = bound, pd_attempt = 0,
                       pd_next_retry_at = now + rp_base_delay (mc_retry (im_config s)) \<rparr>]\<rparr>))
            (\<lambda>_ s. (Inr (), finish_release runtime_id bound s)))"

definition stop_instance ::
  "string \<Rightarrow> ('w, 'b) InstanceManager
     \<Rightarrow> (ProviderControlError, unit) result \<times> ('w, 'b) InstanceManager" where
  "stop_instance runtime_id s =
     (let (r, s) = stop_instance_locked runtime_id (get_runtime_lock runtime_id s)
      in (r, release_runtime_lock runtime_id s))"

text \<open>The delay before the next retry of a pending release.\<close>

definition retry_delay :: "RetryPolicy \<Rightarrow> u32 \<Rightarrow> nat" where
  "retry_delay policy attempt =
     min (rp_base_delay policy * min (2 ^ min (unat attempt) 16) (2 ^ 32 - 1)) (rp_max_delay policy)"

definition retry_item ::
  "'b PendingRelease \<Rightarrow> ('w, 'b) InstanceManager \<Rightarrow> ('w, 'b) InstanceManager" where
  "retry_item item s =
     (let runtime_id = pd_runtime_id item;
          s = get_runtime_lock runtime_id s
      in if im_instances s runtime_id = None then release_runtime_lock runtime_id s
         else release_runtime_lock runtime_id
           (on_err (delete_instance (pd_record item) s)
              (\<lambda>_ s.
                 let attempt = pd_attempt item + 1;
                     (now, s) = call_world (am_now (im_ambient s)) s
                 in s\<lparr>im_pending_release := im_pending_release s @
                      [item\<lparr>pd_attempt := attempt,
                            pd_next_retry_at := now + retry_delay (mc_retry (im_config s)) attempt\<rparr>]\<rparr>)
              (\<lambda>_ s. finish_release runtime_id (pd_record item) s)))"

definition retry_pending_releases_once :: "('w, 'b) InstanceManager \<Rightarrow> ('w, 'b) InstanceManager" where
  "retry_pending_releases_once s =
     (let (now, s) = call_world (am_now (im_ambient s)) s;
          due = filter (\<lambda>item. pd_next_retry_at item \<le> now) (im_pending_release s);
          remaining = filter (\<lambda>item. \<not> pd_next_retry_at item \<le> now) (im_pending_release s)
      in fold retry_item due (s\<lparr>im_pending_release := remaining\<rparr>))"

section \<open>Reconciliation with the ledger\<close>

definition ledger_instance_ids ::
  "('w, 'b) InstanceManager
     \<Rightarrow> (ProviderControlError, string list) result \<times> ('w, 'b) InstanceManager" where
  "ledger_instance_ids s =
     and_then (call_world (lg_list_active (im_ledger s) (im_kind s)) s)
       (\<lambda>active s. (Inr (map (\<lambda>e. pi_instance_id (le_instance e)) active), s))"

definition soft_delete_orphan ::
  "ActiveLedgerEntry \<Rightarrow> ('w, 'b) InstanceManager \<Rightarrow> ('w, 'b) InstanceManager" where
  "soft_delete_orphan entry s =
     snd (call_world (lg_record_deleted (im_ledger s) (le_runtime_id entry)) s)"

text \<open>What the loop over the ledger entries accumulates.\<close>

record ReconcileAcc =
  ra_confirmed :: "ActiveLedgerEntry list"
  ra_orphaned :: "ActiveLedgerEntry list"
  ra_unavailable :: "ProviderControlError option"

definition reconcile_entry ::
  "ActiveLedgerEntry \<Rightarrow> ReconcileAcc \<times> ('w, 'b) InstanceManager
     \<Rightarrow> ReconcileAcc \<times> ('w, 'b) InstanceManager" where
  "reconcile_entry entry = (\<lambda>(acc, s).
     let runtime_id = le_runtime_id entry; inst = le_instance entry
     in if im_instances s runtime_id \<noteq> None then
          (if im_kind s = ''docker'' then
             on_err (call_world (pl_inspect (im_lifecycle s) (inspect_request inst)) s)
               (\<lambda>e s. case e of
                  NotFound _ \<Rightarrow>
                    (acc\<lparr>ra_orphaned := ra_orphaned acc @ [entry]\<rparr>,
                     soft_delete_orphan entry (release_instance (pi_instance_id inst)
                       (s\<lparr>im_instances := (im_instances s)(runtime_id := None)\<rparr>)))
                | _ \<Rightarrow> (acc\<lparr>ra_unavailable := Some e\<rparr>, s))
               (\<lambda>_ s. (acc, s))
           else (acc, s))
        else
          on_err (call_world (im_attach s inst) s)
            (\<lambda>e s. case e of
               NotFound _ \<Rightarrow>
                 (acc\<lparr>ra_orphaned := ra_orphaned acc @ [entry]\<rparr>,
                  soft_delete_orphan entry
                    (s\<lparr>im_restore_errors := (im_restore_errors s)(runtime_id := None)\<rparr>))
             | _ \<Rightarrow>
                 (acc\<lparr>ra_unavailable := Some e\<rparr>,
                  s\<lparr>im_restore_errors := (im_restore_errors s)(runtime_id \<mapsto> e)\<rparr>))
            (\<lambda>backend s.
               (acc\<lparr>ra_confirmed := ra_confirmed acc @ [entry]\<rparr>,
                rehydrate_one (pi_instance_id inst) (le_owner_ref entry)
                  (register runtime_id inst backend
                    (s\<lparr>im_restore_errors := (im_restore_errors s)(runtime_id := None)\<rparr>)))))"

definition reconcile ::
  "('w, 'b) InstanceManager
     \<Rightarrow> (ProviderControlError, ReconcileOutcome) result \<times> ('w, 'b) InstanceManager" where
  "reconcile s =
     and_then (call_world (lg_list_active (im_ledger s) (im_kind s)) s) (\<lambda>active s.
       let (acc, s) = fold reconcile_entry active
             (\<lparr> ra_confirmed = [], ra_orphaned = [], ra_unavailable = None \<rparr>, s)
       in case ra_unavailable acc of
            Some e \<Rightarrow> (Inl e, s)
          | None \<Rightarrow> (Inr \<lparr> ro_confirmed = ra_confirmed acc, ro_orphaned = ra_orphaned acc \<rparr>, s))"

section \<open>Destroying by runtime identifier\<close>

definition destroy_by_ledger_locked ::
  "string \<Rightarrow> ('w, 'b) InstanceManager
     \<Rightarrow> (ProviderControlError, unit) result \<times> ('w, 'b) InstanceManager" where
  "destroy_by_ledger_locked runtime_id s =
     and_then (call_world (lg_list_active (im_ledger s) (im_kind s)) s) (\<lambda>active s.
       case find (\<lambda>e. le_runtime_id e = runtime_id) active of
         None \<Rightarrow> (Inr (), s)
       | Some entry \<Rightarrow>
           and_then (call_world (pl_delete (im_lifecycle s) (release_request (le_instance entry))) s)
             (\<lambda>_ s. (Inr (), snd (call_world (lg_record_deleted (im_ledger s) runtime_id) s))))"

definition destroy_by_runtime_id ::
  "string \<Rightarrow> ('w, 'b) InstanceManager
     \<Rightarrow> (ProviderControlError, unit) result \<times> ('w, 'b) InstanceManager" where
  "destroy_by_runtime_id runtime_id s =
     on_err (stop_instance runtime_id s)
       (\<lambda>e s. case e of
          NotFound _ \<Rightarrow>
            (let (r, s) = destroy_by_ledger_locked runtime_id (get_runtime_lock runtime_id s)
             in (r, release_runtime_lock runtime_id s))
        | _ \<Rightarrow> (Inl e, s))
       (\<lambda>_ s. (Inr (), s))"

end
