(* ===== verification/Manager_Quota.thy ===== *)
theory Manager_Quota
  imports Instance_Manager "HOL-Library.Multiset"
begin

text \<open>
  Correctness of the manager's bookkeeping. The first part says which fields each primitive
  leaves alone. The quota invariant relates the counters to the tracked instances and to the
  reservations in flight (a multiset of owners that have reserved a slot and not yet tracked an
  instance or given the slot back); every primitive and then every operation keeps it.
\<close>

section \<open>What each primitive leaves alone\<close>

lemma call_world_frame [simp]:
  "im_lifecycle (snd (call_world f s)) = im_lifecycle s"
  "im_attach (snd (call_world f s)) = im_attach s"
  "im_ledger (snd (call_world f s)) = im_ledger s"
  "im_ambient (snd (call_world f s)) = im_ambient s"
  "im_kind (snd (call_world f s)) = im_kind s"
  "im_config (snd (call_world f s)) = im_config s"
  "im_instances (snd (call_world f s)) = im_instances s"
  "im_quota (snd (call_world f s)) = im_quota s"
  "im_restore_errors (snd (call_world f s)) = im_restore_errors s"
  "im_runtime_locks (snd (call_world f s)) = im_runtime_locks s"
  "im_pending_release (snd (call_world f s)) = im_pending_release s"
  by (simp_all add: call_world_def split_beta)

lemma get_runtime_lock_frame [simp]:
  "im_lifecycle (get_runtime_lock r s) = im_lifecycle s"
  "im_attach (get_runtime_lock r s) = im_attach s"
  "im_ledger (get_runtime_lock r s) = im_ledger s"
  "im_ambient (get_runtime_lock r s) = im_ambient s"
  "im_kind (get_runtime_lock r s) = im_kind s"
  "im_config (get_runtime_lock r s) = im_config s"
  "im_instances (get_runtime_lock r s) = im_instances s"
  "im_quota (get_runtime_lock r s) = im_quota s"
  "im_restore_errors (get_runtime_lock r s) = im_restore_errors s"
  "im_pending_release (get_runtime_lock r s) = im_pending_release s"
  by (simp_all add: get_runtime_lock_def)

lemma release_runtime_lock_frame [simp]:
  "im_lifecycle (release_runtime_lock r s) = im_lifecycle s"
  "im_attach (release_runtime_lock r s) = im_attach s"
  "im_ledger (release_runtime_lock r s) = im_ledger s"
  "im_ambient (release_runtime_lock r s) = im_ambient s"
  "im_kind (release_runtime_lock r s) = im_kind s"
  "im_config (release_runtime_lock r s) = im_config s"
  "im_instances (release_runtime_lock r s) = im_instances s"
  "im_quota (release_runtime_lock r s) = im_quota s"
  "im_restore_errors (release_runtime_lock r s) = im_restore_errors s"
  "im_pending_release (release_runtime_lock r s) = im_pending_release s"
  by (simp_all add: release_runtime_lock_def split: option.split)

lemma rollback_reservation_frame [simp]:
  "im_lifecycle (rollback_reservation ow s) = im_lifecycle s"
  "im_attach (rollback_reservation ow s) = im_attach s"
  "im_ledger (rollback_reservation ow s) = im_ledger s"
  "im_ambient (rollback_reservation ow s) = im_ambient s"
  "im_kind (rollback_reservation ow s) = im_kind s"
  "im_config (rollback_reservation ow s) = im_config s"
  "im_instances (rollback_reservation ow s) = im_instances s"
  "im_restore_errors (rollback_reservation ow s) = im_restore_errors s"
  "im_runtime_locks (rollback_reservation ow s) = im_runtime_locks s"
  "im_pending_release (rollback_reservation ow s) = im_pending_release s"
  by (simp_all add: rollback_reservation_def Let_def)

lemma track_instance_frame [simp]:
  "im_lifecycle (track_instance i ow s) = im_lifecycle s"
  "im_attach (track_instance i ow s) = im_attach s"
  "im_ledger (track_instance i ow s) = im_ledger s"
  "im_ambient (track_instance i ow s) = im_ambient s"
  "im_kind (track_instance i ow s) = im_kind s"
  "im_config (track_instance i ow s) = im_config s"
  "im_instances (track_instance i ow s) = im_instances s"
  "im_restore_errors (track_instance i ow s) = im_restore_errors s"
  "im_runtime_locks (track_instance i ow s) = im_runtime_locks s"
  "im_pending_release (track_instance i ow s) = im_pending_release s"
  by (simp_all add: track_instance_def Let_def)

lemma release_instance_frame [simp]:
  "im_lifecycle (release_instance i s) = im_lifecycle s"
  "im_attach (release_instance i s) = im_attach s"
  "im_ledger (release_instance i s) = im_ledger s"
  "im_ambient (release_instance i s) = im_ambient s"
  "im_kind (release_instance i s) = im_kind s"
  "im_config (release_instance i s) = im_config s"
  "im_instances (release_instance i s) = im_instances s"
  "im_restore_errors (release_instance i s) = im_restore_errors s"
  "im_runtime_locks (release_instance i s) = im_runtime_locks s"
  "im_pending_release (release_instance i s) = im_pending_release s"
  by (simp_all add: release_instance_def Let_def split: option.split)

lemma rehydrate_one_frame [simp]:
  "im_lifecycle (rehydrate_one i ow s) = im_lifecycle s"
  "im_attach (rehydrate_one i ow s) = im_attach s"
  "im_ledger (rehydrate_one i ow s) = im_ledger s"
  "im_ambient (rehydrate_one i ow s) = im_ambient s"
  "im_kind (rehydrate_one i ow s) = im_kind s"
  "im_config (rehydrate_one i ow s) = im_config s"
  "im_instances (rehydrate_one i ow s) = im_instances s"
  "im_restore_errors (rehydrate_one i ow s) = im_restore_errors s"
  "im_runtime_locks (rehydrate_one i ow s) = im_runtime_locks s"
  "im_pending_release (rehydrate_one i ow s) = im_pending_release s"
  by (simp_all add: rehydrate_one_def Let_def)

lemma reserve_frame [simp]:
  "im_lifecycle (snd (reserve ow lim s)) = im_lifecycle s"
  "im_attach (snd (reserve ow lim s)) = im_attach s"
  "im_ledger (snd (reserve ow lim s)) = im_ledger s"
  "im_ambient (snd (reserve ow lim s)) = im_ambient s"
  "im_kind (snd (reserve ow lim s)) = im_kind s"
  "im_config (snd (reserve ow lim s)) = im_config s"
  "im_instances (snd (reserve ow lim s)) = im_instances s"
  "im_restore_errors (snd (reserve ow lim s)) = im_restore_errors s"
  "im_runtime_locks (snd (reserve ow lim s)) = im_runtime_locks s"
  "im_pending_release (snd (reserve ow lim s)) = im_pending_release s"
  by (simp_all add: reserve_def Let_def)

lemma register_frame [simp]:
  "im_lifecycle (register r inst b s) = im_lifecycle s"
  "im_attach (register r inst b s) = im_attach s"
  "im_ledger (register r inst b s) = im_ledger s"
  "im_ambient (register r inst b s) = im_ambient s"
  "im_kind (register r inst b s) = im_kind s"
  "im_config (register r inst b s) = im_config s"
  "im_quota (register r inst b s) = im_quota s"
  "im_restore_errors (register r inst b s) = im_restore_errors s"
  "im_runtime_locks (register r inst b s) = im_runtime_locks s"
  "im_pending_release (register r inst b s) = im_pending_release s"
  by (simp_all add: register_def)

lemma rollback_create_frame [simp]:
  "im_lifecycle (rollback_create inst s) = im_lifecycle s"
  "im_attach (rollback_create inst s) = im_attach s"
  "im_ledger (rollback_create inst s) = im_ledger s"
  "im_ambient (rollback_create inst s) = im_ambient s"
  "im_kind (rollback_create inst s) = im_kind s"
  "im_config (rollback_create inst s) = im_config s"
  "im_instances (rollback_create inst s) = im_instances s"
  "im_quota (rollback_create inst s) = im_quota s"
  "im_restore_errors (rollback_create inst s) = im_restore_errors s"
  "im_runtime_locks (rollback_create inst s) = im_runtime_locks s"
  "im_pending_release (rollback_create inst s) = im_pending_release s"
  by (simp_all add: rollback_create_def)

lemma soft_delete_orphan_frame [simp]:
  "im_lifecycle (soft_delete_orphan e s) = im_lifecycle s"
  "im_attach (soft_delete_orphan e s) = im_attach s"
  "im_ledger (soft_delete_orphan e s) = im_ledger s"
  "im_ambient (soft_delete_orphan e s) = im_ambient s"
  "im_kind (soft_delete_orphan e s) = im_kind s"
  "im_config (soft_delete_orphan e s) = im_config s"
  "im_instances (soft_delete_orphan e s) = im_instances s"
  "im_quota (soft_delete_orphan e s) = im_quota s"
  "im_restore_errors (soft_delete_orphan e s) = im_restore_errors s"
  "im_runtime_locks (soft_delete_orphan e s) = im_runtime_locks s"
  "im_pending_release (soft_delete_orphan e s) = im_pending_release s"
  by (simp_all add: soft_delete_orphan_def)

lemma call_world_eq: "call_world f s = (fst (f (im_world s)), s\<lparr>im_world := snd (f (im_world s))\<rparr>)"
  by (simp add: call_world_def split_beta)

lemma drop_value_simps [simp]:
  "drop_value (Inl e, s) = (Inl e, s)"
  "drop_value (Inr a, s) = (Inr (), s)"
  by (simp_all add: drop_value_def)

lemma snd_drop_value [simp]: "snd (drop_value m) = snd m"
  by (cases m; cases "fst m") auto

lemma delete_instance_frame [simp]:
  "im_quota (snd (delete_instance b s)) = im_quota s"
  "im_instances (snd (delete_instance b s)) = im_instances s"
  "im_config (snd (delete_instance b s)) = im_config s"
  "im_runtime_locks (snd (delete_instance b s)) = im_runtime_locks s"
  "im_pending_release (snd (delete_instance b s)) = im_pending_release s"
  "im_restore_errors (snd (delete_instance b s)) = im_restore_errors s"
  by (simp_all add: delete_instance_def)

text \<open>A run of the retry loop changes the world only.\<close>

lemma create_loop_world:
  "snd (create_loop req n d s) = s\<lparr>im_world := im_world (snd (create_loop req n d s))\<rparr>"
proof (induction req n d s rule: create_loop.induct)
  case (1 req n d s)
  show ?case
  proof (cases "fst (pl_create (im_lifecycle s) req (im_world s))")
    case (Inr inst)
    then show ?thesis by (simp add: create_loop.simps [of req n d s] call_world_eq)
  next
    case (Inl e)
    let ?s' = "s\<lparr>im_world := snd (pl_create (im_lifecycle s) req (im_world s))\<rparr>"
    show ?thesis
    proof (cases "unat (rp_max_attempts (mc_retry (im_config s))) \<le> n + 1 \<or> \<not> is_retryable e")
      case True
      with Inl show ?thesis by (simp add: create_loop.simps [of req n d s] call_world_eq)
    next
      case False
      have ih: "snd (create_loop req (n + 1) (min (d * 2) (rp_max_delay (mc_retry (im_config s))))
            (?s'\<lparr>im_world := am_sleep (im_ambient s) d (im_world ?s')\<rparr>)) =
          (?s'\<lparr>im_world := am_sleep (im_ambient s) d (im_world ?s')\<rparr>)\<lparr>im_world :=
            im_world (snd (create_loop req (n + 1) (min (d * 2) (rp_max_delay (mc_retry (im_config s))))
              (?s'\<lparr>im_world := am_sleep (im_ambient s) d (im_world ?s')\<rparr>)))\<rparr>"
        using "1.IH" [of "Inl e" ?s' e] False Inl by (simp add: call_world_eq)
      from Inl False show ?thesis
        using ih by (simp add: create_loop.simps [of req n d s] call_world_eq)
    qed
  qed
qed

lemma create_with_retry_world:
  "\<exists>w. snd (create_with_retry bid ow opts s) = s\<lparr>im_world := w\<rparr>"
proof -
  have "snd (create_loop req n d (s\<lparr>im_world := w\<rparr>)) =
      s\<lparr>im_world := im_world (snd (create_loop req n d (s\<lparr>im_world := w\<rparr>)))\<rparr>" for req n d w
    by (subst create_loop_world) simp
  then show ?thesis
    unfolding create_with_retry_def call_world_eq by (simp, blast)
qed

section \<open>The quota invariant\<close>

abbreviation cnt :: "(string \<rightharpoonup> nat) \<Rightarrow> string \<Rightarrow> nat" where
  "cnt counts ow \<equiv> (case counts ow of None \<Rightarrow> 0 | Some c \<Rightarrow> c)"

text \<open>The instances tracked for an owner.\<close>

definition tracked :: "QuotaState \<Rightarrow> string \<Rightarrow> string set" where
  "tracked q ow = {i. q_owners_by_instance q i = Some ow}"

definition quota_inv :: "string multiset \<Rightarrow> QuotaState \<Rightarrow> bool" where
  "quota_inv F q \<longleftrightarrow>
     finite (dom (q_owners_by_instance q)) \<and>
     (\<forall>ow. cnt (q_counts q) ow = card (tracked q ow) + count F ow) \<and>
     q_total q = card (dom (q_owners_by_instance q)) + size F \<and>
     (\<forall>ow. q_counts q ow \<noteq> Some 0)"

lemma cnt_decrement:
  "cnt (decrement counts ow) ow' = (if ow' = ow then cnt counts ow - 1 else cnt counts ow')"
  by (auto simp: decrement_def split: option.splits)

lemma decrement_not_zero: "\<forall>ow. counts ow \<noteq> Some 0 \<Longrightarrow> decrement counts ow' ow \<noteq> Some 0"
  by (auto simp: decrement_def split: option.splits)

lemma quota_inv_default: "quota_inv {#} default_QuotaState"
  by (simp add: quota_inv_def default_QuotaState_def tracked_def)

lemma quota_inv_reserve:
  assumes "quota_inv F (im_quota s)" and "reserve ow lim s = (Inr (), s')"
  shows "quota_inv (add_mset ow F) (im_quota s')"
proof -
  let ?q = "im_quota s"
  have q: "im_quota s' = ?q\<lparr>q_counts := (q_counts ?q)(ow \<mapsto> cnt (q_counts ?q) ow + 1),
      q_total := q_total ?q + 1\<rparr>"
    using assms(2) by (auto simp: reserve_def Let_def split: if_splits)
  have "tracked (im_quota s') = tracked ?q"
    by (auto simp: q tracked_def fun_eq_iff)
  with assms(1) show ?thesis unfolding quota_inv_def by (auto simp: q)
qed

lemma quota_inv_rollback:
  assumes "quota_inv (add_mset ow F) (im_quota s)"
  shows "quota_inv F (im_quota (rollback_reservation ow s))"
proof -
  let ?q = "im_quota s" and ?q' = "im_quota (rollback_reservation ow s)"
  have own: "q_owners_by_instance ?q' = q_owners_by_instance ?q" "q_total ?q' = q_total ?q - 1"
    and cnts: "q_counts ?q' = decrement (q_counts ?q) ow"
    by (simp_all add: rollback_reservation_def Let_def)
  have tr: "tracked ?q' = tracked ?q" by (simp add: tracked_def own fun_eq_iff)
  show ?thesis
    using assms decrement_not_zero [of "q_counts ?q"]
    unfolding quota_inv_def tr own cnts cnt_decrement by auto
qed

lemma quota_inv_track:
  assumes "quota_inv (add_mset ow F) (im_quota s)" and "q_owners_by_instance (im_quota s) i = None"
  shows "quota_inv F (im_quota (track_instance i ow s))"
proof -
  let ?q = "im_quota s" and ?q' = "im_quota (track_instance i ow s)"
  have own: "q_owners_by_instance ?q' = (q_owners_by_instance ?q)(i \<mapsto> ow)"
    and same: "q_counts ?q' = q_counts ?q" "q_total ?q' = q_total ?q"
    by (simp_all add: track_instance_def Let_def)
  have fin: "finite (dom (q_owners_by_instance ?q))" using assms(1) by (simp add: quota_inv_def)
  have card: "card (tracked ?q' o') = card (tracked ?q o') + (if ow = o' then 1 else 0)" for o'
    unfolding tracked_def own by (rule card_fibre_insert [OF fin assms(2)])
  have dom: "card (dom (q_owners_by_instance ?q')) = card (dom (q_owners_by_instance ?q)) + 1"
    using assms(2) fin by (simp add: own domIff)
  show ?thesis
    using assms(1) unfolding quota_inv_def card dom same by (auto simp: own split: if_splits)
qed

lemma quota_inv_release:
  assumes "quota_inv F (im_quota s)"
  shows "quota_inv F (im_quota (release_instance i s))"
proof (cases "q_owners_by_instance (im_quota s) i")
  case None
  with assms show ?thesis by (simp add: release_instance_def Let_def)
next
  case (Some ow)
  let ?q = "im_quota s" and ?q' = "im_quota (release_instance i s)"
  have own: "q_owners_by_instance ?q' = (q_owners_by_instance ?q)(i := None)"
    and tot: "q_total ?q' = q_total ?q - 1" and cnts: "q_counts ?q' = decrement (q_counts ?q) ow"
    using Some by (simp_all add: release_instance_def Let_def)
  have fin: "finite (dom (q_owners_by_instance ?q))" using assms by (simp add: quota_inv_def)
  have card: "card (tracked ?q' o') = card (tracked ?q o') - (if ow = o' then 1 else 0)" for o'
    unfolding tracked_def own by (rule card_fibre_delete [OF fin Some])
  have pos: "0 < card (tracked ?q ow)"
    using Some fin by (auto simp: tracked_def card_gt_0_iff)
  have "card (dom (q_owners_by_instance ?q')) = card (dom (q_owners_by_instance ?q)) - 1"
    and "0 < card (dom (q_owners_by_instance ?q))"
    using Some fin by (auto simp: own card_gt_0_iff domIff)
  then show ?thesis
    using assms pos decrement_not_zero [of "q_counts ?q"]
    unfolding quota_inv_def card tot cnts cnt_decrement by (auto simp: own)
qed

lemma quota_inv_rehydrate:
  assumes "quota_inv F (im_quota s)"
  shows "quota_inv F (im_quota (rehydrate_one i ow s))"
proof (cases "q_owners_by_instance (im_quota s) i")
  case (Some o')
  with assms show ?thesis by (simp add: rehydrate_one_def Let_def)
next
  case None
  let ?q = "im_quota s" and ?q' = "im_quota (rehydrate_one i ow s)"
  have own: "q_owners_by_instance ?q' = (q_owners_by_instance ?q)(i \<mapsto> ow)"
    and tot: "q_total ?q' = q_total ?q + 1"
    and cnts: "q_counts ?q' = (q_counts ?q)(ow \<mapsto> cnt (q_counts ?q) ow + 1)"
    using None by (simp_all add: rehydrate_one_def Let_def)
  have fin: "finite (dom (q_owners_by_instance ?q))" using assms by (simp add: quota_inv_def)
  have card: "card (tracked ?q' o') = card (tracked ?q o') + (if ow = o' then 1 else 0)" for o'
    unfolding tracked_def own by (rule card_fibre_insert [OF fin None])
  have dom: "card (dom (q_owners_by_instance ?q')) = card (dom (q_owners_by_instance ?q)) + 1"
    using None fin by (simp add: own domIff)
  show ?thesis
    using assms unfolding quota_inv_def card dom tot cnts by (auto simp: own)
qed

lemmas quota_inv_primitives =
  quota_inv_reserve quota_inv_rollback quota_inv_track quota_inv_release quota_inv_rehydrate

end
