(* ===== verification/Manager_Operations.thy ===== *)
theory Manager_Operations
  imports Manager_Quota
begin

text \<open>
  The operations of the instance manager against their contracts. Starting an instance, freshly
  or from a snapshot, follows one abstract specification: it is refused without effect, or fails
  with every effect on the bookkeeping undone, or registers the instance and keeps its slot.
  The manager invariant then says that registry and quota agree, and that no lock, no slot and no
  registered instance is lost by any sequence of operations.
\<close>

section \<open>The specification of a start\<close>

abbreviation inst_id :: "'b BoundInstance \<Rightarrow> string" where
  "inst_id b \<equiv> pi_instance_id (bi_instance b)"

text \<open>The specification of starting an instance under \<open>runtime_id\<close> for an owner. Its four cases are
  the refusal of a registered identifier, the refusal by a cap, a failure after the reservation, and
  success.\<close>

inductive start_spec ::
  "string \<Rightarrow> string \<Rightarrow> u32 option \<Rightarrow> ('w, 'b) InstanceManager
     \<Rightarrow> (ProviderControlError, 'b) result \<Rightarrow> ('w, 'b) InstanceManager \<Rightarrow> bool"
  for runtime_id :: string and ow :: string and lim :: "u32 option"
    and s :: "('w, 'b) InstanceManager" where
  duplicate: "im_instances s runtime_id \<noteq> None \<Longrightarrow> start_spec runtime_id ow lim s (Inl (Conflict m)) s"
| refused: "im_instances s runtime_id = None \<Longrightarrow> reserve ow lim s = (Inl e, s) \<Longrightarrow>
    start_spec runtime_id ow lim s (Inl e) s"
| undone: "im_instances s runtime_id = None \<Longrightarrow> reserve ow lim s = (Inr (), s1) \<Longrightarrow>
    s' = rollback_reservation ow (s1\<lparr>im_world := w\<rparr>) \<Longrightarrow>
    start_spec runtime_id ow lim s (Inl e) s'"
| started: "im_instances s runtime_id = None \<Longrightarrow> reserve ow lim s = (Inr (), s1) \<Longrightarrow>
    s' = register runtime_id inst b (track_instance (pi_instance_id inst) ow (s1\<lparr>im_world := w\<rparr>)) \<Longrightarrow>
    start_spec runtime_id ow lim s (Inr b) s'"

inductive_cases start_spec_InrE: "start_spec runtime_id ow lim s (Inr b) s'"

lemma call_world_outcome:
  obtains r w where "call_world f s = (r, s\<lparr>im_world := w\<rparr>)"
  by (simp add: call_world_eq)

lemma rollback_create_world:
  obtains w where "rollback_create inst s = s\<lparr>im_world := w\<rparr>"
  by (simp add: rollback_create_def call_world_eq)

lemma bind_instance_outcome:
  obtains (failed) e w where
    "bind_instance runtime_id ow inst s = (Inl e, rollback_reservation ow (s\<lparr>im_world := w\<rparr>))"
  | (bound) b w where
    "bind_instance runtime_id ow inst s =
      (Inr b, register runtime_id inst b (track_instance (pi_instance_id inst) ow (s\<lparr>im_world := w\<rparr>)))"
proof -
  obtain r1 w1 where att: "call_world (im_attach s inst) s = (r1, s\<lparr>im_world := w1\<rparr>)"
    by (rule call_world_outcome)
  obtain r2 w2 where led: "call_world (lg_record_created (im_ledger (s\<lparr>im_world := w1\<rparr>)) runtime_id ow inst)
      (s\<lparr>im_world := w1\<rparr>) = (r2, s\<lparr>im_world := w1\<rparr>\<lparr>im_world := w2\<rparr>)"
    by (rule call_world_outcome)
  obtain w3 where rb1: "rollback_create inst (s\<lparr>im_world := w1\<rparr>) = s\<lparr>im_world := w1\<rparr>\<lparr>im_world := w3\<rparr>"
    by (rule rollback_create_world)
  obtain w4 where rb2: "rollback_create inst (s\<lparr>im_world := w2\<rparr>) = s\<lparr>im_world := w2\<rparr>\<lparr>im_world := w4\<rparr>"
    by (rule rollback_create_world)
  show thesis
  proof (cases r1)
    case (Inl e)
    then show thesis using failed att rb1 by (simp add: bind_instance_def)
  next
    case (Inr b)
    then show thesis using failed bound att led rb2 by (cases r2) (simp_all add: bind_instance_def)
  qed
qed

lemma reserve_refused: "reserve ow lim s = (Inl e, s') \<Longrightarrow> s' = s"
  by (auto simp: reserve_def Let_def split: if_splits)

lemma reserve_outcome:
  obtains (refused) e where "reserve ow lim s = (Inl e, s)"
  | (granted) s1 where "reserve ow lim s = (Inr (), s1)"
proof (cases "reserve ow lim s")
  case (Pair r s1)
  show thesis
  proof (cases r)
    case (Inl e)
    with Pair reserve_refused [of ow lim s e s1] show thesis by (intro refused [of e]) simp
  next
    case (Inr u)
    with Pair show thesis by (intro granted [of s1]) simp
  qed
qed

lemma bind_instance_spec:
  assumes "im_instances s runtime_id = None" and "reserve ow lim s = (Inr (), s1)"
    and "bind_instance runtime_id ow inst (s1\<lparr>im_world := w\<rparr>) = (r, s')"
  shows "start_spec runtime_id ow lim s r s'"
  using assms(3)
  by (cases rule: bind_instance_outcome [of runtime_id ow inst "s1\<lparr>im_world := w\<rparr>"])
    (auto intro: start_spec.undone [OF assms(1,2)] start_spec.started [OF assms(1,2)])

lemma start_instance_locked_spec:
  assumes "start_instance_locked runtime_id bid ow opts lim s = (r, s')"
  shows "start_spec runtime_id ow lim s r s'"
proof (cases "im_instances s runtime_id")
  case (Some b)
  with assms show ?thesis
    by (auto simp: start_instance_locked_def intro: start_spec.duplicate)
next
  case None
  show ?thesis
  proof (cases rule: reserve_outcome [of ow lim s])
    case (refused e)
    with assms None show ?thesis
      by (auto simp: start_instance_locked_def intro: start_spec.refused)
  next
    case (granted s1)
    obtain w where w: "snd (create_with_retry bid ow opts s1) = s1\<lparr>im_world := w\<rparr>"
      by (rule exE [OF create_with_retry_world])
    show ?thesis
    proof (cases "fst (create_with_retry bid ow opts s1)")
      case (Inl e)
      then have "create_with_retry bid ow opts s1 = (Inl e, s1\<lparr>im_world := w\<rparr>)"
        using w by (metis prod.collapse)
      with assms None granted show ?thesis
        by (auto simp: start_instance_locked_def intro: start_spec.undone [OF None granted])
    next
      case (Inr inst)
      then have "create_with_retry bid ow opts s1 = (Inr inst, s1\<lparr>im_world := w\<rparr>)"
        using w by (metis prod.collapse)
      with assms None granted show ?thesis
        by (auto simp: start_instance_locked_def intro: bind_instance_spec)
    qed
  qed
qed

lemma load_instance_locked_spec:
  assumes "load_instance_from_snapshot_locked runtime_id bid ow snap opts lim s = (r, s')"
  shows "start_spec runtime_id ow lim s r s'"
proof (cases "im_instances s runtime_id")
  case (Some b)
  with assms show ?thesis
    by (auto simp: load_instance_from_snapshot_locked_def intro: start_spec.duplicate)
next
  case None
  show ?thesis
  proof (cases rule: reserve_outcome [of ow lim s])
    case (refused e)
    with assms None show ?thesis
      by (auto simp: load_instance_from_snapshot_locked_def intro: start_spec.refused)
  next
    case (granted s1)
    let ?res = "pl_load (im_lifecycle s1) (load_request runtime_id bid ow snap opts) (im_world s1)"
    show ?thesis
    proof (cases "fst ?res")
      case (Inl e)
      with assms None granted show ?thesis
        by (auto simp: load_instance_from_snapshot_locked_def call_world_eq
            intro: start_spec.undone [OF None granted])
    next
      case (Inr inst)
      with assms None granted show ?thesis
        by (auto simp: load_instance_from_snapshot_locked_def call_world_eq
            intro: bind_instance_spec)
    qed
  qed
qed

section \<open>Failure and success of a start\<close>

lemma reserve_granted:
  assumes "reserve ow lim s = (Inr (), s1)"
  shows "s1 = s\<lparr>im_quota := im_quota s\<lparr>
      q_counts := (q_counts (im_quota s))(ow \<mapsto> cnt (q_counts (im_quota s)) ow + 1),
      q_total := q_total (im_quota s) + 1\<rparr>\<rparr>"
    and "ow \<noteq> ADMIN_OWNER_REF \<Longrightarrow> cnt (q_counts (im_quota s)) ow <
      (case lim of Some l \<Rightarrow> unat l | None \<Rightarrow> mc_max_sandboxes_per_owner (im_config s))"
    and "ow \<noteq> ADMIN_OWNER_REF \<Longrightarrow> q_total (im_quota s) < mc_max_sandboxes_global (im_config s)"
  using assms by (auto simp: reserve_def Let_def split: if_splits)

lemma rollback_undoes_reserve:
  assumes "reserve ow lim s = (Inr (), s1)" and "q_counts (im_quota s) ow \<noteq> Some 0"
  shows "rollback_reservation ow (s1\<lparr>im_world := w\<rparr>) = s\<lparr>im_world := w\<rparr>"
proof -
  have "decrement ((q_counts (im_quota s))(ow \<mapsto> cnt (q_counts (im_quota s)) ow + 1)) ow =
      q_counts (im_quota s)"
    using assms(2) by (auto simp: decrement_def fun_eq_iff split: option.splits)
  then show ?thesis
    by (simp add: reserve_granted(1) [OF assms(1)] rollback_reservation_def Let_def)
qed

lemma release_get_runtime_lock:
  assumes "im_runtime_locks t = im_runtime_locks (get_runtime_lock runtime_id s)"
    and "im_runtime_locks s runtime_id \<noteq> Some 0"
  shows "release_runtime_lock runtime_id t = t\<lparr>im_runtime_locks := im_runtime_locks s\<rparr>"
  using assms
  by (auto simp: release_runtime_lock_def get_runtime_lock_def fun_upd_idem split: option.splits)

lemma get_runtime_lock_eq:
  "get_runtime_lock runtime_id s = s\<lparr>im_runtime_locks := im_runtime_locks (get_runtime_lock runtime_id s)\<rparr>"
  by (simp add: get_runtime_lock_def)

lemma start_spec_failed:
  assumes "start_spec runtime_id ow lim s (Inl e) s'" and "q_counts (im_quota s) ow \<noteq> Some 0"
  shows "s' = s\<lparr>im_world := im_world s'\<rparr>"
  using assms(1)
  by (cases rule: start_spec.cases) (auto simp: rollback_undoes_reserve [OF _ assms(2)])

lemma start_spec_locks:
  assumes "start_spec runtime_id ow lim s r s'"
  shows "im_runtime_locks s' = im_runtime_locks s"
  using assms by (cases rule: start_spec.cases) (auto dest: reserve_granted(1))

text \<open>An operation under the lock of its runtime identifier: a failure that changes only the world
  inside the lock changes only the world outside it.\<close>

lemma locked_failure:
  assumes "s1 = (get_runtime_lock runtime_id s)\<lparr>im_world := im_world s1\<rparr>"
    and "im_runtime_locks s runtime_id \<noteq> Some 0"
  shows "release_runtime_lock runtime_id s1 = s\<lparr>im_world := im_world s1\<rparr>"
proof -
  have "im_runtime_locks s1 = im_runtime_locks (get_runtime_lock runtime_id s)"
    by (subst assms(1)) simp
  from release_get_runtime_lock [OF this assms(2)]
  have "release_runtime_lock runtime_id s1 = s1\<lparr>im_runtime_locks := im_runtime_locks s\<rparr>" .
  also have "\<dots> = s\<lparr>im_world := im_world s1\<rparr>"
    by (subst assms(1), subst get_runtime_lock_eq) simp
  finally show ?thesis .
qed

lemma start_instance_split:
  assumes "start_instance runtime_id bid ow opts lim s = (r, s')"
  obtains t where "start_spec runtime_id ow lim (get_runtime_lock runtime_id s) r t"
    and "s' = release_runtime_lock runtime_id t"
proof -
  obtain t where "start_instance_locked runtime_id bid ow opts lim (get_runtime_lock runtime_id s) = (r, t)"
    and "s' = release_runtime_lock runtime_id t"
    using assms by (auto simp: start_instance_def split: prod.splits)
  then show thesis by (intro that start_instance_locked_spec)
qed

lemma load_instance_split:
  assumes "load_instance_from_snapshot runtime_id bid ow snap opts lim s = (r, s')"
  obtains t where "start_spec runtime_id ow lim (get_runtime_lock runtime_id s) r t"
    and "s' = release_runtime_lock runtime_id t"
proof -
  obtain t where "load_instance_from_snapshot_locked runtime_id bid ow snap opts lim
      (get_runtime_lock runtime_id s) = (r, t)"
    and "s' = release_runtime_lock runtime_id t"
    using assms by (auto simp: load_instance_from_snapshot_def split: prod.splits)
  then show thesis by (intro that load_instance_locked_spec)
qed

lemma locked_start_failure:
  assumes "start_spec runtime_id ow lim (get_runtime_lock runtime_id s) (Inl e) t"
    and "quota_inv F (im_quota s)" and "im_runtime_locks s runtime_id \<noteq> Some 0"
  shows "release_runtime_lock runtime_id t = s\<lparr>im_world := im_world t\<rparr>"
proof (rule locked_failure [OF _ assms(3)])
  show "t = get_runtime_lock runtime_id s\<lparr>im_world := im_world t\<rparr>"
    by (rule start_spec_failed [OF assms(1)]) (use assms(2) in \<open>simp add: quota_inv_def\<close>)
qed

lemma start_spec_registered:
  assumes "start_spec runtime_id ow lim s (Inr b) s'"
  obtains s1 inst w where "im_instances s runtime_id = None" and "reserve ow lim s = (Inr (), s1)"
    and "s' = register runtime_id inst b (track_instance (pi_instance_id inst) ow (s1\<lparr>im_world := w\<rparr>))"
  using assms by (cases rule: start_spec_InrE) auto

end
