(* ===== verification/Manager_Invariant.thy ===== *)
theory Manager_Invariant
  imports Manager_Operations
begin

text \<open>
  The invariant of the instance manager over arbitrary sequences of operations: the quota counters
  are exact, registry and quota name the same instances, every queued release belongs to the
  instance that is still registered under its identifier, and no lock entry is left behind.
\<close>

section \<open>Registry and quota\<close>

definition reg_inv :: "(string \<rightharpoonup> 'b BoundInstance) \<Rightarrow> (string \<rightharpoonup> string) \<Rightarrow> bool" where
  "reg_inv inst own \<longleftrightarrow>
     dom own = inst_id ` ran inst \<and> inj_on (\<lambda>r. inst_id (the (inst r))) (dom inst)"

lemma reg_inv_owned: "reg_inv inst own \<Longrightarrow> inst r = Some b \<Longrightarrow> \<exists>ow. own (inst_id b) = Some ow"
proof -
  assume "reg_inv inst own" and "inst r = Some b"
  then have "inst_id b \<in> dom own" by (simp add: reg_inv_def ranI)
  then show ?thesis by blast
qed

lemma reg_inv_unique:
  assumes "reg_inv inst own" and "inst r = Some b" and "inst r' = Some b'" and "inst_id b = inst_id b'"
  shows "r = r'"
proof (rule inj_onD [of "\<lambda>r. inst_id (the (inst r))" "dom inst"])
  show "inj_on (\<lambda>r. inst_id (the (inst r))) (dom inst)" using assms(1) by (simp add: reg_inv_def)
qed (use assms(2-4) in auto)

lemma reg_inv_add:
  assumes "reg_inv inst own" and "inst r = None" and "own (inst_id b) = None"
  shows "reg_inv (inst(r \<mapsto> b)) (own(inst_id b \<mapsto> ow))"
proof -
  have "inj_on (\<lambda>r'. inst_id (the ((inst(r \<mapsto> b)) r'))) (insert r (dom inst))"
    unfolding inj_on_insert
  proof
    have "inj_on (\<lambda>r'. inst_id (the ((inst(r \<mapsto> b)) r'))) (dom inst) =
        inj_on (\<lambda>r. inst_id (the (inst r))) (dom inst)"
      using assms(2) by (intro inj_on_cong) auto
    then show "inj_on (\<lambda>r'. inst_id (the ((inst(r \<mapsto> b)) r'))) (dom inst)"
      using assms(1) by (simp add: reg_inv_def)
    show "inst_id (the ((inst(r \<mapsto> b)) r)) \<notin>
        (\<lambda>r'. inst_id (the ((inst(r \<mapsto> b)) r'))) ` (dom inst - {r})"
    proof
      assume "inst_id (the ((inst(r \<mapsto> b)) r)) \<in>
        (\<lambda>r'. inst_id (the ((inst(r \<mapsto> b)) r'))) ` (dom inst - {r})"
      then obtain r' where "r' \<in> dom inst - {r}"
        and "inst_id (the ((inst(r \<mapsto> b)) r)) = inst_id (the ((inst(r \<mapsto> b)) r'))"
        by (rule imageE)
      then have r': "r' \<in> dom inst" "inst_id (the (inst r')) = inst_id b" by auto
      then have "inst r' = Some (the (inst r'))" by auto
      from reg_inv_owned [OF assms(1) this] r'(2) assms(3) show False by simp
    qed
  qed
  moreover have "ran (inst(r \<mapsto> b)) = insert b (ran inst)" using assms(2) by simp
  ultimately show ?thesis using assms(1) by (simp add: reg_inv_def)
qed

lemma reg_inv_del:
  assumes "reg_inv inst own" and "inst r = Some b"
  shows "reg_inv (inst(r := None)) (own(inst_id b := None))"
proof -
  have "inst_id ` ran (inst(r := None)) = inst_id ` ran inst - {inst_id b}"
  proof
    show "inst_id ` ran (inst(r := None)) \<subseteq> inst_id ` ran inst - {inst_id b}"
    proof
      fix i
      assume "i \<in> inst_id ` ran (inst(r := None))"
      then obtain r' b' where r': "r' \<noteq> r" "inst r' = Some b'" "i = inst_id b'"
        by (auto simp: ran_def split: if_splits)
      with reg_inv_unique [OF assms, of r' b'] show "i \<in> inst_id ` ran inst - {inst_id b}"
        by (auto simp: ranI)
    qed
    show "inst_id ` ran inst - {inst_id b} \<subseteq> inst_id ` ran (inst(r := None))"
    proof
      fix i
      assume "i \<in> inst_id ` ran inst - {inst_id b}"
      then obtain r' b' where r': "inst r' = Some b'" "i = inst_id b'" "inst_id b' \<noteq> inst_id b"
        by (auto simp: ran_def)
      then have "(inst(r := None)) r' = Some b'" using assms(2) by auto
      then show "i \<in> inst_id ` ran (inst(r := None))" using r'(2) by (simp add: ranI)
    qed
  qed
  moreover have "dom (own(inst_id b := None)) = dom own - {inst_id b}" by auto
  moreover have "inj_on (\<lambda>r'. inst_id (the ((inst(r := None)) r'))) (dom inst - {r}) =
      inj_on (\<lambda>r. inst_id (the (inst r))) (dom inst - {r})"
    by (intro inj_on_cong) auto
  ultimately show ?thesis
    using assms(1) by (simp add: reg_inv_def inj_on_diff)
qed

text \<open>A queued release is linked when it names what is registered under its identifier, if
  anything is.\<close>

definition linked :: "('w, 'b) InstanceManager \<Rightarrow> 'b PendingRelease \<Rightarrow> bool" where
  "linked s item \<longleftrightarrow> (\<forall>b. im_instances s (pd_runtime_id item) = Some b \<longrightarrow> b = pd_record item)"

definition core_inv :: "('w, 'b) InstanceManager \<Rightarrow> bool" where
  "core_inv s \<longleftrightarrow> quota_inv {#} (im_quota s) \<and>
     reg_inv (im_instances s) (q_owners_by_instance (im_quota s)) \<and>
     (\<forall>item \<in> set (im_pending_release s). linked s item)"

definition mgr_inv :: "('w, 'b) InstanceManager \<Rightarrow> bool" where
  "mgr_inv s \<longleftrightarrow> core_inv s \<and> im_runtime_locks s = Map.empty"

lemma core_inv_frame:
  assumes "im_quota s' = im_quota s" and "im_instances s' = im_instances s"
    and "im_pending_release s' = im_pending_release s"
  shows "core_inv s' = core_inv s"
  by (simp add: core_inv_def linked_def assms)

lemma core_inv_locks [simp]:
  "core_inv (get_runtime_lock r s) = core_inv s"
  "core_inv (release_runtime_lock r s) = core_inv s"
  by (rule core_inv_frame; simp)+

lemma core_inv_call_world [simp]: "core_inv (snd (call_world f s)) = core_inv s"
  by (rule core_inv_frame) simp_all

lemma core_inv_world [simp]: "core_inv (s\<lparr>im_world := w\<rparr>) = core_inv s"
  by (rule core_inv_frame) simp_all

lemma core_inv_restore_errors [simp]: "core_inv (s\<lparr>im_restore_errors := m\<rparr>) = core_inv s"
  by (rule core_inv_frame) simp_all

lemma mgr_inv_world [simp]: "mgr_inv (s\<lparr>im_world := w\<rparr>) = mgr_inv s"
  by (simp add: mgr_inv_def)

lemma core_inv_counts: "core_inv s \<Longrightarrow> q_counts (im_quota s) ow \<noteq> Some 0"
  unfolding core_inv_def quota_inv_def by blast

section \<open>Each operation keeps the core invariant\<close>

lemma core_inv_start:
  assumes "start_spec runtime_id ow lim s r s'" and "core_inv s"
    and "\<And>b b'. r = Inr b \<Longrightarrow> im_instances s' runtime_id = Some b' \<Longrightarrow>
           q_owners_by_instance (im_quota s) (inst_id b') = None"
    and "\<forall>item \<in> set (im_pending_release s). pd_runtime_id item \<noteq> runtime_id"
  shows "core_inv s'"
proof (cases r)
  case (Inl e)
  have "s' = s\<lparr>im_world := im_world s'\<rparr>"
    by (rule start_spec_failed [OF assms(1) [unfolded Inl] core_inv_counts [OF assms(2)]])
  then have "core_inv s' = core_inv (s\<lparr>im_world := im_world s'\<rparr>)" by (rule arg_cong)
  then show ?thesis using assms(2) by simp
next
  case (Inr b)
  from assms(1) [unfolded Inr] obtain s1 inst w where
    none: "im_instances s runtime_id = None" and res: "reserve ow lim s = (Inr (), s1)" and
    s': "s' = register runtime_id inst b (track_instance (pi_instance_id inst) ow (s1\<lparr>im_world := w\<rparr>))"
    by (rule start_spec_registered)
  note s1 = reserve_granted(1) [OF res]
  have inst: "im_instances s' = (im_instances s)(runtime_id \<mapsto> \<lparr>bi_instance = inst, bi_backend = b\<rparr>)"
    by (simp add: s' register_def s1)
  have fresh: "q_owners_by_instance (im_quota s) (pi_instance_id inst) = None"
    using assms(3) [OF Inr] by (simp add: inst)
  have own: "q_owners_by_instance (im_quota s') =
      (q_owners_by_instance (im_quota s))(pi_instance_id inst \<mapsto> ow)"
    by (simp add: s' track_instance_def Let_def s1)
  have "quota_inv (add_mset ow {#}) (im_quota (s1\<lparr>im_world := w\<rparr>))"
    using quota_inv_reserve [OF _ res] assms(2) by (simp add: core_inv_def)
  from quota_inv_track [OF this, of "pi_instance_id inst"]
  have "quota_inv {#} (im_quota s')" using fresh by (simp add: s' s1)
  moreover have "reg_inv (im_instances s') (q_owners_by_instance (im_quota s'))"
    unfolding inst own
    using reg_inv_add [of _ _ runtime_id "\<lparr>bi_instance = inst, bi_backend = b\<rparr>"] none fresh assms(2)
    by (simp add: core_inv_def)
  moreover have "im_pending_release s' = im_pending_release s" by (simp add: s' s1)
  then have "\<forall>item \<in> set (im_pending_release s'). linked s' item"
    using assms(2,4) by (simp add: core_inv_def linked_def inst)
  ultimately show ?thesis by (simp add: core_inv_def)
qed

lemma core_inv_release:
  assumes "core_inv s" and "im_instances s r = Some b"
    and "im_instances s' = (im_instances s)(r := None)"
    and "im_quota s' = im_quota (release_instance (inst_id b) s)"
    and "im_pending_release s' = im_pending_release s"
  shows "core_inv s'"
proof -
  obtain ow where "q_owners_by_instance (im_quota s) (inst_id b) = Some ow"
    using reg_inv_owned assms(1,2) unfolding core_inv_def by blast
  then have own: "q_owners_by_instance (im_quota s') = (q_owners_by_instance (im_quota s))(inst_id b := None)"
    by (simp add: assms(4) release_instance_def Let_def)
  have "reg_inv (im_instances s') (q_owners_by_instance (im_quota s'))"
    unfolding own assms(3) using reg_inv_del assms(1,2) by (auto simp: core_inv_def)
  moreover have "quota_inv {#} (im_quota s')"
    unfolding assms(4) by (rule quota_inv_release) (use assms(1) in \<open>simp add: core_inv_def\<close>)
  moreover have "\<forall>item \<in> set (im_pending_release s'). linked s' item"
    using assms(1) by (auto simp: core_inv_def linked_def assms(3,5))
  ultimately show ?thesis by (simp add: core_inv_def)
qed

lemma release_instance_quota_cong:
  "im_quota s = im_quota t \<Longrightarrow> im_quota (release_instance i s) = im_quota (release_instance i t)"
  by (simp add: release_instance_def Let_def split: option.split)

lemma finish_release_frame:
  "im_instances (finish_release r b s) = (im_instances s)(r := None)"
  "im_quota (finish_release r b s) = im_quota (release_instance (inst_id b) s)"
  "im_pending_release (finish_release r b s) = im_pending_release s"
  "im_runtime_locks (finish_release r b s) = im_runtime_locks s"
  "im_config (finish_release r b s) = im_config s"
  by (simp_all add: finish_release_def Let_def)
    (rule release_instance_quota_cong, simp)

lemma core_inv_finish_release:
  assumes "core_inv s" and "im_instances s r = Some b"
  shows "core_inv (finish_release r b s)"
  by (rule core_inv_release [OF assms]) (simp_all add: finish_release_frame)

lemma core_inv_enqueue:
  assumes "core_inv s" and "linked s item"
  shows "core_inv (s\<lparr>im_pending_release := im_pending_release s @ [item]\<rparr>)"
  using assms by (simp add: core_inv_def linked_def)

lemma delete_instance_world:
  obtains r w where "delete_instance b s = (r, s\<lparr>im_world := w\<rparr>)"
  by (cases "fst (pl_delete (im_lifecycle s) (release_request (bi_instance b)) (im_world s))")
    (simp_all add: delete_instance_def call_world_eq)

text \<open>What stopping a registered instance comes to.\<close>

lemma stop_instance_locked_outcome:
  assumes "im_instances s r = Some b"
  obtains (deleted) w where "delete_instance b s = (Inr (), s\<lparr>im_world := w\<rparr>)"
    and "stop_instance_locked r s = (Inr (), finish_release r b (s\<lparr>im_world := w\<rparr>))"
  | (kept) e w t w' where "delete_instance b s = (Inl e, s\<lparr>im_world := w'\<rparr>)"
    and "stop_instance_locked r s = (Inl e, s\<lparr>im_world := w,
      im_pending_release := im_pending_release s @ [\<lparr>pd_runtime_id = r, pd_record = b, pd_attempt = 0,
        pd_next_retry_at = t\<rparr>]\<rparr>)"
proof -
  obtain res w where del: "delete_instance b s = (res, s\<lparr>im_world := w\<rparr>)"
    by (rule delete_instance_world)
  show thesis
  proof (cases res)
    case (Inl e)
    then show thesis
      using kept del assms by (simp add: stop_instance_locked_def call_world_eq)
  next
    case (Inr u)
    then show thesis
      using deleted del assms by (simp add: stop_instance_locked_def)
  qed
qed

lemma core_inv_stop_locked:
  assumes "core_inv s" and "stop_instance_locked r s = (res, s')"
  shows "core_inv s' \<and> im_runtime_locks s' = im_runtime_locks s"
proof (cases "im_instances s r")
  case None
  with assms show ?thesis by (simp add: stop_instance_locked_def)
next
  case (Some b)
  show ?thesis
  proof (cases rule: stop_instance_locked_outcome [OF Some])
    case (1 w)
    then show ?thesis
      using core_inv_finish_release [of "s\<lparr>im_world := w\<rparr>" r b] assms Some
      by (simp add: finish_release_frame)
  next
    case (2 e w t)
    let ?item = "\<lparr>pd_runtime_id = r, pd_record = b, pd_attempt = 0, pd_next_retry_at = t\<rparr>"
    have "core_inv (s\<lparr>im_world := w\<rparr>\<lparr>im_pending_release := im_pending_release (s\<lparr>im_world := w\<rparr>) @ [?item]\<rparr>)"
      by (rule core_inv_enqueue) (use assms(1) Some in \<open>simp_all add: linked_def\<close>)
    then show ?thesis using 2 assms(2) by simp
  qed
qed

text \<open>A step of the retry sweep. The registry only shrinks, so the other due items stay linked.\<close>

lemma retry_item_outcome:
  assumes "im_instances s (pd_runtime_id item) \<noteq> None"
  obtains (deleted) w where "retry_item item s = release_runtime_lock (pd_runtime_id item)
      (finish_release (pd_runtime_id item) (pd_record item)
        (get_runtime_lock (pd_runtime_id item) s\<lparr>im_world := w\<rparr>))"
  | (kept) w a t where "retry_item item s = release_runtime_lock (pd_runtime_id item)
      (get_runtime_lock (pd_runtime_id item) s\<lparr>im_world := w,
        im_pending_release := im_pending_release s @ [item\<lparr>pd_attempt := a, pd_next_retry_at := t\<rparr>]\<rparr>)"
proof -
  let ?s = "get_runtime_lock (pd_runtime_id item) s"
  obtain res w where del: "delete_instance (pd_record item) ?s = (res, ?s\<lparr>im_world := w\<rparr>)"
    by (rule delete_instance_world)
  show thesis
  proof (cases res)
    case (Inl e)
    then show thesis
      using kept del assms by (simp add: retry_item_def call_world_eq Let_def)
  next
    case (Inr u)
    then show thesis using deleted del assms by (simp add: retry_item_def Let_def)
  qed
qed

lemma locks_restored:
  assumes "im_runtime_locks t = im_runtime_locks (get_runtime_lock r s)" and "im_runtime_locks s r \<noteq> Some 0"
  shows "im_runtime_locks (release_runtime_lock r t) = im_runtime_locks s"
  by (simp add: release_get_runtime_lock [OF assms])

lemma retry_item_keeps:
  assumes "core_inv s" and "linked s item" and "im_runtime_locks s = Map.empty"
  shows "core_inv (retry_item item s)" and "im_runtime_locks (retry_item item s) = Map.empty"
    and "im_instances (retry_item item s) \<subseteq>\<^sub>m im_instances s"
proof -
  let ?r = "pd_runtime_id item"
  have free: "im_runtime_locks s ?r \<noteq> Some 0" using assms(3) by simp
  have "core_inv (retry_item item s) \<and> im_runtime_locks (retry_item item s) = Map.empty \<and>
      im_instances (retry_item item s) \<subseteq>\<^sub>m im_instances s"
  proof (cases "im_instances s ?r")
    case None
    then have "retry_item item s = release_runtime_lock ?r (get_runtime_lock ?r s)"
      by (simp add: retry_item_def Let_def)
    then show ?thesis
      using assms(1,3) locks_restored [OF refl free] by simp
  next
    case (Some b)
    then have b: "b = pd_record item" using assms(2) by (simp add: linked_def)
    from Some have "im_instances s ?r \<noteq> None" by simp
    then show ?thesis
    proof (cases rule: retry_item_outcome)
      case (deleted w)
      let ?t = "finish_release ?r (pd_record item) (get_runtime_lock ?r s\<lparr>im_world := w\<rparr>)"
      have "core_inv ?t" by (rule core_inv_finish_release) (use assms(1) Some b in simp_all)
      moreover have "im_runtime_locks (release_runtime_lock ?r ?t) = im_runtime_locks s"
        by (rule locks_restored [OF _ free]) (simp add: finish_release_frame)
      ultimately show ?thesis
        using assms(3) by (simp add: deleted finish_release_frame map_le_def)
    next
      case (kept w a t)
      let ?s = "get_runtime_lock ?r s\<lparr>im_world := w\<rparr>"
      let ?t = "?s\<lparr>im_pending_release := im_pending_release ?s @
        [item\<lparr>pd_attempt := a, pd_next_retry_at := t\<rparr>]\<rparr>"
      have "core_inv ?t"
        by (rule core_inv_enqueue) (use assms(1) Some b in \<open>simp_all add: linked_def\<close>)
      moreover have "im_runtime_locks (release_runtime_lock ?r ?t) = im_runtime_locks s"
        by (rule locks_restored [OF _ free]) simp
      ultimately show ?thesis using assms(3) by (simp add: kept)
    qed
  qed
  then show "core_inv (retry_item item s)" "im_runtime_locks (retry_item item s) = Map.empty"
    "im_instances (retry_item item s) \<subseteq>\<^sub>m im_instances s" by simp_all
qed

lemma linked_mono: "im_instances t \<subseteq>\<^sub>m im_instances s \<Longrightarrow> linked s item \<Longrightarrow> linked t item"
  by (auto simp: linked_def map_le_def dom_def)

lemma mgr_inv_retry_fold:
  assumes "core_inv s" and "im_runtime_locks s = Map.empty" and "\<forall>item \<in> set due. linked s item"
  shows "core_inv (fold retry_item due s) \<and> im_runtime_locks (fold retry_item due s) = Map.empty"
  using assms
proof (induction due arbitrary: s)
  case Nil
  then show ?case by simp
next
  case (Cons item due)
  have l: "linked s item" using Cons.prems(3) by simp
  note k = retry_item_keeps [OF Cons.prems(1) l Cons.prems(2)]
  have "\<forall>it \<in> set due. linked (retry_item item s) it"
    using Cons.prems(3) linked_mono [OF k(3)] by simp
  from Cons.IH [OF k(1,2) this] show ?case by simp
qed

lemma mgr_inv_retry:
  assumes "mgr_inv s"
  shows "mgr_inv (retry_pending_releases_once s)"
proof -
  obtain now w where clock: "call_world (am_now (im_ambient s)) s = (now, s\<lparr>im_world := w\<rparr>)"
    by (rule call_world_outcome)
  let ?t = "s\<lparr>im_world := w, im_pending_release :=
    filter (\<lambda>item. \<not> pd_next_retry_at item \<le> now) (im_pending_release s)\<rparr>"
  have "core_inv ?t" using assms by (simp add: mgr_inv_def core_inv_def linked_def)
  moreover have "im_runtime_locks ?t = Map.empty" using assms by (simp add: mgr_inv_def)
  moreover have "\<forall>item \<in> set (filter (\<lambda>item. pd_next_retry_at item \<le> now) (im_pending_release s)).
      linked ?t item"
    using assms by (simp add: mgr_inv_def core_inv_def linked_def)
  ultimately show ?thesis
    using mgr_inv_retry_fold [of ?t] by (simp add: mgr_inv_def retry_pending_releases_once_def clock)
qed

lemma mgr_inv_stop:
  assumes "mgr_inv s" and "stop_instance r s = (res, s')"
  shows "mgr_inv s'"
proof -
  obtain t where t: "stop_instance_locked r (get_runtime_lock r s) = (res, t)"
    and s': "s' = release_runtime_lock r t"
    using assms(2) by (auto simp: stop_instance_def split: prod.splits)
  have "core_inv t \<and> im_runtime_locks t = im_runtime_locks (get_runtime_lock r s)"
    by (rule core_inv_stop_locked [OF _ t]) (use assms(1) in \<open>simp add: mgr_inv_def\<close>)
  then show ?thesis
    using locks_restored [of t r s] assms(1) by (simp add: mgr_inv_def s')
qed

lemma mgr_inv_start:
  assumes "mgr_inv s" and "start_spec r ow lim (get_runtime_lock r s) res t"
    and "s' = release_runtime_lock r t"
    and "\<And>b b'. res = Inr b \<Longrightarrow> im_instances s' r = Some b' \<Longrightarrow>
           q_owners_by_instance (im_quota s) (inst_id b') = None"
    and "\<forall>item \<in> set (im_pending_release s). pd_runtime_id item \<noteq> r"
  shows "mgr_inv s'"
proof -
  have "core_inv t"
    by (rule core_inv_start [OF assms(2)]) (use assms in \<open>simp_all add: mgr_inv_def\<close>)
  then show ?thesis
    using locks_restored [of t r s] start_spec_locks [OF assms(2)] assms(1)
    by (simp add: mgr_inv_def assms(3))
qed

section \<open>Reconciliation\<close>

text \<open>The ledger's view agrees with the manager's: under a registered identifier it has the
  registered instance, and under another one an instance that holds no slot and awaits no release.\<close>

definition entry_agrees :: "('w, 'b) InstanceManager \<Rightarrow> ActiveLedgerEntry \<Rightarrow> bool" where
  "entry_agrees s e \<longleftrightarrow>
     (case im_instances s (le_runtime_id e) of
        Some b \<Rightarrow> inst_id b = pi_instance_id (le_instance e)
      | None \<Rightarrow> q_owners_by_instance (im_quota s) (pi_instance_id (le_instance e)) = None \<and>
          (\<forall>item \<in> set (im_pending_release s). pd_runtime_id item \<noteq> le_runtime_id e))"

definition ledger_agrees :: "('w, 'b) InstanceManager \<Rightarrow> ActiveLedgerEntry list \<Rightarrow> bool" where
  "ledger_agrees s es \<longleftrightarrow> distinct (map le_runtime_id es) \<and>
     distinct (map (\<lambda>e. pi_instance_id (le_instance e)) es) \<and> (\<forall>e \<in> set es. entry_agrees s e)"

text \<open>The effect of one round of the loop: nothing but the world and the restore errors, or the
  orphaned registration is dropped, or the entry is registered and counted.\<close>

lemma reconcile_entry_outcome:
  obtains (same) acc' w m where
    "reconcile_entry e (acc, s) = (acc', s\<lparr>im_world := w, im_restore_errors := m\<rparr>)"
  | (dropped) acc' b w where "im_instances s (le_runtime_id e) = Some b"
    and "reconcile_entry e (acc, s) = (acc', soft_delete_orphan e
      (release_instance (pi_instance_id (le_instance e))
        (s\<lparr>im_world := w, im_instances := (im_instances s)(le_runtime_id e := None)\<rparr>)))"
  | (confirmed) b w m where "im_instances s (le_runtime_id e) = None"
    and "reconcile_entry e (acc, s) = (acc\<lparr>ra_confirmed := ra_confirmed acc @ [e]\<rparr>,
      rehydrate_one (pi_instance_id (le_instance e)) (le_owner_ref e)
        (register (le_runtime_id e) (le_instance e) b (s\<lparr>im_world := w, im_restore_errors := m\<rparr>)))"
proof -
  have soft: "\<exists>w. soft_delete_orphan e (t\<lparr>im_world := w', im_restore_errors := m\<rparr>) =
      t\<lparr>im_world := w, im_restore_errors := m\<rparr>" for t :: "('a, 'b) InstanceManager" and w' m
    by (cases t) (simp add: soft_delete_orphan_def call_world_eq)
  show thesis
  proof (cases "im_instances s (le_runtime_id e)")
    case (Some b)
    obtain res w where insp: "call_world (pl_inspect (im_lifecycle s) (inspect_request (le_instance e))) s =
        (res, s\<lparr>im_world := w\<rparr>)"
      by (rule call_world_outcome)
    show thesis
    proof (cases "im_kind s = ''docker'' \<and> (\<exists>m. res = Inl (NotFound m))")
      case True
      then show thesis
        by (intro dropped [OF Some]) (auto simp: reconcile_entry_def Let_def Some insp)
    next
      case False
      obtain acc' w' where "reconcile_entry e (acc, s) = (acc', s\<lparr>im_world := w'\<rparr>)"
      proof (cases "im_kind s = ''docker''")
        case docker: True
        show thesis
        proof (cases res)
          case (Inl err)
          then have "reconcile_entry e (acc, s) = (acc\<lparr>ra_unavailable := Some err\<rparr>, s\<lparr>im_world := w\<rparr>)"
            using False docker by (cases err) (simp_all add: reconcile_entry_def Let_def Some insp)
          then show thesis by (rule that)
        next
          case (Inr st)
          then have "reconcile_entry e (acc, s) = (acc, s\<lparr>im_world := w\<rparr>)"
            using docker by (simp add: reconcile_entry_def Let_def Some insp)
          then show thesis by (rule that)
        qed
      next
        case False
        then have "reconcile_entry e (acc, s) = (acc, s\<lparr>im_world := im_world s\<rparr>)"
          by (simp add: reconcile_entry_def Let_def Some)
        then show thesis by (rule that)
      qed
      then show thesis by (intro same [where acc' = acc' and w = w' and m = "im_restore_errors s"]) simp
    qed
  next
    case None
    obtain res w where att: "call_world (im_attach s (le_instance e)) s = (res, s\<lparr>im_world := w\<rparr>)"
      by (rule call_world_outcome)
    show thesis
    proof (cases res)
      case (Inr b)
      then show thesis
        by (intro confirmed [OF None]) (simp add: reconcile_entry_def Let_def None att)
    next
      case (Inl err)
      show thesis
      proof (cases "\<exists>m. err = NotFound m")
        case True
        then obtain m where m: "err = NotFound m" ..
        obtain w' where "soft_delete_orphan e
            (s\<lparr>im_world := w, im_restore_errors := (im_restore_errors s)(le_runtime_id e := None)\<rparr>) =
            s\<lparr>im_world := w', im_restore_errors := (im_restore_errors s)(le_runtime_id e := None)\<rparr>"
          using soft by (rule exE)
        then show thesis
          by (intro same [where w = w' and m = "(im_restore_errors s)(le_runtime_id e := None)"])
            (simp add: reconcile_entry_def Let_def None att Inl m)
      next
        case False
        then have "reconcile_entry e (acc, s) = (acc\<lparr>ra_unavailable := Some err\<rparr>,
            s\<lparr>im_world := w, im_restore_errors := (im_restore_errors s)(le_runtime_id e \<mapsto> err)\<rparr>)"
          using Inl by (cases err) (simp_all add: reconcile_entry_def Let_def None att)
        then show thesis by (rule same)
      qed
    qed
  qed
qed

lemma entry_agrees_cong:
  assumes "im_instances t (le_runtime_id e) = im_instances s (le_runtime_id e)"
    and "q_owners_by_instance (im_quota t) (pi_instance_id (le_instance e)) =
      q_owners_by_instance (im_quota s) (pi_instance_id (le_instance e))"
    and "im_pending_release t = im_pending_release s"
  shows "entry_agrees t e = entry_agrees s e"
  unfolding entry_agrees_def assms ..

lemma reconcile_entry_keeps:
  assumes "core_inv s" and "ledger_agrees s (e # es)" and "reconcile_entry e (acc, s) = (acc', s')"
  shows "core_inv s' \<and> im_runtime_locks s' = im_runtime_locks s \<and> ledger_agrees s' es"
proof (cases rule: reconcile_entry_outcome [of e acc s])
  case (same acc'' w m)
  then have s': "s' = s\<lparr>im_world := w, im_restore_errors := m\<rparr>" using assms(3) by simp
  have "entry_agrees s' e' = entry_agrees s e'" for e' by (rule entry_agrees_cong) (simp_all add: s')
  then show ?thesis using assms(1,2) by (simp add: s' ledger_agrees_def)
next
  case (dropped acc'' b w)
  let ?t = "s\<lparr>im_world := w, im_instances := (im_instances s)(le_runtime_id e := None)\<rparr>"
  have s': "s' = soft_delete_orphan e (release_instance (pi_instance_id (le_instance e)) ?t)"
    using dropped(2) assms(3) by simp
  have id: "pi_instance_id (le_instance e) = inst_id b"
    using assms(2) dropped(1) by (simp add: ledger_agrees_def entry_agrees_def)
  have "im_quota (release_instance (inst_id b) ?t) = im_quota (release_instance (inst_id b) s)"
    by (rule release_instance_quota_cong) simp
  then have quota: "im_quota s' = im_quota (release_instance (inst_id b) s)" by (simp add: s' id)
  have "core_inv s'"
    by (rule core_inv_release [OF assms(1) dropped(1) _ quota]) (simp_all add: s')
  moreover have "entry_agrees s' e' = entry_agrees s e'" if "e' \<in> set es" for e'
  proof (rule entry_agrees_cong)
    have ne: "le_runtime_id e' \<noteq> le_runtime_id e" "pi_instance_id (le_instance e') \<noteq> inst_id b"
      using that assms(2) by (auto simp: ledger_agrees_def image_iff id [symmetric])
    then show "im_instances s' (le_runtime_id e') = im_instances s (le_runtime_id e')"
      by (simp add: s')
    show "q_owners_by_instance (im_quota s') (pi_instance_id (le_instance e')) =
        q_owners_by_instance (im_quota s) (pi_instance_id (le_instance e'))"
      unfolding quota using ne by (simp add: release_instance_def Let_def split: option.split)
  qed (simp add: s')
  ultimately show ?thesis using assms(2) by (simp add: s' ledger_agrees_def)
next
  case (confirmed b w m)
  let ?i = "pi_instance_id (le_instance e)" and ?r = "le_runtime_id e"
  let ?t = "register ?r (le_instance e) b (s\<lparr>im_world := w, im_restore_errors := m\<rparr>)"
  have s': "s' = rehydrate_one ?i (le_owner_ref e) ?t" using confirmed(2) assms(3) by simp
  have fresh: "q_owners_by_instance (im_quota s) ?i = None"
    and pend: "\<forall>item \<in> set (im_pending_release s). pd_runtime_id item \<noteq> ?r"
    using assms(2) confirmed(1) by (simp_all add: ledger_agrees_def entry_agrees_def)
  have inst: "im_instances s' = (im_instances s)(?r \<mapsto> \<lparr>bi_instance = le_instance e, bi_backend = b\<rparr>)"
    by (simp add: s' register_def)
  have own: "q_owners_by_instance (im_quota s') = (q_owners_by_instance (im_quota s))(?i \<mapsto> le_owner_ref e)"
    using fresh by (simp add: s' rehydrate_one_def Let_def)
  have "quota_inv {#} (im_quota s')"
    unfolding s' by (rule quota_inv_rehydrate) (use assms(1) in \<open>simp add: core_inv_def\<close>)
  moreover have "reg_inv (im_instances s') (q_owners_by_instance (im_quota s'))"
    unfolding inst own
    using reg_inv_add [of _ _ ?r "\<lparr>bi_instance = le_instance e, bi_backend = b\<rparr>"] confirmed(1) fresh assms(1)
    by (simp add: core_inv_def)
  moreover have same: "im_pending_release s' = im_pending_release s" by (simp add: s')
  moreover have "\<forall>item \<in> set (im_pending_release s'). linked s' item"
    using assms(1) pend by (simp add: core_inv_def linked_def inst same)
  moreover have "entry_agrees s' e' = entry_agrees s e'" if "e' \<in> set es" for e'
  proof (rule entry_agrees_cong)
    have "le_runtime_id e' \<noteq> ?r" "pi_instance_id (le_instance e') \<noteq> ?i"
      using that assms(2) by (auto simp: ledger_agrees_def image_iff)
    then show "im_instances s' (le_runtime_id e') = im_instances s (le_runtime_id e')"
      and "q_owners_by_instance (im_quota s') (pi_instance_id (le_instance e')) =
        q_owners_by_instance (im_quota s) (pi_instance_id (le_instance e'))"
      by (simp_all add: inst own)
  qed (simp add: s')
  ultimately show ?thesis using assms(2) by (simp add: core_inv_def ledger_agrees_def s')
qed

lemma reconcile_fold_keeps:
  assumes "core_inv s" and "ledger_agrees s es" and "fold reconcile_entry es (acc, s) = (acc', s')"
  shows "core_inv s' \<and> im_runtime_locks s' = im_runtime_locks s"
  using assms
proof (induction es arbitrary: acc s)
  case Nil
  then show ?case by simp
next
  case (Cons e es)
  obtain acc1 s1 where e: "reconcile_entry e (acc, s) = (acc1, s1)" by (rule prod.exhaust)
  note k = reconcile_entry_keeps [OF Cons.prems(1,2) e]
  then show ?case using Cons.IH [of s1 acc1] Cons.prems(3) by (simp add: e)
qed

lemma mgr_inv_reconcile:
  assumes "mgr_inv s" and "reconcile s = (res, s')"
    and "\<And>active w. call_world (lg_list_active (im_ledger s) (im_kind s)) s = (Inr active, w) \<Longrightarrow>
      ledger_agrees s active"
  shows "mgr_inv s'"
proof -
  obtain lst w where lst: "call_world (lg_list_active (im_ledger s) (im_kind s)) s = (lst, s\<lparr>im_world := w\<rparr>)"
    by (rule call_world_outcome)
  show ?thesis
  proof (cases lst)
    case (Inl e)
    then show ?thesis using assms(1,2) by (auto simp: reconcile_def lst mgr_inv_def)
  next
    case (Inr active)
    let ?acc = "\<lparr>ra_confirmed = [], ra_orphaned = [], ra_unavailable = None\<rparr>"
    obtain acc t where loop: "fold reconcile_entry active (?acc, s\<lparr>im_world := w\<rparr>) = (acc, t)"
      by (rule prod.exhaust)
    have "ledger_agrees s active" by (rule assms(3)) (simp add: lst Inr)
    moreover have "entry_agrees (s\<lparr>im_world := w\<rparr>) e = entry_agrees s e" for e
      by (rule entry_agrees_cong) simp_all
    ultimately have "ledger_agrees (s\<lparr>im_world := w\<rparr>) active" by (simp add: ledger_agrees_def)
    from reconcile_fold_keeps [OF _ this loop] have "mgr_inv t"
      using assms(1) by (simp add: mgr_inv_def)
    moreover have "s' = t"
      using assms(2) by (auto simp: reconcile_def lst Inr loop split: option.splits)
    ultimately show ?thesis by simp
  qed
qed

lemma destroy_by_ledger_world:
  obtains r w where "destroy_by_ledger_locked i s = (r, s\<lparr>im_world := w\<rparr>)"
proof -
  have "\<exists>r w. destroy_by_ledger_locked i s = (r, s\<lparr>im_world := w\<rparr>)"
    unfolding destroy_by_ledger_locked_def call_world_eq
    by (auto simp: and_then_def split: sum.split option.split)
  then show thesis using that by blast
qed

lemma mgr_inv_destroy:
  assumes "mgr_inv s" and "destroy_by_runtime_id r s = (res, s')"
  shows "mgr_inv s'"
proof -
  obtain res1 s1 where stop: "stop_instance r s = (res1, s1)" by (rule prod.exhaust)
  have inv1: "mgr_inv s1" by (rule mgr_inv_stop [OF assms(1) stop])
  obtain res2 w where led: "destroy_by_ledger_locked r (get_runtime_lock r s1) =
      (res2, get_runtime_lock r s1\<lparr>im_world := w\<rparr>)"
    by (rule destroy_by_ledger_world)
  have "mgr_inv (release_runtime_lock r (get_runtime_lock r s1\<lparr>im_world := w\<rparr>))"
    using inv1 locks_restored [of "get_runtime_lock r s1\<lparr>im_world := w\<rparr>" r s1]
    by (simp add: mgr_inv_def)
  then show ?thesis
    using assms(2) inv1
    by (auto simp: destroy_by_runtime_id_def stop led on_err_def
        split: sum.splits ProviderControlError.splits)
qed

section \<open>Runs of the manager\<close>

text \<open>Every public operation as a step. The operations that only consult the provider or the ledger change the
  world alone.\<close>

inductive mgr_step :: "('w, 'b) InstanceManager \<Rightarrow> ('w, 'b) InstanceManager \<Rightarrow> bool" where
  ms_start: "start_instance r bid ow opts lim s = (res, s') \<Longrightarrow> mgr_step s s'"
| ms_load: "load_instance_from_snapshot r bid ow snap opts lim s = (res, s') \<Longrightarrow> mgr_step s s'"
| ms_stop: "stop_instance r s = (res, s') \<Longrightarrow> mgr_step s s'"
| ms_retry: "mgr_step s (retry_pending_releases_once s)"
| ms_reconcile: "reconcile s = (out, s') \<Longrightarrow> mgr_step s s'"
| ms_destroy: "destroy_by_runtime_id r s = (res, s') \<Longrightarrow> mgr_step s s'"
| ms_consult: "mgr_step s (s\<lparr>im_world := w\<rparr>)"

text \<open>The steps of a regular run: a start or load names an identifier with no release pending, the provider
  gives the new instance an identity that no tracked instance has, and a reconciliation reads a ledger that
  agrees with the manager.\<close>

inductive regular_step :: "('w, 'b) InstanceManager \<Rightarrow> ('w, 'b) InstanceManager \<Rightarrow> bool" where
  rs_start: "start_instance r bid ow opts lim s = (res, s') \<Longrightarrow>
    (\<And>b b'. res = Inr b \<Longrightarrow> im_instances s' r = Some b' \<Longrightarrow>
       q_owners_by_instance (im_quota s) (inst_id b') = None) \<Longrightarrow>
    \<forall>item \<in> set (im_pending_release s). pd_runtime_id item \<noteq> r \<Longrightarrow> regular_step s s'"
| rs_load: "load_instance_from_snapshot r bid ow snap opts lim s = (res, s') \<Longrightarrow>
    (\<And>b b'. res = Inr b \<Longrightarrow> im_instances s' r = Some b' \<Longrightarrow>
       q_owners_by_instance (im_quota s) (inst_id b') = None) \<Longrightarrow>
    \<forall>item \<in> set (im_pending_release s). pd_runtime_id item \<noteq> r \<Longrightarrow> regular_step s s'"
| rs_stop: "stop_instance r s = (res, s') \<Longrightarrow> regular_step s s'"
| rs_retry: "regular_step s (retry_pending_releases_once s)"
| rs_reconcile: "reconcile s = (out, s') \<Longrightarrow>
    (\<And>active t. call_world (lg_list_active (im_ledger s) (im_kind s)) s = (Inr active, t) \<Longrightarrow>
       ledger_agrees s active) \<Longrightarrow> regular_step s s'"
| rs_destroy: "destroy_by_runtime_id r s = (res, s') \<Longrightarrow> regular_step s s'"
| rs_consult: "regular_step s (s\<lparr>im_world := w\<rparr>)"

definition mgr_init :: "('w, 'b) InstanceManager \<Rightarrow> bool" where
  "mgr_init s \<longleftrightarrow> (\<exists>lc att lg am k c w. s = new_InstanceManager lc att lg am k c w)"

lemma regular_step_step: "regular_step s s' \<Longrightarrow> mgr_step s s'"
  by (induction rule: regular_step.induct) (auto intro: mgr_step.intros)

lemma regular_step_inv:
  assumes "mgr_inv s" and "regular_step s s'"
  shows "mgr_inv s'"
  using assms(2)
proof cases
  case (rs_start r bid ow opts lim res)
  from start_instance_split [OF rs_start(1)] show ?thesis
    using mgr_inv_start [OF assms(1)] rs_start(2,3) by metis
next
  case (rs_load r bid ow snap opts lim res)
  from load_instance_split [OF rs_load(1)] show ?thesis
    using mgr_inv_start [OF assms(1)] rs_load(2,3) by metis
qed (use assms(1) in \<open>auto intro: mgr_inv_stop mgr_inv_retry mgr_inv_reconcile mgr_inv_destroy\<close>)

interpretation mgr: invariant_system mgr_init regular_step mgr_inv
proof
  fix s :: "('w, 'b) InstanceManager"
  assume "mgr_init s"
  then show "mgr_inv s"
    by (auto simp: mgr_init_def mgr_inv_def core_inv_def new_InstanceManager_def reg_inv_def
        default_QuotaState_def quota_inv_default [unfolded default_QuotaState_def])
next
  fix s t :: "('w, 'b) InstanceManager"
  assume "mgr_inv s" and "regular_step s t"
  then show "mgr_inv t" by (rule regular_step_inv)
qed

text \<open>The counters count the registered instances.\<close>

lemma mgr_inv_counts:
  assumes "mgr_inv s"
  shows "active_count s ow = card {r. \<exists>b. im_instances s r = Some b \<and>
      q_owners_by_instance (im_quota s) (inst_id b) = Some ow}"
    and "global_active_count s = card (dom (im_instances s))"
proof -
  let ?inst = "im_instances s" and ?own = "q_owners_by_instance (im_quota s)"
  let ?f = "\<lambda>r. inst_id (the (?inst r))"
  have reg: "reg_inv ?inst ?own" and quota: "quota_inv {#} (im_quota s)"
    using assms by (simp_all add: mgr_inv_def core_inv_def)
  have dom: "dom ?own = ?f ` dom ?inst"
    using reg by (auto simp: reg_inv_def ran_def dom_def image_iff) (metis option.sel)
  have inj: "inj_on ?f (dom ?inst)" using reg by (simp add: reg_inv_def)
  let ?R = "{r. \<exists>b. ?inst r = Some b \<and> ?own (inst_id b) = Some ow}"
  have "tracked (im_quota s) ow = ?f ` ?R"
  proof
    show "tracked (im_quota s) ow \<subseteq> ?f ` ?R"
    proof
      fix i
      assume i: "i \<in> tracked (im_quota s) ow"
      then have "i \<in> dom ?own" by (auto simp: tracked_def)
      then obtain r b where "?inst r = Some b" "i = inst_id b" unfolding dom by auto
      with i show "i \<in> ?f ` ?R" by (intro image_eqI [of _ _ r]) (auto simp: tracked_def)
    qed
    show "?f ` ?R \<subseteq> tracked (im_quota s) ow" by (auto simp: tracked_def)
  qed
  moreover have "inj_on ?f ?R" by (rule inj_on_subset [OF inj]) auto
  ultimately have "card (tracked (im_quota s) ow) = card ?R" by (simp add: card_image)
  then show "active_count s ow = card ?R"
    using quota by (simp add: active_count_def quota_inv_def)
  have "card (dom ?own) = card (dom ?inst)" unfolding dom by (rule card_image [OF inj])
  then show "global_active_count s = card (dom ?inst)"
    using quota by (simp add: global_active_count_def quota_inv_def)
qed

end
