(* ===== verification/Manager_Runs.thy ===== *)
theory Manager_Runs
  imports Manager_Invariant
begin

text \<open>
  What holds in every run of the manager, also in one that reuses an identifier whose release is pending, meets
  a provider that hands out an identity twice, or reads a ledger that disagrees with the registry: the
  counters never fall below the number of instances that hold a slot.
\<close>

section \<open>Covering counters\<close>

definition quota_cover :: "string multiset \<Rightarrow> QuotaState \<Rightarrow> bool" where
  "quota_cover F q \<longleftrightarrow>
     finite (dom (q_owners_by_instance q)) \<and>
     (\<forall>ow. card (tracked q ow) + count F ow \<le> cnt (q_counts q) ow) \<and>
     card (dom (q_owners_by_instance q)) + size F \<le> q_total q"

lemma quota_cover_reserve:
  assumes "quota_cover F (im_quota s)" and "reserve ow lim s = (Inr (), s')"
  shows "quota_cover (add_mset ow F) (im_quota s')"
proof -
  have "im_quota s' = (im_quota s)\<lparr>q_counts := (q_counts (im_quota s))(ow \<mapsto> cnt (q_counts (im_quota s)) ow + 1),
      q_total := q_total (im_quota s) + 1\<rparr>"
    using assms(2) by (auto simp: reserve_def Let_def split: if_splits)
  with assms(1) show ?thesis by (auto simp: quota_cover_def tracked_def)
qed

lemma quota_cover_rollback:
  assumes "quota_cover (add_mset ow F) (im_quota s)"
  shows "quota_cover F (im_quota (rollback_reservation ow s))"
proof -
  let ?q = "im_quota s" and ?q' = "im_quota (rollback_reservation ow s)"
  have own: "q_owners_by_instance ?q' = q_owners_by_instance ?q" "q_total ?q' = q_total ?q - 1"
    and cnts: "q_counts ?q' = decrement (q_counts ?q) ow"
    by (simp_all add: rollback_reservation_def Let_def)
  have tr: "tracked ?q' = tracked ?q" by (simp add: tracked_def own fun_eq_iff)
  have "card (tracked ?q o') + count F o' + (if o' = ow then 1 else 0) \<le> cnt (q_counts ?q) o'" for o'
    using assms by (auto simp: quota_cover_def dest: spec [of _ o'])
  then have "card (tracked ?q o') + count F o' \<le> cnt (q_counts ?q') o'" for o'
    unfolding cnts cnt_decrement by (cases "o' = ow") (auto dest: meta_spec [of _ o'])
  then show ?thesis using assms unfolding quota_cover_def tr own by auto
qed

text \<open>An identity that is tracked already changes its owner and keeps the slot of the former one taken.\<close>

lemma quota_cover_track:
  assumes "quota_cover (add_mset ow F) (im_quota s)"
  shows "quota_cover F (im_quota (track_instance i ow s))"
proof -
  let ?q = "im_quota s" and ?q' = "im_quota (track_instance i ow s)"
  have own: "q_owners_by_instance ?q' = (q_owners_by_instance ?q)(i \<mapsto> ow)"
    and same: "q_counts ?q' = q_counts ?q" "q_total ?q' = q_total ?q"
    by (simp_all add: track_instance_def Let_def)
  have fin: "finite (dom (q_owners_by_instance ?q))" using assms by (simp add: quota_cover_def)
  have "card (tracked ?q' o') \<le> card (tracked ?q o') + (if o' = ow then 1 else 0)" for o'
  proof (cases "o' = ow")
    case True
    have "tracked ?q' o' = insert i (tracked ?q o')" using True by (auto simp: tracked_def own)
    then show ?thesis using card_insert_le_m1 [of "Suc (card (tracked ?q o'))" "tracked ?q o'" i] True by simp
  next
    case False
    have "tracked ?q' o' \<subseteq> tracked ?q o'" using False by (auto simp: tracked_def own split: if_splits)
    then have "card (tracked ?q' o') \<le> card (tracked ?q o')"
      by (rule card_mono [rotated]) (simp add: tracked_def fin)
    then show ?thesis by simp
  qed
  moreover have "card (tracked ?q o') + (if o' = ow then 1 else 0) + count F o' \<le> cnt (q_counts ?q) o'" for o'
    using assms by (auto simp: quota_cover_def dest: spec [of _ o'])
  ultimately have "card (tracked ?q' o') + count F o' \<le> cnt (q_counts ?q') o'" for o'
    unfolding same by (meson add_le_mono1 order_trans)
  moreover have "card (dom (q_owners_by_instance ?q')) \<le> Suc (card (dom (q_owners_by_instance ?q)))"
    by (simp add: own card_insert_if fin)
  ultimately show ?thesis using assms unfolding quota_cover_def same by (auto simp: own)
qed

lemma quota_cover_release:
  assumes "quota_cover F (im_quota s)"
  shows "quota_cover F (im_quota (release_instance i s))"
proof (cases "q_owners_by_instance (im_quota s) i")
  case None
  with assms show ?thesis by (simp add: release_instance_def Let_def)
next
  case (Some ow)
  let ?q = "im_quota s" and ?q' = "im_quota (release_instance i s)"
  have own: "q_owners_by_instance ?q' = (q_owners_by_instance ?q)(i := None)"
    and tot: "q_total ?q' = q_total ?q - 1" and cnts: "q_counts ?q' = decrement (q_counts ?q) ow"
    using Some by (simp_all add: release_instance_def Let_def)
  have fin: "finite (dom (q_owners_by_instance ?q))" using assms by (simp add: quota_cover_def)
  have card: "card (tracked ?q' o') = card (tracked ?q o') - (if ow = o' then 1 else 0)" for o'
    unfolding tracked_def own by (rule card_fibre_delete [OF fin Some])
  have pos: "0 < card (tracked ?q ow)"
    using Some fin by (auto simp: tracked_def card_gt_0_iff)
  have "card (tracked ?q o') + count F o' \<le> cnt (q_counts ?q) o'" for o'
    using assms by (auto simp: quota_cover_def)
  then have "card (tracked ?q' o') + count F o' \<le> cnt (q_counts ?q') o'" for o'
    using pos diff_le_mono [of "card (tracked ?q ow) + count F ow" _ 1] unfolding card cnts cnt_decrement by auto
  moreover have "card (dom (q_owners_by_instance ?q')) = card (dom (q_owners_by_instance ?q)) - 1"
    and "0 < card (dom (q_owners_by_instance ?q))"
    using Some fin by (auto simp: own card_gt_0_iff domIff)
  ultimately show ?thesis using assms unfolding quota_cover_def tot by (auto simp: own)
qed

lemma quota_cover_rehydrate:
  assumes "quota_cover F (im_quota s)"
  shows "quota_cover F (im_quota (rehydrate_one i ow s))"
proof (cases "q_owners_by_instance (im_quota s) i")
  case (Some o')
  with assms show ?thesis by (simp add: rehydrate_one_def Let_def)
next
  case None
  let ?q = "im_quota s" and ?q' = "im_quota (rehydrate_one i ow s)"
  have own: "q_owners_by_instance ?q' = (q_owners_by_instance ?q)(i \<mapsto> ow)"
    and tot: "q_total ?q' = q_total ?q + 1"
    and cnts: "q_counts ?q' = (q_counts ?q)(ow \<mapsto> cnt (q_counts ?q) ow + 1)"
    using None by (simp_all add: rehydrate_one_def Let_def)
  have fin: "finite (dom (q_owners_by_instance ?q))" using assms by (simp add: quota_cover_def)
  have card: "card (tracked ?q' o') = card (tracked ?q o') + (if ow = o' then 1 else 0)" for o'
    unfolding tracked_def own by (rule card_fibre_insert [OF fin None])
  have dom: "card (dom (q_owners_by_instance ?q')) = card (dom (q_owners_by_instance ?q)) + 1"
    using None fin by (simp add: own domIff)
  show ?thesis
    using assms unfolding quota_cover_def card dom tot cnts by (auto simp: own)
qed

section \<open>Each operation\<close>

definition cover_inv :: "('w, 'b) InstanceManager \<Rightarrow> bool" where
  "cover_inv s \<longleftrightarrow> quota_cover {#} (im_quota s) \<and> im_runtime_locks s = Map.empty"

lemma cover_start_spec:
  assumes "start_spec r ow lim s res t" and "quota_cover {#} (im_quota s)"
  shows "quota_cover {#} (im_quota t)"
  using assms(1)
proof cases
  case (undone s1 w e)
  have "quota_cover {#ow#} (im_quota (s1\<lparr>im_world := w\<rparr>))"
    using quota_cover_reserve [OF assms(2) undone(3)] by simp
  then show ?thesis unfolding undone by (rule quota_cover_rollback)
next
  case (started s1 inst b w)
  have "quota_cover {#ow#} (im_quota (s1\<lparr>im_world := w\<rparr>))"
    using quota_cover_reserve [OF assms(2) started(3)] by simp
  then have "quota_cover {#} (im_quota (track_instance (pi_instance_id inst) ow (s1\<lparr>im_world := w\<rparr>)))"
    by (rule quota_cover_track)
  then show ?thesis by (simp add: started)
qed (use assms(2) in simp_all)

lemma cover_start:
  assumes "cover_inv s" and "start_spec r ow lim (get_runtime_lock r s) res t"
  shows "cover_inv (release_runtime_lock r t)"
  using cover_start_spec [OF assms(2)] locks_restored [of t r s] start_spec_locks [OF assms(2)] assms(1)
  by (simp add: cover_inv_def)

lemma cover_finish_release: "quota_cover F (im_quota s) \<Longrightarrow> quota_cover F (im_quota (finish_release r b s))"
  unfolding finish_release_frame by (rule quota_cover_release)

lemma cover_stop:
  assumes "cover_inv s" and "stop_instance r s = (res, s')"
  shows "cover_inv s'"
proof -
  obtain t where t: "stop_instance_locked r (get_runtime_lock r s) = (res, t)" and s': "s' = release_runtime_lock r t"
    using assms(2) by (auto simp: stop_instance_def split: prod.splits)
  have "quota_cover {#} (im_quota t) \<and> im_runtime_locks t = im_runtime_locks (get_runtime_lock r s)"
  proof (cases "im_instances (get_runtime_lock r s) r")
    case None
    then show ?thesis using t assms(1) by (auto simp: stop_instance_locked_def cover_inv_def)
  next
    case (Some b)
    then show ?thesis
      by (cases rule: stop_instance_locked_outcome)
        (use t assms(1) in \<open>auto simp: cover_inv_def finish_release_frame(4) intro: cover_finish_release\<close>)
  qed
  then show ?thesis using locks_restored [of t r s] assms(1) by (simp add: cover_inv_def s')
qed

lemma cover_retry_item:
  assumes "cover_inv s"
  shows "cover_inv (retry_item item s)"
proof (cases "im_instances s (pd_runtime_id item)")
  case None
  then show ?thesis
    using locks_restored [of "get_runtime_lock (pd_runtime_id item) s" "pd_runtime_id item" s] assms
    by (simp add: retry_item_def Let_def cover_inv_def)
next
  case (Some b)
  then have "im_instances s (pd_runtime_id item) \<noteq> None" by simp
  then show ?thesis
  proof (cases rule: retry_item_outcome)
    case (deleted w)
    let ?t = "finish_release (pd_runtime_id item) (pd_record item) (get_runtime_lock (pd_runtime_id item) s\<lparr>im_world := w\<rparr>)"
    have "quota_cover {#} (im_quota ?t)" by (rule cover_finish_release) (use assms in \<open>simp add: cover_inv_def\<close>)
    then show ?thesis
      using locks_restored [of ?t "pd_runtime_id item" s] assms by (simp add: cover_inv_def deleted finish_release_frame(4))
  next
    case (kept w a t)
    then show ?thesis
      using locks_restored [of "get_runtime_lock (pd_runtime_id item) s\<lparr>im_world := w,
          im_pending_release := im_pending_release s @ [item\<lparr>pd_attempt := a, pd_next_retry_at := t\<rparr>]\<rparr>"
          "pd_runtime_id item" s] assms
      by (simp add: cover_inv_def)
  qed
qed

lemma cover_retry_fold: "cover_inv s \<Longrightarrow> cover_inv (fold retry_item due s)"
  by (induction due arbitrary: s) (simp_all add: cover_retry_item)

lemma cover_retry: "cover_inv s \<Longrightarrow> cover_inv (retry_pending_releases_once s)"
  unfolding retry_pending_releases_once_def call_world_eq Let_def split_beta
  by (rule cover_retry_fold) (simp add: cover_inv_def)

lemma cover_reconcile_entry:
  assumes "cover_inv s"
  shows "cover_inv (snd (reconcile_entry e (acc, s)))"
proof (cases rule: reconcile_entry_outcome [of e acc s])
  case (dropped acc' b w)
  have "quota_cover {#} (im_quota (release_instance (pi_instance_id (le_instance e))
      (s\<lparr>im_world := w, im_instances := (im_instances s)(le_runtime_id e := None)\<rparr>)))"
    by (rule quota_cover_release) (use assms in \<open>simp add: cover_inv_def\<close>)
  then show ?thesis using assms by (simp add: dropped(2) cover_inv_def)
next
  case (confirmed b w m)
  have "quota_cover {#} (im_quota (rehydrate_one (pi_instance_id (le_instance e)) (le_owner_ref e)
      (register (le_runtime_id e) (le_instance e) b (s\<lparr>im_world := w, im_restore_errors := m\<rparr>))))"
    by (rule quota_cover_rehydrate) (use assms in \<open>simp add: cover_inv_def\<close>)
  then show ?thesis using assms by (simp add: confirmed(2) cover_inv_def)
qed (use assms in \<open>simp add: cover_inv_def\<close>)

lemma cover_reconcile_fold: "cover_inv s \<Longrightarrow> cover_inv (snd (fold reconcile_entry es (acc, s)))"
proof (induction es arbitrary: acc s)
  case (Cons e es)
  obtain acc1 s1 where e: "reconcile_entry e (acc, s) = (acc1, s1)" by (rule prod.exhaust)
  have "cover_inv s1" using cover_reconcile_entry [OF Cons.prems, of e acc] by (simp add: e)
  then show ?case using Cons.IH by (simp add: e)
qed simp

lemma cover_reconcile:
  assumes "cover_inv s" and "reconcile s = (res, s')"
  shows "cover_inv s'"
proof -
  obtain lst w where lst: "call_world (lg_list_active (im_ledger s) (im_kind s)) s = (lst, s\<lparr>im_world := w\<rparr>)"
    by (rule call_world_outcome)
  have world: "cover_inv (s\<lparr>im_world := w\<rparr>)" using assms(1) by (simp add: cover_inv_def)
  show ?thesis
  proof (cases lst)
    case (Inl e)
    then show ?thesis using assms(2) world by (auto simp: reconcile_def lst)
  next
    case (Inr active)
    then show ?thesis
      using assms(2) cover_reconcile_fold [OF world, of active]
      by (auto simp: reconcile_def lst Let_def split: prod.splits option.splits) (metis snd_conv)+
  qed
qed

lemma cover_destroy:
  assumes "cover_inv s" and "destroy_by_runtime_id r s = (res, s')"
  shows "cover_inv s'"
proof -
  obtain res1 s1 where stop: "stop_instance r s = (res1, s1)" by (rule prod.exhaust)
  have inv1: "cover_inv s1" by (rule cover_stop [OF assms(1) stop])
  obtain res2 w where led: "destroy_by_ledger_locked r (get_runtime_lock r s1) =
      (res2, get_runtime_lock r s1\<lparr>im_world := w\<rparr>)"
    by (rule destroy_by_ledger_world)
  have "cover_inv (release_runtime_lock r (get_runtime_lock r s1\<lparr>im_world := w\<rparr>))"
    using inv1 locks_restored [of "get_runtime_lock r s1\<lparr>im_world := w\<rparr>" r s1]
    by (simp add: cover_inv_def)
  then show ?thesis
    using assms(2) inv1
    by (auto simp: destroy_by_runtime_id_def stop led on_err_def
        split: sum.splits ProviderControlError.splits)
qed

lemma cover_step:
  assumes "mgr_step s s'" and "cover_inv s"
  shows "cover_inv s'"
  using assms(1)
proof cases
  case (ms_start r bid ow opts lim res)
  then show ?thesis using cover_start [OF assms(2)] by (metis start_instance_split)
next
  case (ms_load r bid ow snap opts lim res)
  then show ?thesis using cover_start [OF assms(2)] by (metis load_instance_split)
next
  case (ms_consult w)
  then show ?thesis using assms(2) by (simp add: cover_inv_def)
qed (use assms(2) in \<open>auto intro: cover_stop cover_retry cover_reconcile cover_destroy\<close>)

interpretation every_run: invariant_system mgr_init mgr_step cover_inv
  by unfold_locales
    (auto simp: mgr_init_def cover_inv_def quota_cover_def new_InstanceManager_def default_QuotaState_def tracked_def
      dest: cover_step)

end
