(* ===== verification/Manager_Demo.thy ===== *)
theory Manager_Demo
  imports Instance_Manager
begin

text \<open>
  A small provider to run the manager with: it hands out identities from a list, refuses a given
  number of creations and deletions, remembers what it deleted, and keeps the ledger as a list of active
  entries. The examples
  below instantiate the collaborators of the manager with it.
\<close>

record demo_world =
  dw_ids :: "string list"
  dw_create_failures :: nat
  dw_delete_failures :: nat
  dw_clock :: nat
  dw_active :: "ActiveLedgerEntry list"
  dw_deleted :: "string list"

definition demo_instance :: "BackendId \<Rightarrow> string \<Rightarrow> ProviderInstance" where
  "demo_instance bid i =
     \<lparr> pi_backend_id = bid, pi_provider = ''local'', pi_instance_id = i, pi_state = Active,
       pi_endpoint = Some EpLocal, pi_snapshot = None,
       pi_capabilities = \<lparr> pc_lifecycle = [CapSnapshot],
         pc_operation_plane = \<lparr> oc_exec = True, oc_file_read = True, oc_file_write = True,
           oc_search = False, oc_export_file = False, oc_lsp = False, oc_network = False \<rparr> \<rparr>,
       pi_resources = \<lparr> ra_vcpu_count = None, ra_memory_mb = None, ra_disk_mb = None \<rparr>,
       pi_metadata = JNull, pi_created_at_ms = 0, pi_updated_at_ms = 0 \<rparr>"

definition demo_start ::
  "BackendId \<Rightarrow> demo_world \<Rightarrow> (ProviderControlError, ProviderInstance) result \<times> demo_world" where
  "demo_start bid w =
     (if 0 < dw_create_failures w
      then (Inl (Transport ''connection reset''), w\<lparr>dw_create_failures := dw_create_failures w - 1\<rparr>)
      else case dw_ids w of
        [] \<Rightarrow> (Inl (Conflict ''no capacity''), w)
      | i # is \<Rightarrow> (Inr (demo_instance bid i), w\<lparr>dw_ids := is\<rparr>))"

definition demo_delete ::
  "ProviderDeleteRequest \<Rightarrow> demo_world
     \<Rightarrow> (ProviderControlError, ProviderDeleteOutcome) result \<times> demo_world" where
  "demo_delete req w =
     (if 0 < dw_delete_failures w
      then (Inl (Timeout ''delete'' 1000), w\<lparr>dw_delete_failures := dw_delete_failures w - 1\<rparr>)
      else (Inr \<lparr> do_backend_id = dr_backend_id req, do_provider = ''local'',
              do_instance_id = dr_instance_id req, do_deleted = True, do_retained_snapshots = [],
              do_deleted_snapshots = [], do_correlation = JNull \<rparr>,
            w\<lparr>dw_deleted := dw_deleted w @ (case dr_instance_id req of None \<Rightarrow> [] | Some i \<Rightarrow> [i])\<rparr>))"

definition demo_lifecycle :: "demo_world ProviderLifecycle" where
  "demo_lifecycle =
     \<lparr> pl_create = (\<lambda>req. demo_start (cr_backend_id req)),
       pl_load = (\<lambda>req. demo_start (lr_backend_id req)),
       pl_pause = (\<lambda>req w. (Inl (UnsupportedCapability ''local'' ''pause''), w)),
       pl_checkpoint = (\<lambda>req w. (Inl (UnsupportedCapability ''local'' ''checkpoint''), w)),
       pl_delete = demo_delete,
       pl_inspect = (\<lambda>req w. (Inl (Transport ''unreachable''), w)),
       pl_list_instances = (\<lambda>w. (Inr [], w)) \<rparr>"

definition demo_ledger :: "demo_world ProviderInstanceLedger" where
  "demo_ledger =
     \<lparr> lg_record_created = (\<lambda>r ow inst w. (Inr (), w\<lparr>dw_active := dw_active w @
         [\<lparr> le_runtime_id = r, le_owner_ref = ow, le_instance = inst \<rparr>]\<rparr>)),
       lg_record_deleted = (\<lambda>r w. (Inr (), w\<lparr>dw_active := filter (\<lambda>e. le_runtime_id e \<noteq> r) (dw_active w)\<rparr>)),
       lg_list_active = (\<lambda>k w. (Inr (dw_active w), w)) \<rparr>"

definition demo_ambient :: "demo_world Ambient" where
  "demo_ambient =
     \<lparr> am_new_uuid = (\<lambda>w. (''request-1'', w)), am_now = (\<lambda>w. (dw_clock w, w)),
       am_sleep = (\<lambda>d w. w\<lparr>dw_clock := dw_clock w + d\<rparr>) \<rparr>"

definition demo_manager :: "string list \<Rightarrow> nat \<Rightarrow> nat \<Rightarrow> (demo_world, string) InstanceManager" where
  "demo_manager is create_failures delete_failures =
     new_InstanceManager demo_lifecycle (\<lambda>inst w. (Inr (pi_instance_id inst), w)) demo_ledger
       demo_ambient ''local'' (new_InstanceManagerConfig 2 3)
       \<lparr> dw_ids = is, dw_create_failures = create_failures, dw_delete_failures = delete_failures,
         dw_clock = 0, dw_active = [], dw_deleted = [] \<rparr>"

lemmas demo_defs =
  demo_manager_def demo_lifecycle_def demo_ledger_def demo_ambient_def demo_start_def
  demo_delete_def demo_instance_def new_InstanceManager_def new_InstanceManagerConfig_def
  default_RetryPolicy_def default_QuotaState_def

lemmas manager_defs =
  start_instance_def start_instance_locked_def reserve_def create_with_retry_def bind_instance_def
  register_def track_instance_def rollback_reservation_def rollback_create_def call_world_def
  get_runtime_lock_def release_runtime_lock_def load_instance_from_snapshot_def
  load_instance_from_snapshot_locked_def stop_instance_def stop_instance_locked_def
  delete_instance_def finish_release_def release_instance_def drop_value_def decrement_def

end
