(* ===== verification/Manager_Properties.thy ===== *)
theory Manager_Properties
  imports Manager_Runs Manager_Demo
begin

text \<open>
  What the instance manager promises: exact counters over any run, starts without partial effects,
  bounded and backed-off creation attempts, and releases that are retried until they succeed.
\<close>

section \<open>Counters\<close>

lemma demo_run_reach:
  "reach mgr_init regular_step
     (snd (start_instance ''r1'' ''be'' ''tenant-a'' JNull None (demo_manager [''i1''] 2 0)))"
proof (rule reach_step)
  show "reach mgr_init regular_step (demo_manager [''i1''] 2 0)"
    unfolding demo_manager_def mgr_init_def by (rule reach_init) (intro exI, rule refl)
  show "regular_step (demo_manager [''i1''] 2 0)
      (snd (start_instance ''r1'' ''be'' ''tenant-a'' JNull None (demo_manager [''i1''] 2 0)))"
    by (rule rs_start [OF surjective_pairing]) (simp_all add: demo_defs)
qed

lemma regular_run: "reach mgr_init regular_step s \<Longrightarrow> reach mgr_init mgr_step s"
  by (induction rule: reach.induct) (auto intro: reach_init reach_step regular_step_step)

text \<open>C12. In every run of starts, loads, stops, retry sweeps, reconciliations and destroys no owner has more
  instances holding a slot than its counter says, nor have all owners together more than the global counter
  says, and no per-identifier lock is left in the lock table. In a regular run the counters are exact: the
  counter of every owner is the number of instances registered for that owner, and the global counter the
  number of registered instances. A run is regular when its starts and loads name identifiers with no
  release pending, the provider gives each new instance an identity that no tracked instance has, and each
  reconciliation reads a ledger that agrees with the registry.\<close>

theorem manager_counts_exact:
  assumes "reach mgr_init mgr_step s"
  shows "card (tracked (im_quota s) ow) \<le> active_count s ow \<and>
    card (dom (q_owners_by_instance (im_quota s))) \<le> global_active_count s \<and>
    im_runtime_locks s = Map.empty \<and>
    (reach mgr_init regular_step s \<longrightarrow>
      active_count s ow = card {r. \<exists>b. im_instances s r = Some b \<and>
        q_owners_by_instance (im_quota s) (inst_id b) = Some ow} \<and>
      global_active_count s = card (dom (im_instances s)))"
proof (intro conjI impI)
  have cover: "cover_inv s" by (rule every_run.reach_inv [OF assms])
  then show "card (tracked (im_quota s) ow) \<le> active_count s ow"
    and "card (dom (q_owners_by_instance (im_quota s))) \<le> global_active_count s"
    and "im_runtime_locks s = Map.empty"
    by (auto simp: cover_inv_def quota_cover_def active_count_def global_active_count_def)
  assume "reach mgr_init regular_step s"
  then have "mgr_inv s" by (rule mgr.reach_inv)
  then show "active_count s ow = card {r. \<exists>b. im_instances s r = Some b \<and>
        q_owners_by_instance (im_quota s) (inst_id b) = Some ow}"
    and "global_active_count s = card (dom (im_instances s))"
    by (rule mgr_inv_counts)+
qed

theorem manager_counts_exact_witness:
  "global_active_count (snd (start_instance ''r1'' ''be'' ''tenant-a'' JNull None
     (demo_manager [''i1''] 2 0))) = 1"
  using manager_counts_exact [OF regular_run [OF demo_run_reach]] demo_run_reach
  by (simp add: manager_defs demo_defs create_loop.simps ADMIN_OWNER_REF_def Let_def)

section \<open>Starting\<close>

text \<open>C13. A start that fails leaves no trace: whatever goes wrong (a registered identifier, a cap,
  the provider, the attach adapter, the ledger), starting an instance or loading it from a snapshot
  changes nothing of the manager but the outside world, so the reserved slot is given back exactly.\<close>

theorem start_failure_leaves_no_trace:
  assumes "quota_inv F (im_quota s)" and "im_runtime_locks s runtime_id \<noteq> Some 0"
  shows "(start_instance runtime_id bid ow opts lim s = (Inl e, s1) \<longrightarrow>
      s1 = s\<lparr>im_world := im_world s1\<rparr>) \<and>
    (load_instance_from_snapshot runtime_id bid ow snap opts lim s = (Inl e, s2) \<longrightarrow>
      s2 = s\<lparr>im_world := im_world s2\<rparr>)"
proof (intro conjI impI)
  assume "start_instance runtime_id bid ow opts lim s = (Inl e, s1)"
  then show "s1 = s\<lparr>im_world := im_world s1\<rparr>"
  proof (rule start_instance_split)
    fix t
    assume "start_spec runtime_id ow lim (get_runtime_lock runtime_id s) (Inl e) t"
      and "s1 = release_runtime_lock runtime_id t"
    then show ?thesis using locked_start_failure [OF _ assms] by simp
  qed
next
  assume "load_instance_from_snapshot runtime_id bid ow snap opts lim s = (Inl e, s2)"
  then show "s2 = s\<lparr>im_world := im_world s2\<rparr>"
  proof (rule load_instance_split)
    fix t
    assume "start_spec runtime_id ow lim (get_runtime_lock runtime_id s) (Inl e) t"
      and "s2 = release_runtime_lock runtime_id t"
    then show ?thesis using locked_start_failure [OF _ assms] by simp
  qed
qed

theorem start_failure_leaves_no_trace_witness:
  "im_quota (snd (start_instance ''r1'' ''be'' ''tenant-a'' JNull None (demo_manager [] 0 0))) =
     default_QuotaState"
proof -
  let ?s = "demo_manager [] 0 0"
  let ?s1 = "snd (start_instance ''r1'' ''be'' ''tenant-a'' JNull None ?s)"
  have "start_instance ''r1'' ''be'' ''tenant-a'' JNull None ?s =
      (Inl (Conflict ''no capacity''), ?s1)"
    by (simp add: manager_defs demo_defs create_loop.simps ADMIN_OWNER_REF_def Let_def)
  then have "?s1 = ?s\<lparr>im_world := im_world ?s1\<rparr>"
    using start_failure_leaves_no_trace [of "{#}" ?s "''r1''"] quota_inv_default
    by (simp add: demo_manager_def new_InstanceManager_def)
  then have "im_quota ?s1 = im_quota (?s\<lparr>im_world := im_world ?s1\<rparr>)" by (rule arg_cong)
  then show ?thesis by (simp add: demo_manager_def new_InstanceManager_def)
qed

lemma start_spec_success:
  assumes "start_spec runtime_id ow lim s (Inr b) s'"
  shows "im_instances s runtime_id = None \<and> backend_for s' runtime_id = Inr b \<and>
    (\<forall>r. r \<noteq> runtime_id \<longrightarrow> im_instances s' r = im_instances s r) \<and>
    (\<forall>ow'. active_count s' ow' = active_count s ow' + (if ow' = ow then 1 else 0)) \<and>
    global_active_count s' = global_active_count s + 1 \<and>
    (ow \<noteq> ADMIN_OWNER_REF \<longrightarrow>
       active_count s' ow \<le> (case lim of Some l \<Rightarrow> unat l | None \<Rightarrow> mc_max_sandboxes_per_owner (im_config s)) \<and>
       global_active_count s' \<le> mc_max_sandboxes_global (im_config s))"
proof -
  from assms obtain s1 inst w where none: "im_instances s runtime_id = None"
    and res: "reserve ow lim s = (Inr (), s1)"
    and s': "s' = register runtime_id inst b (track_instance (pi_instance_id inst) ow (s1\<lparr>im_world := w\<rparr>))"
    by (rule start_spec_registered)
  note s1 = reserve_granted(1) [OF res]
  have q: "q_counts (im_quota s') = (q_counts (im_quota s))(ow \<mapsto> cnt (q_counts (im_quota s)) ow + 1)"
    "q_total (im_quota s') = q_total (im_quota s) + 1"
    by (simp_all add: s' s1 track_instance_def Let_def)
  have i: "im_instances s' = (im_instances s)(runtime_id \<mapsto> \<lparr>bi_instance = inst, bi_backend = b\<rparr>)"
    by (simp add: s' s1 register_def)
  show ?thesis
    using none reserve_granted(2,3) [OF res]
    by (simp add: active_count_def global_active_count_def backend_for_def q i Suc_le_eq)
qed

lemma release_runtime_lock_views [simp]:
  "active_count (release_runtime_lock r s) = active_count s"
  "global_active_count (release_runtime_lock r s) = global_active_count s"
  "backend_for (release_runtime_lock r s) = backend_for s"
  "active_count (get_runtime_lock r s) = active_count s"
  "global_active_count (get_runtime_lock r s) = global_active_count s"
  by (simp_all add: fun_eq_iff active_count_def global_active_count_def backend_for_def
      split: option.split)

text \<open>C14. A start that succeeds registers the backend under an identifier that was free and no
  other, takes exactly one slot of its owner and one of the global count, and, unless the owner is
  the administrator, stays within the owner's limit (the per-request override if there is one) and
  the global limit.\<close>

theorem start_success_registers_within_caps:
  assumes "start_instance runtime_id bid ow opts lim s = (Inr b, s')"
  shows "im_instances s runtime_id = None \<and> backend_for s' runtime_id = Inr b \<and>
    (\<forall>r. r \<noteq> runtime_id \<longrightarrow> im_instances s' r = im_instances s r) \<and>
    (\<forall>ow'. active_count s' ow' = active_count s ow' + (if ow' = ow then 1 else 0)) \<and>
    global_active_count s' = global_active_count s + 1 \<and>
    (ow \<noteq> ADMIN_OWNER_REF \<longrightarrow>
       active_count s' ow \<le> (case lim of Some l \<Rightarrow> unat l | None \<Rightarrow> mc_max_sandboxes_per_owner (im_config s)) \<and>
       global_active_count s' \<le> mc_max_sandboxes_global (im_config s))"
proof (rule start_instance_split [OF assms])
  fix t
  assume spec: "start_spec runtime_id ow lim (get_runtime_lock runtime_id s) (Inr b) t"
    and s': "s' = release_runtime_lock runtime_id t"
  from start_spec_success [OF spec] show ?thesis by (cases lim) (auto simp: s')
qed

theorem start_success_registers_within_caps_witness:
  "active_count (snd (start_instance ''r1'' ''be'' ''tenant-a'' JNull (Some 1)
     (demo_manager [''i1''] 0 0))) ''tenant-a'' \<le> 1"
proof -
  have "start_instance ''r1'' ''be'' ''tenant-a'' JNull (Some 1) (demo_manager [''i1''] 0 0) =
      (Inr ''i1'', snd (start_instance ''r1'' ''be'' ''tenant-a'' JNull (Some 1) (demo_manager [''i1''] 0 0)))"
    by (simp add: manager_defs demo_defs create_loop.simps ADMIN_OWNER_REF_def Let_def)
  from start_success_registers_within_caps [OF this] show ?thesis
    by (simp add: active_count_def demo_defs)
qed

section \<open>Attempts\<close>

text \<open>The wait after the \<open>i\<close>-th failed attempt, in closed form.\<close>

definition backoff :: "RetryPolicy \<Rightarrow> nat \<Rightarrow> nat" where
  "backoff p i = (if i = 0 then rp_base_delay p else min (rp_base_delay p * 2 ^ i) (rp_max_delay p))"

lemma backoff_Suc: "backoff p (Suc i) = min (backoff p i * 2) (rp_max_delay p)"
  by (auto simp: backoff_def min_def mult.commute mult.left_commute)

text \<open>The state before the \<open>i\<close>-th attempt when all earlier ones failed, and its outcome.\<close>

primrec attempt_state ::
  "ProviderCreateRequest \<Rightarrow> ('w, 'b) InstanceManager \<Rightarrow> nat \<Rightarrow> ('w, 'b) InstanceManager" where
  "attempt_state req s 0 = s"
| "attempt_state req s (Suc i) =
     (let t = snd (call_world (pl_create (im_lifecycle s) req) (attempt_state req s i))
      in t\<lparr>im_world := am_sleep (im_ambient s) (backoff (mc_retry (im_config s)) i) (im_world t)\<rparr>)"

definition attempt ::
  "ProviderCreateRequest \<Rightarrow> ('w, 'b) InstanceManager \<Rightarrow> nat
     \<Rightarrow> (ProviderControlError, ProviderInstance) result \<times> ('w, 'b) InstanceManager" where
  "attempt req s i = call_world (pl_create (im_lifecycle s) req) (attempt_state req s i)"

lemma attempt_state_frame [simp]:
  "im_config (attempt_state req s i) = im_config s"
  "im_lifecycle (attempt_state req s i) = im_lifecycle s"
  "im_ambient (attempt_state req s i) = im_ambient s"
  by (induction i) (simp_all add: Let_def)

lemma create_loop_attempts:
  "\<exists>k. k < max 1 (unat (rp_max_attempts (mc_retry (im_config s))) - n) \<and>
     create_loop req n (backoff (mc_retry (im_config s)) n) (attempt_state req s n) = attempt req s (n + k) \<and>
     (\<forall>i < k. \<exists>e. fst (attempt req s (n + i)) = Inl e \<and> is_retryable e) \<and>
     (\<forall>e. fst (attempt req s (n + k)) = Inl e \<longrightarrow>
        \<not> is_retryable e \<or> unat (rp_max_attempts (mc_retry (im_config s))) \<le> n + k + 1)"
proof (induction "unat (rp_max_attempts (mc_retry (im_config s))) - n" arbitrary: n rule: less_induct)
  case less
  let ?p = "mc_retry (im_config s)" and ?max = "unat (rp_max_attempts (mc_retry (im_config s)))"
  let ?loop = "\<lambda>n. create_loop req n (backoff ?p n) (attempt_state req s n)"
  obtain r t where at: "attempt req s n = (r, t)" by (rule prod.exhaust)
  have unfold: "?loop n = (case r of Inr inst \<Rightarrow> (Inr inst, t) | Inl e \<Rightarrow>
      if ?max \<le> n + 1 \<or> \<not> is_retryable e then (Inl e, t) else ?loop (n + 1))"
    using at
    by (subst create_loop.simps)
      (simp add: attempt_def backoff_Suc [symmetric] Let_def split: sum.split)
  show ?case
  proof (cases "\<exists>e. r = Inl e \<and> is_retryable e \<and> n + 1 < ?max")
    case True
    then obtain e where e: "r = Inl e" "is_retryable e" "n + 1 < ?max" by blast
    then have "?max - (n + 1) < ?max - n" by simp
    from less [OF this] obtain k where k: "k < max 1 (?max - (n + 1))"
      "?loop (n + 1) = attempt req s (n + 1 + k)"
      "\<forall>i < k. \<exists>e. fst (attempt req s (n + 1 + i)) = Inl e \<and> is_retryable e"
      "\<forall>e. fst (attempt req s (n + 1 + k)) = Inl e \<longrightarrow> \<not> is_retryable e \<or> ?max \<le> n + 1 + k + 1"
      by blast
    have "\<exists>e. fst (attempt req s (n + i)) = Inl e \<and> is_retryable e" if "i < Suc k" for i
      using that k(3) at e by (cases i) simp_all
    moreover have "?loop n = attempt req s (n + Suc k)"
      using unfold e k(2) by simp
    moreover have "Suc k < max 1 (?max - n)" using k(1) e(3) by auto
    ultimately show ?thesis using k(4) by (intro exI [of _ "Suc k"]) simp
  next
    case False
    then have "?loop n = attempt req s n" using unfold at by (auto split: sum.splits)
    moreover have "fst (attempt req s n) = Inl e \<Longrightarrow> \<not> is_retryable e \<or> ?max \<le> n + 1" for e
      using False at by auto
    ultimately show ?thesis by (intro exI [of _ 0]) simp
  qed
qed

text \<open>C27. Creating an instance makes between one and \<open>max_attempts\<close> attempts, all with one and the
  same request (one request identifier). It returns the outcome of the last attempt: every earlier
  attempt failed with a retryable error and was followed by an exponentially growing, capped wait,
  and the last one succeeded, failed with an error that a retry cannot cure, or used up the
  attempts.\<close>

theorem create_with_retry_attempts:
  assumes "create_with_retry bid ow opts s = (r, s')"
    and "call_world (am_new_uuid (im_ambient s)) s = (request_id, s0)"
  shows "\<exists>k. k < max 1 (unat (rp_max_attempts (mc_retry (im_config s)))) \<and>
     (r, s') = attempt (create_request bid ow opts request_id) s0 k \<and>
     (\<forall>i < k. \<exists>e. fst (attempt (create_request bid ow opts request_id) s0 i) = Inl e \<and> is_retryable e) \<and>
     (\<forall>e. r = Inl e \<longrightarrow>
        \<not> is_retryable e \<or> unat (rp_max_attempts (mc_retry (im_config s))) \<le> k + 1)"
proof -
  have cfg: "im_config s0 = im_config s"
    using call_world_config [of "am_new_uuid (im_ambient s)" s] by (simp add: assms(2))
  have "create_loop (create_request bid ow opts request_id) 0 (backoff (mc_retry (im_config s0)) 0)
      (attempt_state (create_request bid ow opts request_id) s0 0) = (r, s')"
    using assms by (simp add: create_with_retry_def cfg backoff_def)
  with create_loop_attempts [of s0 0 "create_request bid ow opts request_id"]
  show ?thesis unfolding cfg by (metis add_0 diff_zero fst_conv)
qed

theorem create_with_retry_attempts_witness:
  "\<exists>k. k < 3 \<and> (\<forall>i < k. \<exists>e. fst (attempt (create_request ''be'' ''tenant-a'' JNull ''request-1'')
     (demo_manager [''i1''] 2 0) i) = Inl e \<and> is_retryable e)"
  using create_with_retry_attempts [of "''be''" "''tenant-a''" JNull "demo_manager [''i1''] 2 0",
      OF surjective_pairing]
  by (force simp: call_world_def demo_manager_def demo_ambient_def new_InstanceManager_def
      new_InstanceManagerConfig_def default_RetryPolicy_def)

section \<open>Stopping and retrying\<close>

lemma mgr_inv_owned:
  assumes "mgr_inv s" and "im_instances s r = Some b"
  shows "\<exists>ow. q_owners_by_instance (im_quota s) (inst_id b) = Some ow"
  by (rule reg_inv_owned [where inst = "im_instances s" and r = r, OF _ assms(2)]) (use assms(1) in \<open>simp add: mgr_inv_def core_inv_def\<close>)

lemma finish_release_counts:
  assumes "q_owners_by_instance (im_quota s) (inst_id b) = Some ow"
  shows "active_count (finish_release r b s) ow = active_count s ow - 1"
    and "global_active_count (finish_release r b s) = global_active_count s - 1"
    and "ow' \<noteq> ow \<Longrightarrow> active_count (finish_release r b s) ow' = active_count s ow'"
  using assms cnt_decrement [of "q_counts (im_quota s)" ow]
  by (simp_all add: active_count_def global_active_count_def finish_release_frame
      release_instance_def Let_def)

text \<open>C24. Stopping a registered instance either removes it from the registry and gives back exactly
  its slot, or, when the provider cannot delete it, reports the error, keeps registration and slot,
  and queues the very instance for a retry.\<close>

theorem stop_releases_or_queues:
  assumes "mgr_inv s" and "im_instances s runtime_id = Some b"
    and "stop_instance runtime_id s = (res, s')"
  shows "\<exists>ow. q_owners_by_instance (im_quota s) (inst_id b) = Some ow \<and>
    (case res of
       Inr _ \<Rightarrow> im_instances s' = (im_instances s)(runtime_id := None) \<and>
         active_count s' ow + 1 = active_count s ow \<and>
         global_active_count s' + 1 = global_active_count s \<and>
         im_pending_release s' = im_pending_release s
     | Inl e \<Rightarrow> im_instances s' = im_instances s \<and> im_quota s' = im_quota s \<and>
         (\<exists>t. im_pending_release s' = im_pending_release s @
            [\<lparr>pd_runtime_id = runtime_id, pd_record = b, pd_attempt = 0, pd_next_retry_at = t\<rparr>]))"
proof -
  obtain t where t: "stop_instance_locked runtime_id (get_runtime_lock runtime_id s) = (res, t)"
    and s': "s' = release_runtime_lock runtime_id t"
    using assms(3) by (auto simp: stop_instance_def split: prod.splits)
  obtain ow where ow: "q_owners_by_instance (im_quota s) (inst_id b) = Some ow"
    using mgr_inv_owned [OF assms(1,2)] by blast
  have pos: "0 < active_count s ow \<and> 0 < global_active_count s"
    using assms(1) ow
    by (auto simp: mgr_inv_def core_inv_def quota_inv_def active_count_def global_active_count_def
        tracked_def card_gt_0_iff)
  have "im_instances (get_runtime_lock runtime_id s) runtime_id = Some b" using assms(2) by simp
  then show ?thesis
  proof (cases rule: stop_instance_locked_outcome)
    case (deleted w)
    let ?t = "get_runtime_lock runtime_id s\<lparr>im_world := w\<rparr>"
    have "t = finish_release runtime_id b ?t" "res = Inr ()" using deleted(2) t by simp_all
    moreover have "active_count (finish_release runtime_id b ?t) ow = active_count ?t ow - 1"
      "global_active_count (finish_release runtime_id b ?t) = global_active_count ?t - 1"
      by (rule finish_release_counts, simp add: ow)+
    moreover have "active_count ?t = active_count s" "global_active_count ?t = global_active_count s"
      by (simp_all add: fun_eq_iff active_count_def global_active_count_def)
    ultimately show ?thesis
      using ow pos by (simp add: s' finish_release_frame)
  next
    case (kept e w u w')
    with t show ?thesis using ow by (auto simp: s')
  qed
qed

lemma demo_inv: "mgr_inv (snd (start_instance ''r1'' ''be'' ''tenant-a'' JNull None (demo_manager [''i1''] 2 0)))"
  by (rule mgr.reach_inv [OF demo_run_reach])

lemmas demo_eval = manager_defs demo_defs create_loop.simps create_request_def ADMIN_OWNER_REF_def Let_def

theorem stop_releases_or_queues_witness:
  "let s = snd (start_instance ''r1'' ''be'' ''tenant-a'' JNull None (demo_manager [''i1''] 2 0))
   in global_active_count (snd (stop_instance ''r1'' s)) + 1 = global_active_count s"
proof -
  let ?s = "snd (start_instance ''r1'' ''be'' ''tenant-a'' JNull None (demo_manager [''i1''] 2 0))"
  have reg: "im_instances ?s ''r1'' = Some \<lparr>bi_instance = demo_instance ''be'' ''i1'', bi_backend = ''i1''\<rparr>"
    and "fst (stop_instance ''r1'' ?s) = Inr ()"
    by (simp_all add: demo_eval)
  then show ?thesis
    using stop_releases_or_queues [OF demo_inv reg surjective_pairing] by auto
qed

text \<open>What a provider promises about deletions: an instance whose deletion it reported as done is gone, and stays
  gone. The calls besides deletions that a retry sweep makes are the ones named here.\<close>

definition deletes_for_good :: "('w \<Rightarrow> string \<Rightarrow> bool) \<Rightarrow> ('w, 'b) InstanceManager \<Rightarrow> bool" where
  "deletes_for_good gone s \<longleftrightarrow>
     (\<forall>req w out w' i. pl_delete (im_lifecycle s) req w = (Inr out, w') \<and> dr_instance_id req = Some i \<longrightarrow> gone w' i) \<and>
     (\<forall>req w i. gone w i \<longrightarrow> gone (snd (pl_delete (im_lifecycle s) req w)) i) \<and>
     (\<forall>r w i. gone w i \<longrightarrow> gone (snd (lg_record_deleted (im_ledger s) r w)) i) \<and>
     (\<forall>w i. gone w i \<longrightarrow> gone (snd (am_now (im_ambient s) w)) i)"

lemma deletes_for_goodD:
  assumes "deletes_for_good gone s"
  shows "pl_delete (im_lifecycle s) req w = (Inr out, w') \<Longrightarrow> dr_instance_id req = Some i \<Longrightarrow> gone w' i"
    and "pl_delete (im_lifecycle s) req w = (res, w') \<Longrightarrow> gone w i \<Longrightarrow> gone w' i"
    and "gone w i \<Longrightarrow> gone (snd (lg_record_deleted (im_ledger s) r w)) i"
    and "gone w i \<Longrightarrow> gone (snd (am_now (im_ambient s) w)) i"
  using assms unfolding deletes_for_good_def by (blast, (metis snd_conv)+)

text \<open>The two ways in which a queued release may stand: its instance is registered and the release queued, or its
  identifier is free and its instance gone.\<close>

definition waiting :: "('w, 'b) InstanceManager \<Rightarrow> 'b PendingRelease \<Rightarrow> bool" where
  "waiting s item \<longleftrightarrow> im_instances s (pd_runtime_id item) = Some (pd_record item) \<and>
     (\<exists>item' \<in> set (im_pending_release s). pd_runtime_id item' = pd_runtime_id item \<and> pd_record item' = pd_record item)"

definition released :: "('w \<Rightarrow> string \<Rightarrow> bool) \<Rightarrow> ('w, 'b) InstanceManager \<Rightarrow> 'b PendingRelease \<Rightarrow> bool" where
  "released gone s item \<longleftrightarrow> im_instances s (pd_runtime_id item) = None \<and> gone (im_world s) (inst_id (pd_record item))"

text \<open>One round of the sweep, with what the provider answered.\<close>

lemma lock_world [simp]:
  "im_world (get_runtime_lock r s) = im_world s" "im_world (release_runtime_lock r s) = im_world s"
  by (simp_all add: get_runtime_lock_def release_runtime_lock_def split: option.split)

lemma finish_release_world: "im_world (finish_release r b s) = snd (lg_record_deleted (im_ledger s) r (im_world s))"
  by (simp add: finish_release_def Let_def call_world_eq release_instance_def split: option.split)

lemma retry_item_result:
  assumes "im_instances s (pd_runtime_id item) \<noteq> None" and "deletes_for_good gone s"
  obtains (deleted) "im_instances (retry_item item s) = (im_instances s)(pd_runtime_id item := None)"
      and "gone (im_world (retry_item item s)) (inst_id (pd_record item))"
      and "im_pending_release (retry_item item s) = im_pending_release s"
  | (kept) item' where "im_instances (retry_item item s) = im_instances s"
      and "im_pending_release (retry_item item s) = im_pending_release s @ [item']"
      and "pd_runtime_id item' = pd_runtime_id item" and "pd_record item' = pd_record item"
proof -
  let ?t = "get_runtime_lock (pd_runtime_id item) s" and ?req = "release_request (bi_instance (pd_record item))"
  obtain res w where del: "pl_delete (im_lifecycle s) ?req (im_world ?t) = (res, w)" by fastforce
  then have run: "call_world (pl_delete (im_lifecycle ?t) ?req) ?t = (res, ?t\<lparr>im_world := w\<rparr>)"
    by (simp add: call_world_eq)
  show thesis
  proof (cases res)
    case (Inr out)
    have "gone w (inst_id (pd_record item))"
      by (rule deletes_for_goodD(1) [OF assms(2) del [unfolded Inr]]) (simp add: release_request_def)
    then have "gone (snd (lg_record_deleted (im_ledger s) (pd_runtime_id item) w)) (inst_id (pd_record item))"
      by (rule deletes_for_goodD(3) [OF assms(2)])
    moreover have "retry_item item s =
        release_runtime_lock (pd_runtime_id item) (finish_release (pd_runtime_id item) (pd_record item) (?t\<lparr>im_world := w\<rparr>))"
      using assms(1) run Inr by (auto simp: retry_item_def Let_def delete_instance_def)
    ultimately show thesis by (intro deleted) (simp_all add: finish_release_frame finish_release_world)
  next
    case (Inl e)
    then show thesis
      using assms(1) run
      by (intro kept [of "item\<lparr>pd_attempt := pd_attempt item + 1, pd_next_retry_at := fst (am_now (im_ambient s) w) +
            retry_delay (mc_retry (im_config s)) (pd_attempt item + 1)\<rparr>"])
        (simp_all add: retry_item_def Let_def delete_instance_def call_world_eq)
  qed
qed

lemma retry_item_gone:
  assumes "deletes_for_good gone s" and "gone (im_world s) i"
  shows "gone (im_world (retry_item item s)) i"
proof -
  let ?req = "release_request (bi_instance (pd_record item))"
  obtain res w where del: "pl_delete (im_lifecycle s) ?req (im_world s) = (res, w)" by fastforce
  have "gone w i" by (rule deletes_for_goodD(2) [OF assms(1) del assms(2)])
  then have "gone (snd (lg_record_deleted (im_ledger s) r w)) i" "gone (snd (am_now (im_ambient s) w)) i" for r
    by (rule deletes_for_goodD(3,4) [OF assms(1)])+
  then show ?thesis
    using assms(2) del
    by (cases res) (simp_all add: retry_item_def Let_def delete_instance_def call_world_eq finish_release_world)
qed

lemma retry_item_provider:
  "im_lifecycle (retry_item item s) = im_lifecycle s" "im_ledger (retry_item item s) = im_ledger s"
  "im_ambient (retry_item item s) = im_ambient s"
  by (simp_all add: retry_item_def Let_def delete_instance_def call_world_eq finish_release_def on_err_def drop_value_def
      split: sum.split prod.split)

lemma retry_item_law: "deletes_for_good gone (retry_item item s) = deletes_for_good gone s"
  by (simp add: deletes_for_good_def retry_item_provider)

text \<open>A release whose instance is registered or was released.\<close>

definition accounted :: "('w \<Rightarrow> string \<Rightarrow> bool) \<Rightarrow> ('w, 'b) InstanceManager \<Rightarrow> 'b PendingRelease \<Rightarrow> bool" where
  "accounted gone s item \<longleftrightarrow> im_instances s (pd_runtime_id item) = Some (pd_record item) \<or> released gone s item"

lemma retry_item_accounted:
  assumes "deletes_for_good gone s" and "linked s j" and "accounted gone s k"
  shows "accounted gone (retry_item j s) k"
    and "waiting s k \<or> released gone s k \<or> k = j \<Longrightarrow> waiting (retry_item j s) k \<or> released gone (retry_item j s) k"
proof -
  have gone: "gone (im_world s) i \<Longrightarrow> gone (im_world (retry_item j s)) i" for i by (rule retry_item_gone [OF assms(1)])
  have "accounted gone (retry_item j s) k \<and>
    (waiting s k \<or> released gone s k \<or> k = j \<longrightarrow> waiting (retry_item j s) k \<or> released gone (retry_item j s) k)"
  proof (cases "im_instances s (pd_runtime_id j)")
    case None
    then have "im_instances (retry_item j s) = im_instances s" "im_pending_release (retry_item j s) = im_pending_release s"
      by (simp_all add: retry_item_def Let_def)
    then show ?thesis
      using assms(2,3) gone None by (auto simp: accounted_def waiting_def released_def)
  next
    case (Some b)
    then have "im_instances s (pd_runtime_id j) \<noteq> None" by simp
    from this assms(1) show ?thesis
    proof (cases rule: retry_item_result)
      case deleted
      then show ?thesis
        using assms(2,3) gone Some by (auto simp: accounted_def waiting_def released_def linked_def)
    next
      case (kept item')
      then show ?thesis
        using assms(2,3) gone Some by (auto simp: accounted_def waiting_def released_def linked_def)
    qed
  qed
  then show "accounted gone (retry_item j s) k"
    and "waiting s k \<or> released gone s k \<or> k = j \<Longrightarrow> waiting (retry_item j s) k \<or> released gone (retry_item j s) k"
    by blast+
qed

lemma retry_item_registry: "im_instances (retry_item item s) \<subseteq>\<^sub>m im_instances s"
proof (cases "im_instances s (pd_runtime_id item)")
  case None
  then show ?thesis by (simp add: retry_item_def Let_def)
next
  case (Some b)
  then have "im_instances s (pd_runtime_id item) \<noteq> None" by simp
  then show ?thesis
    by (cases rule: retry_item_outcome) (auto simp: finish_release_frame map_le_def)
qed

lemma retry_fold_accounted:
  assumes "deletes_for_good gone s" and "\<forall>item \<in> set due. linked s item" and "accounted gone s k"
    and "waiting s k \<or> released gone s k \<or> k \<in> set due"
  shows "waiting (fold retry_item due s) k \<or> released gone (fold retry_item due s) k"
  using assms
proof (induction due arbitrary: s)
  case (Cons j due)
  have j: "linked s j" using Cons.prems(2) by simp
  note step = retry_item_accounted [OF Cons.prems(1) j Cons.prems(3)]
  have "waiting (retry_item j s) k \<or> released gone (retry_item j s) k \<or> k \<in> set due"
    using step(2) Cons.prems(4) by auto
  moreover have "\<forall>item \<in> set due. linked (retry_item j s) item"
    using Cons.prems(2) linked_mono [OF retry_item_registry] by fastforce
  ultimately show ?case using Cons.IH [of "retry_item j s"] Cons.prems(1) step(1) by (simp add: retry_item_law)
qed simp

text \<open>C25. A retry sweep gives nothing up. Suppose an instance whose deletion the provider reported as done is
  gone for good. Where the invariant of regular runs holds, take a queued release of a registered instance: after the sweep
  the instance is still registered and a release of it queued, or its identifier is free and the instance
  is gone. So a registration, and with it the slot, is dropped only when the instance was deleted.\<close>

theorem retry_sweep_loses_nothing:
  assumes "mgr_inv s" and "deletes_for_good gone s"
    and "item \<in> set (im_pending_release s)" and "im_instances s (pd_runtime_id item) \<noteq> None"
  shows "waiting (retry_pending_releases_once s) item \<or> released gone (retry_pending_releases_once s) item"
proof -
  obtain now w where clock: "call_world (am_now (im_ambient s)) s = (now, s\<lparr>im_world := w\<rparr>)"
    by (rule call_world_outcome)
  let ?due = "filter (\<lambda>item. pd_next_retry_at item \<le> now) (im_pending_release s)"
  let ?t = "s\<lparr>im_world := w, im_pending_release :=
    filter (\<lambda>item. \<not> pd_next_retry_at item \<le> now) (im_pending_release s)\<rparr>"
  have linked: "\<forall>i \<in> set (im_pending_release s). linked ?t i"
    using assms(1) by (auto simp: mgr_inv_def core_inv_def linked_def)
  then have own: "im_instances s (pd_runtime_id item) = Some (pd_record item)"
    using assms(3,4) by (auto simp: linked_def)
  have "waiting (fold retry_item ?due ?t) item \<or> released gone (fold retry_item ?due ?t) item"
  proof (rule retry_fold_accounted)
    show "deletes_for_good gone ?t" using assms(2) by (simp add: deletes_for_good_def)
    show "accounted gone ?t item" using own by (simp add: accounted_def)
    show "waiting ?t item \<or> released gone ?t item \<or> item \<in> set ?due"
      using assms(3) own by (auto simp: waiting_def)
  qed (use linked in simp)
  then show ?thesis by (simp add: retry_pending_releases_once_def clock)
qed

lemma demo_deletes_for_good:
  assumes "im_lifecycle s = demo_lifecycle" and "im_ledger s = demo_ledger" and "im_ambient s = demo_ambient"
  shows "deletes_for_good (\<lambda>w i. i \<in> set (dw_deleted w)) s"
  by (auto simp: deletes_for_good_def assms demo_defs split: if_splits)

definition demo_stuck :: "nat \<Rightarrow> (demo_world, string) InstanceManager" where
  "demo_stuck now =
     (let s = snd (stop_instance ''r1'' (snd (start_instance ''r1'' ''be'' ''tenant-a'' JNull None (demo_manager [''i1''] 0 1))))
      in s\<lparr>im_world := (im_world s)\<lparr>dw_clock := now\<rparr>\<rparr>)"

lemma demo_stuck_inv: "mgr_inv (demo_stuck now)"
proof -
  let ?s = "snd (start_instance ''r1'' ''be'' ''tenant-a'' JNull None (demo_manager [''i1''] 0 1))"
  have "reach mgr_init regular_step (demo_manager [''i1''] 0 1)"
    unfolding demo_manager_def mgr_init_def by (rule reach_init) (intro exI, rule refl)
  moreover have "regular_step (demo_manager [''i1''] 0 1) ?s"
    by (rule rs_start [OF surjective_pairing]) (simp_all add: demo_defs)
  ultimately have "reach mgr_init regular_step ?s" by (rule reach_step)
  then have "reach mgr_init regular_step (snd (stop_instance ''r1'' ?s))"
    by (rule reach_step) (rule rs_stop [OF surjective_pairing])
  then have "reach mgr_init regular_step (demo_stuck now)"
    unfolding demo_stuck_def Let_def by (rule reach_step) (rule rs_consult)
  then show ?thesis by (rule mgr.reach_inv)
qed

theorem retry_sweep_loses_nothing_witness:
  "let s = demo_stuck 500; item = hd (im_pending_release s)
   in im_instances s (pd_runtime_id item) \<noteq> None \<and>
     released (\<lambda>w i. i \<in> set (dw_deleted w)) (retry_pending_releases_once s) item"
proof -
  let ?s = "demo_stuck 500" and ?gone = "\<lambda>w i. i \<in> set (dw_deleted w)"
  let ?b = "\<lparr>bi_instance = demo_instance ''be'' ''i1'', bi_backend = ''i1''\<rparr>"
  let ?i = "\<lparr>pd_runtime_id = ''r1'', pd_record = ?b, pd_attempt = 0, pd_next_retry_at = 200\<rparr>"
  have queue: "im_pending_release ?s = [?i]" and reg: "im_instances ?s ''r1'' = Some ?b"
    and lc: "im_lifecycle ?s = demo_lifecycle" "im_ledger ?s = demo_ledger" "im_ambient ?s = demo_ambient"
    by (simp_all add: demo_stuck_def demo_eval)
  have "waiting (retry_pending_releases_once ?s) ?i \<or> released ?gone (retry_pending_releases_once ?s) ?i"
    by (rule retry_sweep_loses_nothing [OF demo_stuck_inv demo_deletes_for_good [OF lc]])
      (simp_all add: queue reg)
  moreover have "im_instances (retry_pending_releases_once ?s) ''r1'' = None"
    by (simp add: demo_stuck_def retry_pending_releases_once_def retry_item_def demo_eval)
  ultimately show ?thesis by (simp add: waiting_def queue reg)
qed

lemma retry_item_clears:
  assumes "\<forall>req w. \<exists>out w'. pl_delete (im_lifecycle s) req w = (Inr out, w')"
  shows "im_instances (retry_item item s) (pd_runtime_id item) = None"
    and "im_lifecycle (retry_item item s) = im_lifecycle s"
proof -
  let ?s = "get_runtime_lock (pd_runtime_id item) s"
  obtain out w' where "pl_delete (im_lifecycle ?s) (release_request (bi_instance (pd_record item)))
      (im_world ?s) = (Inr out, w')"
    using assms by fastforce
  then have del: "delete_instance (pd_record item) ?s = (Inr (), ?s\<lparr>im_world := w'\<rparr>)"
    by (simp add: delete_instance_def call_world_eq)
  show "im_instances (retry_item item s) (pd_runtime_id item) = None"
    by (simp add: retry_item_def Let_def del finish_release_frame)
  show "im_lifecycle (retry_item item s) = im_lifecycle s"
    by (simp add: retry_item_def Let_def del finish_release_def)
qed

lemma retry_fold_stays_clear:
  "im_instances s r = None \<Longrightarrow> im_instances (fold retry_item due s) r = None"
proof (induction due arbitrary: s)
  case (Cons item due)
  have "im_instances (retry_item item s) r = None"
    using retry_item_registry [of item s] Cons.prems by (auto simp: map_le_def dom_def)
  then show ?case using Cons.IH by simp
qed simp

lemma retry_fold_clears:
  assumes "\<forall>req w. \<exists>out w'. pl_delete (im_lifecycle s) req w = (Inr out, w')"
  shows "\<forall>item \<in> set due. im_instances (fold retry_item due s) (pd_runtime_id item) = None"
  using assms
proof (induction due arbitrary: s)
  case Nil
  then show ?case by simp
next
  case (Cons i due)
  note clear = retry_item_clears [OF Cons.prems, of i]
  have "\<forall>item \<in> set due. im_instances (fold retry_item due (retry_item i s)) (pd_runtime_id item) = None"
    by (rule Cons.IH) (use Cons.prems clear(2) in simp)
  with retry_fold_stays_clear [OF clear(1), of due] show ?case by simp
qed

text \<open>C26. The retry sweep makes progress: once the provider's deletions succeed, one sweep
  unregisters the identifier of every queued release whose waiting time is over.\<close>

theorem retry_sweep_cleans_due:
  assumes "\<forall>req w. \<exists>out w'. pl_delete (im_lifecycle s) req w = (Inr out, w')"
    and "item \<in> set (im_pending_release s)"
    and "pd_next_retry_at item \<le> fst (am_now (im_ambient s) (im_world s))"
  shows "im_instances (retry_pending_releases_once s) (pd_runtime_id item) = None"
proof -
  let ?now = "fst (am_now (im_ambient s) (im_world s))"
  let ?t = "s\<lparr>im_world := snd (am_now (im_ambient s) (im_world s)), im_pending_release :=
    filter (\<lambda>item. \<not> pd_next_retry_at item \<le> ?now) (im_pending_release s)\<rparr>"
  have "\<forall>i \<in> set (filter (\<lambda>item. pd_next_retry_at item \<le> ?now) (im_pending_release s)).
      im_instances (fold retry_item (filter (\<lambda>item. pd_next_retry_at item \<le> ?now)
        (im_pending_release s)) ?t) (pd_runtime_id i) = None"
    by (rule retry_fold_clears) (use assms(1) in simp)
  then show ?thesis
    using assms(2,3) by (simp add: retry_pending_releases_once_def call_world_eq)
qed

theorem retry_sweep_cleans_due_witness:
  "let s = snd (stop_instance ''r1'' (snd (start_instance ''r1'' ''be'' ''tenant-a'' JNull None
         (demo_manager [''i1''] 0 1))));
       t = s\<lparr>im_lifecycle := demo_lifecycle\<lparr>pl_delete := (\<lambda>req w. demo_delete req (w\<lparr>dw_delete_failures := 0\<rparr>))\<rparr>,
             im_world := (im_world s)\<lparr>dw_clock := 500\<rparr>\<rparr>
   in im_instances t ''r1'' \<noteq> None \<and> im_instances (retry_pending_releases_once t) ''r1'' = None"
proof -
  let ?s = "snd (stop_instance ''r1'' (snd (start_instance ''r1'' ''be'' ''tenant-a'' JNull None
         (demo_manager [''i1''] 0 1))))"
  let ?t = "?s\<lparr>im_lifecycle := demo_lifecycle\<lparr>pl_delete := (\<lambda>req w. demo_delete req (w\<lparr>dw_delete_failures := 0\<rparr>))\<rparr>,
             im_world := (im_world ?s)\<lparr>dw_clock := 500\<rparr>\<rparr>"
  let ?b = "\<lparr>bi_instance = demo_instance ''be'' ''i1'', bi_backend = ''i1''\<rparr>"
  let ?i = "\<lparr>pd_runtime_id = ''r1'', pd_record = ?b, pd_attempt = 0, pd_next_retry_at = 200\<rparr>"
  have "im_instances ?t ''r1'' \<noteq> None" by (simp add: demo_eval)
  moreover have "?i \<in> set (im_pending_release ?t)" by (simp add: demo_eval)
  moreover have "pd_next_retry_at ?i \<le> fst (am_now (im_ambient ?t) (im_world ?t))"
    by (simp add: demo_eval)
  moreover have "\<forall>req w. \<exists>out w'. pl_delete (im_lifecycle ?t) req w = (Inr out, w')"
    by (simp add: demo_delete_def)
  ultimately show ?thesis using retry_sweep_cleans_due [of ?t ?i] by simp
qed

text \<open>The waits between release retries grow with the number of failures, never exceed the
  configured maximum, and are never shorter than the base delay (or the maximum, if that is
  smaller).\<close>

lemma retry_delay_bounds:
  assumes "a \<le> b"
  shows "retry_delay p a \<le> retry_delay p b \<and> retry_delay p b \<le> rp_max_delay p \<and>
    min (rp_base_delay p) (rp_max_delay p) \<le> retry_delay p a"
proof -
  let ?f = "\<lambda>x. min (2 ^ min (unat x) 16) (2 ^ 32 - 1) :: nat"
  have "min (unat a) 16 \<le> min (unat b) 16"
    using assms by (simp add: word_le_nat_alt min.coboundedI1)
  then have "(2::nat) ^ min (unat a) 16 \<le> 2 ^ min (unat b) 16" by (rule power_increasing) simp
  then have mono: "?f a \<le> ?f b" by (rule min.mono) simp
  have "1 \<le> ?f a" by simp
  then have "rp_base_delay p * 1 \<le> rp_base_delay p * ?f a" by (rule mult_le_mono2)
  moreover have "rp_base_delay p * ?f a \<le> rp_base_delay p * ?f b" using mono by (rule mult_le_mono2)
  ultimately show ?thesis unfolding retry_delay_def by (simp add: min.coboundedI1)
qed

text \<open>C28. A queued release outlives its instance. When an identifier whose earlier instance was
  released in the meantime has been registered again, the retry of the stale entry deletes the old
  instance once more and then drops the registration of the new one, whose slot stays taken and which
  nothing will delete: the check before the retry asks only whether the identifier is registered.\<close>

theorem stale_release_drops_successor:
  assumes "im_instances s (pd_runtime_id item) = Some b"
    and "q_owners_by_instance (im_quota s) (inst_id (pd_record item)) = None"
    and "\<And>req w. fst (pl_delete (im_lifecycle s) req w) = Inr (out req w)"
  shows "im_instances (retry_item item s) (pd_runtime_id item) = None \<and>
    im_quota (retry_item item s) = im_quota s \<and>
    im_pending_release (retry_item item s) = im_pending_release s"
proof -
  let ?s = "get_runtime_lock (pd_runtime_id item) s"
  let ?w = "snd (pl_delete (im_lifecycle s) (release_request (bi_instance (pd_record item))) (im_world ?s))"
  have del: "delete_instance (pd_record item) ?s = (Inr (), ?s\<lparr>im_world := ?w\<rparr>)"
    by (simp add: delete_instance_def call_world_eq assms(3))
  have "im_quota (finish_release (pd_runtime_id item) (pd_record item) (?s\<lparr>im_world := ?w\<rparr>)) = im_quota s"
    using assms(2) by (simp add: finish_release_frame release_instance_def Let_def)
  then show ?thesis
    using assms(1) by (simp add: retry_item_def Let_def del finish_release_frame)
qed

text \<open>A run that ends in such a state: a start, a failed and a successful stop, and a second start
  under the same identifier.\<close>

definition demo_bound :: "string \<Rightarrow> string BoundInstance" where
  "demo_bound i = \<lparr>bi_instance = demo_instance ''be'' i, bi_backend = i\<rparr>"

definition demo_entry :: "string \<Rightarrow> ActiveLedgerEntry" where
  "demo_entry i = \<lparr>le_runtime_id = ''r1'', le_owner_ref = ''tenant-a'', le_instance = demo_instance ''be'' i\<rparr>"

definition demo_idle :: "string list \<Rightarrow> nat \<Rightarrow> string PendingRelease list \<Rightarrow> string list \<Rightarrow> (demo_world, string) InstanceManager" where
  "demo_idle is failures pending deleted = (demo_manager is 0 failures)\<lparr>
     im_pending_release := pending,
     im_world := (im_world (demo_manager is 0 failures))\<lparr>dw_deleted := deleted\<rparr>\<rparr>"

definition demo_running ::
  "string list \<Rightarrow> nat \<Rightarrow> string \<Rightarrow> string PendingRelease list \<Rightarrow> string list \<Rightarrow> (demo_world, string) InstanceManager" where
  "demo_running is failures i pending deleted = (demo_idle is failures pending deleted)\<lparr>
     im_instances := [''r1'' \<mapsto> demo_bound i],
     im_quota := \<lparr>q_counts = [''tenant-a'' \<mapsto> 1], q_owners_by_instance = [i \<mapsto> ''tenant-a''], q_total = 1\<rparr>,
     im_world := (im_world (demo_idle is failures pending deleted))\<lparr>dw_active := [demo_entry i]\<rparr>\<rparr>"

definition demo_pending :: "string PendingRelease" where
  "demo_pending = \<lparr>pd_runtime_id = ''r1'', pd_record = demo_bound ''i1'', pd_attempt = 0, pd_next_retry_at = 200\<rparr>"

lemmas demo_run_defs = demo_idle_def demo_running_def demo_bound_def demo_entry_def demo_pending_def

lemma demo_run_start:
  "start_instance ''r1'' ''be'' ''tenant-a'' JNull None (demo_idle (i # is) f p d) =
     (Inr i, demo_running is f i p d)"
  by (simp add: demo_eval demo_run_defs)

lemma demo_run_stop_fails:
  "stop_instance ''r1'' (demo_running is (Suc 0) ''i1'' [] d) =
     (Inl (Timeout ''delete'' 1000), demo_running is 0 ''i1'' [demo_pending] d)"
  by (simp add: demo_eval demo_run_defs)

lemma demo_run_stop:
  "stop_instance ''r1'' (demo_running is 0 ''i1'' p d) = (Inr (), demo_idle is 0 p (d @ [''i1'']))"
  by (simp add: demo_eval demo_run_defs release_request_def)

theorem stale_release_drops_successor_witness:
  "let s1 = snd (start_instance ''r1'' ''be'' ''tenant-a'' JNull None
         (demo_idle [''i1'', ''i2''] 1 [] []));
       s2 = snd (stop_instance ''r1'' (snd (stop_instance ''r1'' s1)));
       s = snd (start_instance ''r1'' ''be'' ''tenant-a'' JNull None s2);
       t = s\<lparr>im_lifecycle := demo_lifecycle\<lparr>pl_delete := (\<lambda>req w. demo_delete req (w\<lparr>dw_delete_failures := 0\<rparr>))\<rparr>\<rparr>
   in im_instances (retry_item (hd (im_pending_release t)) t) ''r1'' = None \<and>
      global_active_count (retry_item (hd (im_pending_release t)) t) = 1"
proof -
  let ?s = "demo_running [] 0 ''i2'' [demo_pending] [''i1'']"
  let ?t = "?s\<lparr>im_lifecycle := demo_lifecycle\<lparr>pl_delete := (\<lambda>req w. demo_delete req (w\<lparr>dw_delete_failures := 0\<rparr>))\<rparr>\<rparr>"
  have r: "im_instances ?t (pd_runtime_id demo_pending) = Some (demo_bound ''i2'')"
    and o: "q_owners_by_instance (im_quota ?t) (inst_id (pd_record demo_pending)) = None"
    and q: "im_pending_release ?t = [demo_pending]" "global_active_count ?t = 1"
      "pd_runtime_id demo_pending = ''r1''"
    by (simp_all add: demo_run_defs demo_instance_def global_active_count_def)
  have "fst (pl_delete (im_lifecycle ?t) req w) = Inr (projr (fst (pl_delete (im_lifecycle ?t) req w)))" for req w
    by (simp add: demo_delete_def)
  from stale_release_drops_successor [OF r o this] show ?thesis
    using q by (simp add: Let_def demo_run_start demo_run_stop_fails demo_run_stop global_active_count_def)
qed

end
