(* ===== verification/Provider_Ledger.thy ===== *)
theory Provider_Ledger
  imports Manager_Demo
begin

text \<open>
  The durable ledger of provider instances (\<open>src/crates/backend/src/sqlite_ledger.rs\<close>): one table
  keyed by runtime identifier, with an upsert for a creation, an update for a deletion and a query
  for the active rows of a provider. The JSON text of a column is produced and read by a
  serialisation library; its functions are parameters of the model and its round trip a hypothesis.
  The contract of the trait \<open>ProviderInstanceLedger\<close> is a locale; it is interpreted on this table.
\<close>

section \<open>Rows\<close>

fun state_to_column :: "ProviderLifecycleState \<Rightarrow> string" where
  "state_to_column Unknown = ''\"unknown\"''"
| "state_to_column Creating = ''\"creating\"''"
| "state_to_column Active = ''\"active\"''"
| "state_to_column Pausing = ''\"pausing\"''"
| "state_to_column Paused = ''\"paused\"''"
| "state_to_column Loading = ''\"loading\"''"
| "state_to_column Deleting = ''\"deleting\"''"
| "state_to_column Deleted = ''\"deleted\"''"
| "state_to_column Failed = ''\"failed\"''"

definition all_states :: "ProviderLifecycleState list" where
  "all_states = [Unknown, Creating, Active, Pausing, Paused, Loading, Deleting, Deleted, Failed]"

definition state_from_column :: "string \<Rightarrow> ProviderLifecycleState option" where
  "state_from_column c = find (\<lambda>s. state_to_column s = c) all_states"

record Codec =
  enc_endpoint :: "ProviderEndpoint \<Rightarrow> string"
  dec_endpoint :: "string \<Rightarrow> ProviderEndpoint option"
  enc_snapshot :: "ProviderSnapshot \<Rightarrow> string"
  dec_snapshot :: "string \<Rightarrow> ProviderSnapshot option"
  enc_capabilities :: "ProviderCapabilities \<Rightarrow> string"
  dec_capabilities :: "string \<Rightarrow> ProviderCapabilities option"
  enc_resources :: "ProviderResourceAllocation \<Rightarrow> string"
  dec_resources :: "string \<Rightarrow> ProviderResourceAllocation option"
  enc_metadata :: "json \<Rightarrow> string"
  dec_metadata :: "string \<Rightarrow> json option"

text \<open>Reading back what was written, for the columns of one instance.\<close>

definition codec_round_trip :: "Codec \<Rightarrow> ProviderInstance \<Rightarrow> bool" where
  "codec_round_trip c inst \<longleftrightarrow>
     (\<forall>x. pi_endpoint inst = Some x \<longrightarrow> dec_endpoint c (enc_endpoint c x) = Some x) \<and>
     (\<forall>x. pi_snapshot inst = Some x \<longrightarrow> dec_snapshot c (enc_snapshot c x) = Some x) \<and>
     dec_capabilities c (enc_capabilities c (pi_capabilities inst)) = Some (pi_capabilities inst) \<and>
     dec_resources c (enc_resources c (pi_resources inst)) = Some (pi_resources inst) \<and>
     dec_metadata c (enc_metadata c (pi_metadata inst)) = Some (pi_metadata inst)"

record ProviderInstanceRow =
  rw_runtime_id :: string
  rw_owner_ref :: string
  rw_backend_id :: string
  rw_provider :: string
  rw_instance_id :: string
  rw_state :: string
  rw_desired_state :: string
  rw_endpoint_json :: "string option"
  rw_snapshot_json :: "string option"
  rw_capabilities_json :: string
  rw_resources_json :: string
  rw_metadata_json :: string
  rw_created_at_ms :: u64
  rw_updated_at_ms :: u64

text \<open>The database: its rows in insertion order, whether the file carries the table of a session
  deployment, the clock, and the failures the next statements meet (none when the list is used up).\<close>

record LedgerDb =
  db_rows :: "ProviderInstanceRow list"
  db_deployment :: bool
  db_now_ms :: u64
  db_io :: "string option list"

definition next_io :: "LedgerDb \<Rightarrow> string option \<times> LedgerDb" where
  "next_io db = (case db_io db of [] \<Rightarrow> (None, db) | f # fs \<Rightarrow> (f, db\<lparr>db_io := fs\<rparr>))"

definition transport_error :: "string \<Rightarrow> ProviderControlError" where
  "transport_error m = Transport m"

definition row_of :: "Codec \<Rightarrow> string \<Rightarrow> string \<Rightarrow> ProviderInstance \<Rightarrow> ProviderInstanceRow" where
  "row_of c runtime_id owner_ref inst =
     \<lparr> rw_runtime_id = runtime_id, rw_owner_ref = owner_ref, rw_backend_id = pi_backend_id inst,
       rw_provider = pi_provider inst, rw_instance_id = pi_instance_id inst,
       rw_state = state_to_column (pi_state inst), rw_desired_state = state_to_column Active,
       rw_endpoint_json = map_option (enc_endpoint c) (pi_endpoint inst),
       rw_snapshot_json = map_option (enc_snapshot c) (pi_snapshot inst),
       rw_capabilities_json = enc_capabilities c (pi_capabilities inst),
       rw_resources_json = enc_resources c (pi_resources inst),
       rw_metadata_json = enc_metadata c (pi_metadata inst),
       rw_created_at_ms = pi_created_at_ms inst, rw_updated_at_ms = pi_updated_at_ms inst \<rparr>"

text \<open>The upsert: an existing row takes every column of the new one but its creation time.\<close>

fun upsert_row :: "ProviderInstanceRow \<Rightarrow> ProviderInstanceRow list \<Rightarrow> ProviderInstanceRow list" where
  "upsert_row r [] = [r]"
| "upsert_row r (x # xs) =
     (if rw_runtime_id x = rw_runtime_id r then r\<lparr>rw_created_at_ms := rw_created_at_ms x\<rparr> # xs
      else x # upsert_row r xs)"

text \<open>A write transaction is refused in a file that a session deployment has enrolled.\<close>

definition writer_transaction :: "LedgerDb \<Rightarrow> (string, unit) result" where
  "writer_transaction db =
     (if db_deployment db then Inl ''Query is not read-only'' else Inr ())"

definition record_created ::
  "Codec \<Rightarrow> string \<Rightarrow> string \<Rightarrow> ProviderInstance \<Rightarrow> LedgerDb
     \<Rightarrow> (ProviderControlError, unit) result \<times> LedgerDb" where
  "record_created c runtime_id owner_ref inst db =
     (case next_io db of
        (Some e, db) \<Rightarrow> (Inl (transport_error (''ledger record_created failed: '' @ e)), db)
      | (None, db) \<Rightarrow>
          (case writer_transaction db of
             Inl e \<Rightarrow> (Inl (transport_error (''ledger record_created failed: '' @ e)), db)
           | Inr _ \<Rightarrow> (Inr (), db\<lparr>db_rows := upsert_row (row_of c runtime_id owner_ref inst) (db_rows db)\<rparr>)))"

definition record_deleted ::
  "string \<Rightarrow> LedgerDb \<Rightarrow> (ProviderControlError, unit) result \<times> LedgerDb" where
  "record_deleted runtime_id db =
     (case next_io db of
        (Some e, db) \<Rightarrow> (Inl (transport_error (''ledger record_deleted failed: '' @ e)), db)
      | (None, db) \<Rightarrow>
          (case writer_transaction db of
             Inl e \<Rightarrow> (Inl (transport_error (''ledger record_deleted failed: '' @ e)), db)
           | Inr _ \<Rightarrow> (Inr (), db\<lparr>db_rows := map (\<lambda>r. if rw_runtime_id r = runtime_id
                 then r\<lparr>rw_state := state_to_column Deleted, rw_desired_state := state_to_column Deleted,
                        rw_updated_at_ms := db_now_ms db\<rparr> else r) (db_rows db)\<rparr>)))"

fun traverse_option :: "('a \<Rightarrow> 'b option) \<Rightarrow> 'a option \<Rightarrow> 'b option option" where
  "traverse_option f None = Some None"
| "traverse_option f (Some x) = map_option Some (f x)"

definition row_to_active_entry :: "Codec \<Rightarrow> ProviderInstanceRow \<Rightarrow> (string, ActiveLedgerEntry) result" where
  "row_to_active_entry c r =
     (case (state_from_column (rw_state r),
            traverse_option (dec_endpoint c) (rw_endpoint_json r),
            traverse_option (dec_snapshot c) (rw_snapshot_json r),
            dec_capabilities c (rw_capabilities_json r), dec_resources c (rw_resources_json r),
            dec_metadata c (rw_metadata_json r)) of
        (Some st, Some ep, Some sn, Some cap, Some res, Some md) \<Rightarrow>
          Inr \<lparr> le_runtime_id = rw_runtime_id r, le_owner_ref = rw_owner_ref r,
            le_instance = \<lparr> pi_backend_id = rw_backend_id r, pi_provider = rw_provider r,
              pi_instance_id = rw_instance_id r, pi_state = st, pi_endpoint = ep,
              pi_snapshot = sn, pi_capabilities = cap, pi_resources = res, pi_metadata = md,
              pi_created_at_ms = rw_created_at_ms r, pi_updated_at_ms = rw_updated_at_ms r \<rparr> \<rparr>
      | _ \<Rightarrow> Inl ''invalid column'')"

fun collect_entries ::
  "Codec \<Rightarrow> ProviderInstanceRow list \<Rightarrow> (string, ActiveLedgerEntry list) result" where
  "collect_entries c [] = Inr []"
| "collect_entries c (r # rs) =
     (case row_to_active_entry c r of
        Inl e \<Rightarrow> Inl (''row deserialization failed: '' @ e)
      | Inr entry \<Rightarrow> (case collect_entries c rs of Inl e \<Rightarrow> Inl e | Inr es \<Rightarrow> Inr (entry # es)))"

definition list_active ::
  "Codec \<Rightarrow> ProviderKind \<Rightarrow> LedgerDb
     \<Rightarrow> (ProviderControlError, ActiveLedgerEntry list) result \<times> LedgerDb" where
  "list_active c kind db =
     (case next_io db of
        (Some e, db) \<Rightarrow> (Inl (transport_error (''ledger list_active failed: '' @ e)), db)
      | (None, db) \<Rightarrow>
          (case collect_entries c (filter (\<lambda>r. rw_desired_state r = state_to_column Active \<and>
                  rw_provider r = kind) (db_rows db)) of
             Inl e \<Rightarrow> (Inl (transport_error (''ledger list_active failed: '' @ e)), db)
           | Inr es \<Rightarrow> (Inr es, db)))"

text \<open>The trait object over a world that contains the database.\<close>

definition sqlite_ledger ::
  "Codec \<Rightarrow> ('w \<Rightarrow> LedgerDb) \<Rightarrow> (LedgerDb \<Rightarrow> 'w \<Rightarrow> 'w) \<Rightarrow> 'w ProviderInstanceLedger" where
  "sqlite_ledger c get_db put_db =
     \<lparr> lg_record_created = (\<lambda>r ow inst w. let (res, db) = record_created c r ow inst (get_db w) in (res, put_db db w)),
       lg_record_deleted = (\<lambda>r w. let (res, db) = record_deleted r (get_db w) in (res, put_db db w)),
       lg_list_active = (\<lambda>k w. let (res, db) = list_active c k (get_db w) in (res, put_db db w)) \<rparr>"

section \<open>The contract of the ledger\<close>

text \<open>What the ledger says of a runtime identifier: owner, provider and instance.\<close>

type_synonym live_view = "string \<rightharpoonup> string \<times> ProviderKind \<times> ProviderInstanceId"

definition entry_view :: "ActiveLedgerEntry \<Rightarrow> string \<times> ProviderKind \<times> ProviderInstanceId" where
  "entry_view e = (le_owner_ref e, pi_provider (le_instance e), pi_instance_id (le_instance e))"

datatype ledger_event = LCreated string string ProviderInstance | LDeleted string

fun spec_event :: "live_view \<Rightarrow> ledger_event \<Rightarrow> live_view" where
  "spec_event v (LCreated r ow inst) = v(r \<mapsto> (ow, pi_provider inst, pi_instance_id inst))"
| "spec_event v (LDeleted r) = v(r := None)"

text \<open>A run of write operations through the two write calls, and the events that took effect.\<close>

fun run_writes ::
  "(string \<Rightarrow> string \<Rightarrow> ProviderInstance \<Rightarrow> 'l \<Rightarrow> (ProviderControlError, unit) result \<times> 'l)
     \<Rightarrow> (string \<Rightarrow> 'l \<Rightarrow> (ProviderControlError, unit) result \<times> 'l)
     \<Rightarrow> ledger_event list \<Rightarrow> 'l \<Rightarrow> ledger_event list \<times> 'l" where
  "run_writes created deleted [] l = ([], l)"
| "run_writes created deleted (ev # evs) l =
     (let (res, l1) = (case ev of LCreated r ow inst \<Rightarrow> created r ow inst l | LDeleted r \<Rightarrow> deleted r l);
          (took, l2) = run_writes created deleted evs l1
      in ((case res of Inr _ \<Rightarrow> ev # took | Inl _ \<Rightarrow> took), l2))"

fun event_ok :: "(ProviderInstance \<Rightarrow> bool) \<Rightarrow> ledger_event \<Rightarrow> bool" where
  "event_ok ok (LCreated _ _ inst) = ok inst"
| "event_ok ok (LDeleted _) = True"

locale ledger_contract =
  fixes created :: "string \<Rightarrow> string \<Rightarrow> ProviderInstance \<Rightarrow> 'l \<Rightarrow> (ProviderControlError, unit) result \<times> 'l"
    and deleted :: "string \<Rightarrow> 'l \<Rightarrow> (ProviderControlError, unit) result \<times> 'l"
    and active :: "ProviderKind \<Rightarrow> 'l \<Rightarrow> (ProviderControlError, ActiveLedgerEntry list) result \<times> 'l"
    and ok :: "ProviderInstance \<Rightarrow> bool" and good :: "'l \<Rightarrow> bool" and view :: "'l \<Rightarrow> live_view"
  assumes created_law: "good l \<Longrightarrow> ok inst \<Longrightarrow> created r ow inst l = (res, l') \<Longrightarrow>
      good l' \<and> view l' = (case res of Inr _ \<Rightarrow> spec_event (view l) (LCreated r ow inst) | Inl _ \<Rightarrow> view l)"
    and deleted_law: "good l \<Longrightarrow> deleted r l = (res, l') \<Longrightarrow>
      good l' \<and> view l' = (case res of Inr _ \<Rightarrow> spec_event (view l) (LDeleted r) | Inl _ \<Rightarrow> view l)"
    and active_law: "good l \<Longrightarrow> active k l = (Inr es, l') \<Longrightarrow>
      good l' \<and> view l' = view l \<and> distinct (map le_runtime_id es) \<and>
      (\<lambda>e. (le_runtime_id e, entry_view e)) ` set es = {(r, ow, p, i). view l r = Some (ow, p, i) \<and> p = k}"
begin

lemma run_writes_view:
  assumes "good l" and "run_writes created deleted evs l = (took, l')"
    and "\<forall>ev \<in> set evs. event_ok ok ev"
  shows "good l' \<and> view l' = foldl spec_event (view l) took"
  using assms
proof (induction evs arbitrary: l took)
  case Nil
  then show ?case by simp
next
  case (Cons ev evs)
  obtain res l1 where op: "(case ev of LCreated r ow inst \<Rightarrow> created r ow inst l | LDeleted r \<Rightarrow> deleted r l) = (res, l1)"
    by (rule prod.exhaust)
  obtain d where rest: "run_writes created deleted evs l1 = (d, l')"
    and d: "took = (case res of Inr _ \<Rightarrow> ev # d | Inl _ \<Rightarrow> d)"
    using Cons.prems(2) by (auto simp: op split: prod.splits)
  have "good l1 \<and> view l1 = (case res of Inr _ \<Rightarrow> spec_event (view l) ev | Inl _ \<Rightarrow> view l)"
    using op created_law [OF Cons.prems(1)] deleted_law [OF Cons.prems(1)] Cons.prems(3)
    by (cases ev) auto
  with Cons.IH [OF _ rest] Cons.prems(3) show ?case by (cases res) (auto simp: d)
qed

lemma listing_after_run:
  assumes "good l" and "run_writes created deleted evs l = (took, l1)"
    and "\<forall>ev \<in> set evs. event_ok ok ev" and "active k l1 = (Inr es, l2)"
  shows "distinct (map le_runtime_id es) \<and>
    (\<lambda>e. (le_runtime_id e, entry_view e)) ` set es =
      {(r, ow, p, i). foldl spec_event (view l) took r = Some (ow, p, i) \<and> p = k}"
  using run_writes_view [OF assms(1-3)] active_law [OF _ assms(4)] by simp

end

section \<open>The table implements the contract\<close>

definition row_view :: "ProviderInstanceRow \<Rightarrow> string \<times> ProviderKind \<times> ProviderInstanceId" where
  "row_view r = (rw_owner_ref r, rw_provider r, rw_instance_id r)"

definition db_view :: "LedgerDb \<Rightarrow> live_view" where
  "db_view db = map_of (map (\<lambda>r. (rw_runtime_id r, row_view r))
     (filter (\<lambda>r. rw_desired_state r = state_to_column Active) (db_rows db)))"

definition db_good :: "Codec \<Rightarrow> LedgerDb \<Rightarrow> bool" where
  "db_good c db \<longleftrightarrow> distinct (map rw_runtime_id (db_rows db)) \<and>
     (\<forall>r \<in> set (db_rows db). \<exists>e. row_to_active_entry c r = Inr e)"

lemma state_column_eq [simp]: "state_to_column s = state_to_column t \<longleftrightarrow> s = t"
  by (cases s; cases t) simp_all

lemma state_round_trip [simp]: "state_from_column (state_to_column s) = Some s"
  by (cases s) (simp_all add: state_from_column_def all_states_def)

declare state_to_column.simps [simp del]

lemma traverse_round_trip:
  "(\<And>x. y = Some x \<Longrightarrow> dec (enc x) = Some x) \<Longrightarrow> traverse_option dec (map_option enc y) = Some y"
  by (cases y) simp_all

lemma row_of_round_trip:
  assumes "codec_round_trip c inst"
  shows "row_to_active_entry c (row_of c r ow inst) =
    Inr \<lparr>le_runtime_id = r, le_owner_ref = ow, le_instance = inst\<rparr>"
  using assms by (simp add: row_to_active_entry_def row_of_def codec_round_trip_def traverse_round_trip)

lemma row_entry_fields:
  assumes "row_to_active_entry c r = Inr e"
  shows "le_runtime_id e = rw_runtime_id r" and "entry_view e = row_view r"
  using assms by (auto simp: row_to_active_entry_def entry_view_def row_view_def split: option.splits)

lemma next_io_frame:
  assumes "next_io db = (f, db')"
  shows "db_rows db' = db_rows db" and "db_deployment db' = db_deployment db"
  using assms by (auto simp: next_io_def split: list.splits)

lemma db_view_cong: "db_rows db' = db_rows db \<Longrightarrow> db_view db' = db_view db"
  by (simp add: db_view_def)

lemma db_good_cong: "db_rows db' = db_rows db \<Longrightarrow> db_good c db' = db_good c db"
  by (simp add: db_good_def)

lemma db_view_iff:
  assumes "distinct (map rw_runtime_id (db_rows db))"
  shows "db_view db r = Some v \<longleftrightarrow> (\<exists>row \<in> set (db_rows db). rw_runtime_id row = r \<and>
    rw_desired_state row = state_to_column Active \<and> row_view row = v)"
proof -
  let ?rows = "filter (\<lambda>r. rw_desired_state r = state_to_column Active) (db_rows db)"
  have "distinct (map fst (map (\<lambda>r. (rw_runtime_id r, row_view r)) ?rows))"
    using assms by (simp add: comp_def distinct_map_filter)
  from map_of_eq_Some_iff [OF this] show ?thesis by (auto simp: db_view_def)
qed

lemma map_ext_Some: "(\<And>k v. f k = Some v \<longleftrightarrow> g k = Some v) \<Longrightarrow> f = g"
  by (rule ext) (metis not_Some_eq)

lemma ids_upsert_row:
  "set (map rw_runtime_id (upsert_row r rs)) = insert (rw_runtime_id r) (set (map rw_runtime_id rs))"
  by (induction rs) auto

lemma distinct_upsert_row:
  "distinct (map rw_runtime_id rs) \<Longrightarrow> distinct (map rw_runtime_id (upsert_row r rs))"
proof (induction rs)
  case (Cons x xs)
  have "rw_runtime_id x \<notin> set (map rw_runtime_id (upsert_row r xs))" if "rw_runtime_id x \<noteq> rw_runtime_id r"
    using Cons.prems that unfolding ids_upsert_row by simp
  with Cons show ?case by (cases "rw_runtime_id x = rw_runtime_id r") simp_all
qed simp

lemma set_upsert_row:
  "distinct (map rw_runtime_id rs) \<Longrightarrow>
   \<exists>t. set (upsert_row r rs) = insert (r\<lparr>rw_created_at_ms := t\<rparr>) {x \<in> set rs. rw_runtime_id x \<noteq> rw_runtime_id r}"
proof (induction rs)
  case Nil
  have "upsert_row r [] = [r\<lparr>rw_created_at_ms := rw_created_at_ms r\<rparr>]" by simp
  then show ?case by (intro exI [of _ "rw_created_at_ms r"]) simp
next
  case (Cons x xs)
  show ?case
  proof (cases "rw_runtime_id x = rw_runtime_id r")
    case True
    then have "\<forall>y \<in> set xs. rw_runtime_id y \<noteq> rw_runtime_id r" using Cons.prems by (metis distinct.simps(2) image_eqI list.set_map list.simps(9))
    with True show ?thesis by (intro exI [of _ "rw_created_at_ms x"]) auto
  next
    case False
    obtain t where "set (upsert_row r xs) =
        insert (r\<lparr>rw_created_at_ms := t\<rparr>) {x \<in> set xs. rw_runtime_id x \<noteq> rw_runtime_id r}"
      using Cons by auto
    with False show ?thesis by (intro exI [of _ t]) auto
  qed
qed

lemma row_created_at_irrelevant:
  "row_view (r\<lparr>rw_created_at_ms := t\<rparr>) = row_view r"
  "(\<exists>e. row_to_active_entry c (r\<lparr>rw_created_at_ms := t\<rparr>) = Inr e) = (\<exists>e. row_to_active_entry c r = Inr e)"
  by (simp_all add: row_view_def row_to_active_entry_def split: option.splits)

lemma upsert_law:
  assumes "codec_round_trip c inst" and "db_good c db"
    and "db_rows db' = upsert_row (row_of c r ow inst) (db_rows db)"
  shows "db_good c db' \<and> db_view db' = spec_event (db_view db) (LCreated r ow inst)"
proof -
  have dist: "distinct (map rw_runtime_id (db_rows db))" using assms(2) by (simp add: db_good_def)
  let ?row = "row_of c r ow inst"
  have row: "rw_runtime_id ?row = r" "rw_desired_state ?row = state_to_column Active"
    "row_view ?row = (ow, pi_provider inst, pi_instance_id inst)"
    by (simp_all add: row_of_def row_view_def)
  obtain t where set: "set (db_rows db') = insert (?row\<lparr>rw_created_at_ms := t\<rparr>)
      {x \<in> set (db_rows db). rw_runtime_id x \<noteq> rw_runtime_id ?row}"
    using set_upsert_row [OF dist, of ?row] assms(3) by auto
  have dist': "distinct (map rw_runtime_id (db_rows db'))"
    unfolding assms(3) by (rule distinct_upsert_row [OF dist])
  have "\<exists>e. row_to_active_entry c (?row\<lparr>rw_created_at_ms := t\<rparr>) = Inr e"
    unfolding row_created_at_irrelevant using row_of_round_trip [OF assms(1)] by blast
  then have "db_good c db'" using assms(2) dist' set unfolding db_good_def by auto
  moreover have "db_view db' = spec_event (db_view db) (LCreated r ow inst)"
  proof (rule map_ext_Some)
    fix k v
    show "db_view db' k = Some v \<longleftrightarrow> spec_event (db_view db) (LCreated r ow inst) k = Some v"
      unfolding db_view_iff [OF dist'] set
      using db_view_iff [OF dist, of k v] by (auto simp: row row_created_at_irrelevant)
  qed
  ultimately show ?thesis ..
qed

definition retire_row :: "string \<Rightarrow> u64 \<Rightarrow> ProviderInstanceRow \<Rightarrow> ProviderInstanceRow" where
  "retire_row r now row = (if rw_runtime_id row = r
     then row\<lparr>rw_state := state_to_column Deleted, rw_desired_state := state_to_column Deleted,
              rw_updated_at_ms := now\<rparr> else row)"

lemma retire_row_facts:
  "rw_runtime_id (retire_row r now row) = rw_runtime_id row"
  "row_view (retire_row r now row) = row_view row"
  "rw_desired_state (retire_row r now row) = state_to_column Active \<longleftrightarrow>
     rw_runtime_id row \<noteq> r \<and> rw_desired_state row = state_to_column Active"
  "\<exists>e. row_to_active_entry c row = Inr e \<Longrightarrow> \<exists>e. row_to_active_entry c (retire_row r now row) = Inr e"
  by (auto simp: retire_row_def row_view_def row_to_active_entry_def split: option.splits)

lemma retire_law:
  assumes "db_good c db" and "db_rows db' = map (retire_row r now) (db_rows db)"
  shows "db_good c db' \<and> db_view db' = spec_event (db_view db) (LDeleted r)"
proof -
  have dist: "distinct (map rw_runtime_id (db_rows db))" using assms(1) by (simp add: db_good_def)
  have ids: "map rw_runtime_id (db_rows db') = map rw_runtime_id (db_rows db)"
    by (simp add: assms(2) retire_row_facts(1))
  have dist': "distinct (map rw_runtime_id (db_rows db'))" using dist by (simp add: ids)
  have "\<forall>row \<in> set (db_rows db'). \<exists>e. row_to_active_entry c row = Inr e"
    using assms(1) by (simp add: assms(2) db_good_def retire_row_facts(4))
  then have "db_good c db'" using dist' by (simp add: db_good_def)
  moreover have "db_view db' = spec_event (db_view db) (LDeleted r)"
  proof (rule map_ext_Some)
    fix k v
    show "db_view db' k = Some v \<longleftrightarrow> spec_event (db_view db) (LDeleted r) k = Some v"
      unfolding db_view_iff [OF dist']
      using db_view_iff [OF dist, of k v] by (auto simp: assms(2) retire_row_facts(1-3))
  qed
  ultimately show ?thesis ..
qed

lemma collect_entries_ok:
  assumes "collect_entries c rs = Inr es"
  shows "map le_runtime_id es = map rw_runtime_id rs \<and> map entry_view es = map row_view rs"
  using assms
  by (induction rs arbitrary: es) (auto simp: row_entry_fields split: sum.splits)

lemma listing_law:
  assumes "db_good c db"
    and "collect_entries c (filter (\<lambda>r. rw_desired_state r = state_to_column Active \<and> rw_provider r = k)
      (db_rows db)) = Inr es"
  shows "distinct (map le_runtime_id es) \<and>
    (\<lambda>e. (le_runtime_id e, entry_view e)) ` set es = {(r, ow, p, i). db_view db r = Some (ow, p, i) \<and> p = k}"
proof -
  let ?rows = "filter (\<lambda>r. rw_desired_state r = state_to_column Active \<and> rw_provider r = k) (db_rows db)"
  have dist: "distinct (map rw_runtime_id (db_rows db))" using assms(1) by (simp add: db_good_def)
  have es: "map le_runtime_id es = map rw_runtime_id ?rows" "map entry_view es = map row_view ?rows"
    using collect_entries_ok [OF assms(2)] by simp_all
  have "map (\<lambda>e. (le_runtime_id e, entry_view e)) es = zip (map le_runtime_id es) (map entry_view es)"
    by (simp add: zip_map_map zip_same_conv_map)
  also have "\<dots> = map (\<lambda>r. (rw_runtime_id r, row_view r)) ?rows"
    by (simp only: es) (simp add: zip_map_map zip_same_conv_map)
  finally have "set (map (\<lambda>e. (le_runtime_id e, entry_view e)) es) =
      set (map (\<lambda>r. (rw_runtime_id r, row_view r)) ?rows)"
    by (rule arg_cong)
  then have "(\<lambda>e. (le_runtime_id e, entry_view e)) ` set es =
      (\<lambda>r. (rw_runtime_id r, row_view r)) ` set ?rows"
    by (simp only: set_map)
  also have "\<dots> = {(r, ow, p, i). db_view db r = Some (ow, p, i) \<and> p = k}"
  proof (rule set_eqI)
    fix x :: "string \<times> string \<times> ProviderKind \<times> ProviderInstanceId"
    obtain r ow p i where x: "x = (r, ow, p, i)" by (rule prod_cases4)
    have "(r, ow, p, i) \<in> (\<lambda>r. (rw_runtime_id r, row_view r)) ` set ?rows \<longleftrightarrow>
        (\<exists>row \<in> set (db_rows db). rw_runtime_id row = r \<and>
           rw_desired_state row = state_to_column Active \<and> row_view row = (ow, p, i)) \<and> p = k"
      by (auto simp: row_view_def image_iff)
    then show "x \<in> (\<lambda>r. (rw_runtime_id r, row_view r)) ` set ?rows \<longleftrightarrow>
        x \<in> {(r, ow, p, i). db_view db r = Some (ow, p, i) \<and> p = k}"
      by (simp only: x db_view_iff [OF dist] mem_Collect_eq prod.case)
  qed
  finally show ?thesis using es(1) dist by (simp add: distinct_map_filter)
qed

lemma record_created_law:
  assumes "codec_round_trip c inst" and "db_good c db" and "record_created c r ow inst db = (res, db')"
  shows "db_good c db' \<and>
    db_view db' = (case res of Inr _ \<Rightarrow> spec_event (db_view db) (LCreated r ow inst) | Inl _ \<Rightarrow> db_view db)"
proof -
  obtain f db1 where io: "next_io db = (f, db1)" by (rule prod.exhaust)
  note fr = next_io_frame [OF io]
  show ?thesis
  proof (cases "f = None \<and> \<not> db_deployment db1")
    case True
    then have res: "res = Inr ()" and rows: "db_rows db' = upsert_row (row_of c r ow inst) (db_rows db)"
      using assms(3) fr(1) by (auto simp: record_created_def writer_transaction_def io)
    from upsert_law [OF assms(1,2) rows] show ?thesis by (simp add: res)
  next
    case False
    then obtain e where "db' = db1" and "res = Inl e"
      using assms(3) by (cases f) (auto simp: record_created_def writer_transaction_def io)
    then show ?thesis using assms(2) db_view_cong [OF fr(1)] db_good_cong [OF fr(1)] by simp
  qed
qed

lemma record_deleted_law:
  assumes "db_good c db" and "record_deleted r db = (res, db')"
  shows "db_good c db' \<and>
    db_view db' = (case res of Inr _ \<Rightarrow> spec_event (db_view db) (LDeleted r) | Inl _ \<Rightarrow> db_view db)"
proof -
  obtain f db1 where io: "next_io db = (f, db1)" by (rule prod.exhaust)
  note fr = next_io_frame [OF io]
  show ?thesis
  proof (cases "f = None \<and> \<not> db_deployment db1")
    case True
    then have res: "res = Inr ()" and rows: "db_rows db' = map (retire_row r (db_now_ms db1)) (db_rows db)"
      using assms(2) fr(1) by (auto simp: record_deleted_def writer_transaction_def retire_row_def io)
    from retire_law [OF assms(1) rows] show ?thesis by (simp add: res)
  next
    case False
    then obtain e where "db' = db1" and "res = Inl e"
      using assms(2) by (cases f) (auto simp: record_deleted_def writer_transaction_def io)
    then show ?thesis using assms(1) db_view_cong [OF fr(1)] db_good_cong [OF fr(1)] by simp
  qed
qed

lemma list_active_law:
  assumes "db_good c db" and "list_active c k db = (Inr es, db')"
  shows "db_good c db' \<and> db_view db' = db_view db \<and> distinct (map le_runtime_id es) \<and>
    (\<lambda>e. (le_runtime_id e, entry_view e)) ` set es = {(r, ow, p, i). db_view db r = Some (ow, p, i) \<and> p = k}"
proof -
  obtain f db1 where io: "next_io db = (f, db1)" by (rule prod.exhaust)
  note fr = next_io_frame [OF io]
  have db': "db' = db1" and es: "collect_entries c (filter (\<lambda>r. rw_desired_state r = state_to_column Active \<and>
      rw_provider r = k) (db_rows db)) = Inr es"
    using assms(2) by (auto simp: list_active_def io fr(1) split: option.splits sum.splits)
  have "db_good c db'" "db_view db' = db_view db"
    using assms(1) db_view_cong [OF fr(1)] db_good_cong [OF fr(1)] by (simp_all add: db')
  with listing_law [OF assms(1) es] show ?thesis by (intro conjI) simp_all
qed

interpretation sqlite: ledger_contract "record_created c" record_deleted "list_active c"
  "codec_round_trip c" "db_good c" db_view for c
  by unfold_locales (rule record_created_law record_deleted_law list_active_law; assumption)+

section \<open>What a listing shows\<close>

text \<open>C21. The ledger lists exactly what is live. After any sequence of creation and deletion
  records, some of which may have failed, a listing of a provider that succeeds has one entry per
  runtime identifier, and its entries are exactly the identifiers whose last effective record is a
  creation for that provider, each with the owner and the instance of that creation.\<close>

theorem ledger_lists_live_instances:
  assumes "db_good c db" and "\<forall>ev \<in> set evs. event_ok (codec_round_trip c) ev"
    and "run_writes (record_created c) record_deleted evs db = (took, db1)"
    and "list_active c k db1 = (Inr es, db2)"
  shows "distinct (map le_runtime_id es) \<and>
    (\<lambda>e. (le_runtime_id e, entry_view e)) ` set es =
      {(r, ow, p, i). foldl spec_event (db_view db) took r = Some (ow, p, i) \<and> p = k}"
  by (rule sqlite.listing_after_run [OF assms(1,3,2,4)])

definition demo_codec :: Codec where
  "demo_codec =
     \<lparr> enc_endpoint = (\<lambda>_. ''{\"kind\":\"local\"}''), dec_endpoint = (\<lambda>_. Some EpLocal),
       enc_snapshot = (\<lambda>_. ''null''), dec_snapshot = (\<lambda>_. None),
       enc_capabilities = (\<lambda>_. ''{}''), dec_capabilities = (\<lambda>_. Some (pi_capabilities (demo_instance [] []))),
       enc_resources = (\<lambda>_. ''{}''),
       dec_resources = (\<lambda>_. Some \<lparr> ra_vcpu_count = None, ra_memory_mb = None, ra_disk_mb = None \<rparr>),
       enc_metadata = (\<lambda>_. ''null''), dec_metadata = (\<lambda>_. Some JNull) \<rparr>"

definition demo_db :: "string option list \<Rightarrow> LedgerDb" where
  "demo_db io = \<lparr> db_rows = [], db_deployment = False, db_now_ms = 7, db_io = io \<rparr>"

definition demo_events :: "ledger_event list" where
  "demo_events = [LCreated ''r1'' ''tenant-a'' (demo_instance ''be'' ''i1''),
     LCreated ''r2'' ''tenant-b'' (demo_instance ''be'' ''i2''), LDeleted ''r1'', LDeleted ''r2'']"

theorem ledger_lists_live_instances_witness:
  "\<exists>es db2. list_active demo_codec ''local''
       (snd (run_writes (record_created demo_codec) record_deleted demo_events
          (demo_db [None, None, None, Some ''disk I/O error'']))) = (Inr es, db2) \<and>
     (\<lambda>e. (le_runtime_id e, entry_view e)) ` set es = {(''r2'', ''tenant-b'', ''local'', ''i2'')}"
proof -
  let ?db = "demo_db [None, None, None, Some ''disk I/O error'']"
  let ?run = "run_writes (record_created demo_codec) record_deleted demo_events ?db"
  note eval = demo_events_def record_created_def record_deleted_def next_io_def demo_db_def
    writer_transaction_def row_of_def state_to_column.simps demo_codec_def demo_instance_def
  have run: "?run = (take 3 demo_events, snd ?run)" by (simp add: eval)
  have ls: "list_active demo_codec ''local'' (snd ?run) =
      (Inr [\<lparr>le_runtime_id = ''r2'', le_owner_ref = ''tenant-b'', le_instance = demo_instance ''be'' ''i2''\<rparr>],
       snd (list_active demo_codec ''local'' (snd ?run)))"
    by (simp add: eval list_active_def row_to_active_entry_def state_from_column_def all_states_def)
  have good: "db_good demo_codec ?db" by (simp add: db_good_def demo_db_def)
  have ok: "\<forall>ev \<in> set demo_events. event_ok (codec_round_trip demo_codec) ev"
    by (simp add: demo_events_def codec_round_trip_def demo_codec_def demo_instance_def)
  have view: "{(r, ow, p, i). foldl spec_event (db_view ?db) (take 3 demo_events) r = Some (ow, p, i) \<and> p = ''local''} =
      {(''r2'', ''tenant-b'', ''local'', ''i2'')}"
    by (auto simp: demo_events_def demo_db_def db_view_def demo_instance_def split: if_splits)
  show ?thesis
    using ledger_lists_live_instances [OF good ok run ls] ls unfolding view by blast
qed

end
