(* ===== verification/Session_Lease.thy ===== *)
theory Session_Lease
  imports Gov_Prelude
begin

text \<open>
  Session leases (\<open>src/crates/core/src/session_lease.rs\<close>): the table of lease holders, sharded by a
  hash of the session identifier, and its operations. The hash is a parameter, since the standard
  library leaves the function unspecified. Every operation reads the wall clock first; a clock before
  the epoch is \<open>None\<close>. A shard is an association list with one entry per session, which is the
  iteration order of the hash map. The table is an instance of a keyed table interface, and every
  operation refines the same operation on one flat map.
\<close>

section \<open>Principals and leases\<close>

definition LEASE_TABLE_SHARD_COUNT :: nat where
  "LEASE_TABLE_SHARD_COUNT = 16"

definition STALE_LEASE_THRESHOLD_MS :: u64 where
  "STALE_LEASE_THRESHOLD_MS = 45000"

definition ORPHAN_SESSION_THRESHOLD_MS :: u64 where
  "ORPHAN_SESSION_THRESHOLD_MS = 1800000"

definition DAEMON_PRINCIPAL_PREFIX :: string where
  "DAEMON_PRINCIPAL_PREFIX = ''daemon:''"

definition is_daemon_principal :: "string \<Rightarrow> bool" where
  "is_daemon_principal client_id = starts_with client_id DAEMON_PRINCIPAL_PREFIX"

definition daemon_principal :: "string \<Rightarrow> string" where
  "daemon_principal suffix = DAEMON_PRINCIPAL_PREFIX @ suffix"

definition daemon_cron_principal :: string where
  "daemon_cron_principal = daemon_principal ''cron''"

definition daemon_hook_principal :: "string \<Rightarrow> string" where
  "daemon_hook_principal hook_id = daemon_principal (''hook:'' @ hook_id)"

definition daemon_channel_principal :: "string \<Rightarrow> string" where
  "daemon_channel_principal channel_id = daemon_principal (''channel:'' @ channel_id)"

record SessionLease =
  sl_client_id :: string
  sl_client_pid :: "u32 option"
  sl_client_hostname :: "string option"
  sl_last_heartbeat_ms :: u64

definition is_stale :: "SessionLease \<Rightarrow> u64 \<Rightarrow> u64 \<Rightarrow> bool" where
  "is_stale lease now threshold_ms =
     (if sl_last_heartbeat_ms lease = 0 then True
      else threshold_ms < saturating_sub now (sl_last_heartbeat_ms lease))"

record LeaseBusy =
  lb_holder_client_id :: string
  lb_holder_hostname :: "string option"
  lb_holder_pid :: "u32 option"
  lb_last_heartbeat_ms :: u64
  lb_stale :: bool

datatype LeaseAcquireOutcome = Acquired | AcquireBusy LeaseBusy | AcquireClockSkew

datatype LeaseCheckFailure = LeaseBusyFailure LeaseBusy | LeaseClockSkew

definition fresh_lease :: "string \<Rightarrow> u32 option \<Rightarrow> string option \<Rightarrow> u64 \<Rightarrow> SessionLease" where
  "fresh_lease client_id client_pid client_hostname now =
     \<lparr> sl_client_id = client_id, sl_client_pid = client_pid,
       sl_client_hostname = client_hostname, sl_last_heartbeat_ms = now \<rparr>"

definition busy_of :: "SessionLease \<Rightarrow> bool \<Rightarrow> LeaseBusy" where
  "busy_of lease stale =
     \<lparr> lb_holder_client_id = sl_client_id lease, lb_holder_hostname = sl_client_hostname lease,
       lb_holder_pid = sl_client_pid lease, lb_last_heartbeat_ms = sl_last_heartbeat_ms lease,
       lb_stale = stale \<rparr>"

section \<open>The sharded table\<close>

record SessionLeaseTable =
  lt_shards :: "(string \<times> SessionLease) list list"
  lt_stale_threshold_ms :: u64
  lt_hash :: "string \<Rightarrow> nat"

definition with_stale_threshold_ms :: "(string \<Rightarrow> nat) \<Rightarrow> u64 \<Rightarrow> SessionLeaseTable" where
  "with_stale_threshold_ms hash threshold =
     \<lparr> lt_shards = replicate LEASE_TABLE_SHARD_COUNT [], lt_stale_threshold_ms = threshold,
       lt_hash = hash \<rparr>"

definition default_SessionLeaseTable :: "(string \<Rightarrow> nat) \<Rightarrow> SessionLeaseTable" where
  "default_SessionLeaseTable hash = with_stale_threshold_ms hash STALE_LEASE_THRESHOLD_MS"

definition shard_for :: "SessionLeaseTable \<Rightarrow> string \<Rightarrow> nat" where
  "shard_for t session_id = lt_hash t session_id mod length (lt_shards t)"

text \<open>Reading, writing and removing the entry of a session in its shard.\<close>

definition lease_get :: "SessionLeaseTable \<Rightarrow> string \<Rightarrow> SessionLease option" where
  "lease_get t session_id = map_of (lt_shards t ! shard_for t session_id) session_id"

definition lease_put :: "string \<Rightarrow> SessionLease \<Rightarrow> SessionLeaseTable \<Rightarrow> SessionLeaseTable" where
  "lease_put session_id lease t =
     (let i = shard_for t session_id
      in t\<lparr>lt_shards := (lt_shards t)[i := AList.update session_id lease (lt_shards t ! i)]\<rparr>)"

definition lease_del :: "string \<Rightarrow> SessionLeaseTable \<Rightarrow> SessionLeaseTable" where
  "lease_del session_id t =
     (let i = shard_for t session_id
      in t\<lparr>lt_shards := (lt_shards t)[i := AList.delete session_id (lt_shards t ! i)]\<rparr>)"

section \<open>Operations\<close>

definition acquire ::
  "u64 option \<Rightarrow> string \<Rightarrow> string \<Rightarrow> u32 option \<Rightarrow> string option \<Rightarrow> SessionLeaseTable
     \<Rightarrow> LeaseAcquireOutcome \<times> SessionLeaseTable" where
  "acquire clock session_id client_id client_pid client_hostname t =
     (case clock of
        None \<Rightarrow> (AcquireClockSkew, t)
      | Some now \<Rightarrow>
          (case lease_get t session_id of
             Some lease \<Rightarrow>
               if sl_client_id lease = client_id
               then (Acquired, lease_put session_id
                      (lease\<lparr>sl_last_heartbeat_ms := now,
                             sl_client_pid := (if client_pid \<noteq> None then client_pid else sl_client_pid lease),
                             sl_client_hostname := (if client_hostname \<noteq> None then client_hostname
                               else sl_client_hostname lease)\<rparr>) t)
               else if is_stale lease now (lt_stale_threshold_ms t)
               then (Acquired, lease_put session_id
                      (fresh_lease client_id client_pid client_hostname now) t)
               else (AcquireBusy (busy_of lease False), t)
           | None \<Rightarrow>
               (Acquired, lease_put session_id
                  (fresh_lease client_id client_pid client_hostname now) t)))"

definition ensure_unclaimed :: "u64 option \<Rightarrow> string \<Rightarrow> SessionLeaseTable \<Rightarrow> SessionLeaseTable" where
  "ensure_unclaimed clock session_id t =
     (case clock of
        None \<Rightarrow> t
      | Some now \<Rightarrow>
          (case lease_get t session_id of
             Some _ \<Rightarrow> t
           | None \<Rightarrow> lease_put session_id (fresh_lease [] None None now) t))"

definition heartbeat ::
  "u64 option \<Rightarrow> string \<Rightarrow> string \<Rightarrow> u32 option \<Rightarrow> string option \<Rightarrow> SessionLeaseTable
     \<Rightarrow> (LeaseCheckFailure, unit) result \<times> SessionLeaseTable" where
  "heartbeat clock session_id client_id client_pid client_hostname t =
     (case clock of
        None \<Rightarrow> (Inl LeaseClockSkew, t)
      | Some now \<Rightarrow>
          (case lease_get t session_id of
             Some lease \<Rightarrow>
               if sl_client_id lease = client_id
               then (Inr (), lease_put session_id (lease\<lparr>sl_last_heartbeat_ms := now\<rparr>) t)
               else (Inl (LeaseBusyFailure (busy_of lease (is_stale lease now (lt_stale_threshold_ms t)))), t)
           | None \<Rightarrow>
               (Inr (), lease_put session_id
                  (fresh_lease client_id client_pid client_hostname now) t)))"

definition detach :: "string \<Rightarrow> string \<Rightarrow> SessionLeaseTable \<Rightarrow> SessionLeaseTable" where
  "detach session_id client_id t =
     (case lease_get t session_id of
        Some lease \<Rightarrow> if sl_client_id lease = client_id then lease_del session_id t else t
      | None \<Rightarrow> t)"

definition has_live_lease :: "u64 option \<Rightarrow> string \<Rightarrow> u64 \<Rightarrow> SessionLeaseTable \<Rightarrow> bool" where
  "has_live_lease clock session_id threshold_ms t =
     (case clock of
        None \<Rightarrow> False
      | Some now \<Rightarrow>
          (case lease_get t session_id of
             Some lease \<Rightarrow> \<not> is_stale lease now threshold_ms
           | None \<Rightarrow> False))"

definition check_holder ::
  "u64 option \<Rightarrow> string \<Rightarrow> string option \<Rightarrow> SessionLeaseTable \<Rightarrow> (LeaseCheckFailure, unit) result" where
  "check_holder clock session_id client_id t =
     (case clock of
        None \<Rightarrow> Inl LeaseClockSkew
      | Some now \<Rightarrow>
          (case lease_get t session_id of
             None \<Rightarrow> Inr ()
           | Some lease \<Rightarrow>
               if client_id = Some (sl_client_id lease) \<or> is_stale lease now (lt_stale_threshold_ms t)
               then Inr ()
               else Inl (LeaseBusyFailure (busy_of lease False))))"

definition check_or_takeover_holder ::
  "u64 option \<Rightarrow> string \<Rightarrow> string option \<Rightarrow> SessionLeaseTable
     \<Rightarrow> (LeaseCheckFailure, unit) result \<times> SessionLeaseTable" where
  "check_or_takeover_holder clock session_id client_id t =
     (case clock of
        None \<Rightarrow> (Inl LeaseClockSkew, t)
      | Some now \<Rightarrow>
          (case lease_get t session_id of
             None \<Rightarrow> (Inr (), t)
           | Some lease \<Rightarrow>
               if client_id = Some (sl_client_id lease) then (Inr (), t)
               else if is_stale lease now (lt_stale_threshold_ms t)
               then (Inr (), (case client_id of
                       Some cid \<Rightarrow> if cid \<noteq> [] then lease_put session_id (fresh_lease cid None None now) t else t
                     | None \<Rightarrow> t))
               else (Inl (LeaseBusyFailure (busy_of lease False)), t)))"

definition lease_remove :: "string \<Rightarrow> SessionLeaseTable \<Rightarrow> SessionLeaseTable" where
  "lease_remove session_id t = lease_del session_id t"

definition lease_snapshot :: "SessionLeaseTable \<Rightarrow> (string \<times> string \<times> u64) list" where
  "lease_snapshot t =
     concat (map (map (\<lambda>(sid, lease). (sid, sl_client_id lease, sl_last_heartbeat_ms lease))) (lt_shards t))"

section \<open>The interface of a keyed table\<close>

text \<open>What the lease operations rely on: lookup after insertion and removal, and an enumeration
  that lists every entry once.\<close>

locale keyed_table =
  fixes wf :: "'t \<Rightarrow> bool" and get :: "'t \<Rightarrow> 'k \<Rightarrow> 'v option"
    and put :: "'k \<Rightarrow> 'v \<Rightarrow> 't \<Rightarrow> 't" and del :: "'k \<Rightarrow> 't \<Rightarrow> 't"
    and entries :: "'t \<Rightarrow> ('k \<times> 'v) list"
  assumes wf_put: "wf t \<Longrightarrow> wf (put k v t)"
    and wf_del: "wf t \<Longrightarrow> wf (del k t)"
    and get_put: "wf t \<Longrightarrow> get (put k v t) = (get t)(k \<mapsto> v)"
    and get_del: "wf t \<Longrightarrow> get (del k t) = (get t)(k := None)"
    and set_entries: "wf t \<Longrightarrow> set (entries t) = {(k, v). get t k = Some v}"
    and distinct_entries: "wf t \<Longrightarrow> distinct (map fst (entries t))"
begin

lemma entries_map_of: "wf t \<Longrightarrow> map_of (entries t) = get t"
proof (rule ext)
  fix k
  assume "wf t"
  then show "map_of (entries t) k = get t k"
    using map_of_eq_Some_iff [OF distinct_entries, of t k] set_entries [of t]
    by (cases "get t k"; cases "map_of (entries t) k") auto
qed

lemma put_put: "wf t \<Longrightarrow> get (put k v' (put k v t)) = get (put k v' t)"
  by (simp add: get_put wf_put)

lemma del_put: "wf t \<Longrightarrow> get (del k (put k v t)) = get (del k t)"
  by (simp add: get_put get_del wf_put)

end

definition lease_wf :: "SessionLeaseTable \<Rightarrow> bool" where
  "lease_wf t \<longleftrightarrow> lt_shards t \<noteq> [] \<and>
     (\<forall>i < length (lt_shards t). distinct (map fst (lt_shards t ! i)) \<and>
        fst ` set (lt_shards t ! i) \<subseteq> {sid. shard_for t sid = i})"

lemma keys_update: "fst ` set (AList.update k v al) = insert k (fst ` set al)"
  by (simp add: dom_update)

lemma keys_delete: "fst ` set (AList.delete k al) = fst ` set al - {k}"
proof -
  have "set (map fst (AList.delete k al)) = set (map fst al) - {k}"
    unfolding delete_keys by simp
  then show ?thesis by simp
qed

lemma shard_for_less: "lease_wf t \<Longrightarrow> shard_for t sid < length (lt_shards t)"
  by (simp add: lease_wf_def shard_for_def)

lemma lease_put_frame [simp]:
  "shard_for (lease_put sid l t) = shard_for t"
  "shard_for (lease_del sid t) = shard_for t"
  "lt_stale_threshold_ms (lease_put sid l t) = lt_stale_threshold_ms t"
  "lt_stale_threshold_ms (lease_del sid t) = lt_stale_threshold_ms t"
  "length (lt_shards (lease_put sid l t)) = length (lt_shards t)"
  "length (lt_shards (lease_del sid t)) = length (lt_shards t)"
  by (simp_all add: fun_eq_iff lease_put_def lease_del_def shard_for_def Let_def)

lemma nth_lease_put:
  "i < length (lt_shards t) \<Longrightarrow> lt_shards (lease_put sid l t) ! i =
     (if i = shard_for t sid then AList.update sid l (lt_shards t ! i) else lt_shards t ! i)"
  by (simp add: lease_put_def Let_def)

lemma nth_lease_del:
  "i < length (lt_shards t) \<Longrightarrow> lt_shards (lease_del sid t) ! i =
     (if i = shard_for t sid then AList.delete sid (lt_shards t ! i) else lt_shards t ! i)"
  by (simp add: lease_del_def Let_def)

lemma lease_wf_put:
  assumes "lease_wf t"
  shows "lease_wf (lease_put sid l t)"
  unfolding lease_wf_def
proof (intro conjI allI impI)
  show "lt_shards (lease_put sid l t) \<noteq> []"
    using assms lease_put_frame(5) [of sid l t] by (auto simp: lease_wf_def simp del: lease_put_frame)
next
  fix i
  assume "i < length (lt_shards (lease_put sid l t))"
  then have i: "i < length (lt_shards t)" by simp
  with assms show "distinct (map fst (lt_shards (lease_put sid l t) ! i))"
    by (simp add: nth_lease_put lease_wf_def distinct_update)
  have "fst ` set (lt_shards t ! i) \<subseteq> {x. shard_for t x = i}" using assms i by (simp add: lease_wf_def)
  then show "fst ` set (lt_shards (lease_put sid l t) ! i) \<subseteq> {x. shard_for (lease_put sid l t) x = i}"
    using i by (cases "i = shard_for t sid") (auto simp: nth_lease_put keys_update)
qed

lemma lease_wf_del:
  assumes "lease_wf t"
  shows "lease_wf (lease_del sid t)"
  unfolding lease_wf_def
proof (intro conjI allI impI)
  show "lt_shards (lease_del sid t) \<noteq> []"
    using assms lease_put_frame(6) [of sid t] by (auto simp: lease_wf_def simp del: lease_put_frame)
next
  fix i
  assume "i < length (lt_shards (lease_del sid t))"
  then have i: "i < length (lt_shards t)" by simp
  with assms show "distinct (map fst (lt_shards (lease_del sid t) ! i))"
    by (simp add: nth_lease_del lease_wf_def distinct_delete)
  have "fst ` set (lt_shards t ! i) \<subseteq> {x. shard_for t x = i}" using assms i by (simp add: lease_wf_def)
  then show "fst ` set (lt_shards (lease_del sid t) ! i) \<subseteq> {x. shard_for (lease_del sid t) x = i}"
    by (auto simp: nth_lease_del i keys_delete)
qed

lemma lease_get_put:
  assumes "lease_wf t"
  shows "lease_get (lease_put sid l t) = (lease_get t)(sid \<mapsto> l)"
  by (rule ext) (simp add: lease_get_def nth_lease_put shard_for_less [OF assms] update_conv')

lemma lease_get_del:
  assumes "lease_wf t"
  shows "lease_get (lease_del sid t) = (lease_get t)(sid := None)"
  by (rule ext) (simp add: lease_get_def nth_lease_del shard_for_less [OF assms] delete_conv')

definition lease_entries :: "SessionLeaseTable \<Rightarrow> (string \<times> SessionLease) list" where
  "lease_entries t = concat (lt_shards t)"

lemma lease_entries_set:
  assumes "lease_wf t"
  shows "set (lease_entries t) = {(sid, l). lease_get t sid = Some l}"
proof (rule set_eqI, clarify)
  fix sid l
  show "(sid, l) \<in> set (lease_entries t) \<longleftrightarrow> (sid, l) \<in> {(sid, l). lease_get t sid = Some l}"
  proof
    assume "(sid, l) \<in> set (lease_entries t)"
    then obtain i where i: "i < length (lt_shards t)" "(sid, l) \<in> set (lt_shards t ! i)"
      unfolding lease_entries_def set_concat by (metis UN_E in_set_conv_nth)
    then have "sid \<in> fst ` set (lt_shards t ! i)" by force
    with assms i(1) have "shard_for t sid = i" "distinct (map fst (lt_shards t ! i))"
      by (auto simp: lease_wf_def)
    then show "(sid, l) \<in> {(sid, l). lease_get t sid = Some l}"
      using i(2) by (simp add: lease_get_def)
  next
    assume "(sid, l) \<in> {(sid, l). lease_get t sid = Some l}"
    then have "(sid, l) \<in> set (lt_shards t ! shard_for t sid)" by (simp add: lease_get_def map_of_SomeD)
    then show "(sid, l) \<in> set (lease_entries t)"
      using shard_for_less [OF assms] by (auto simp: lease_entries_def)
  qed
qed

lemma distinct_concat_keyed:
  assumes "\<forall>i < length xs. distinct (xs ! i) \<and> (\<forall>k \<in> set (xs ! i). f k = n + i)"
  shows "distinct (concat xs) \<and> (\<forall>k \<in> set (concat xs). n \<le> f k)"
  using assms
proof (induction xs arbitrary: n)
  case (Cons x xs)
  have "\<forall>i < length xs. distinct (xs ! i) \<and> (\<forall>k \<in> set (xs ! i). f k = Suc n + i)"
  proof (intro allI impI)
    fix i
    assume "i < length xs"
    then show "distinct (xs ! i) \<and> (\<forall>k \<in> set (xs ! i). f k = Suc n + i)"
      using Cons.prems [rule_format, of "Suc i"] by simp
  qed
  from Cons.IH [OF this] have rest: "distinct (concat xs)" "\<forall>k \<in> set (concat xs). Suc n \<le> f k"
    by simp_all
  have hd: "distinct x" "\<forall>k \<in> set x. f k = n" using Cons.prems [rule_format, of 0] by simp_all
  have "set x \<inter> set (concat xs) = {}" using rest(2) hd(2) by fastforce
  with rest hd show ?case by (auto dest: Suc_leD)
qed simp

lemma lease_entries_distinct:
  assumes "lease_wf t"
  shows "distinct (map fst (lease_entries t))"
proof -
  have "map fst (lease_entries t) = concat (map (map fst) (lt_shards t))"
    by (simp add: lease_entries_def map_concat)
  moreover have "distinct (concat (map (map fst) (lt_shards t)))"
    using distinct_concat_keyed [of "map (map fst) (lt_shards t)" "shard_for t" 0] assms
    by (auto simp: lease_wf_def)
  ultimately show ?thesis by simp
qed

interpretation leases: keyed_table lease_wf lease_get lease_put lease_del lease_entries
  by unfold_locales
    (simp_all add: lease_wf_put lease_wf_del lease_get_put lease_get_del lease_entries_set
      lease_entries_distinct)

lemma lease_wf_new: "lease_wf (with_stale_threshold_ms hash thr)"
  by (simp add: lease_wf_def with_stale_threshold_ms_def LEASE_TABLE_SHARD_COUNT_def)

section \<open>The specification: one lease per session\<close>

datatype lease_op =
    LAcquire string "u32 option" "string option"
  | LEnsure
  | LHeartbeat string "u32 option" "string option"
  | LDetach string
  | LCheck "string option"
  | LTakeover "string option"
  | LRemove

datatype lease_reply =
    RAcquire LeaseAcquireOutcome
  | RChecked "(LeaseCheckFailure, unit) result"
  | RDone

fun exec_lease ::
  "u64 option \<Rightarrow> string \<Rightarrow> lease_op \<Rightarrow> SessionLeaseTable \<Rightarrow> lease_reply \<times> SessionLeaseTable" where
  "exec_lease clock sid (LAcquire cid pid host) t =
     (let (r, t') = acquire clock sid cid pid host t in (RAcquire r, t'))"
| "exec_lease clock sid LEnsure t = (RDone, ensure_unclaimed clock sid t)"
| "exec_lease clock sid (LHeartbeat cid pid host) t =
     (let (r, t') = heartbeat clock sid cid pid host t in (RChecked r, t'))"
| "exec_lease clock sid (LDetach cid) t = (RDone, detach sid cid t)"
| "exec_lease clock sid (LCheck cid) t = (RChecked (check_holder clock sid cid t), t)"
| "exec_lease clock sid (LTakeover cid) t =
     (let (r, t') = check_or_takeover_holder clock sid cid t in (RChecked r, t'))"
| "exec_lease clock sid LRemove t = (RDone, lease_remove sid t)"

text \<open>What an operation at a time does to the lease of its session, with no table in sight.\<close>

fun lease_step ::
  "u64 \<Rightarrow> u64 \<Rightarrow> lease_op \<Rightarrow> SessionLease option \<Rightarrow> lease_reply \<times> SessionLease option" where
  "lease_step thr now (LAcquire cid pid host) None = (RAcquire Acquired, Some (fresh_lease cid pid host now))"
| "lease_step thr now (LAcquire cid pid host) (Some l) =
     (if sl_client_id l = cid
      then (RAcquire Acquired, Some (fresh_lease cid
             (if pid = None then sl_client_pid l else pid)
             (if host = None then sl_client_hostname l else host) now))
      else if is_stale l now thr then (RAcquire Acquired, Some (fresh_lease cid pid host now))
      else (RAcquire (AcquireBusy (busy_of l False)), Some l))"
| "lease_step thr now LEnsure lo =
     (RDone, Some (case lo of None \<Rightarrow> fresh_lease [] None None now | Some l \<Rightarrow> l))"
| "lease_step thr now (LHeartbeat cid pid host) None =
     (RChecked (Inr ()), Some (fresh_lease cid pid host now))"
| "lease_step thr now (LHeartbeat cid pid host) (Some l) =
     (if sl_client_id l = cid
      then (RChecked (Inr ()), Some (fresh_lease cid (sl_client_pid l) (sl_client_hostname l) now))
      else (RChecked (Inl (LeaseBusyFailure (busy_of l (is_stale l now thr)))), Some l))"
| "lease_step thr now (LDetach cid) lo =
     (RDone, (case lo of Some l \<Rightarrow> if sl_client_id l = cid then None else Some l | None \<Rightarrow> None))"
| "lease_step thr now (LCheck cid) lo =
     (RChecked (case lo of None \<Rightarrow> Inr ()
        | Some l \<Rightarrow> if cid = Some (sl_client_id l) \<or> is_stale l now thr then Inr ()
                   else Inl (LeaseBusyFailure (busy_of l False))), lo)"
| "lease_step thr now (LTakeover cid) None = (RChecked (Inr ()), None)"
| "lease_step thr now (LTakeover cid) (Some l) =
     (if cid = Some (sl_client_id l) then (RChecked (Inr ()), Some l)
      else if is_stale l now thr
      then (RChecked (Inr ()),
            Some (if cid = None \<or> cid = Some [] then l else fresh_lease (the cid) None None now))
      else (RChecked (Inl (LeaseBusyFailure (busy_of l False))), Some l))"
| "lease_step thr now LRemove lo = (RDone, None)"

lemma fresh_lease_eta:
  "l\<lparr>sl_last_heartbeat_ms := now\<rparr> = fresh_lease (sl_client_id l) (sl_client_pid l) (sl_client_hostname l) now"
  "fresh_lease c p h now\<lparr>sl_client_pid := p', sl_client_hostname := h'\<rparr> = fresh_lease c p' h' now"
  by (simp_all add: fresh_lease_def)

lemmas lease_op_defs =
  acquire_def ensure_unclaimed_def heartbeat_def detach_def check_holder_def
  check_or_takeover_holder_def lease_remove_def

lemma exec_lease_refines:
  assumes "lease_wf t" and "exec_lease (Some now) sid op t = (r, t')"
  shows "lease_wf t' \<and> lt_stale_threshold_ms t' = lt_stale_threshold_ms t \<and>
    (\<exists>lo. lease_step (lt_stale_threshold_ms t) now op (lease_get t sid) = (r, lo) \<and>
       lease_get t' = (lease_get t)(sid := lo))"
  using assms
  by (cases op; cases "lease_get t sid")
    (auto simp: lease_op_defs fresh_lease_eta leases.wf_put leases.wf_del leases.get_put
      leases.get_del fun_upd_idem Let_def split: if_splits option.splits)

text \<open>C15. The sharded table is one table. Every lease operation on a well-formed table keeps it
  well formed and acts on exactly the lease of its own session, in the way the specification of a
  single lease says; the leases of all other sessions, in the same shard or not, are untouched.\<close>

theorem sharded_table_refines_single_lease:
  assumes "lease_wf t"
  shows "lease_wf (snd (exec_lease (Some now) sid op t)) \<and>
    (fst (exec_lease (Some now) sid op t), lease_get (snd (exec_lease (Some now) sid op t)) sid) =
      lease_step (lt_stale_threshold_ms t) now op (lease_get t sid) \<and>
    (\<forall>sid'. sid' \<noteq> sid \<longrightarrow> lease_get (snd (exec_lease (Some now) sid op t)) sid' = lease_get t sid')"
  using exec_lease_refines [OF assms, of now sid op "fst (exec_lease (Some now) sid op t)"
      "snd (exec_lease (Some now) sid op t)"] by auto

theorem sharded_table_refines_single_lease_witness:
  "lease_get (snd (exec_lease (Some 1000) ''s1'' (LAcquire ''tui'' (Some 7) None)
     (default_SessionLeaseTable length))) ''s1'' = Some (fresh_lease ''tui'' (Some 7) None 1000)"
proof -
  have "lease_wf (default_SessionLeaseTable length)"
    by (simp add: default_SessionLeaseTable_def lease_wf_new)
  moreover have "lease_get (default_SessionLeaseTable length) ''s1'' = None"
    by (simp add: lease_get_def default_SessionLeaseTable_def with_stale_threshold_ms_def shard_for_def
        LEASE_TABLE_SHARD_COUNT_def)
  ultimately show ?thesis
    using sharded_table_refines_single_lease [of "default_SessionLeaseTable length" 1000 "''s1''"
        "LAcquire ''tui'' (Some 7) None"] by simp
qed

section \<open>Single writer\<close>

type_synonym lease_event = "u64 \<times> string \<times> lease_op"

fun run_lease :: "lease_event list \<Rightarrow> SessionLeaseTable \<Rightarrow> lease_reply list \<times> SessionLeaseTable" where
  "run_lease [] t = ([], t)"
| "run_lease ((now, sid, op) # evs) t =
     (let (r, t1) = exec_lease (Some now) sid op t; (rs, t2) = run_lease evs t1 in (r # rs, t2))"

text \<open>The reply lets a client act as the writer of the session.\<close>

fun grants :: "lease_op \<Rightarrow> lease_reply \<Rightarrow> string \<Rightarrow> bool" where
  "grants (LAcquire cid _ _) (RAcquire Acquired) c = (cid = c)"
| "grants (LHeartbeat cid _ _) (RChecked (Inr _)) c = (cid = c)"
| "grants (LCheck cid) (RChecked (Inr _)) c = (cid = Some c)"
| "grants (LTakeover cid) (RChecked (Inr _)) c = (cid = Some c)"
| "grants _ _ _ = False"

text \<open>A client has held the session since a time.\<close>

definition held_since :: "string \<Rightarrow> u64 \<Rightarrow> SessionLease option \<Rightarrow> bool" where
  "held_since a t1 lo \<longleftrightarrow>
     (\<exists>l. lo = Some l \<and> sl_client_id l = a \<and> t1 \<le> sl_last_heartbeat_ms l)"

text \<open>An event that neither ends nor outlasts the lease of a client.\<close>

definition within_lease :: "u64 \<Rightarrow> u64 \<Rightarrow> string \<Rightarrow> string \<Rightarrow> lease_event \<Rightarrow> bool" where
  "within_lease thr t1 sid a = (\<lambda>(now, sid', op).
     t1 \<le> now \<and> unat now \<le> unat t1 + unat thr \<and> (sid' = sid \<longrightarrow> op \<noteq> LDetach a \<and> op \<noteq> LRemove))"

lemma not_stale_within:
  assumes "t1 \<le> sl_last_heartbeat_ms l" and "t1 \<noteq> 0" and "unat now \<le> unat t1 + unat thr"
  shows "\<not> is_stale l now thr"
proof -
  have "sl_last_heartbeat_ms l \<noteq> 0" using assms(1,2) by auto
  moreover have "unat now - unat (sl_last_heartbeat_ms l) \<le> unat thr"
    using assms(1,3) by (simp add: word_le_nat_alt)
  ultimately show ?thesis
    by (simp add: is_stale_def word_less_nat_alt unat_saturating_sub)
qed

lemma lease_step_single_writer:
  assumes "held_since a t1 lo" and "t1 \<noteq> 0" and "t1 \<le> now" and "unat now \<le> unat t1 + unat thr"
    and "op \<noteq> LDetach a" and "op \<noteq> LRemove" and "lease_step thr now op lo = (r, lo')"
  shows "held_since a t1 lo' \<and> (\<forall>c. grants op r c \<longrightarrow> c = a)"
proof -
  obtain l where l: "lo = Some l" "sl_client_id l = a" "t1 \<le> sl_last_heartbeat_ms l"
    using assms(1) by (auto simp: held_since_def)
  have "\<not> is_stale l now thr" by (rule not_stale_within [OF l(3) assms(2,4)])
  then show ?thesis
    using assms(3,5-7) l
    by (cases op) (auto simp: held_since_def fresh_lease_def split: if_splits)
qed

lemma run_lease_single_writer:
  assumes "lease_wf t" and "held_since a t1 (lease_get t sid)" and "t1 \<noteq> 0"
    and "\<forall>ev \<in> set evs. within_lease (lt_stale_threshold_ms t) t1 sid a ev"
    and "run_lease evs t = (rs, t')"
  shows "held_since a t1 (lease_get t' sid) \<and>
    (\<forall>(ev, r) \<in> set (zip evs rs). \<forall>c. fst (snd ev) = sid \<longrightarrow> grants (snd (snd ev)) r c \<longrightarrow> c = a)"
  using assms
proof (induction evs arbitrary: t rs)
  case Nil
  then show ?case by simp
next
  case (Cons ev evs)
  obtain now sid' op where ev: "ev = (now, sid', op)" by (rule prod_cases3)
  obtain r t1' where ex: "exec_lease (Some now) sid' op t = (r, t1')" by (rule prod.exhaust)
  obtain rs' where rest: "run_lease evs t1' = (rs', t')" and rs: "rs = r # rs'"
    using Cons.prems(5) by (auto simp: ev ex split: prod.splits)
  from exec_lease_refines [OF Cons.prems(1) ex] obtain lo where
    wf: "lease_wf t1'" and thr: "lt_stale_threshold_ms t1' = lt_stale_threshold_ms t" and
    step: "lease_step (lt_stale_threshold_ms t) now op (lease_get t sid') = (r, lo)" and
    get: "lease_get t1' = (lease_get t)(sid' := lo)" by blast
  have w: "within_lease (lt_stale_threshold_ms t) t1 sid a (now, sid', op)"
    using Cons.prems(4) ev by simp
  have one: "held_since a t1 (lease_get t1' sid) \<and> (sid' = sid \<longrightarrow> (\<forall>c. grants op r c \<longrightarrow> c = a))"
  proof (cases "sid' = sid")
    case True
    then show ?thesis
      using lease_step_single_writer [OF Cons.prems(2,3) _ _ _ _ step [unfolded True]] w get
      by (simp add: within_lease_def)
  next
    case False
    then show ?thesis using Cons.prems(2) get by simp
  qed
  have "\<forall>ev \<in> set evs. within_lease (lt_stale_threshold_ms t1') t1 sid a ev"
    using Cons.prems(4) thr by simp
  from Cons.IH [OF wf _ Cons.prems(3) this rest] one show ?case by (auto simp: ev rs)
qed

text \<open>C16. Single writer. Suppose a client holds the lease of a session with a heartbeat at time
  \<open>t1\<close>. In any sequence of lease operations of any clients on any sessions that takes place within
  the staleness window after \<open>t1\<close>, and in which that client does not detach and the lease is not
  removed, every operation on the session that grants write access grants it to that client, and the
  client still holds the session at the end.\<close>

theorem lease_single_writer:
  assumes "lease_wf t" and "lease_get t sid = Some l" and "sl_client_id l = a"
    and "sl_last_heartbeat_ms l = t1" and "t1 \<noteq> 0"
    and "\<forall>ev \<in> set evs. within_lease (lt_stale_threshold_ms t) t1 sid a ev"
    and "run_lease evs t = (rs, t')"
  shows "held_since a t1 (lease_get t' sid) \<and>
    (\<forall>(ev, r) \<in> set (zip evs rs). \<forall>c. fst (snd ev) = sid \<longrightarrow> grants (snd (snd ev)) r c \<longrightarrow> c = a)"
  by (rule run_lease_single_writer [OF assms(1) _ assms(5-7)])
    (use assms(2-4) in \<open>simp add: held_since_def\<close>)

theorem lease_single_writer_witness:
  "let t = lease_put ''s1'' (fresh_lease ''tui'' None None 1000) (default_SessionLeaseTable length);
       evs = [(2000, ''s1'', LAcquire ''other'' None None), (46000, ''s1'', LTakeover (Some ''other''))]
   in held_since ''tui'' 1000 (lease_get (snd (run_lease evs t)) ''s1'')"
proof -
  let ?t = "lease_put ''s1'' (fresh_lease ''tui'' None None 1000) (default_SessionLeaseTable length)"
  let ?evs = "[(2000, ''s1'', LAcquire ''other'' None None), (46000, ''s1'', LTakeover (Some ''other''))] :: lease_event list"
  have wf: "lease_wf (default_SessionLeaseTable length)"
    by (simp add: default_SessionLeaseTable_def lease_wf_new)
  then have t: "lease_wf ?t" "lease_get ?t ''s1'' = Some (fresh_lease ''tui'' None None 1000)"
    by (simp_all add: leases.wf_put leases.get_put)
  have l: "sl_client_id (fresh_lease ''tui'' None None 1000) = ''tui''"
    "sl_last_heartbeat_ms (fresh_lease ''tui'' None None 1000) = 1000" "(1000 :: u64) \<noteq> 0"
    by (simp_all add: fresh_lease_def)
  have "\<forall>ev \<in> set ?evs. within_lease (lt_stale_threshold_ms ?t) 1000 ''s1'' ''tui'' ev"
    by (simp add: within_lease_def default_SessionLeaseTable_def with_stale_threshold_ms_def
        STALE_LEASE_THRESHOLD_MS_def)
  from lease_single_writer [OF t l this surjective_pairing] show ?thesis
    unfolding Let_def by (rule conjunct1)
qed

section \<open>Sessions that were never claimed\<close>

text \<open>The operations the session application performs on a lease after a session was opened: a
  heartbeat or a detach of a named client, a holder check, another registration.\<close>

fun application_op :: "lease_op \<Rightarrow> bool" where
  "application_op (LHeartbeat cid _ _) = (cid \<noteq> [])"
| "application_op (LDetach cid) = (cid \<noteq> [])"
| "application_op (LCheck _) = True"
| "application_op LEnsure = True"
| "application_op _ = False"

definition placeholder :: "u64 \<Rightarrow> SessionLease" where
  "placeholder now = fresh_lease [] None None now"

lemma placeholder_step:
  assumes "application_op op" and "lease_step thr now op (Some (placeholder n)) = (r, lo)"
  shows "lo = Some (placeholder n) \<and>
    (\<forall>cid p h. op = LHeartbeat cid p h \<longrightarrow> (\<exists>b. r = RChecked (Inl (LeaseBusyFailure b))))"
  using assms by (cases op) (auto simp: placeholder_def fresh_lease_def split: if_splits)

lemma placeholder_run:
  assumes "lease_wf t" and "lease_get t sid = Some (placeholder n)"
    and "\<forall>(now, sid', op) \<in> set evs. sid' = sid \<longrightarrow> application_op op"
    and "run_lease evs t = (rs, t')"
  shows "lease_get t' sid = Some (placeholder n) \<and>
    (\<forall>((now, sid', op), r) \<in> set (zip evs rs). \<forall>cid p h. sid' = sid \<longrightarrow> op = LHeartbeat cid p h \<longrightarrow>
       (\<exists>b. r = RChecked (Inl (LeaseBusyFailure b))))"
  using assms
proof (induction evs arbitrary: t rs)
  case Nil
  then show ?case by simp
next
  case (Cons ev evs)
  obtain now sid' op where ev: "ev = (now, sid', op)" by (rule prod_cases3)
  obtain r t1 where ex: "exec_lease (Some now) sid' op t = (r, t1)" by (rule prod.exhaust)
  obtain rs' where rest: "run_lease evs t1 = (rs', t')" and rs: "rs = r # rs'"
    using Cons.prems(4) by (auto simp: ev ex split: prod.splits)
  from exec_lease_refines [OF Cons.prems(1) ex] obtain lo where
    wf: "lease_wf t1" and
    step: "lease_step (lt_stale_threshold_ms t) now op (lease_get t sid') = (r, lo)" and
    get: "lease_get t1 = (lease_get t)(sid' := lo)" by blast
  have one: "lease_get t1 sid = Some (placeholder n) \<and> (\<forall>cid p h. sid' = sid \<longrightarrow> op = LHeartbeat cid p h \<longrightarrow>
      (\<exists>b. r = RChecked (Inl (LeaseBusyFailure b))))"
  proof (cases "sid' = sid")
    case True
    then have "application_op op" using Cons.prems(3) ev by auto
    from placeholder_step [OF this step [unfolded True Cons.prems(2)]] True get show ?thesis by simp
  next
    case False
    then show ?thesis using Cons.prems(2) get by simp
  qed
  have "\<forall>(now, sid', op) \<in> set evs. sid' = sid \<longrightarrow> application_op op"
    using Cons.prems(3) by auto
  from Cons.IH [OF wf _ this rest] one show ?case by (auto simp: ev rs)
qed

text \<open>C31. A session that was opened without a claim can never be claimed through the operations the
  application performs. The registration at opening records a lease with an empty holder; from then
  on, whatever named clients do (heartbeats, checks, detaches, in any order and at any time), every
  heartbeat for the session is refused as busy and the recorded heartbeat time stays that of the
  opening, so the lease looks abandoned however active the session's user is.\<close>

theorem unclaimed_session_refuses_heartbeats:
  assumes "lease_wf t" and "lease_get t sid = None"
    and "\<forall>(now, sid', op) \<in> set evs. sid' = sid \<longrightarrow> application_op op"
    and "run_lease evs (ensure_unclaimed (Some opened) sid t) = (rs, t')"
  shows "lease_get t' sid = Some (placeholder opened) \<and>
    (\<forall>((now, sid', op), r) \<in> set (zip evs rs). \<forall>cid p h. sid' = sid \<longrightarrow> op = LHeartbeat cid p h \<longrightarrow>
       (\<exists>b. r = RChecked (Inl (LeaseBusyFailure b))))"
proof (rule placeholder_run [OF _ _ assms(3,4)])
  show "lease_wf (ensure_unclaimed (Some opened) sid t)"
    and "lease_get (ensure_unclaimed (Some opened) sid t) sid = Some (placeholder opened)"
    using assms(1,2)
    by (simp_all add: ensure_unclaimed_def leases.wf_put leases.get_put placeholder_def)
qed

theorem unclaimed_session_refuses_heartbeats_witness:
  "lease_get (snd (run_lease [(5000, ''s1'', LHeartbeat ''tui'' None None), (900000, ''s1'', LHeartbeat ''tui'' None None)]
     (ensure_unclaimed (Some 1000) ''s1'' (default_SessionLeaseTable length)))) ''s1'' = Some (placeholder 1000)"
proof -
  let ?t = "default_SessionLeaseTable length"
  let ?evs = "[(5000, ''s1'', LHeartbeat ''tui'' None None), (900000, ''s1'', LHeartbeat ''tui'' None None)] :: lease_event list"
  have t: "lease_wf ?t" "lease_get ?t ''s1'' = None"
    by (simp_all add: default_SessionLeaseTable_def lease_wf_new)
      (simp add: lease_get_def with_stale_threshold_ms_def shard_for_def LEASE_TABLE_SHARD_COUNT_def)
  have "\<forall>(now, sid', op) \<in> set ?evs. sid' = ''s1'' \<longrightarrow> application_op op" by simp
  from unclaimed_session_refuses_heartbeats [OF t this surjective_pairing] show ?thesis
    by (rule conjunct1)
qed

text \<open>The snapshot of the reaper lists every lease once.\<close>

lemma lease_snapshot_entries:
  "lease_snapshot t = map (\<lambda>(sid, l). (sid, sl_client_id l, sl_last_heartbeat_ms l)) (lease_entries t)"
  by (simp add: lease_snapshot_def lease_entries_def map_concat)

lemma lease_snapshot_set:
  assumes "lease_wf t"
  shows "set (lease_snapshot t) =
    {(sid, c, h). \<exists>l. lease_get t sid = Some l \<and> c = sl_client_id l \<and> h = sl_last_heartbeat_ms l}"
  unfolding lease_snapshot_entries set_map leases.set_entries [OF assms] by force

end
