(* ===== verification/Session_Protocol.thy ===== *)
theory Session_Protocol
  imports Json_Value
begin

text \<open>
  The wire contract of sessions (\<open>src/crates/protocol/session/src\<close>): requests, responses, events
  and errors of the HTTP surface as records and datatypes with the fields and variants of the source.
  Constructors carry a short prefix, since several enumerations share variant names. A \<open>BTreeSet\<close> of
  an enumeration is a set together with the declaration order of the variants, in which it iterates.
  The serialisations that the program relies on (tolerant capability sets, usage reports, wire
  errors) are functions between the types and JSON documents.
\<close>

type_synonym SessionExtensions = "(string \<times> json) list"

section \<open>Capabilities, workspaces and models (environment.rs)\<close>

datatype SessionSandboxCapability =
  WExec | WFileRead | WFileWrite | WPause | WSnapshot | WNetwork

datatype SessionRuntimeCapability =
  WInteraction | WSteering | WFork | WCheckpoint | WStateExport | WModelOverride | WReasoningControl

definition all_sandbox_capabilities :: "SessionSandboxCapability list" where
  "all_sandbox_capabilities = [WExec, WFileRead, WFileWrite, WPause, WSnapshot, WNetwork]"

definition all_runtime_capabilities :: "SessionRuntimeCapability list" where
  "all_runtime_capabilities =
     [WInteraction, WSteering, WFork, WCheckpoint, WStateExport, WModelOverride, WReasoningControl]"

lemma all_sandbox_capabilities_complete: "set all_sandbox_capabilities = UNIV"
proof -
  have "x \<in> set all_sandbox_capabilities" for x
    by (cases x) (simp_all add: all_sandbox_capabilities_def)
  then show ?thesis by blast
qed

lemma all_runtime_capabilities_complete: "set all_runtime_capabilities = UNIV"
proof -
  have "x \<in> set all_runtime_capabilities" for x
    by (cases x) (simp_all add: all_runtime_capabilities_def)
  then show ?thesis by blast
qed

text \<open>The names under which serde writes the variants.\<close>

fun sandbox_capability_name :: "SessionSandboxCapability \<Rightarrow> string" where
  "sandbox_capability_name WExec = ''exec''"
| "sandbox_capability_name WFileRead = ''file_read''"
| "sandbox_capability_name WFileWrite = ''file_write''"
| "sandbox_capability_name WPause = ''pause''"
| "sandbox_capability_name WSnapshot = ''snapshot''"
| "sandbox_capability_name WNetwork = ''network''"

fun runtime_capability_name :: "SessionRuntimeCapability \<Rightarrow> string" where
  "runtime_capability_name WInteraction = ''interaction''"
| "runtime_capability_name WSteering = ''steering''"
| "runtime_capability_name WFork = ''fork''"
| "runtime_capability_name WCheckpoint = ''checkpoint''"
| "runtime_capability_name WStateExport = ''state_export''"
| "runtime_capability_name WModelOverride = ''model_override''"
| "runtime_capability_name WReasoningControl = ''reasoning_control''"

record SessionCapabilities =
  sc_sandbox :: "SessionSandboxCapability set"
  sc_runtime :: "SessionRuntimeCapability set"

record SessionCapabilityRequest =
  cq_sandbox :: "SessionSandboxCapability set"
  cq_runtime :: "SessionRuntimeCapability set"

datatype WorkspaceSpec =
    DaemonDefault
  | LocalPath string
  | Git string "string option" "string option"
  | Shared string

record DeploymentProfile =
  dp_profile :: "string option"
  dp_resource_class :: "string option"
  dp_options :: json

datatype WorkspaceAccessMode = WReadOnly | WReadWrite

record WorkspaceState =
  ws_workspace_id :: string
  ws_root :: string
  ws_access :: WorkspaceAccessMode
  ws_revision :: "string option"
  ws_metadata :: json

datatype WireIsolationBoundary = WHost | WProcess | WContainer | WVirtualMachine | WRemote

datatype WireNetworkIsolation = WNetNone | WNetRestricted | WNetIsolated

record IsolationState =
  is_boundary :: WireIsolationBoundary
  is_workspace_access :: WorkspaceAccessMode
  is_network :: WireNetworkIsolation
  is_effective_capabilities :: "SessionSandboxCapability set"
  is_metadata :: json

text \<open>The tolerant codec of capability sets: a set is written as the sequence of its names in
  order; reading keeps the names that are known and skips every other element. \<open>None\<close> is a
  document that is no sequence.\<close>

definition serialize_sandbox_capabilities :: "SessionSandboxCapability set \<Rightarrow> json" where
  "serialize_sandbox_capabilities cs =
     JArr (map (JStr \<circ> sandbox_capability_name) (filter (\<lambda>c. c \<in> cs) all_sandbox_capabilities))"

definition serialize_runtime_capabilities :: "SessionRuntimeCapability set \<Rightarrow> json" where
  "serialize_runtime_capabilities cs =
     JArr (map (JStr \<circ> runtime_capability_name) (filter (\<lambda>c. c \<in> cs) all_runtime_capabilities))"

definition sandbox_capability_of :: "json \<Rightarrow> SessionSandboxCapability option" where
  "sandbox_capability_of j =
     find (\<lambda>c. j = JStr (sandbox_capability_name c)) all_sandbox_capabilities"

definition runtime_capability_of :: "json \<Rightarrow> SessionRuntimeCapability option" where
  "runtime_capability_of j =
     find (\<lambda>c. j = JStr (runtime_capability_name c)) all_runtime_capabilities"

fun collect_known :: "('j \<Rightarrow> 'c option) \<Rightarrow> 'j list \<Rightarrow> 'c set" where
  "collect_known decode [] = {}"
| "collect_known decode (j # js) =
     (case decode j of Some c \<Rightarrow> insert c (collect_known decode js) | None \<Rightarrow> collect_known decode js)"

fun deserialize_sandbox_capabilities :: "json \<Rightarrow> SessionSandboxCapability set option" where
  "deserialize_sandbox_capabilities (JArr js) = Some (collect_known sandbox_capability_of js)"
| "deserialize_sandbox_capabilities _ = None"

fun deserialize_runtime_capabilities :: "json \<Rightarrow> SessionRuntimeCapability set option" where
  "deserialize_runtime_capabilities (JArr js) = Some (collect_known runtime_capability_of js)"
| "deserialize_runtime_capabilities _ = None"

text \<open>Model configuration of a request and its validation.\<close>

datatype LlmApi = OpenaiCompletions | OpenaiResponses | AnthropicMessages

datatype LlmInput = LlmText | LlmImage

record LlmCapabilities =
  lc_reasoning :: "bool option"
  lc_input :: "LlmInput list option"
  lc_context_window :: "u32 option"
  lc_max_tokens :: "u32 option"

definition validate_llm_capabilities :: "LlmCapabilities \<Rightarrow> (string, unit) result" where
  "validate_llm_capabilities c =
     (if lc_input c = Some [] then Inl ''llm.capabilities.input must not be empty''
      else if lc_context_window c = Some 0 \<or> lc_max_tokens c = Some 0
      then Inl ''model token limits must be positive''
      else case (lc_context_window c, lc_max_tokens c) of
             (Some context, Some output) \<Rightarrow>
               if context < output then Inl ''max_tokens must not exceed context_window'' else Inr ()
           | _ \<Rightarrow> Inr ())"

record LlmOverrideRequest =
  lo_provider :: "string option"
  lo_model :: "string option"
  lo_api_base :: "string option"
  lo_api :: "LlmApi option"
  lo_capabilities :: "LlmCapabilities option"
  lo_api_key_env :: "string option"
  lo_api_key :: "string option"

record ResolvedLlmDescriptor =
  rd_provider :: string
  rd_model :: string
  rd_api_base :: "string option"
  rd_api :: "LlmApi option"
  rd_capabilities :: "LlmCapabilities option"
  rd_credential_source :: string


section \<open>Control requests and responses (control.rs)\<close>

record SessionLeaseClaim =
  cl_client_id :: "string option"
  cl_client_pid :: "u32 option"
  cl_client_hostname :: "string option"

definition default_SessionLeaseClaim :: SessionLeaseClaim where
  "default_SessionLeaseClaim = \<lparr> cl_client_id = None, cl_client_pid = None, cl_client_hostname = None \<rparr>"

record SessionOpenRequest =
  oq_runtime_id :: "string option"
  oq_runtime_kind :: "string option"
  oq_conversation_id :: string
  oq_sender_id :: string
  oq_workspace :: WorkspaceSpec
  oq_deployment :: DeploymentProfile
  oq_requested_capabilities :: SessionCapabilityRequest
  oq_llm :: "LlmOverrideRequest option"
  oq_ext :: SessionExtensions
  oq_lease :: SessionLeaseClaim

record SessionLoadRequest =
  lq_checkpoint_id :: string
  lq_runtime_id :: "string option"
  lq_conversation_id :: "string option"
  lq_sender_id :: "string option"
  lq_requested_capabilities :: SessionCapabilityRequest
  lq_deployment :: DeploymentProfile
  lq_lease :: SessionLeaseClaim
  lq_llm :: "LlmOverrideRequest option"

record SessionForkRequest =
  fq_parent_runtime_id :: string
  fq_runtime_id :: "string option"
  fq_conversation_id :: "string option"
  fq_sender_id :: "string option"
  fq_workspace :: "WorkspaceSpec option"
  fq_deployment :: "DeploymentProfile option"
  fq_requested_capabilities :: SessionCapabilityRequest
  fq_lease :: SessionLeaseClaim

datatype SessionLifecycleStatus =
  LsOpening | LsIdle | LsRunning | LsPaused | LsFailed | LsClosed

record SessionOpenResponse =
  or_runtime_id :: string
  or_conversation_id :: string
  or_sender_id :: string
  or_status :: SessionLifecycleStatus
  or_created_at_ms :: u64
  or_updated_at_ms :: u64
  or_runtime_kind :: string
  or_workspace :: WorkspaceState
  or_isolation :: IsolationState
  or_effective_capabilities :: SessionCapabilities
  or_llm :: "ResolvedLlmDescriptor option"

record SessionSummary =
  sm_runtime_id :: string
  sm_conversation_id :: string
  sm_sender_id :: string
  sm_status :: SessionLifecycleStatus
  sm_runtime_kind :: string
  sm_created_at_ms :: u64
  sm_updated_at_ms :: u64

datatype SandboxBackend = BkLocal | BkE2b | BkDocker

type_synonym SandboxLimits = "SandboxBackend \<rightharpoonup> u32"

record TenantQuotaSnapshot =
  qs_max_sessions :: "u32 option"
  qs_max_sandboxes :: SandboxLimits
  qs_active_sessions :: u32
  qs_max_requests_per_minute :: "u32 option"

record SessionListResponse =
  ls_sessions :: "SessionSummary list"
  ls_has_more :: bool
  ls_quota :: TenantQuotaSnapshot

record SessionControlResponse =
  ct_runtime_id :: string
  ct_status :: SessionLifecycleStatus
  ct_updated_at_ms :: u64

record SessionHeartbeatResponse =
  hb_runtime_id :: string
  hb_accepted :: bool
  hb_lease_expires_at_ms :: "u64 option"

section \<open>Turns and interactions (interaction.rs)\<close>

record SessionEntryContext =
  ec_entry_kind :: "string option"
  ec_instance_id :: "string option"
  ec_message_id :: "string option"
  ec_reply_to_message_id :: "string option"

record SessionTurnRequest =
  tq_runtime_id :: string
  tq_text :: string
  tq_entry :: SessionEntryContext
  tq_llm :: "LlmOverrideRequest option"
  tq_reasoning_effort :: "string option"
  tq_client_request_id :: "string option"
  tq_ext :: SessionExtensions
  tq_lease :: SessionLeaseClaim

record SessionInteractionTextAnswer =
  ta_value :: "string option"
  ta_display_value :: "string option"

datatype SessionInteractionAnswer =
    AnsText SessionInteractionTextAnswer
  | AnsSelection "string list"
  | AnsConfirm bool
  | AnsData json
  | AnsCancelled

record SessionInteractionRequest =
  iq_runtime_id :: string
  iq_turn_id :: string
  iq_interaction_id :: string
  iq_answer :: SessionInteractionAnswer
  iq_ext :: SessionExtensions
  iq_lease :: SessionLeaseClaim

datatype SessionAcceptedInputKind = AcceptedTurn | AcceptedInteraction

record SessionSubmitReceipt =
  sr_runtime_id :: string
  sr_turn_id :: string
  sr_accepted_kind :: SessionAcceptedInputKind


section \<open>Events (event.rs)\<close>

datatype SessionToolActivityPhase = PhaseBegin | PhaseEnd

datatype SessionToolActivityStatus =
  ToolRunning | ToolSucceeded | ToolFailed | ToolDenied | ToolCancelled

record SessionInteractionOption =
  io_id :: string
  io_label :: string
  io_description :: "string option"
  io_value :: json

datatype SessionTurnOutcome = OutComplete | OutMaxTurns | OutBudgetExhausted | OutCancelled

record SessionUsage =
  us_input_tokens :: u64
  us_output_tokens :: u64
  us_total_tokens :: u64

definition default_SessionUsage :: SessionUsage where
  "default_SessionUsage = \<lparr> us_input_tokens = 0, us_output_tokens = 0, us_total_tokens = 0 \<rparr>"

datatype SessionUsageReport = UsageKnown SessionUsage | UsageUnknown

text \<open>A known report is written as its three counters, an unknown one as a marker string; reading
  wants exactly the three counters (by name, or as a sequence of three, which a derived struct
  decoder also takes), or exactly the marker.\<close>

definition json_of_u64 :: "u64 \<Rightarrow> json" where
  "json_of_u64 n = JNum (uint n)"

fun serialize_usage_report :: "SessionUsageReport \<Rightarrow> json" where
  "serialize_usage_report (UsageKnown u) =
     obj_of [(''input_tokens'', json_of_u64 (us_input_tokens u)),
             (''output_tokens'', json_of_u64 (us_output_tokens u)),
             (''total_tokens'', json_of_u64 (us_total_tokens u))]"
| "serialize_usage_report UsageUnknown = JStr ''unknown''"

definition usage_counts_of :: "json \<Rightarrow> SessionUsage option" where
  "usage_counts_of j =
     (case j of
        JObj kvs \<Rightarrow>
          if set (map fst kvs) \<subseteq> {''input_tokens'', ''output_tokens'', ''total_tokens''}
          then (case (json_u64 j ''input_tokens'', json_u64 j ''output_tokens'', json_u64 j ''total_tokens'') of
                  (Some a, Some b, Some c) \<Rightarrow>
                    Some \<lparr> us_input_tokens = a, us_output_tokens = b, us_total_tokens = c \<rparr>
                | _ \<Rightarrow> None)
          else None
      | JArr [a, b, c] \<Rightarrow>
          (case (as_u64 a, as_u64 b, as_u64 c) of
             (Some x, Some y, Some z) \<Rightarrow>
               Some \<lparr> us_input_tokens = x, us_output_tokens = y, us_total_tokens = z \<rparr>
           | _ \<Rightarrow> None)
      | _ \<Rightarrow> None)"

definition deserialize_usage_report :: "json \<Rightarrow> SessionUsageReport option" where
  "deserialize_usage_report j =
     (case usage_counts_of j of
        Some u \<Rightarrow> Some (UsageKnown u)
      | None \<Rightarrow> (case j of JStr s \<Rightarrow> if s = ''unknown'' then Some UsageUnknown else None | _ \<Rightarrow> None))"

record SessionTurnFailure =
  tf_code :: string
  tf_message :: string
  tf_retryable :: bool
  tf_details :: json

record SessionFileChangeExt =
  fc_path :: string
  fc_additions :: u32
  fc_deletions :: u32

text \<open>The first two arguments of each event are the session and the turn it belongs to.\<close>

datatype SessionEvent =
    EvOutputDelta string string string u64 string
  | EvToolActivity string string string SessionToolActivityPhase string SessionToolActivityStatus
      "string option" SessionExtensions
  | EvInteractionRequested string string string string string bool
      "SessionInteractionOption list" SessionExtensions
  | EvTurnCompleted string string SessionTurnOutcome SessionUsageReport
  | EvTurnFailed string string SessionTurnFailure SessionUsageReport
  | EvExtension string "string option" string json

section \<open>Operations on a session's workspace (operation.rs)\<close>

record SessionExecRequest =
  xq_runtime_id :: string
  xq_command :: "string list"
  xq_cwd :: "string option"
  xq_env :: "(string \<times> string) list"
  xq_timeout_ms :: "u64 option"
  xq_lease :: SessionLeaseClaim

record SessionExecResult =
  xr_stdout :: string
  xr_stderr :: string
  xr_exit_code :: "int option"
  xr_timed_out :: bool

record SessionFileReadRequest =
  rq_runtime_id :: string
  rq_path :: string
  rq_lease :: SessionLeaseClaim

record SessionFileReadResult =
  rr_path :: string
  rr_content_base64 :: string
  rr_media_type :: "string option"

record SessionFileWriteRequest =
  wq_runtime_id :: string
  wq_path :: string
  wq_content_base64 :: string
  wq_create_parents :: bool
  wq_lease :: SessionLeaseClaim

record SessionFileWriteResult =
  wr_path :: string
  wr_bytes_written :: u64

datatype SessionCheckpointScope = ScopeFull | ScopeWorkspaceOnly

record SessionCheckpointRequest =
  kq_runtime_id :: string
  kq_name :: "string option"
  kq_requested_scope :: "SessionCheckpointScope option"
  kq_lease :: SessionLeaseClaim

record SessionCheckpointResult =
  ks_checkpoint_id :: string
  ks_runtime_id :: string
  ks_checkpoint_scope :: SessionCheckpointScope
  ks_created_at_ms :: u64

record SessionCheckpointSummary =
  cs_checkpoint_id :: string
  cs_source_runtime_id :: string
  cs_tenant_id :: "string option"
  cs_created_by :: "string option"
  cs_created_at_ms :: u64

record SessionCheckpointListResponse =
  cr_checkpoints :: "SessionCheckpointSummary list"
  cr_total :: u64
  cr_has_more :: bool
  cr_next_offset :: "nat option"

record SessionCheckpointDeleteRequest =
  dq_checkpoint_id :: string
  dq_lease :: SessionLeaseClaim

record SessionCheckpointDeleteResult =
  ds_checkpoint_id :: string
  ds_deleted :: bool

section \<open>Wire errors (error.rs)\<close>

datatype SessionCapabilityFamily = WSandbox | WRuntime

datatype SessionWireError =
    WireInvalidRequest string
  | WireNotFound string
  | WireTenantNotFound string
  | WireConflict string
  | WireLeaseRequired string
  | WireLeaseConflict string "string option" "u32 option" "string option"
  | WireUnsupportedCapability SessionCapabilityFamily string
  | WireTimeout string u64
  | WireUnavailable string
  | WireQuotaExceeded string u32
  | WireInternal string json

fun http_status :: "SessionWireError \<Rightarrow> nat" where
  "http_status (WireInvalidRequest _) = 400"
| "http_status (WireNotFound _) = 404"
| "http_status (WireTenantNotFound _) = 404"
| "http_status (WireConflict _) = 409"
| "http_status (WireLeaseConflict _ _ _ _) = 409"
| "http_status (WireLeaseRequired _) = 401"
| "http_status (WireUnsupportedCapability _ _) = 422"
| "http_status (WireTimeout _ _) = 504"
| "http_status (WireUnavailable _) = 503"
| "http_status (WireQuotaExceeded _ _) = 429"
| "http_status (WireInternal _ _) = 500"


section \<open>Round trips\<close>

lemma sandbox_capability_name_inject [simp]:
  "sandbox_capability_name a = sandbox_capability_name b \<longleftrightarrow> a = b"
  by (cases a; cases b) simp_all

lemma runtime_capability_name_inject [simp]:
  "runtime_capability_name a = runtime_capability_name b \<longleftrightarrow> a = b"
  by (cases a; cases b) simp_all

lemma find_injective:
  assumes "inj f"
  shows "find (\<lambda>c. y = f c) xs = Some c \<longleftrightarrow> c \<in> set xs \<and> y = f c"
  using assms by (induction xs) (auto dest: injD)

lemma sandbox_capability_of_Some:
  "sandbox_capability_of j = Some c \<longleftrightarrow> j = JStr (sandbox_capability_name c)"
  by (simp add: sandbox_capability_of_def find_injective inj_def all_sandbox_capabilities_complete)

lemma runtime_capability_of_Some:
  "runtime_capability_of j = Some c \<longleftrightarrow> j = JStr (runtime_capability_name c)"
  by (simp add: runtime_capability_of_def find_injective inj_def all_runtime_capabilities_complete)

lemma collect_known_eq: "collect_known decode js = {c. \<exists>j \<in> set js. decode j = Some c}"
  by (induction js) (auto split: option.splits)

text \<open>Decoding a capability set keeps exactly the capabilities whose names occur in the
  sequence, whatever else it holds, and so every set survives encoding and decoding; this holds for
  sandbox and for runtime capabilities.\<close>

lemma capability_sets_roundtrip:
  "deserialize_sandbox_capabilities (JArr js) = Some {c. JStr (sandbox_capability_name c) \<in> set js}
   \<and> deserialize_sandbox_capabilities (serialize_sandbox_capabilities cs) = Some cs
   \<and> deserialize_runtime_capabilities (JArr js) = Some {c. JStr (runtime_capability_name c) \<in> set js}
   \<and> deserialize_runtime_capabilities (serialize_runtime_capabilities rs) = Some rs"
  by (auto simp: serialize_sandbox_capabilities_def serialize_runtime_capabilities_def
      collect_known_eq sandbox_capability_of_Some runtime_capability_of_Some
      all_sandbox_capabilities_complete all_runtime_capabilities_complete)

lemma as_u64_json_of_u64 [simp]: "as_u64 (json_of_u64 n) = Some n"
  using uint_lt2p [of n] by (simp add: json_of_u64_def)

text \<open>A usage report survives encoding and decoding, and the unknown report is read from the
  marker string alone.\<close>

lemma usage_report_roundtrip:
  "deserialize_usage_report (serialize_usage_report r) = Some r
   \<and> (deserialize_usage_report j = Some UsageUnknown \<longleftrightarrow> j = JStr ''unknown'')"
proof
  show "deserialize_usage_report (serialize_usage_report r) = Some r"
    by (cases r) (simp_all add: deserialize_usage_report_def usage_counts_of_def obj_of_def
        json_u64_def json_u64_def)
  show "deserialize_usage_report j = Some UsageUnknown \<longleftrightarrow> j = JStr ''unknown''"
    by (auto simp: deserialize_usage_report_def usage_counts_of_def split: option.splits json.splits)
qed

end
