(* ===== verification/Runtime_Protocol.thy ===== *)
theory Runtime_Protocol
  imports Session_Protocol
begin

text \<open>
  The contract between the governor and an agent runtime (\<open>src/crates/protocol/runtime/src\<close>):
  capabilities, errors, turn events, requests, the quarantined state snapshot and the runtime trait.
  A runtime is a record of functions over the outside world \<open>'w\<close>; an operation backend handed to it
  is a value of the type \<open>'b\<close>. The receiver of a turn's events is the finite list of events the runtime
  sends before it drops its end of the channel.
\<close>

datatype AgentRuntimeCapability =
  RcInteraction | RcSteering | RcStateExport | RcModelOverride | RcReasoningControl | RcUnknown

datatype RuntimeError =
    RtInvalidRequest string string
  | RtNotFound string
  | RtConflict string string
  | RtUnsupportedCapability string
  | RtWorkerUnavailable string bool
  | RtStateCorrupt string
  | RtInternal string

record RuntimeFailure =
  rf_code :: string
  rf_message :: string
  rf_retryable :: bool
  rf_details :: json

datatype RuntimeEvent =
    ReOutputDelta string u64 string
  | ReToolActivity string SessionToolActivityPhase string SessionToolActivityStatus "string option"
      SessionExtensions
  | ReInteractionRequested string string string "SessionInteractionOption list" SessionExtensions
  | ReCompleted SessionTurnOutcome SessionUsage
  | ReFailed RuntimeFailure SessionUsage
  | ReExtension string json
  | ReUnknown

fun is_terminal_event :: "RuntimeEvent \<Rightarrow> bool" where
  "is_terminal_event (ReCompleted _ _) = True"
| "is_terminal_event (ReFailed _ _) = True"
| "is_terminal_event _ = False"

datatype RuntimeWorkspaceAccess = ReadOnly | ReadWrite

record RuntimeWorkspace =
  rw_workspace_id :: string
  rw_root :: string
  rw_access :: RuntimeWorkspaceAccess
  rw_revision :: "string option"
  rw_metadata :: json

record RuntimeStateSnapshot =
  rs_runtime_kind :: string
  rs_schema_version :: u32
  rs_state :: json

record RuntimeStartRequest =
  sq_runtime_id :: string
  sq_conversation_id :: string
  sq_sender_id :: string
  sq_workspace :: RuntimeWorkspace
  sq_state :: "RuntimeStateSnapshot option"
  sq_llm :: "LlmOverrideRequest option"
  sq_ext :: SessionExtensions

record RuntimeEntryContext =
  en_kind :: "string option"
  en_instance_id :: "string option"
  en_message_id :: "string option"
  en_reply_to_message_id :: "string option"

record RuntimeTurnRequest =
  rt_runtime_id :: string
  rt_turn_id :: string
  rt_text :: string
  rt_entry :: RuntimeEntryContext
  rt_llm :: "LlmOverrideRequest option"
  rt_reasoning_effort :: "string option"
  rt_ext :: SessionExtensions

record RuntimeInteractionRequest =
  ri_runtime_id :: string
  ri_turn_id :: string
  ri_interaction_id :: string
  ri_answer :: SessionInteractionAnswer
  ri_ext :: SessionExtensions

record RuntimeCancelRequest =
  cc_runtime_id :: string
  cc_turn_id :: "string option"

datatype WorkerRequest =
    WkSubmitTurn RuntimeTurnRequest
  | WkAnswerInteraction RuntimeInteractionRequest
  | WkCancel RuntimeCancelRequest
  | WkLoadState RuntimeStateSnapshot
  | WkShutdown

section \<open>State snapshots (state.rs)\<close>

text \<open>The codecs of a runtime's own state are parameters: \<open>to_value\<close> and \<open>from_value\<close> are the
  serialisation of the state type, with the error text on the left.\<close>

definition try_new_snapshot ::
  "('t \<Rightarrow> (string, json) result) \<Rightarrow> string \<Rightarrow> u32 \<Rightarrow> 't \<Rightarrow> (RuntimeError, RuntimeStateSnapshot) result" where
  "try_new_snapshot to_value kind version state =
     (case to_value state of
        Inl e \<Rightarrow> Inl (RtStateCorrupt (''runtime state could not be serialized: '' @ e))
      | Inr v \<Rightarrow> Inr \<lparr> rs_runtime_kind = kind, rs_schema_version = version, rs_state = v \<rparr>)"

definition quoted :: "string \<Rightarrow> string" where
  "quoted s = CHR 0x27 # s @ [CHR 0x27]"

definition validate_snapshot ::
  "RuntimeStateSnapshot \<Rightarrow> string \<Rightarrow> u32 \<Rightarrow> (RuntimeError, unit) result" where
  "validate_snapshot snap kind version =
     (if rs_runtime_kind snap \<noteq> kind
      then Inl (RtStateCorrupt (''runtime state belongs to '' @ quoted (rs_runtime_kind snap)
             @ '' instead of '' @ quoted kind))
      else if rs_schema_version snap \<noteq> version
      then Inl (RtStateCorrupt (''unsupported '' @ kind @ '' state schema version ''
             @ show_nat (unat (rs_schema_version snap)) @ ''; expected '' @ show_nat (unat version)))
      else Inr ())"

definition decode_snapshot ::
  "(json \<Rightarrow> (string, 't) result) \<Rightarrow> RuntimeStateSnapshot \<Rightarrow> string \<Rightarrow> u32 \<Rightarrow> (RuntimeError, 't) result" where
  "decode_snapshot from_value snap kind version =
     (case validate_snapshot snap kind version of
        Inl e \<Rightarrow> Inl e
      | Inr _ \<Rightarrow>
          (case from_value (rs_state snap) of
             Inl e \<Rightarrow> Inl (RtStateCorrupt (''invalid '' @ kind @ '' runtime state: '' @ e))
           | Inr t \<Rightarrow> Inr t))"

section \<open>The runtime trait (runtime.rs)\<close>

record ('w, 'b) AgentRuntime =
  ar_runtime_kind :: string
  ar_validate_llm_config :: "LlmOverrideRequest option \<Rightarrow> (RuntimeError, unit) result"
  ar_capabilities_for_context :: "SessionExtensions \<Rightarrow> AgentRuntimeCapability set"
  ar_start :: "RuntimeStartRequest \<Rightarrow> 'b \<Rightarrow> 'w \<Rightarrow> (RuntimeError, unit) result \<times> 'w"
  ar_attach :: "string \<Rightarrow> 'b \<Rightarrow> 'w \<Rightarrow> (RuntimeError, unit) result \<times> 'w"
  ar_stop :: "string \<Rightarrow> 'w \<Rightarrow> (RuntimeError, unit) result \<times> 'w"
  ar_check_alive :: "string \<Rightarrow> 'w \<Rightarrow> (RuntimeError, bool) result \<times> 'w"
  ar_submit_turn :: "RuntimeTurnRequest \<Rightarrow> 'w \<Rightarrow> (RuntimeError, RuntimeEvent list) result \<times> 'w"
  ar_answer_interaction :: "RuntimeInteractionRequest \<Rightarrow> 'w \<Rightarrow> (RuntimeError, unit) result \<times> 'w"
  ar_cancel :: "RuntimeCancelRequest \<Rightarrow> 'w \<Rightarrow> (RuntimeError, unit) result \<times> 'w"
  ar_probe_llm :: "RuntimeStartRequest \<Rightarrow> 'w \<Rightarrow> (RuntimeError, unit) result \<times> 'w"
  ar_describe_llm :: "string \<Rightarrow> 'w \<Rightarrow> (RuntimeError, ResolvedLlmDescriptor option) result \<times> 'w"
  ar_export_state :: "string \<Rightarrow> 'w \<Rightarrow> (RuntimeError, RuntimeStateSnapshot) result \<times> 'w"
  ar_export_checkpoint_state :: "string \<Rightarrow> 'w \<Rightarrow> (RuntimeError, RuntimeStateSnapshot) result \<times> 'w"
  ar_delete_checkpoint_state :: "RuntimeStateSnapshot \<Rightarrow> 'w \<Rightarrow> (RuntimeError, unit) result \<times> 'w"
  ar_load_state :: "string \<Rightarrow> RuntimeStateSnapshot \<Rightarrow> 'w \<Rightarrow> (RuntimeError, unit) result \<times> 'w"

text \<open>The bodies the trait supplies for the methods a runtime does not override.\<close>

definition default_validate_llm_config ::
  "LlmOverrideRequest option \<Rightarrow> (RuntimeError, unit) result" where
  "default_validate_llm_config config =
     (case config of
        Some c \<Rightarrow>
          if lo_api c \<noteq> None \<or> lo_capabilities c \<noteq> None
          then Inl (RtInvalidRequest ''unsupported_llm_configuration''
                 ''This runtime does not support model protocol or capability overrides'')
          else Inr ()
      | None \<Rightarrow> Inr ())"

definition default_probe_llm :: "RuntimeStartRequest \<Rightarrow> 'w \<Rightarrow> (RuntimeError, unit) result \<times> 'w" where
  "default_probe_llm req w = (Inr (), w)"

definition default_describe_llm ::
  "string \<Rightarrow> 'w \<Rightarrow> (RuntimeError, ResolvedLlmDescriptor option) result \<times> 'w" where
  "default_describe_llm runtime_id w = (Inr None, w)"

definition default_export_state ::
  "string \<Rightarrow> 'w \<Rightarrow> (RuntimeError, RuntimeStateSnapshot) result \<times> 'w" where
  "default_export_state runtime_id w = (Inl (RtUnsupportedCapability ''state_export''), w)"

definition default_delete_checkpoint_state ::
  "RuntimeStateSnapshot \<Rightarrow> 'w \<Rightarrow> (RuntimeError, unit) result \<times> 'w" where
  "default_delete_checkpoint_state snap w = (Inr (), w)"

definition default_load_state ::
  "string \<Rightarrow> RuntimeStateSnapshot \<Rightarrow> 'w \<Rightarrow> (RuntimeError, unit) result \<times> 'w" where
  "default_load_state runtime_id snap w = (Inl (RtUnsupportedCapability ''state_export''), w)"

section \<open>Quarantine of snapshots\<close>

text \<open>A snapshot decodes only under the runtime kind and schema version it was made with, and
  there it yields the state it was made from, for every codec that reads back what it writes.\<close>

lemma snapshot_quarantine:
  assumes "to_value state = Inr v" and "from_value v = Inr state"
    and "try_new_snapshot to_value kind version state = Inr snap"
  shows "decode_snapshot from_value snap kind' version' = Inr t
     \<longleftrightarrow> kind' = kind \<and> version' = version \<and> t = state"
  using assms
  by (auto simp: try_new_snapshot_def decode_snapshot_def validate_snapshot_def split: if_splits)

end
