(* ===== verification/Session_Domain.thy ===== *)
theory Session_Domain
  imports Runtime_Protocol
begin

text \<open>
  The domain of the session core: persistent records and domain errors
  (\<open>src/crates/core/src/domain.rs\<close>), the authenticated caller with its quota
  (\<open>security.rs\<close>), and the binding of a session to a joint execution owner
  (\<open>joint_lifecycle.rs\<close>).
\<close>

section \<open>Records (domain.rs)\<close>

datatype SessionStatus = SsOpening | SsIdle | SsRunning | SsPaused | SsFailed | SsClosed

datatype SandboxCapability = SbExec | SbFileRead | SbFileWrite | SbPause | SbSnapshot | SbNetwork

datatype RuntimeCapability =
  DcInteraction | DcSteering | DcFork | DcCheckpoint | DcStateExport | DcModelOverride | DcReasoningControl

record EffectiveCapabilities =
  ef_sandbox :: "SandboxCapability set"
  ef_runtime :: "RuntimeCapability set"

datatype IsolationBoundary = Host | Process | Container | VirtualMachine | Remote

datatype NetworkIsolation = NetNone | NetRestricted | NetIsolated

record IsolationFacts =
  if_boundary :: IsolationBoundary
  if_workspace_access :: RuntimeWorkspaceAccess
  if_network :: NetworkIsolation
  if_metadata :: json

record ResolvedLlm =
  rl_provider :: string
  rl_model :: string
  rl_api_base :: "string option"
  rl_api :: "LlmApi option"
  rl_capabilities :: "LlmCapabilities option"
  rl_credential_source :: string

definition resolved_llm_from :: "ResolvedLlmDescriptor \<Rightarrow> ResolvedLlm" where
  "resolved_llm_from v =
     \<lparr> rl_provider = rd_provider v, rl_model = rd_model v, rl_api_base = rd_api_base v,
       rl_api = rd_api v, rl_capabilities = rd_capabilities v,
       rl_credential_source = rd_credential_source v \<rparr>"

record RecordLease =
  cz_client_id :: string
  cz_client_pid :: "u32 option"
  cz_client_hostname :: "string option"
  cz_expires_at_ms :: u64

record CheckpointLineage =
  ln_parent_runtime_id :: "string option"
  ln_source_checkpoint_id :: "string option"

text \<open>The binding of a session to a joint execution owner (\<open>joint_lifecycle.rs\<close>).\<close>

record JointBinding =
  jb_owner_kind :: string
  jb_binding_id :: string
  jb_configuration_revision :: string

datatype SessionExecutionBacking = SplitV1 | JointV1 JointBinding

fun joint :: "SessionExecutionBacking \<Rightarrow> JointBinding option" where
  "joint SplitV1 = None"
| "joint (JointV1 binding) = Some binding"

record SessionRecord =
  sn_execution_backing :: SessionExecutionBacking
  sn_runtime_id :: string
  sn_conversation_id :: string
  sn_sender_id :: string
  sn_status :: SessionStatus
  sn_created_at_ms :: u64
  sn_updated_at_ms :: u64
  sn_workspace :: RuntimeWorkspace
  sn_isolation :: IsolationFacts
  sn_capabilities :: EffectiveCapabilities
  sn_runtime :: RuntimeStateSnapshot
  sn_llm :: "ResolvedLlm option"
  sn_lease :: "RecordLease option"
  sn_lineage :: "CheckpointLineage option"
  sn_last_error :: "string option"
  sn_tenant_id :: "string option"
  sn_created_by :: string

record CheckpointRecord =
  ck_checkpoint_id :: string
  ck_source_runtime_id :: string
  ck_provider_snapshot_id :: string
  ck_runtime_state :: RuntimeStateSnapshot
  ck_workspace :: RuntimeWorkspace
  ck_isolation :: IsolationFacts
  ck_capabilities :: EffectiveCapabilities
  ck_owner_ref :: string
  ck_tenant_id :: "string option"
  ck_created_by :: "string option"
  ck_created_at_ms :: u64

section \<open>Domain errors (domain.rs)\<close>

datatype CapabilityFamily = FamSandbox | FamRuntime

fun display_family :: "CapabilityFamily \<Rightarrow> string" where
  "display_family FamSandbox = ''sandbox''"
| "display_family FamRuntime = ''runtime''"

datatype SessionDomainError =
    DomInvalidRequest string
  | DomNotFound string
  | DomConflict string
  | DomLeaseRequired string
  | DomLeaseConflict string "string option" "u32 option" "string option"
  | DomUnsupportedCapability CapabilityFamily string
  | DomTimeout string u64
  | DomUnavailable string
  | DomQuotaExceeded string u32
  | DomInternal string "SessionDomainError option"

fun display_domain_error :: "SessionDomainError \<Rightarrow> string" where
  "display_domain_error (DomInvalidRequest m) = ''invalid request: '' @ m"
| "display_domain_error (DomNotFound r) = ''session not found: '' @ r"
| "display_domain_error (DomConflict m) = ''session conflict: '' @ m"
| "display_domain_error (DomLeaseRequired r) = ''session lease required: '' @ r"
| "display_domain_error (DomLeaseConflict r _ _ _) = ''session lease conflict: '' @ r"
| "display_domain_error (DomUnsupportedCapability f c) =
     ''unsupported '' @ display_family f @ '' capability: '' @ c"
| "display_domain_error (DomTimeout opr ms) =
     ''operation '' @ opr @ '' timed out after '' @ show_nat (unat ms) @ '' ms''"
| "display_domain_error (DomUnavailable m) = ''session unavailable: '' @ m"
| "display_domain_error (DomQuotaExceeded s l) =
     ''tenant quota exceeded: '' @ s @ '' (limit '' @ show_nat (unat l) @ '')''"
| "display_domain_error (DomInternal m _) = ''internal session failure: '' @ m"

fun is_dom_not_found :: "SessionDomainError \<Rightarrow> bool" where
  "is_dom_not_found (DomNotFound _) = True"
| "is_dom_not_found _ = False"

fun is_dom_unsupported :: "SessionDomainError \<Rightarrow> bool" where
  "is_dom_unsupported (DomUnsupportedCapability _ _) = True"
| "is_dom_unsupported _ = False"

fun is_dom_unavailable :: "SessionDomainError \<Rightarrow> bool" where
  "is_dom_unavailable (DomUnavailable _) = True"
| "is_dom_unavailable _ = False"

section \<open>The authenticated caller (security.rs)\<close>

definition SECURITY_ADMIN_OWNER_REF :: string where
  "SECURITY_ADMIN_OWNER_REF = ''admin''"

record TenantQuota =
  tq_max_sessions :: "u32 option"
  tq_max_sandboxes :: SandboxLimits
  tq_max_requests_per_minute :: "u32 option"

definition default_TenantQuota :: TenantQuota where
  "default_TenantQuota =
     \<lparr> tq_max_sessions = None, tq_max_sandboxes = Map.empty, tq_max_requests_per_minute = None \<rparr>"

definition sandbox_limit :: "TenantQuota \<Rightarrow> string \<Rightarrow> u32 option" where
  "sandbox_limit q backend_id =
     (if backend_id = ''local'' then tq_max_sandboxes q BkLocal
      else if backend_id = ''e2b'' then tq_max_sandboxes q BkE2b
      else if backend_id = ''docker'' then tq_max_sandboxes q BkDocker
      else None)"

datatype Role = Admin | Tenant

record SecurityContext =
  sx_role :: Role
  sx_tenant_id :: "string option"
  sx_principal :: string
  sx_quota :: TenantQuota

definition admin :: "string \<Rightarrow> SecurityContext" where
  "admin who =
     \<lparr> sx_role = Admin, sx_tenant_id = None, sx_principal = who, sx_quota = default_TenantQuota \<rparr>"

definition tenant :: "string \<Rightarrow> string \<Rightarrow> SecurityContext" where
  "tenant tenant_id who =
     \<lparr> sx_role = Tenant, sx_tenant_id = Some tenant_id, sx_principal = who,
       sx_quota = default_TenantQuota \<rparr>"

definition with_quota :: "TenantQuota \<Rightarrow> SecurityContext \<Rightarrow> SecurityContext" where
  "with_quota quota ctx = ctx\<lparr>sx_quota := quota\<rparr>"

definition is_admin :: "SecurityContext \<Rightarrow> bool" where
  "is_admin ctx \<longleftrightarrow> sx_role ctx = Admin"

definition owns :: "SecurityContext \<Rightarrow> string option \<Rightarrow> bool" where
  "owns ctx record_tenant_id =
     (case sx_role ctx of Admin \<Rightarrow> True | Tenant \<Rightarrow> sx_tenant_id ctx = record_tenant_id)"

definition owner_ref :: "SecurityContext \<Rightarrow> string" where
  "owner_ref ctx =
     (case sx_role ctx of
        Admin \<Rightarrow> SECURITY_ADMIN_OWNER_REF
      | Tenant \<Rightarrow> ''tenant/'' @ (case sx_tenant_id ctx of None \<Rightarrow> [] | Some t \<Rightarrow> t))"

text \<open>The contexts the constructors make: an administrator without a tenant, or a tenant.\<close>

inductive constructed :: "SecurityContext \<Rightarrow> bool" where
  constructed_admin: "constructed (admin who)"
| constructed_tenant: "constructed (tenant tid who)"
| constructed_quota: "constructed ctx \<Longrightarrow> constructed (with_quota quota ctx)"

lemma constructed_cases_role:
  assumes "constructed ctx"
  shows "sx_role ctx = Admin \<and> sx_tenant_id ctx = None \<or> (\<exists>t. sx_role ctx = Tenant \<and> sx_tenant_id ctx = Some t)"
  using assms by induction (simp_all add: admin_def tenant_def with_quota_def)

text \<open>Two callers made by the constructors charge the same owner account in the instance
  managers exactly when both are administrators or both belong to the same tenant, and no tenant is
  ever charged to the unlimited administrator account. A tenant owns exactly the records of its own
  tenant, so never an administrator's.\<close>

lemma owner_accounts_separate:
  assumes "constructed a" and "constructed b"
  shows "(owner_ref a = owner_ref b \<longleftrightarrow> sx_tenant_id a = sx_tenant_id b)
     \<and> (owner_ref a = SECURITY_ADMIN_OWNER_REF \<longleftrightarrow> is_admin a)
     \<and> (\<not> is_admin a \<longrightarrow> (owns a r \<longleftrightarrow> r = sx_tenant_id a \<and> r \<noteq> None))"
  using constructed_cases_role [OF assms(1)] constructed_cases_role [OF assms(2)]
  by (elim disjE exE conjE)
    (auto simp: owner_ref_def SECURITY_ADMIN_OWNER_REF_def is_admin_def owns_def intro: sym)

section \<open>Joint execution owners (joint_lifecycle.rs)\<close>

definition validate_binding :: "JointBinding \<Rightarrow> (SessionDomainError, unit) result" where
  "validate_binding b =
     (if \<exists>v \<in> set [jb_owner_kind b, jb_binding_id b, jb_configuration_revision b]. trim v = []
      then Inl (DomUnavailable ''incomplete joint execution binding'') else Inr ())"

record JointCheckpointRecord =
  jc_checkpoint_id :: string
  jc_source_runtime_id :: string
  jc_runtime_kind :: string
  jc_binding :: JointBinding
  jc_workspace :: RuntimeWorkspace
  jc_isolation :: IsolationFacts
  jc_capabilities :: EffectiveCapabilities
  jc_tenant_id :: "string option"
  jc_owner_ref :: string
  jc_created_by :: "string option"
  jc_created_at_ms :: u64

record JointOperationContext =
  jx_intent_id :: string
  jx_operation :: string
  jx_tenant_id :: "string option"
  jx_owner_ref :: string
  jx_principal :: string
  jx_actor_role :: Role
  jx_quota :: TenantQuota
  jx_runtime_kind :: string
  jx_configuration_revision :: string
  jx_source_runtime_id :: "string option"
  jx_target_runtime_id :: "string option"
  jx_checkpoint_id :: "string option"

record NormalizedSessionEnvironment =
  ne_workspace :: RuntimeWorkspace
  ne_isolation :: IsolationFacts
  ne_sandbox_capabilities :: "SandboxCapability set"
  ne_llm :: "ResolvedLlm option"
  ne_lease :: "RecordLease option"

record JointOpenInput =
  ji_request :: SessionOpenRequest
  ji_normalized :: NormalizedSessionEnvironment
  ji_capabilities :: EffectiveCapabilities

definition unsupported_joint :: "string \<Rightarrow> SessionDomainError" where
  "unsupported_joint operation = DomUnsupportedCapability FamRuntime (''joint_'' @ operation)"

definition validate_committed_session ::
  "SessionRecord \<Rightarrow> JointOperationContext \<Rightarrow> string \<Rightarrow> (SessionDomainError, unit) result" where
  "validate_committed_session r context owner_kind =
     (case joint (sn_execution_backing r) of
        None \<Rightarrow> Inl (unsupported_joint ''publication'')
      | Some binding \<Rightarrow>
          (case validate_binding binding of
             Inl e \<Rightarrow> Inl e
           | Inr _ \<Rightarrow>
               if jb_owner_kind binding \<noteq> owner_kind
                  \<or> rs_runtime_kind (sn_runtime r) \<noteq> jx_runtime_kind context
                  \<or> sn_runtime_id r \<noteq> (case jx_target_runtime_id context of None \<Rightarrow> [] | Some t \<Rightarrow> t)
                  \<or> sn_tenant_id r \<noteq> jx_tenant_id context
                  \<or> jb_configuration_revision binding \<noteq> jx_configuration_revision context
               then Inl (DomUnavailable ''joint publication identity mismatch'')
               else Inr ()))"

definition joint_operation_context ::
  "SecurityContext \<Rightarrow> string \<Rightarrow> string \<Rightarrow> string \<Rightarrow> string \<Rightarrow> string option \<Rightarrow> string option \<Rightarrow> string option
     \<Rightarrow> JointOperationContext" where
  "joint_operation_context ctx intent_id operation runtime_kind revision source target checkpoint =
     \<lparr> jx_intent_id = intent_id, jx_operation = operation, jx_tenant_id = sx_tenant_id ctx,
       jx_owner_ref = owner_ref ctx, jx_principal = sx_principal ctx, jx_actor_role = sx_role ctx,
       jx_quota = sx_quota ctx, jx_runtime_kind = runtime_kind,
       jx_configuration_revision = revision, jx_source_runtime_id = source,
       jx_target_runtime_id = target, jx_checkpoint_id = checkpoint \<rparr>"

end
