(* ===== verification/Secret_Scan.thy ===== *)
theory Secret_Scan
  imports Json_Value
begin

text \<open>
  Redaction of protected values (\<open>src/crates/core/src/deployment.rs\<close>): the registry of values that
  must not leave the process, the recursive search for them in a text, through JSON documents and
  base64 layers, and the filter for diagnostics. The JSON parser and the base64 decoder are parameters
  \<open>parse\<close> and \<open>decode\<close>; nothing is assumed of them. A poisoned registry lock, after which the source
  redacts everything, does not occur in the model.
\<close>

section \<open>The registry\<close>

text \<open>One entry per live deployment that has protected values, identified by the address of its set.\<close>

type_synonym ProtectedRegistry = "(nat \<times> string set) list"

definition protect_values :: "nat \<Rightarrow> string list \<Rightarrow> ProtectedRegistry \<Rightarrow> ProtectedRegistry" where
  "protect_values owner values registry =
     (let fresh = set (filter (\<lambda>v. v \<noteq> []) values)
      in if owner \<in> set (map fst registry)
         then map (\<lambda>(o', vs). if o' = owner then (o', vs \<union> fresh) else (o', vs)) registry
         else registry @ [(owner, fresh)])"

section \<open>The search\<close>

fun has_window :: "string \<Rightarrow> string \<Rightarrow> bool" where
  "has_window v [] = False"
| "has_window v (c # cs) = (starts_with (c # cs) v \<or> has_window v cs)"

lemma size_json_member:
  "(k, v) \<in> set kvs \<Longrightarrow> size v \<le> size_list (size_prod (\<lambda>x. 0) size) kvs"
  by (induction kvs) auto

function (sequential) contains_protected ::
  "(string \<Rightarrow> json option) \<Rightarrow> (string \<Rightarrow> string option) \<Rightarrow> string \<Rightarrow> string set \<Rightarrow> nat \<Rightarrow> bool"
and scan_json ::
  "(string \<Rightarrow> json option) \<Rightarrow> (string \<Rightarrow> string option) \<Rightarrow> json \<Rightarrow> string set \<Rightarrow> nat \<Rightarrow> bool"
where
  "contains_protected parse decode bytes values depth =
     (if \<exists>v \<in> values. has_window v bytes then True
      else if 16 \<le> depth then values \<noteq> {}
      else if (case parse bytes of
                 Some value \<Rightarrow> scan_json parse decode value values (depth + 1)
               | None \<Rightarrow> False)
      then True
      else (case decode bytes of
              Some decoded \<Rightarrow>
                decoded \<noteq> [] \<and> contains_protected parse decode decoded values (depth + 1)
            | None \<Rightarrow> False))"
| "scan_json parse decode (JStr s) values depth =
     contains_protected parse decode s values (depth + 1)"
| "scan_json parse decode (JArr js) values depth =
     list_ex (\<lambda>j. scan_json parse decode j values (depth + 1)) js"
| "scan_json parse decode (JObj kvs) values depth =
     list_ex (\<lambda>kv. contains_protected parse decode (fst kv) values (depth + 1)
                \<or> scan_json parse decode (snd kv) values (depth + 1)) kvs"
| "scan_json parse decode _ values depth = False"
  by pat_completeness auto

termination
proof (relation "inv_image (less_than <*lex*> less_than)
    (\<lambda>x. case x of
       Inl (parse, decode, bytes, values, depth) \<Rightarrow> (17 - depth, 0)
     | Inr (parse, decode, j, values, depth) \<Rightarrow> (17 - depth, Suc (size j)))", goal_cases)
  case 1
  then show ?case by auto
qed (auto intro: size_json_member simp: less_Suc_eq_le dest: size_list_estimation')

declare contains_protected.simps [simp del]

section \<open>The filter for diagnostics\<close>

definition safe_diagnostic ::
  "(string \<Rightarrow> json option) \<Rightarrow> (string \<Rightarrow> string option) \<Rightarrow> ProtectedRegistry \<Rightarrow> string \<Rightarrow> string" where
  "safe_diagnostic parse decode registry value =
     (if list_ex (\<lambda>(owner, values). contains_protected parse decode value values 0) registry
      then ''[redacted]'' else value)"

section \<open>Nothing protected passes\<close>

lemma has_window_iff:
  assumes "v \<noteq> []"
  shows "has_window v bs \<longleftrightarrow> (\<exists>p q. bs = p @ v @ q)"
proof (induction bs)
  case Nil
  with assms show ?case by simp
next
  case (Cons c cs)
  have "has_window v (c # cs) \<longleftrightarrow> (\<exists>q. c # cs = v @ q) \<or> (\<exists>p q. cs = p @ v @ q)"
    using Cons by (simp add: starts_with_iff)
  also have "\<dots> \<longleftrightarrow> (\<exists>p q. c # cs = p @ v @ q)"
    by (metis (no_types, opaque_lifting) append_Cons append_Nil append_eq_Cons_conv)
  finally show ?case .
qed

text \<open>The texts inside a JSON document: its strings and the keys of its objects.\<close>

fun json_texts :: "json \<Rightarrow> string set" where
  "json_texts (JStr s) = {s}"
| "json_texts (JArr js) = (\<Union>j \<in> set js. json_texts j)"
| "json_texts (JObj kvs) = fst ` set kvs \<union> (\<Union>kv \<in> set kvs. json_texts (snd kv))"
| "json_texts _ = {}"

text \<open>A text carries a value when the value occurs in it, or in a text of the JSON document it
  denotes, or in what it decodes to, at any depth of such layers.\<close>

inductive carries ::
  "(string \<Rightarrow> json option) \<Rightarrow> (string \<Rightarrow> string option) \<Rightarrow> string \<Rightarrow> string \<Rightarrow> bool"
  for parse :: "string \<Rightarrow> json option" and decode :: "string \<Rightarrow> string option" and v :: string where
  carries_plain: "bs = p @ v @ q \<Longrightarrow> carries parse decode v bs"
| carries_json: "parse bs = Some j \<Longrightarrow> s \<in> json_texts j \<Longrightarrow> carries parse decode v s
     \<Longrightarrow> carries parse decode v bs"
| carries_base64: "decode bs = Some d \<Longrightarrow> d \<noteq> [] \<Longrightarrow> carries parse decode v d
     \<Longrightarrow> carries parse decode v bs"

lemma carries_self: "carries parse decode v v"
  by (rule carries_plain [where p = "[]" and q = "[]"]) simp

lemma scan_json_finds:
  assumes "s \<in> json_texts j" and "\<And>d. contains_protected parse decode s values d"
  shows "scan_json parse decode j values depth"
  using assms(1)
proof (induction j arbitrary: depth)
  case (JObj kvs)
  then show ?case
    using assms(2) by (force simp: list_ex_iff)
next
  case (JArr js)
  then show ?case by (auto simp: list_ex_iff)
qed (use assms(2) in auto)

lemma contains_protected_carries:
  assumes "carries parse decode v bs" and "v \<in> values" and "v \<noteq> []"
  shows "contains_protected parse decode bs values depth"
  using assms(1)
proof (induction arbitrary: depth)
  case (carries_plain bs p q)
  then have "has_window v bs" using assms(3) by (auto simp: has_window_iff)
  then show ?case using assms(2) by (auto simp: contains_protected.simps)
next
  case (carries_json bs j s)
  then show ?case
    using assms(2) scan_json_finds [OF carries_json.hyps(2) carries_json.IH]
    by (subst contains_protected.simps) auto
next
  case (carries_base64 bs d)
  then show ?case
    using assms(2) by (subst contains_protected.simps) auto
qed

lemma protect_values_member:
  assumes "v \<in> set vs" and "v \<noteq> []"
  shows "\<exists>values. (owner, values) \<in> set (protect_values owner vs registry) \<and> v \<in> values"
proof (cases "owner \<in> set (map fst registry)")
  case True
  then obtain old where "(owner, old) \<in> set registry" by auto
  then have "(owner, old \<union> set (filter (\<lambda>v. v \<noteq> []) vs)) \<in> set (protect_values owner vs registry)"
    using True by (auto simp: protect_values_def Let_def intro!: rev_image_eqI)
  then show ?thesis using assms by auto
next
  case False
  then have "(owner, set (filter (\<lambda>v. v \<noteq> []) vs)) \<in> set (protect_values owner vs registry)"
    by (simp add: protect_values_def Let_def)
  then show ?thesis using assms by auto
qed

text \<open>C32. Once a value is protected, every diagnostic text that carries it, plainly or under any
  number of JSON and base64 layers, is replaced by the redaction marker, and a text that passes is
  passed unchanged.\<close>

theorem safe_diagnostic_redacts:
  assumes "v \<in> set vs" and "v \<noteq> []" and "carries parse decode v text"
  shows "safe_diagnostic parse decode (protect_values owner vs registry) text = ''[redacted]''
     \<and> safe_diagnostic parse decode reg text' \<in> {text', ''[redacted]''}"
proof
  obtain vals where "(owner, vals) \<in> set (protect_values owner vs registry)" and "v \<in> vals"
    using protect_values_member [OF assms(1,2)] by blast
  moreover from this(2) have "contains_protected parse decode text vals 0"
    by (rule contains_protected_carries [OF assms(3) _ assms(2)])
  ultimately show "safe_diagnostic parse decode (protect_values owner vs registry) text = ''[redacted]''"
    by (auto simp: safe_diagnostic_def list_ex_iff)
qed (simp add: safe_diagnostic_def)

text \<open>A decoder that knows one text, for the example below.\<close>

definition one_text_decoder :: "string \<Rightarrow> string option" where
  "one_text_decoder s = (if s = ''czNjcg=='' then Some ''s3cr'' else None)"

theorem safe_diagnostic_redacts_witness:
  "safe_diagnostic (\<lambda>_. None) one_text_decoder (protect_values 7 [''s3cr''] []) ''czNjcg==''
     = ''[redacted]''"
proof -
  have "one_text_decoder ''czNjcg=='' = Some ''s3cr''" by (simp add: one_text_decoder_def)
  then have layer: "carries (\<lambda>_. None) one_text_decoder ''s3cr'' ''czNjcg==''"
    by (rule carries_base64) (simp_all add: carries_self)
  have member: "''s3cr'' \<in> set [''s3cr'']" and nonempty: "''s3cr'' \<noteq> []" by simp_all
  note redacted = safe_diagnostic_redacts [OF member nonempty layer]
  show ?thesis
    by (rule conjunct1) (rule redacted [where text' = "[]"])
qed

end
