(* ===== verification/Session_Projection.thy ===== *)
theory Session_Projection
  imports Session_Domain Secret_Scan
begin

text \<open>
  Projection of the domain to the wire (\<open>src/crates/core/src/projection.rs\<close>): session records to
  responses, domain errors to redacted wire errors; and the capability translations of
  \<open>application.rs\<close> in the other direction. The redaction of an error works on its JSON document: it
  is written, every string under a key other than \<open>code\<close> and \<open>family\<close> is filtered, and it is read
  back, where a failure would be a panic of the server (\<open>None\<close> here).
\<close>

section \<open>Sessions\<close>

fun project_status :: "SessionStatus \<Rightarrow> SessionLifecycleStatus" where
  "project_status SsOpening = LsOpening"
| "project_status SsIdle = LsIdle"
| "project_status SsRunning = LsRunning"
| "project_status SsPaused = LsPaused"
| "project_status SsFailed = LsFailed"
| "project_status SsClosed = LsClosed"

fun project_workspace_access :: "RuntimeWorkspaceAccess \<Rightarrow> WorkspaceAccessMode" where
  "project_workspace_access ReadOnly = WReadOnly"
| "project_workspace_access ReadWrite = WReadWrite"

fun project_sandbox_capability :: "SandboxCapability \<Rightarrow> SessionSandboxCapability" where
  "project_sandbox_capability SbExec = WExec"
| "project_sandbox_capability SbFileRead = WFileRead"
| "project_sandbox_capability SbFileWrite = WFileWrite"
| "project_sandbox_capability SbPause = WPause"
| "project_sandbox_capability SbSnapshot = WSnapshot"
| "project_sandbox_capability SbNetwork = WNetwork"

fun project_runtime_capability :: "RuntimeCapability \<Rightarrow> SessionRuntimeCapability" where
  "project_runtime_capability DcInteraction = WInteraction"
| "project_runtime_capability DcSteering = WSteering"
| "project_runtime_capability DcFork = WFork"
| "project_runtime_capability DcCheckpoint = WCheckpoint"
| "project_runtime_capability DcStateExport = WStateExport"
| "project_runtime_capability DcModelOverride = WModelOverride"
| "project_runtime_capability DcReasoningControl = WReasoningControl"

fun project_boundary :: "IsolationBoundary \<Rightarrow> WireIsolationBoundary" where
  "project_boundary Host = WHost"
| "project_boundary Process = WProcess"
| "project_boundary Container = WContainer"
| "project_boundary VirtualMachine = WVirtualMachine"
| "project_boundary Remote = WRemote"

fun project_network :: "NetworkIsolation \<Rightarrow> WireNetworkIsolation" where
  "project_network NetNone = WNetNone"
| "project_network NetRestricted = WNetRestricted"
| "project_network NetIsolated = WNetIsolated"

definition project_llm :: "ResolvedLlm \<Rightarrow> ResolvedLlmDescriptor" where
  "project_llm llm =
     \<lparr> rd_provider = rl_provider llm, rd_model = rl_model llm, rd_api_base = rl_api_base llm,
       rd_api = rl_api llm, rd_capabilities = rl_capabilities llm,
       rd_credential_source = rl_credential_source llm \<rparr>"

definition project_session :: "SessionRecord \<Rightarrow> SessionOpenResponse" where
  "project_session r =
     \<lparr> or_runtime_id = sn_runtime_id r, or_conversation_id = sn_conversation_id r,
       or_sender_id = sn_sender_id r, or_status = project_status (sn_status r),
       or_created_at_ms = sn_created_at_ms r, or_updated_at_ms = sn_updated_at_ms r,
       or_runtime_kind = rs_runtime_kind (sn_runtime r),
       or_workspace =
         \<lparr> ws_workspace_id = rw_workspace_id (sn_workspace r), ws_root = rw_root (sn_workspace r),
           ws_access = project_workspace_access (rw_access (sn_workspace r)),
           ws_revision = rw_revision (sn_workspace r), ws_metadata = rw_metadata (sn_workspace r) \<rparr>,
       or_isolation =
         \<lparr> is_boundary = project_boundary (if_boundary (sn_isolation r)),
           is_workspace_access = project_workspace_access (if_workspace_access (sn_isolation r)),
           is_network = project_network (if_network (sn_isolation r)),
           is_effective_capabilities = project_sandbox_capability ` ef_sandbox (sn_capabilities r),
           is_metadata = if_metadata (sn_isolation r) \<rparr>,
       or_effective_capabilities =
         \<lparr> sc_sandbox = project_sandbox_capability ` ef_sandbox (sn_capabilities r),
           sc_runtime = project_runtime_capability ` ef_runtime (sn_capabilities r) \<rparr>,
       or_llm = map_option project_llm (sn_llm r) \<rparr>"

definition project_session_summary :: "SessionRecord \<Rightarrow> SessionSummary" where
  "project_session_summary r =
     \<lparr> sm_runtime_id = sn_runtime_id r, sm_conversation_id = sn_conversation_id r,
       sm_sender_id = sn_sender_id r, sm_status = project_status (sn_status r),
       sm_runtime_kind = rs_runtime_kind (sn_runtime r),
       sm_created_at_ms = sn_created_at_ms r, sm_updated_at_ms = sn_updated_at_ms r \<rparr>"

section \<open>Capabilities (application.rs)\<close>

fun domain_runtime_capability :: "SessionRuntimeCapability \<Rightarrow> RuntimeCapability option" where
  "domain_runtime_capability WInteraction = Some DcInteraction"
| "domain_runtime_capability WSteering = Some DcSteering"
| "domain_runtime_capability WFork = Some DcFork"
| "domain_runtime_capability WCheckpoint = Some DcCheckpoint"
| "domain_runtime_capability WStateExport = Some DcStateExport"
| "domain_runtime_capability WModelOverride = Some DcModelOverride"
| "domain_runtime_capability WReasoningControl = Some DcReasoningControl"

fun domain_sandbox_capability :: "SessionSandboxCapability \<Rightarrow> SandboxCapability" where
  "domain_sandbox_capability WExec = SbExec"
| "domain_sandbox_capability WFileRead = SbFileRead"
| "domain_sandbox_capability WFileWrite = SbFileWrite"
| "domain_sandbox_capability WPause = SbPause"
| "domain_sandbox_capability WSnapshot = SbSnapshot"
| "domain_sandbox_capability WNetwork = SbNetwork"

fun runtime_capability :: "AgentRuntimeCapability \<Rightarrow> SessionRuntimeCapability option" where
  "runtime_capability RcInteraction = Some WInteraction"
| "runtime_capability RcSteering = Some WSteering"
| "runtime_capability RcStateExport = Some WStateExport"
| "runtime_capability RcModelOverride = Some WModelOverride"
| "runtime_capability RcReasoningControl = Some WReasoningControl"
| "runtime_capability RcUnknown = None"

section \<open>Errors\<close>

fun wire_family :: "CapabilityFamily \<Rightarrow> SessionCapabilityFamily" where
  "wire_family FamSandbox = WSandbox"
| "wire_family FamRuntime = WRuntime"

fun wire_error_of :: "SessionDomainError \<Rightarrow> SessionWireError" where
  "wire_error_of (DomInvalidRequest m) = WireInvalidRequest m"
| "wire_error_of (DomNotFound r) = WireNotFound r"
| "wire_error_of (DomConflict m) = WireConflict m"
| "wire_error_of (DomLeaseRequired r) = WireLeaseRequired r"
| "wire_error_of (DomLeaseConflict r c p h) = WireLeaseConflict r c p h"
| "wire_error_of (DomUnsupportedCapability f c) = WireUnsupportedCapability (wire_family f) c"
| "wire_error_of (DomTimeout opr ms) = WireTimeout opr ms"
| "wire_error_of (DomUnavailable m) = WireUnavailable m"
| "wire_error_of (DomQuotaExceeded s l) = WireQuotaExceeded s l"
| "wire_error_of (DomInternal m _) = WireInternal m JNull"


text \<open>The JSON form of wire errors: an object whose \<open>code\<close> names the variant.\<close>

fun json_of_option :: "('a \<Rightarrow> json) \<Rightarrow> 'a option \<Rightarrow> json" where
  "json_of_option f None = JNull"
| "json_of_option f (Some x) = f x"

definition json_of_u32 :: "u32 \<Rightarrow> json" where
  "json_of_u32 n = JNum (uint n)"

fun as_u32 :: "json \<Rightarrow> u32 option" where
  "as_u32 (JNum i) = (if 0 \<le> i \<and> i < 2 ^ 32 then Some (word_of_int i) else None)"
| "as_u32 _ = None"

fun json_of_family :: "SessionCapabilityFamily \<Rightarrow> json" where
  "json_of_family WSandbox = JStr ''sandbox''"
| "json_of_family WRuntime = JStr ''runtime''"

fun family_of_json :: "json \<Rightarrow> SessionCapabilityFamily option" where
  "family_of_json (JStr s) =
     (if s = ''sandbox'' then Some WSandbox else if s = ''runtime'' then Some WRuntime else None)"
| "family_of_json _ = None"

fun wire_error_to_json :: "SessionWireError \<Rightarrow> json" where
  "wire_error_to_json (WireInvalidRequest m) =
     obj_of [(''code'', JStr ''invalid_request''), (''message'', JStr m)]"
| "wire_error_to_json (WireNotFound r) =
     obj_of [(''code'', JStr ''not_found''), (''runtime_id'', JStr r)]"
| "wire_error_to_json (WireTenantNotFound t) =
     obj_of [(''code'', JStr ''tenant_not_found''), (''tenant_id'', JStr t)]"
| "wire_error_to_json (WireConflict m) =
     obj_of [(''code'', JStr ''conflict''), (''message'', JStr m)]"
| "wire_error_to_json (WireLeaseRequired r) =
     obj_of [(''code'', JStr ''lease_required''), (''runtime_id'', JStr r)]"
| "wire_error_to_json (WireLeaseConflict r c p h) =
     obj_of [(''code'', JStr ''lease_conflict''), (''runtime_id'', JStr r),
             (''holder_client_id'', json_of_option JStr c),
             (''holder_pid'', json_of_option json_of_u32 p),
             (''holder_hostname'', json_of_option JStr h)]"
| "wire_error_to_json (WireUnsupportedCapability f c) =
     obj_of [(''code'', JStr ''unsupported_capability''), (''family'', json_of_family f),
             (''capability'', JStr c)]"
| "wire_error_to_json (WireTimeout opr ms) =
     obj_of [(''code'', JStr ''timeout''), (''operation'', JStr opr), (''timeout_ms'', json_of_u64 ms)]"
| "wire_error_to_json (WireUnavailable m) =
     obj_of [(''code'', JStr ''unavailable''), (''message'', JStr m)]"
| "wire_error_to_json (WireQuotaExceeded s l) =
     obj_of [(''code'', JStr ''quota_exceeded''), (''scope'', JStr s), (''limit'', json_of_u32 l)]"
| "wire_error_to_json (WireInternal m d) =
     obj_of [(''code'', JStr ''internal''), (''message'', JStr m), (''details'', d)]"

text \<open>An optional field that is absent or null reads as \<open>None\<close>.\<close>

definition json_optional :: "(json \<Rightarrow> 'a option) \<Rightarrow> json \<Rightarrow> string \<Rightarrow> 'a option option" where
  "json_optional dec j k =
     (case json_get j k of
        None \<Rightarrow> Some None
      | Some v \<Rightarrow> if v = JNull then Some None else map_option Some (dec v))"

definition json_field :: "(json \<Rightarrow> 'a option) \<Rightarrow> json \<Rightarrow> string \<Rightarrow> 'a option" where
  "json_field dec j k = Option.bind (json_get j k) dec"

definition wire_error_of_json :: "json \<Rightarrow> SessionWireError option" where
  "wire_error_of_json j =
     (case json_field as_str j ''code'' of
        None \<Rightarrow> None
      | Some code \<Rightarrow>
          if code = ''invalid_request'' then map_option WireInvalidRequest (json_field as_str j ''message'')
          else if code = ''not_found'' then map_option WireNotFound (json_field as_str j ''runtime_id'')
          else if code = ''tenant_not_found'' then map_option WireTenantNotFound (json_field as_str j ''tenant_id'')
          else if code = ''conflict'' then map_option WireConflict (json_field as_str j ''message'')
          else if code = ''lease_required'' then map_option WireLeaseRequired (json_field as_str j ''runtime_id'')
          else if code = ''lease_conflict'' then
            (case (json_field as_str j ''runtime_id'', json_optional as_str j ''holder_client_id'',
                   json_optional as_u32 j ''holder_pid'', json_optional as_str j ''holder_hostname'') of
               (Some r, Some c, Some p, Some h) \<Rightarrow> Some (WireLeaseConflict r c p h)
             | _ \<Rightarrow> None)
          else if code = ''unsupported_capability'' then
            (case (json_field family_of_json j ''family'', json_field as_str j ''capability'') of
               (Some f, Some c) \<Rightarrow> Some (WireUnsupportedCapability f c)
             | _ \<Rightarrow> None)
          else if code = ''timeout'' then
            (case (json_field as_str j ''operation'', json_field as_u64 j ''timeout_ms'') of
               (Some opr, Some ms) \<Rightarrow> Some (WireTimeout opr ms)
             | _ \<Rightarrow> None)
          else if code = ''unavailable'' then map_option WireUnavailable (json_field as_str j ''message'')
          else if code = ''quota_exceeded'' then
            (case (json_field as_str j ''scope'', json_field as_u32 j ''limit'') of
               (Some s, Some l) \<Rightarrow> Some (WireQuotaExceeded s l)
             | _ \<Rightarrow> None)
          else if code = ''internal'' then
            map_option (\<lambda>m. WireInternal m (json_index j ''details'')) (json_field as_str j ''message'')
          else None)"

function scrub :: "(string \<Rightarrow> string) \<Rightarrow> json \<Rightarrow> json" where
  "scrub safe (JStr s) = JStr (safe s)"
| "scrub safe (JArr js) = JArr (map (scrub safe) js)"
| "scrub safe (JObj kvs) =
     JObj (map (\<lambda>kv. (fst kv, if fst kv \<noteq> ''code'' \<and> fst kv \<noteq> ''family''
                             then scrub safe (snd kv) else snd kv)) kvs)"
| "scrub safe JNull = JNull"
| "scrub safe (JBool b) = JBool b"
| "scrub safe (JNum i) = JNum i"
| "scrub safe (JFloat f) = JFloat f"
  by pat_completeness auto
termination
  by (relation "measure (size \<circ> snd)")
     (auto simp: less_Suc_eq_le intro: size_json_member dest: size_list_estimation')

definition project_session_error ::
  "(string \<Rightarrow> string) \<Rightarrow> SessionDomainError \<Rightarrow> SessionWireError option" where
  "project_session_error safe error =
     wire_error_of_json (scrub safe (wire_error_to_json (wire_error_of error)))"


section \<open>The capability translations\<close>

text \<open>The translations of the two directions are inverse to each other.\<close>

lemma domain_sandbox_project [simp]: "domain_sandbox_capability (project_sandbox_capability c) = c"
  by (cases c) simp_all

lemma project_sandbox_domain [simp]: "project_sandbox_capability (domain_sandbox_capability c) = c"
  by (cases c) simp_all

lemma domain_runtime_inverse:
  "domain_runtime_capability w = Some c \<longleftrightarrow> w = project_runtime_capability c"
  by (cases w; cases c) simp_all

section \<open>Redaction\<close>

text \<open>The intended effect of the redaction: each text of the error passes the filter, nothing else
  changes.\<close>

fun redact_wire :: "(string \<Rightarrow> string) \<Rightarrow> SessionWireError \<Rightarrow> SessionWireError" where
  "redact_wire safe (WireInvalidRequest m) = WireInvalidRequest (safe m)"
| "redact_wire safe (WireNotFound r) = WireNotFound (safe r)"
| "redact_wire safe (WireTenantNotFound t) = WireTenantNotFound (safe t)"
| "redact_wire safe (WireConflict m) = WireConflict (safe m)"
| "redact_wire safe (WireLeaseRequired r) = WireLeaseRequired (safe r)"
| "redact_wire safe (WireLeaseConflict r c p h) =
     WireLeaseConflict (safe r) (map_option safe c) p (map_option safe h)"
| "redact_wire safe (WireUnsupportedCapability f c) = WireUnsupportedCapability f (safe c)"
| "redact_wire safe (WireTimeout opr ms) = WireTimeout (safe opr) ms"
| "redact_wire safe (WireUnavailable m) = WireUnavailable (safe m)"
| "redact_wire safe (WireQuotaExceeded s l) = WireQuotaExceeded (safe s) l"
| "redact_wire safe (WireInternal m d) = WireInternal (safe m) (scrub safe d)"

lemma as_u32_json_of_u32 [simp]: "as_u32 (json_of_u32 n) = Some n"
  using uint_lt2p [of n] by (simp add: json_of_u32_def)

lemma json_of_u32_not_null [simp]: "json_of_u32 n \<noteq> JNull"
  by (simp add: json_of_u32_def)

lemma scrub_numbers [simp]:
  "scrub safe (json_of_u32 n) = json_of_u32 n" "scrub safe (json_of_u64 m) = json_of_u64 m"
  by (simp_all add: json_of_u32_def json_of_u64_def)

lemma scrub_option_str [simp]:
  "scrub safe (json_of_option JStr c) = json_of_option JStr (map_option safe c)"
  by (cases c) simp_all

lemma scrub_option_u32 [simp]: "scrub safe (json_of_option json_of_u32 p) = json_of_option json_of_u32 p"
  by (cases p) simp_all

lemma json_of_option_str_null [simp]: "json_of_option JStr c = JNull \<longleftrightarrow> c = None"
  by (cases c) simp_all

lemma json_of_option_u32_null [simp]: "json_of_option json_of_u32 c = JNull \<longleftrightarrow> c = None"
  by (cases c) simp_all

lemma family_roundtrip [simp]: "family_of_json (json_of_family f) = Some f"
  by (cases f) simp_all

lemmas wire_codec_defs = wire_error_of_json_def obj_of_def json_field_def json_optional_def json_index_def

lemma wire_error_scrubbed:
  "wire_error_of_json (scrub safe (wire_error_to_json w)) = Some (redact_wire safe w)"
proof (cases w)
  case (WireLeaseConflict r c p h)
  then show ?thesis by (cases c; cases p; cases h) (simp_all add: wire_codec_defs)
qed (simp_all add: wire_codec_defs)

text \<open>C33. Redacting an error through its JSON document never panics and equals filtering each of its
  texts: the variant, the numbers and the HTTP status stay.\<close>

theorem project_session_error_redacts:
  "project_session_error safe e = Some (redact_wire safe (wire_error_of e))
   \<and> http_status (redact_wire safe (wire_error_of e)) = http_status (wire_error_of e)
   \<and> wire_error_of_json (wire_error_to_json w) = Some w"
proof (intro conjI)
  show "project_session_error safe e = Some (redact_wire safe (wire_error_of e))"
    by (simp add: project_session_error_def wire_error_scrubbed)
  show "http_status (redact_wire safe (wire_error_of e)) = http_status (wire_error_of e)"
    by (cases e) simp_all
  show "wire_error_of_json (wire_error_to_json w) = Some w"
  proof (cases w)
    case (WireLeaseConflict r c p h)
    then show ?thesis by (cases c; cases p; cases h) (simp_all add: wire_codec_defs)
  qed (simp_all add: wire_codec_defs)
qed

end
