(* ===== verification/Turn_Gate.thy ===== *)
theory Turn_Gate
  imports Gov_Prelude
begin

text \<open>
  The turn gate of the session application (\<open>src/crates/core/src/application.rs\<close>, \<open>TurnGate\<close>): one
  active turn or operation per session, and a bounded memory of the receipts of client requests. The
  hash map of a receipt window is an association list with one entry per key, so that its size is its
  length. Each gate operation is one critical section of the source; the interleavings of submissions,
  forwarding tasks and operations are the step relation \<open>gate_step\<close>.
\<close>

section \<open>The gate\<close>

definition RECEIPT_WINDOW_CAP :: nat where
  "RECEIPT_WINDOW_CAP = 64"

record ReceiptWindow =
  rw_by_request :: "(string \<times> string) list"
  rw_order :: "string list"

definition default_ReceiptWindow :: ReceiptWindow where
  "default_ReceiptWindow = \<lparr> rw_by_request = [], rw_order = [] \<rparr>"

record TurnGate =
  tg_active :: "string \<rightharpoonup> string"
  tg_receipts :: "string \<rightharpoonup> ReceiptWindow"

definition default_TurnGate :: TurnGate where
  "default_TurnGate = \<lparr> tg_active = Map.empty, tg_receipts = Map.empty \<rparr>"

definition claim :: "string \<Rightarrow> string \<Rightarrow> TurnGate \<Rightarrow> (string, unit) result \<times> TurnGate" where
  "claim runtime_id turn_id g =
     (case tg_active g runtime_id of
        Some existing \<Rightarrow> (Inl existing, g)
      | None \<Rightarrow> (Inr (), g\<lparr>tg_active := (tg_active g)(runtime_id \<mapsto> turn_id)\<rparr>))"

definition release :: "string \<Rightarrow> string \<Rightarrow> TurnGate \<Rightarrow> TurnGate" where
  "release runtime_id turn_id g =
     (if tg_active g runtime_id = Some turn_id
      then g\<lparr>tg_active := (tg_active g)(runtime_id := None)\<rparr> else g)"

definition replayed_receipt :: "string \<Rightarrow> string \<Rightarrow> TurnGate \<Rightarrow> string option" where
  "replayed_receipt runtime_id client_request_id g =
     Option.bind (tg_receipts g runtime_id) (\<lambda>w. map_of (rw_by_request w) client_request_id)"

definition push_receipt :: "string \<Rightarrow> string \<Rightarrow> ReceiptWindow \<Rightarrow> ReceiptWindow" where
  "push_receipt client_request_id turn_id w =
     (let w' = (if RECEIPT_WINDOW_CAP \<le> length (rw_by_request w)
                then (case rw_order w of
                        [] \<Rightarrow> w
                      | evicted # rest \<Rightarrow>
                          w\<lparr>rw_by_request := AList.delete evicted (rw_by_request w), rw_order := rest\<rparr>)
                else w)
      in w'\<lparr>rw_by_request := AList.update client_request_id turn_id (rw_by_request w'),
            rw_order := rw_order w' @ [client_request_id]\<rparr>)"

definition remember_receipt :: "string \<Rightarrow> string \<Rightarrow> string \<Rightarrow> TurnGate \<Rightarrow> TurnGate" where
  "remember_receipt runtime_id client_request_id turn_id g =
     (let w = (case tg_receipts g runtime_id of Some w \<Rightarrow> w | None \<Rightarrow> default_ReceiptWindow)
      in g\<lparr>tg_receipts := (tg_receipts g)(runtime_id \<mapsto> push_receipt client_request_id turn_id w)\<rparr>)"

definition forget_session :: "string \<Rightarrow> TurnGate \<Rightarrow> TurnGate" where
  "forget_session runtime_id g =
     g\<lparr>tg_active := (tg_active g)(runtime_id := None), tg_receipts := (tg_receipts g)(runtime_id := None)\<rparr>"

lemmas gate_defs = claim_def release_def remember_receipt_def forget_session_def

section \<open>The receipt window\<close>

text \<open>A window whose list of keys in order of arrival is also the list of its keys.\<close>

definition window_of :: "(string \<times> string) list \<Rightarrow> ReceiptWindow \<Rightarrow> bool" where
  "window_of xs w \<longleftrightarrow>
     rw_order w = map fst xs \<and> distinct (map fst xs) \<and> length xs \<le> RECEIPT_WINDOW_CAP
     \<and> length (rw_by_request w) = length xs \<and> map_of (rw_by_request w) = map_of xs
     \<and> distinct (map fst (rw_by_request w))"

lemma length_delete_distinct:
  assumes "distinct (map fst al)" and "k \<in> fst ` set al"
  shows "length (AList.delete k al) = length al - 1"
  using assms
proof (induction al)
  case (Cons a al)
  show ?case
  proof (cases "fst a = k")
    case True
    with Cons.prems show ?thesis by (cases a) (simp add: delete_id)
  next
    case False
    with Cons.prems have "k \<in> fst ` set al" by auto
    moreover from this have "al \<noteq> []" by auto
    ultimately show ?thesis using Cons False by (cases a) (simp add: Suc_diff_le Suc_leI)
  qed
qed simp

lemma length_update_fresh:
  assumes "k \<notin> fst ` set al"
  shows "length (AList.update k v al) = Suc (length al)"
  using assms by (induction al) auto

lemma map_of_last: "k \<notin> fst ` set xs \<Longrightarrow> [k \<mapsto> v] ++ map_of xs = (map_of xs)(k \<mapsto> v)"
  by (rule ext) (simp add: map_add_def map_of_eq_None_iff [THEN iffD2] split: option.splits)

lemma map_of_tail:
  assumes "k \<notin> fst ` set xs"
  shows "map_of xs = (map_of ((k, v) # xs))(k := None)"
  using assms by (auto simp: fun_eq_iff map_of_eq_None_iff)

lemma dom_map_of_keys: "map_of al = map_of bl \<Longrightarrow> fst ` set al = fst ` set bl"
  by (metis dom_map_of_conv_image_fst)

text \<open>Remembering a new key keeps the window's shape: the oldest receipt goes when it is full.\<close>

lemma push_receipt_window:
  assumes w: "window_of xs w" and fresh: "q \<notin> fst ` set xs"
  shows "window_of (drop (Suc (length xs) - RECEIPT_WINDOW_CAP) (xs @ [(q, t)])) (push_receipt q t w)"
proof (cases "RECEIPT_WINDOW_CAP \<le> length xs")
  case False
  have "q \<notin> fst ` set (rw_by_request w)"
    using w fresh dom_map_of_keys [of "rw_by_request w" xs] by (simp add: window_of_def)
  with False w fresh show ?thesis
    by (simp add: window_of_def push_receipt_def Let_def length_update_fresh update_conv' map_of_last
        distinct_update RECEIPT_WINDOW_CAP_def not_le)
next
  case True
  then obtain k v ys where xs: "xs = (k, v) # ys"
    by (cases xs) (auto simp: RECEIPT_WINDOW_CAP_def)
  let ?del = "AList.delete k (rw_by_request w)"
  have len: "length xs = RECEIPT_WINDOW_CAP" using True w by (simp add: window_of_def)
  have keys: "fst ` set (rw_by_request w) = fst ` set xs"
    using w by (intro dom_map_of_keys) (simp add: window_of_def)
  have del: "map_of ?del = map_of ys"
    using w xs map_of_tail [of k ys v] by (simp add: window_of_def delete_conv')
  have "q \<notin> fst ` set ?del" using fresh xs dom_map_of_keys [OF del] by simp
  moreover have "length ?del = length ys"
    using w xs keys by (simp add: window_of_def length_delete_distinct)
  moreover have "distinct (map fst ?del)" using w by (simp add: window_of_def distinct_delete)
  ultimately show ?thesis
    using w xs fresh len True del
    by (simp add: window_of_def push_receipt_def Let_def length_update_fresh update_conv' map_of_last
        distinct_update)
qed


lemma window_of_default: "window_of [] default_ReceiptWindow"
  by (simp add: window_of_def default_ReceiptWindow_def)

text \<open>The receipts a session's submissions leave, in the order in which the runtime accepted them.\<close>

definition remember_all :: "string \<Rightarrow> (string \<times> string) list \<Rightarrow> TurnGate \<Rightarrow> TurnGate" where
  "remember_all runtime_id xs g = foldl (\<lambda>g (q, t). remember_receipt runtime_id q t g) g xs"

lemma drop_snoc_window:
  assumes "n = length xs - c" and "0 < c"
  shows "drop (Suc (length (drop n xs)) - c) (drop n xs @ [x]) = drop (Suc (length xs) - c) (xs @ [x])"
proof (cases "length xs < c")
  case True
  with assms show ?thesis by simp
next
  case False
  with assms have "Suc (length xs) - c = Suc n" and "Suc (length (drop n xs)) - c = Suc 0"
    and "n \<le> length xs" by simp_all
  then show ?thesis by (simp add: drop_Suc drop_tl [symmetric] tl_drop)
qed

lemma remember_all_window:
  assumes "distinct (map fst xs)" and "tg_receipts g runtime_id = None" and "xs \<noteq> []"
  shows "\<exists>w. tg_receipts (remember_all runtime_id xs g) runtime_id = Some w
           \<and> window_of (drop (length xs - RECEIPT_WINDOW_CAP) xs) w"
  using assms
proof (induction xs rule: rev_induct)
  case (snoc x xs)
  obtain q t where x: "x = (q, t)" by (cases x)
  define old where "old = (case tg_receipts (remember_all runtime_id xs g) runtime_id of
      Some w \<Rightarrow> w | None \<Rightarrow> default_ReceiptWindow)"
  let ?ys = "drop (length xs - RECEIPT_WINDOW_CAP) xs"
  have "window_of ?ys old"
    using snoc window_of_default by (cases "xs = []") (auto simp: old_def remember_all_def)
  moreover have "q \<notin> fst ` set ?ys"
    using snoc.prems(1) x by (auto dest: in_set_dropD)
  ultimately have "window_of (drop (Suc (length ?ys) - RECEIPT_WINDOW_CAP) (?ys @ [(q, t)]))
      (push_receipt q t old)"
    by (rule push_receipt_window)
  then have "window_of (drop (Suc (length xs) - RECEIPT_WINDOW_CAP) (xs @ [(q, t)])) (push_receipt q t old)"
    by (simp only: drop_snoc_window [OF refl] RECEIPT_WINDOW_CAP_def zero_less_numeral)
  then show ?case
    using x by (simp add: remember_all_def remember_receipt_def old_def Let_def)
qed simp

text \<open>C18. The gate remembers a session's receipts first in, first out: after any sequence of accepted
  submissions with different client request identifiers, exactly the last 64 of them are replayed,
  each with the turn it started.\<close>

theorem receipts_replayed_fifo:
  assumes "distinct (map fst xs)" and "tg_receipts g runtime_id = None"
  shows "replayed_receipt runtime_id q (remember_all runtime_id xs g)
     = map_of (drop (length xs - 64) xs) q"
proof (cases "xs = []")
  case True
  with assms show ?thesis by (simp add: remember_all_def replayed_receipt_def)
next
  case False
  from remember_all_window [OF assms False] show ?thesis
    by (auto simp: replayed_receipt_def window_of_def RECEIPT_WINDOW_CAP_def)
qed

theorem receipts_replayed_fifo_witness:
  "replayed_receipt ''s1'' ''b'' (remember_all ''s1'' [(''a'', ''t1''), (''b'', ''t2'')] default_TurnGate)
     = Some ''t2''"
  using receipts_replayed_fifo [of "[(''a'', ''t1''), (''b'', ''t2'')]" default_TurnGate "''s1''" "''b''"]
  by (simp add: default_TurnGate_def)

section \<open>Interleavings\<close>

text \<open>Everything that holds a claim: the forwarding task of a turn, which releases the claim at the
  terminal event and once more when it ends, or an operation, whose guard releases it once. A claim is
  identified by the session and the generated turn identifier; identifiers are never issued twice. Closing a
  session forgets its claim whoever holds it: a turn that was streaming goes on without the claim.\<close>

datatype claim_phase = Streaming | Disowned | Draining

record gate_system =
  gs_gate :: TurnGate
  gs_claims :: "string \<times> string \<rightharpoonup> claim_phase"
  gs_issued :: "string set"

definition gate_init :: "gate_system \<Rightarrow> bool" where
  "gate_init s \<longleftrightarrow> s = \<lparr> gs_gate = default_TurnGate, gs_claims = Map.empty, gs_issued = {} \<rparr>"

inductive gate_step :: "gate_system \<Rightarrow> gate_system \<Rightarrow> bool" where
  start: "t \<notin> gs_issued s \<Longrightarrow> claim r t (gs_gate s) = (Inr (), g)
     \<Longrightarrow> gate_step s (s\<lparr>gs_gate := g, gs_claims := (gs_claims s)((r, t) \<mapsto> Streaming),
                       gs_issued := insert t (gs_issued s)\<rparr>)"
| refused: "t \<notin> gs_issued s \<Longrightarrow> claim r t (gs_gate s) = (Inl active, g)
     \<Longrightarrow> gate_step s (s\<lparr>gs_gate := g, gs_issued := insert t (gs_issued s)\<rparr>)"
| accepted: "gs_claims s (r, t) = Some phase \<Longrightarrow> phase \<noteq> Draining
     \<Longrightarrow> gate_step s (s\<lparr>gs_gate := remember_receipt r q t (gs_gate s)\<rparr>)"
| terminal: "gs_claims s (r, t) = Some phase \<Longrightarrow> phase \<noteq> Draining
     \<Longrightarrow> gate_step s (s\<lparr>gs_gate := release r t (gs_gate s), gs_claims := (gs_claims s)((r, t) \<mapsto> Draining)\<rparr>)"
| finished: "gs_claims s (r, t) = Some phase
     \<Longrightarrow> gate_step s (s\<lparr>gs_gate := release r t (gs_gate s), gs_claims := (gs_claims s)((r, t) := None)\<rparr>)"
| closed: "gate_step s (s\<lparr>gs_gate := forget_session r (gs_gate s),
     gs_claims := (\<lambda>(r', t). if r' = r \<and> gs_claims s (r', t) = Some Streaming then Some Disowned else gs_claims s (r', t))\<rparr>)"

definition gate_inv :: "gate_system \<Rightarrow> bool" where
  "gate_inv s \<longleftrightarrow>
     (\<forall>r t. gs_claims s (r, t) = Some Streaming \<longleftrightarrow> tg_active (gs_gate s) r = Some t)
     \<and> (\<forall>r t. gs_claims s (r, t) \<noteq> None \<longrightarrow> t \<in> gs_issued s)"

lemma gate_inv_step: "gate_step s s' \<Longrightarrow> gate_inv s \<Longrightarrow> gate_inv s'"
proof (induction rule: gate_step.induct)
  case (start t s r g)
  then have "tg_active (gs_gate s) r = None" and "g = (gs_gate s)\<lparr>tg_active := (tg_active (gs_gate s))(r \<mapsto> t)\<rparr>"
    by (auto simp: claim_def split: option.splits)
  with start show ?case by (auto simp: gate_inv_def)
next
  case (terminal s r t phase)
  then have "t \<in> gs_issued s" unfolding gate_inv_def by (metis option.distinct(1))
  with terminal show ?case by (cases phase) (auto simp: gate_inv_def release_def)
next
  case (finished s r t phase)
  then show ?case by (cases phase) (auto simp: gate_inv_def release_def)
next
  case (closed s r)
  then have "t \<in> gs_issued s" if "tg_active (gs_gate s) r' = Some t" for r' t
    using that unfolding gate_inv_def by (metis option.distinct(1))
  with closed show ?case by (auto simp: gate_inv_def forget_session_def split: if_splits)
qed (auto simp: gate_inv_def gate_defs Let_def split: option.splits)

interpretation gate: invariant_system gate_init gate_step gate_inv
proof
  show "gate_inv s" if "gate_init s" for s
    using that by (simp add: gate_init_def default_TurnGate_def gate_inv_def)
  show "gate_inv t" if "gate_inv s" and "gate_step s t" for s t
    using that(2,1) by (rule gate_inv_step)
qed

lemma claim_freed:
  assumes "gate_step s s'" and "gate_inv s" and "tg_active (gs_gate s) r = Some t" and "tg_active (gs_gate s') r \<noteq> Some t"
  shows "gs_gate s' = release r t (gs_gate s) \<or> gs_gate s' = forget_session r (gs_gate s)"
  using assms by cases (auto simp: gate_defs gate_inv_def Let_def split: option.splits if_splits)

text \<open>C17. In every interleaving of submissions, forwarding tasks, operations and closes: while a turn or operation
  of a session holds its claim, no other one does, a submission is refused and the refusal names the
  holder, the late releases of earlier turns and of turns whose session was closed under them do not free the
  claim, and the next step frees it only by the holder's own release or by closing the session. Closing
  frees the claim of a turn that is still streaming, which goes on without it.\<close>

theorem single_active_turn:
  assumes "reach gate_init gate_step s"
    and "gs_claims s (r, t) = Some Streaming" and "gs_claims s (r, t') \<noteq> None"
  shows "(gs_claims s (r, t') = Some Streaming \<longrightarrow> t' = t)
     \<and> fst (claim r new (gs_gate s)) = Inl t
     \<and> (t' \<noteq> t \<longrightarrow> release r t' (gs_gate s) = gs_gate s)
     \<and> (\<forall>s'. gate_step s s' \<and> tg_active (gs_gate s') r \<noteq> Some t \<longrightarrow>
          gs_gate s' = release r t (gs_gate s) \<or> gs_gate s' = forget_session r (gs_gate s))"
proof -
  have inv: "gate_inv s" by (rule gate.reach_inv [OF assms(1)])
  then have "tg_active (gs_gate s) r = Some t" using assms(2) by (simp add: gate_inv_def)
  with inv assms(2,3) claim_freed [OF _ inv this] show ?thesis
    by (auto simp: gate_inv_def claim_def release_def)
qed

theorem single_active_turn_witness:
  "fst (claim ''s1'' ''t9'' \<lparr> tg_active = [''s1'' \<mapsto> ''t1''], tg_receipts = Map.empty \<rparr>) = Inl ''t1''"
proof -
  define s0 where "s0 = \<lparr> gs_gate = default_TurnGate, gs_claims = Map.empty, gs_issued = {} \<rparr>"
  define s1 where "s1 = s0\<lparr>gs_gate := \<lparr> tg_active = [''s1'' \<mapsto> ''t1''], tg_receipts = Map.empty \<rparr>,
    gs_claims := (gs_claims s0)((''s1'', ''t1'') \<mapsto> Streaming), gs_issued := insert ''t1'' (gs_issued s0)\<rparr>"
  have "gate_init s0" by (simp add: gate_init_def s0_def)
  moreover have "gate_step s0 s1"
    unfolding s1_def by (rule start) (simp_all add: s0_def claim_def default_TurnGate_def)
  ultimately have "reach gate_init gate_step s1" by (blast intro: reach_init reach_step)
  from single_active_turn [OF this, of "''s1''" "''t1''" "''t1''" "''t9''"]
  show ?thesis by (simp add: s1_def)
qed

end
