(* ===== verification/Joint_Store.thy ===== *)
theory Joint_Store
  imports Session_Domain
begin

text \<open>
  The durable vocabulary of joint execution owners (\<open>src/crates/core/src/joint_store.rs\<close>): native
  steps and their outcomes, resource reservations and budgets, admissions, pending operations and
  retained turns.
\<close>

datatype NativeEffect = EffCreate | EffMutate | EffRemove | EffObserveAbsence

record JointNativeObject =
  no_kind :: string
  no_id :: string

record JointNativeIntent =
  ni_step :: string
  ni_operation_id :: string
  ni_digest :: string
  ni_method :: string
  ni_params :: json
  ni_effect :: NativeEffect
  ni_compensation :: bool

datatype NativeOperationState =
  NatNotSent | NatAccepted | NatUnknown | NatCompleted | NatFailed | NatNeedsRecovery

record JointNativeOutcome =
  nu_state :: NativeOperationState
  nu_resources :: "JointNativeObject list"
  nu_payload :: json

record JointResourceReservation =
  jr_kind :: string
  jr_units :: u32
  jr_limit :: u32

record JointResourceBudget =
  bu_total :: u32
  bu_recovery_reserve :: u32

type_synonym JointBudgetPolicy = "(string \<times> JointResourceBudget) list"

record JointTurnIdentity =
  ti_turn_id :: string
  ti_client_request_id :: "string option"
  ti_input_digest :: string

record JointPrepareRequest =
  jp_context :: JointOperationContext
  jp_binding :: JointBinding
  jp_root_id :: string
  jp_source_id :: string
  jp_exclusive_root :: bool
  jp_parent_binding :: "JointBinding option"
  jp_reservations :: "JointResourceReservation list"
  jp_native :: "JointNativeIntent list"
  jp_publication_input :: "SessionRecord option"
  jp_turn :: "JointTurnIdentity option"

record JointAdmission =
  ja_intent_id :: string
  ja_binding :: JointBinding
  ja_generation :: u64
  ja_root_epoch :: u64
  ja_source_epoch :: "u64 option"

record JointPendingOperation =
  po_request :: JointPrepareRequest
  po_admission :: JointAdmission
  po_stage :: string
  po_native :: "(JointNativeIntent \<times> JointNativeOutcome option) list"

datatype JointPublication = PubSession SessionRecord | PubCheckpoint JointCheckpointRecord

record JointBindingState =
  bs_binding :: JointBinding
  bs_generation :: u64
  bs_stage :: string
  bs_creation :: JointPrepareRequest
  bs_objects :: "JointNativeObject list"
  bs_absent_objects :: "JointNativeObject list"

record JointTurnTerminal =
  tt_cancelled :: bool
  tt_execution_invalidated :: bool
  tt_message_id :: "string option"
  tt_reply :: "string option"
  tt_failure :: "string option"
  tt_completed_at_ms :: u64

record JointTurnRecord =
  tr_runtime_id :: string
  tr_identity :: JointTurnIdentity
  tr_admission :: JointAdmission
  tr_terminal :: "JointTurnTerminal option"

text \<open>Which resource kinds a budget may name, and that a reserve fits its total
  (\<open>sqlite_repository.rs\<close>, \<open>with_joint_budget_policy\<close>).\<close>

definition joint_budget_kinds :: "string list" where
  "joint_budget_kinds =
     [''session'', ''root'', ''replica'', ''checkpoint'', ''repair'', ''disk'', ''operation'', ''record_bytes'']"

definition check_joint_budget_policy :: "JointBudgetPolicy \<Rightarrow> (SessionDomainError, unit) result" where
  "check_joint_budget_policy policy =
     (if \<exists>(kind, budget) \<in> set policy.
           kind \<notin> set joint_budget_kinds \<or> bu_total budget < bu_recovery_reserve budget
      then Inl (DomInvalidRequest ''invalid joint resource budget'') else Inr ())"

end
