(* ===== verification/Session_Repository.thy ===== *)
theory Session_Repository
  imports Joint_Store
begin

text \<open>
  The repository of sessions: the trait the application calls (\<open>src/crates/core/src/application.rs\<close>)
  as a record of functions over the repository's own state \<open>'r\<close>, its contract as a locale, and the
  SQLite implementation (\<open>src/crates/core/src/sqlite_repository.rs\<close>) as a model of its tables. The text of
  a JSON column is written and read by a serialisation library, so the codec is a parameter; the
  contract holds for the records the codec reads back. A failure of the database itself consumes one
  entry of the list \<open>sd_io\<close>.
\<close>

section \<open>The trait (application.rs)\<close>

record SessionListPage =
  lp_sessions :: "SessionRecord list"
  lp_total_active :: u32

record CheckpointListEntry =
  ce_checkpoint_id :: string
  ce_source_runtime_id :: string
  ce_tenant_id :: "string option"
  ce_created_by :: "string option"
  ce_created_at_ms :: u64

record CheckpointListPage =
  cp_checkpoints :: "CheckpointListEntry list"
  cp_total :: u64

type_synonym ('a, 'r) repo_call = "'r \<Rightarrow> (SessionDomainError, 'a) result \<times> 'r"

record 'r SessionRepository =
  sp_supports_joint_transactions :: bool
  sp_get_joint_checkpoint :: "string \<Rightarrow> (JointCheckpointRecord option, 'r) repo_call"
  sp_pending_joint_operations :: "(JointPendingOperation list, 'r) repo_call"
  sp_get :: "string \<Rightarrow> (SessionRecord option, 'r) repo_call"
  sp_save :: "SessionRecord \<Rightarrow> (unit, 'r) repo_call"
  sp_list_active :: "string option \<Rightarrow> nat \<Rightarrow> (SessionListPage, 'r) repo_call"
  sp_save_operation_intent :: "string \<Rightarrow> json \<Rightarrow> (unit, 'r) repo_call"
  sp_operation_intents :: "((string \<times> json) list, 'r) repo_call"
  sp_delete_operation_intent :: "string \<Rightarrow> (unit, 'r) repo_call"
  sp_save_checkpoint :: "CheckpointRecord \<Rightarrow> (unit, 'r) repo_call"
  sp_get_checkpoint :: "string \<Rightarrow> (CheckpointRecord option, 'r) repo_call"
  sp_delete_checkpoint :: "string \<Rightarrow> (bool, 'r) repo_call"
  sp_list_checkpoints :: "string option \<Rightarrow> nat \<Rightarrow> nat \<Rightarrow> (CheckpointListPage, 'r) repo_call"
  sp_active_session_counts_by_tenant :: "(string \<rightharpoonup> nat, 'r) repo_call"

section \<open>The contract\<close>

text \<open>\<open>view\<close> is the map of sessions a repository state stands for. Every call but a save leaves it
  alone, and what can be stored with it; a lookup that succeeds returns its entry; a save that fails leaves it alone, and one that
  succeeds changes the entry of its own session only, to the saved record with the creation time of
  the first save, if the repository can store the record. A tenant without open sessions is not counted.\<close>

locale session_repository =
  fixes repo :: "'r SessionRepository"
    and view :: "'r \<Rightarrow> string \<Rightarrow> SessionRecord option"
    and storable :: "'r \<Rightarrow> SessionRecord \<Rightarrow> bool"
  assumes get_view: "sp_get repo i w = (found, w') \<Longrightarrow> view w' = view w \<and> storable w' = storable w \<and> (\<forall>f. found = Inr f \<longrightarrow> f = view w i)"
    and save_error: "sp_save repo r w = (Inl e, w') \<Longrightarrow> view w' = view w \<and> storable w' = storable w"
    and save_other: "sp_save repo r w = (saved, w') \<Longrightarrow> i \<noteq> sn_runtime_id r \<Longrightarrow> view w' i = view w i"
    and save_own: "sp_save repo r w = (Inr (), w') \<Longrightarrow> storable w r
          \<Longrightarrow> view w' (sn_runtime_id r) = Some (case view w (sn_runtime_id r) of
                 None \<Rightarrow> r | Some old \<Rightarrow> r\<lparr>sn_created_at_ms := sn_created_at_ms old\<rparr>)"
    and list_view: "sp_list_active repo t n w = (p, w') \<Longrightarrow> view w' = view w \<and> storable w' = storable w"
    and save_intent_view: "sp_save_operation_intent repo i b w = (u, w') \<Longrightarrow> view w' = view w \<and> storable w' = storable w"
    and intents_view: "sp_operation_intents repo w = (bs, w') \<Longrightarrow> view w' = view w \<and> storable w' = storable w"
    and delete_intent_view: "sp_delete_operation_intent repo i w = (u, w') \<Longrightarrow> view w' = view w \<and> storable w' = storable w"
    and save_checkpoint_view: "sp_save_checkpoint repo c w = (u, w') \<Longrightarrow> view w' = view w \<and> storable w' = storable w"
    and get_checkpoint_view: "sp_get_checkpoint repo i w = (k, w') \<Longrightarrow> view w' = view w \<and> storable w' = storable w"
    and delete_checkpoint_view: "sp_delete_checkpoint repo i w = (dropped, w') \<Longrightarrow> view w' = view w \<and> storable w' = storable w"
    and joint_checkpoint_view: "sp_get_joint_checkpoint repo i w = (j, w') \<Longrightarrow> view w' = view w \<and> storable w' = storable w"
    and pending_view: "sp_pending_joint_operations repo w = (ps, w') \<Longrightarrow> view w' = view w \<and> storable w' = storable w"
    and list_checkpoints_view: "sp_list_checkpoints repo t n m w = (cs, w') \<Longrightarrow> view w' = view w \<and> storable w' = storable w"
    and counts_view: "sp_active_session_counts_by_tenant repo w = (counts, w') \<Longrightarrow> view w' = view w \<and> storable w' = storable w"
    and counts_positive: "sp_active_session_counts_by_tenant repo w = (Inr by_tenant, w') \<Longrightarrow> by_tenant who \<noteq> Some 0"
begin

lemma get_some: "sp_get repo i w = (Inr (Some r), w') \<Longrightarrow> view w i = Some r \<and> view w' = view w"
  using get_view by force

lemma get_same_view: "view (snd (sp_get repo i w)) = view w"
  using get_view [of i w "fst (sp_get repo i w)" "snd (sp_get repo i w)"] by simp

end

end
