(* ===== verification/Sqlite_Repository.thy ===== *)
theory Sqlite_Repository
  imports Session_Repository
begin

text \<open>
  The SQLite session repository (\<open>src/crates/core/src/sqlite_repository.rs\<close>): its tables as lists of
  rows, each statement as a function on them, transactions that roll back on every error. It is an
  instance of the repository contract. The tables of joint sessions and joint checkpoints are written
  by \<open>sqlite_joint.rs\<close>; here they are read only, and the listing of pending joint operations is a
  parameter. SQL leaves the order of rows with equal sort keys open; the model keeps table order there.
\<close>

section \<open>Rows and codecs\<close>

record 'a Coding =
  json_encode :: "'a \<Rightarrow> (string, string) result"
  json_decode :: "string \<Rightarrow> (string, 'a) result"

definition coding_ok :: "'a Coding \<Rightarrow> 'a \<Rightarrow> bool" where
  "coding_ok c x \<longleftrightarrow> (\<exists>t. json_encode c x = Inr t \<and> json_decode c t = Inr x)"

record SessionCodec =
  cd_workspace :: "RuntimeWorkspace Coding"
  cd_isolation :: "IsolationFacts Coding"
  cd_capabilities :: "EffectiveCapabilities Coding"
  cd_runtime :: "RuntimeStateSnapshot Coding"
  cd_execution :: "SessionExecutionBacking Coding"
  cd_llm :: "ResolvedLlm Coding"
  cd_lease :: "RecordLease Coding"
  cd_lineage :: "CheckpointLineage Coding"
  cd_value :: "json Coding"
  cd_record :: "SessionRecord Coding"
  cd_joint_checkpoint :: "JointCheckpointRecord Coding"

record SessionRow =
  ro_runtime_id :: string
  ro_conversation_id :: string
  ro_sender_id :: string
  ro_status :: string
  ro_created_at_ms :: u64
  ro_updated_at_ms :: u64
  ro_workspace_json :: string
  ro_isolation_json :: string
  ro_capabilities_json :: string
  ro_runtime_json :: string
  ro_llm_json :: "string option"
  ro_lease_json :: "string option"
  ro_lineage_json :: "string option"
  ro_last_error :: "string option"
  ro_tenant_id :: "string option"
  ro_created_by :: string
  ro_execution_json :: string

record JointSessionRow =
  jo_runtime_id :: string
  jo_binding_id :: string
  jo_tenant_id :: "string option"
  jo_status :: string
  jo_updated_at_ms :: u64
  jo_body :: string

record CheckpointRow =
  kw_checkpoint_id :: string
  kw_source_runtime_id :: string
  kw_provider_snapshot_id :: string
  kw_runtime_json :: string
  kw_workspace_json :: string
  kw_isolation_json :: string
  kw_capabilities_json :: string
  kw_owner_ref :: string
  kw_tenant_id :: "string option"
  kw_created_by :: "string option"
  kw_created_at_ms :: u64

record JointCheckpointRow =
  jk_checkpoint_id :: string
  jk_binding_id :: string
  jk_source_runtime_id :: string
  jk_tenant_id :: "string option"
  jk_created_by :: "string option"
  jk_created_at_ms :: u64
  jk_body :: string

text \<open>A public identifier that a joint operation under way has claimed.\<close>

record PublicClaimRow =
  pw_kind :: string
  pw_public_id :: string
  pw_intent_id :: string

text \<open>\<open>sd_deployment_registered\<close> says whether the file has the table of an enrolled deployment, and
  \<open>sd_holder\<close> whether this connection holds the deployment's guard and, if so, whether the guard and
  the budget policy validate.\<close>

record SessionDb =
  sd_sessions :: "SessionRow list"
  sd_joint_sessions :: "JointSessionRow list"
  sd_checkpoints :: "CheckpointRow list"
  sd_joint_checkpoints :: "JointCheckpointRow list"
  sd_public_claims :: "PublicClaimRow list"
  sd_snapshot_operations :: "(string \<times> string) list"
  sd_deployment_registered :: bool
  sd_holder :: "bool option"
  sd_io :: "string option list"

definition sql_io :: "SessionDb \<Rightarrow> (string, unit) result \<times> SessionDb" where
  "sql_io db =
     (case sd_io db of
        [] \<Rightarrow> (Inr (), db)
      | None # fs \<Rightarrow> (Inr (), db\<lparr>sd_io := fs\<rparr>)
      | Some e # fs \<Rightarrow> (Inl e, db\<lparr>sd_io := fs\<rparr>))"

definition internal_error :: "string \<Rightarrow> SessionDomainError" where
  "internal_error message = DomInternal message None"

fun status_to_str :: "SessionStatus \<Rightarrow> string" where
  "status_to_str SsOpening = ''opening''"
| "status_to_str SsIdle = ''idle''"
| "status_to_str SsRunning = ''running''"
| "status_to_str SsPaused = ''paused''"
| "status_to_str SsFailed = ''failed''"
| "status_to_str SsClosed = ''closed''"

definition str_to_status :: "string \<Rightarrow> SessionStatus option" where
  "str_to_status v =
     (if v = ''opening'' then Some SsOpening else if v = ''idle'' then Some SsIdle
      else if v = ''running'' then Some SsRunning else if v = ''paused'' then Some SsPaused
      else if v = ''failed'' then Some SsFailed else if v = ''closed'' then Some SsClosed else None)"

definition verify_writer :: "SessionDb \<Rightarrow> (string, unit) result" where
  "verify_writer db =
     (case sd_holder db of
        Some valid \<Rightarrow> if valid then Inr () else Inl ''Query is not read-only''
      | None \<Rightarrow> if sd_deployment_registered db then Inl ''Query is not read-only'' else Inr ())"

text \<open>A write transaction: the file is opened for writing, the writer is checked, the statement runs
  and the commit may fail; whatever fails, the tables stay as they were.\<close>

definition write_transaction ::
  "(SessionDb \<Rightarrow> (string, 'a) result \<times> SessionDb) \<Rightarrow> SessionDb \<Rightarrow> (string, 'a) result \<times> SessionDb" where
  "write_transaction stmt db =
     and_then (sql_io db) (\<lambda>_ db.
       case verify_writer db of
         Inl e \<Rightarrow> (Inl e, db)
       | Inr _ \<Rightarrow>
           (case stmt db of
              (Inl e, _) \<Rightarrow> (Inl e, db)
            | (Inr a, db') \<Rightarrow>
                (case sql_io db of
                   (Inl e, dbf) \<Rightarrow> (Inl e, dbf)
                 | (Inr _, dbf) \<Rightarrow> (Inr a, db'\<lparr>sd_io := sd_io dbf\<rparr>))))"

fun encode_option :: "'a Coding \<Rightarrow> 'a option \<Rightarrow> (string, string option) result" where
  "encode_option c None = Inr None"
| "encode_option c (Some x) = (case json_encode c x of Inl e \<Rightarrow> Inl e | Inr t \<Rightarrow> Inr (Some t))"

fun decode_option :: "'a Coding \<Rightarrow> string option \<Rightarrow> (string, 'a option) result" where
  "decode_option c None = Inr None"
| "decode_option c (Some t) = (case json_decode c t of Inl e \<Rightarrow> Inl e | Inr x \<Rightarrow> Inr (Some x))"

definition rbind :: "('e, 'a) result \<Rightarrow> ('a \<Rightarrow> ('e, 'b) result) \<Rightarrow> ('e, 'b) result" where
  "rbind m k = (case m of Inl e \<Rightarrow> Inl e | Inr a \<Rightarrow> k a)"

lemma rbind_simps [simp]: "rbind (Inl e) k = Inl e" "rbind (Inr a) k = k a"
  by (simp_all add: rbind_def)

section \<open>Sessions\<close>

definition record_to_row :: "SessionCodec \<Rightarrow> SessionRecord \<Rightarrow> (string, SessionRow) result" where
  "record_to_row c r =
     rbind (json_encode (cd_workspace c) (sn_workspace r)) (\<lambda>workspace_json.
     rbind (json_encode (cd_isolation c) (sn_isolation r)) (\<lambda>isolation_json.
     rbind (json_encode (cd_capabilities c) (sn_capabilities r)) (\<lambda>capabilities_json.
     rbind (json_encode (cd_runtime c) (sn_runtime r)) (\<lambda>runtime_json.
     rbind (json_encode (cd_execution c) (sn_execution_backing r)) (\<lambda>execution_json.
     rbind (encode_option (cd_llm c) (sn_llm r)) (\<lambda>llm_json.
     rbind (encode_option (cd_lease c) (sn_lease r)) (\<lambda>lease_json.
     rbind (encode_option (cd_lineage c) (sn_lineage r)) (\<lambda>lineage_json.
       Inr \<lparr> ro_runtime_id = sn_runtime_id r, ro_conversation_id = sn_conversation_id r,
             ro_sender_id = sn_sender_id r, ro_status = status_to_str (sn_status r),
             ro_created_at_ms = sn_created_at_ms r, ro_updated_at_ms = sn_updated_at_ms r,
             ro_workspace_json = workspace_json, ro_isolation_json = isolation_json,
             ro_capabilities_json = capabilities_json, ro_runtime_json = runtime_json,
             ro_llm_json = llm_json, ro_lease_json = lease_json, ro_lineage_json = lineage_json,
             ro_last_error = sn_last_error r, ro_tenant_id = sn_tenant_id r,
             ro_created_by = sn_created_by r, ro_execution_json = execution_json \<rparr>))))))))"

definition row_to_record :: "SessionCodec \<Rightarrow> SessionRow \<Rightarrow> (string, SessionRecord) result" where
  "row_to_record c row =
     rbind (case str_to_status (ro_status row) of
              None \<Rightarrow> Inl (''unknown session status in storage: '' @ ro_status row)
            | Some st \<Rightarrow> Inr st) (\<lambda>status.
     rbind (json_decode (cd_workspace c) (ro_workspace_json row)) (\<lambda>workspace.
     rbind (json_decode (cd_isolation c) (ro_isolation_json row)) (\<lambda>isolation.
     rbind (json_decode (cd_capabilities c) (ro_capabilities_json row)) (\<lambda>capabilities.
     rbind (json_decode (cd_runtime c) (ro_runtime_json row)) (\<lambda>runtime.
     rbind (decode_option (cd_llm c) (ro_llm_json row)) (\<lambda>llm.
     rbind (decode_option (cd_lease c) (ro_lease_json row)) (\<lambda>lease.
     rbind (decode_option (cd_lineage c) (ro_lineage_json row)) (\<lambda>lineage.
     rbind (json_decode (cd_execution c) (ro_execution_json row)) (\<lambda>execution_backing.
       Inr \<lparr> sn_execution_backing = execution_backing, sn_runtime_id = ro_runtime_id row,
             sn_conversation_id = ro_conversation_id row, sn_sender_id = ro_sender_id row,
             sn_status = status, sn_created_at_ms = ro_created_at_ms row,
             sn_updated_at_ms = ro_updated_at_ms row, sn_workspace = workspace,
             sn_isolation = isolation, sn_capabilities = capabilities, sn_runtime = runtime,
             sn_llm = llm, sn_lease = lease, sn_lineage = lineage,
             sn_last_error = ro_last_error row, sn_tenant_id = ro_tenant_id row,
             sn_created_by = ro_created_by row \<rparr>)))))))))"

definition find_row :: "('k \<Rightarrow> string) \<Rightarrow> string \<Rightarrow> 'k list \<Rightarrow> 'k option" where
  "find_row key i rows = find (\<lambda>r. key r = i) rows"

definition read_session ::
  "SessionCodec \<Rightarrow> SessionDb \<Rightarrow> string \<Rightarrow> (string, SessionRecord option) result" where
  "read_session c db i =
     (case find_row jo_runtime_id i (sd_joint_sessions db) of
        Some row \<Rightarrow> rbind (json_decode (cd_record c) (jo_body row)) (\<lambda>r. Inr (Some r))
      | None \<Rightarrow>
          (case find_row ro_runtime_id i (sd_sessions db) of
             None \<Rightarrow> Inr None
           | Some row \<Rightarrow> rbind (row_to_record c row) (\<lambda>r. Inr (Some r))))"

definition sqlite_get :: "SessionCodec \<Rightarrow> string \<Rightarrow> (SessionRecord option, SessionDb) repo_call" where
  "sqlite_get c i db =
     (case sql_io db of
        (Inl e, db) \<Rightarrow> (Inl (internal_error (''sqlite get failed: '' @ e)), db)
      | (Inr _, db) \<Rightarrow>
          (case read_session c db i of
             Inl e \<Rightarrow> (Inl (internal_error (''sqlite get failed: '' @ e)), db)
           | Inr r \<Rightarrow> (Inr r, db)))"

text \<open>The upsert: an existing row keeps its creation time, and is replaced only if its execution
  route is the same; the number of changed rows tells.\<close>

fun upsert_session :: "SessionRow \<Rightarrow> SessionRow list \<Rightarrow> nat \<times> SessionRow list" where
  "upsert_session r [] = (1, [r])"
| "upsert_session r (x # xs) =
     (if ro_runtime_id x = ro_runtime_id r
      then (if ro_execution_json x = ro_execution_json r
            then (1, r\<lparr>ro_created_at_ms := ro_created_at_ms x\<rparr> # xs) else (0, x # xs))
      else (let (n, ys) = upsert_session r xs in (n, x # ys)))"

text \<open>The triggers that keep the identifiers of the two kinds of sessions, and of the two kinds of checkpoints,
  apart: no split row under an identifier that a joint row has or a joint operation has claimed.\<close>

definition joint_identity :: "string \<Rightarrow> string list \<Rightarrow> string \<Rightarrow> SessionDb \<Rightarrow> bool" where
  "joint_identity kind joint_ids i db \<longleftrightarrow>
     i \<in> set joint_ids \<or> list_ex (\<lambda>p. pw_kind p = kind \<and> pw_public_id p = i) (sd_public_claims db)"

definition save_statement :: "SessionRow \<Rightarrow> SessionDb \<Rightarrow> (string, unit) result \<times> SessionDb" where
  "save_statement row db =
     (let (changed, rows) = upsert_session row (sd_sessions db)
      in if joint_identity ''session'' (map jo_runtime_id (sd_joint_sessions db)) (ro_runtime_id row) db
         then (Inl ''public identity belongs to joint execution'', db)
         else if changed \<noteq> 1 then (Inl ''persisted execution route cannot be replaced'', db)
         else (Inr (), db\<lparr>sd_sessions := rows\<rparr>))"

definition sqlite_save :: "SessionCodec \<Rightarrow> SessionRecord \<Rightarrow> (unit, SessionDb) repo_call" where
  "sqlite_save c r db =
     (if joint (sn_execution_backing r) \<noteq> None then (Inl (unsupported_joint ''publication''), db)
      else map_err (\<lambda>e. internal_error (''sqlite save failed: '' @ e))
        (case record_to_row c r of
           Inl e \<Rightarrow> (Inl e, db)
         | Inr row \<Rightarrow>
             write_transaction (save_statement row) db))"


section \<open>Operation intents\<close>

text \<open>The body of an intent is the text of a JSON value; writing one cannot fail.\<close>

definition value_text :: "SessionCodec \<Rightarrow> json \<Rightarrow> string" where
  "value_text c v = (case json_encode (cd_value c) v of Inl _ \<Rightarrow> [] | Inr t \<Rightarrow> t)"

definition sqlite_save_operation_intent ::
  "SessionCodec \<Rightarrow> string \<Rightarrow> json \<Rightarrow> (unit, SessionDb) repo_call" where
  "sqlite_save_operation_intent c i body db =
     map_err internal_error (write_transaction (\<lambda>db.
       (Inr (), db\<lparr>sd_snapshot_operations :=
          AList.update i (value_text c body) (sd_snapshot_operations db)\<rparr>)) db)"

fun decode_intents :: "SessionCodec \<Rightarrow> (string \<times> string) list \<Rightarrow> (string, (string \<times> json) list) result" where
  "decode_intents c [] = Inr []"
| "decode_intents c ((i, body) # rows) =
     rbind (json_decode (cd_value c) body) (\<lambda>v.
     rbind (decode_intents c rows) (\<lambda>vs. Inr ((i, v) # vs)))"

definition sqlite_operation_intents ::
  "SessionCodec \<Rightarrow> ((string \<times> json) list, SessionDb) repo_call" where
  "sqlite_operation_intents c db =
     map_err internal_error (and_then (sql_io db) (\<lambda>_ db.
       (decode_intents c (sort_key fst (sd_snapshot_operations db)), db)))"

definition sqlite_delete_operation_intent :: "string \<Rightarrow> (unit, SessionDb) repo_call" where
  "sqlite_delete_operation_intent i db =
     map_err internal_error (write_transaction (\<lambda>db.
       (Inr (), db\<lparr>sd_snapshot_operations := AList.delete i (sd_snapshot_operations db)\<rparr>)) db)"

section \<open>Checkpoints\<close>

definition checkpoint_to_row :: "SessionCodec \<Rightarrow> CheckpointRecord \<Rightarrow> (string, CheckpointRow) result" where
  "checkpoint_to_row c k =
     rbind (json_encode (cd_runtime c) (ck_runtime_state k)) (\<lambda>runtime_json.
     rbind (json_encode (cd_workspace c) (ck_workspace k)) (\<lambda>workspace_json.
     rbind (json_encode (cd_isolation c) (ck_isolation k)) (\<lambda>isolation_json.
     rbind (json_encode (cd_capabilities c) (ck_capabilities k)) (\<lambda>capabilities_json.
       Inr \<lparr> kw_checkpoint_id = ck_checkpoint_id k, kw_source_runtime_id = ck_source_runtime_id k,
             kw_provider_snapshot_id = ck_provider_snapshot_id k, kw_runtime_json = runtime_json,
             kw_workspace_json = workspace_json, kw_isolation_json = isolation_json,
             kw_capabilities_json = capabilities_json, kw_owner_ref = ck_owner_ref k,
             kw_tenant_id = ck_tenant_id k, kw_created_by = ck_created_by k,
             kw_created_at_ms = ck_created_at_ms k \<rparr>))))"

definition row_to_checkpoint :: "SessionCodec \<Rightarrow> CheckpointRow \<Rightarrow> (string, CheckpointRecord) result" where
  "row_to_checkpoint c row =
     rbind (json_decode (cd_runtime c) (kw_runtime_json row)) (\<lambda>runtime_state.
     rbind (json_decode (cd_workspace c) (kw_workspace_json row)) (\<lambda>workspace.
     rbind (json_decode (cd_isolation c) (kw_isolation_json row)) (\<lambda>isolation.
     rbind (json_decode (cd_capabilities c) (kw_capabilities_json row)) (\<lambda>capabilities.
       Inr \<lparr> ck_checkpoint_id = kw_checkpoint_id row, ck_source_runtime_id = kw_source_runtime_id row,
             ck_provider_snapshot_id = kw_provider_snapshot_id row, ck_runtime_state = runtime_state,
             ck_workspace = workspace, ck_isolation = isolation, ck_capabilities = capabilities,
             ck_owner_ref = kw_owner_ref row, ck_tenant_id = kw_tenant_id row,
             ck_created_by = kw_created_by row, ck_created_at_ms = kw_created_at_ms row \<rparr>))))"

definition sqlite_save_checkpoint ::
  "SessionCodec \<Rightarrow> CheckpointRecord \<Rightarrow> (unit, SessionDb) repo_call" where
  "sqlite_save_checkpoint c k db =
     map_err (\<lambda>e. internal_error (''sqlite checkpoint save failed: '' @ e))
       (case checkpoint_to_row c k of
          Inl e \<Rightarrow> (Inl e, db)
        | Inr row \<Rightarrow>
            write_transaction (\<lambda>db.
              if joint_identity ''checkpoint'' (map jk_checkpoint_id (sd_joint_checkpoints db)) (kw_checkpoint_id row) db
              then (Inl ''checkpoint identity belongs to joint execution'', db)
              else if find_row kw_checkpoint_id (kw_checkpoint_id row) (sd_checkpoints db) \<noteq> None
              then (Inl ''UNIQUE constraint failed: checkpoints.checkpoint_id'', db)
              else (Inr (), db\<lparr>sd_checkpoints := sd_checkpoints db @ [row]\<rparr>)) db)"

text \<open>A checkpoint whose deletion has been recorded as an intent is hidden at once.\<close>

definition being_deleted :: "SessionDb \<Rightarrow> string \<Rightarrow> bool" where
  "being_deleted db checkpoint_id \<longleftrightarrow>
     ''delete:'' @ checkpoint_id \<in> fst ` set (sd_snapshot_operations db)"

definition sqlite_get_checkpoint ::
  "SessionCodec \<Rightarrow> string \<Rightarrow> (CheckpointRecord option, SessionDb) repo_call" where
  "sqlite_get_checkpoint c i db =
     map_err (\<lambda>e. internal_error (''sqlite checkpoint get failed: '' @ e))
       (and_then (sql_io db) (\<lambda>_ db.
          (case find_row kw_checkpoint_id i (filter (\<lambda>row. \<not> being_deleted db (kw_checkpoint_id row))
                   (sd_checkpoints db)) of
             None \<Rightarrow> (Inr None, db)
           | Some row \<Rightarrow> (rbind (row_to_checkpoint c row) (\<lambda>k. Inr (Some k)), db))))"

definition sqlite_delete_checkpoint :: "string \<Rightarrow> (bool, SessionDb) repo_call" where
  "sqlite_delete_checkpoint i db =
     map_err (\<lambda>e. internal_error (''sqlite checkpoint delete failed: '' @ e))
       (write_transaction (\<lambda>db.
          (Inr (find_row kw_checkpoint_id i (sd_checkpoints db) \<noteq> None),
           db\<lparr>sd_checkpoints := filter (\<lambda>row. kw_checkpoint_id row \<noteq> i) (sd_checkpoints db)\<rparr>)) db)"

definition checkpoint_entries :: "SessionDb \<Rightarrow> CheckpointListEntry list" where
  "checkpoint_entries db =
     map (\<lambda>row. \<lparr> ce_checkpoint_id = kw_checkpoint_id row, ce_source_runtime_id = kw_source_runtime_id row,
                  ce_tenant_id = kw_tenant_id row, ce_created_by = kw_created_by row,
                  ce_created_at_ms = kw_created_at_ms row \<rparr>)
       (filter (\<lambda>row. \<not> being_deleted db (kw_checkpoint_id row)) (sd_checkpoints db))
     @ map (\<lambda>row. \<lparr> ce_checkpoint_id = jk_checkpoint_id row, ce_source_runtime_id = jk_source_runtime_id row,
                    ce_tenant_id = jk_tenant_id row, ce_created_by = jk_created_by row,
                    ce_created_at_ms = jk_created_at_ms row \<rparr>) (sd_joint_checkpoints db)"

definition tenant_matches :: "string option \<Rightarrow> string option \<Rightarrow> bool" where
  "tenant_matches wanted t \<longleftrightarrow> wanted = None \<or> t = wanted"

text \<open>Descending by creation time as a signed column, then by identifier.\<close>

definition newer_checkpoint :: "CheckpointListEntry \<Rightarrow> CheckpointListEntry \<Rightarrow> bool" where
  "newer_checkpoint a b \<longleftrightarrow>
     sint (ce_created_at_ms b) < sint (ce_created_at_ms a)
     \<or> sint (ce_created_at_ms b) = sint (ce_created_at_ms a) \<and> ce_checkpoint_id b \<le> ce_checkpoint_id a"

fun insert_checkpoint :: "CheckpointListEntry \<Rightarrow> CheckpointListEntry list \<Rightarrow> CheckpointListEntry list" where
  "insert_checkpoint e [] = [e]"
| "insert_checkpoint e (x # xs) = (if newer_checkpoint e x then e # x # xs else x # insert_checkpoint e xs)"

definition sqlite_list_checkpoints ::
  "string option \<Rightarrow> nat \<Rightarrow> nat \<Rightarrow> (CheckpointListPage, SessionDb) repo_call" where
  "sqlite_list_checkpoints tenant_id limit offset db =
     map_err (\<lambda>e. internal_error (''sqlite checkpoint list failed: '' @ e))
       (and_then (sql_io db) (\<lambda>_ db.
          let entries = filter (\<lambda>e. tenant_matches tenant_id (ce_tenant_id e)) (checkpoint_entries db)
          in (Inr \<lparr> cp_checkpoints = take limit (drop offset (foldr insert_checkpoint entries [])),
                    cp_total = word_of_nat (length entries) \<rparr>, db)))"

definition sqlite_get_joint_checkpoint ::
  "SessionCodec \<Rightarrow> string \<Rightarrow> (JointCheckpointRecord option, SessionDb) repo_call" where
  "sqlite_get_joint_checkpoint c i db =
     map_err (\<lambda>e. internal_error (''joint repository failed: '' @ e))
       (write_transaction (\<lambda>db.
          (case find_row jk_checkpoint_id i (sd_joint_checkpoints db) of
             None \<Rightarrow> (Inr None, db)
           | Some row \<Rightarrow> (rbind (json_decode (cd_joint_checkpoint c) (jk_body row)) (\<lambda>k. Inr (Some k)), db))) db)"

section \<open>Listings of sessions\<close>

definition active_statuses :: "string list" where
  "active_statuses = [''opening'', ''idle'', ''running'', ''paused'']"

text \<open>The rows of both session tables: identifier, tenant, status and last update.\<close>

definition session_index :: "SessionDb \<Rightarrow> (string \<times> string option \<times> string \<times> u64) list" where
  "session_index db =
     map (\<lambda>row. (ro_runtime_id row, ro_tenant_id row, ro_status row, ro_updated_at_ms row)) (sd_sessions db)
     @ map (\<lambda>row. (jo_runtime_id row, jo_tenant_id row, jo_status row, jo_updated_at_ms row))
         (sd_joint_sessions db)"

definition active_index :: "string option \<Rightarrow> SessionDb \<Rightarrow> (string \<times> string option \<times> string \<times> u64) list" where
  "active_index tenant_id db =
     filter (\<lambda>(i, t, status, at). status \<in> set active_statuses \<and> tenant_matches tenant_id t)
       (session_index db)"

fun read_listed :: "SessionCodec \<Rightarrow> SessionDb \<Rightarrow> string list \<Rightarrow> (string, SessionRecord list) result" where
  "read_listed c db [] = Inr []"
| "read_listed c db (i # is) =
     rbind (read_session c db i) (\<lambda>found.
       case found of
         None \<Rightarrow> Inl ''missing listed session''
       | Some r \<Rightarrow> rbind (read_listed c db is) (\<lambda>rs. Inr (r # rs)))"

definition sqlite_list_active ::
  "SessionCodec \<Rightarrow> string option \<Rightarrow> nat \<Rightarrow> (SessionListPage, SessionDb) repo_call" where
  "sqlite_list_active c tenant_id limit db =
     map_err (\<lambda>e. internal_error (''sqlite list_active failed: '' @ e))
       (and_then (sql_io db) (\<lambda>_ db.
          let rows = active_index tenant_id db;
              listed = take limit (sort_key (\<lambda>(i, t, status, at). - sint at) rows)
          in (rbind (read_listed c db (map fst listed)) (\<lambda>sessions.
                Inr \<lparr> lp_sessions = sessions, lp_total_active = word_of_nat (length rows) \<rparr>), db)))"

definition sqlite_active_session_counts_by_tenant :: "(string \<rightharpoonup> nat, SessionDb) repo_call" where
  "sqlite_active_session_counts_by_tenant db =
     map_err (\<lambda>e. internal_error (''sqlite quota restore failed: '' @ e))
       (and_then (sql_io db) (\<lambda>_ db.
          (Inr (\<lambda>t. case length (filter (\<lambda>(i, t', status, at). t' = Some t) (active_index None db)) of
                     0 \<Rightarrow> None | Suc n \<Rightarrow> Some (Suc n)), db)))"

definition sqlite_repository ::
  "SessionCodec \<Rightarrow> bool \<Rightarrow> (SessionDb \<Rightarrow> (SessionDomainError, JointPendingOperation list) result)
     \<Rightarrow> SessionDb SessionRepository" where
  "sqlite_repository c joint_transactions pending =
     \<lparr> sp_supports_joint_transactions = joint_transactions,
       sp_get_joint_checkpoint = sqlite_get_joint_checkpoint c,
       sp_pending_joint_operations = (\<lambda>db. (pending db, db)),
       sp_get = sqlite_get c, sp_save = sqlite_save c, sp_list_active = sqlite_list_active c,
       sp_save_operation_intent = sqlite_save_operation_intent c,
       sp_operation_intents = sqlite_operation_intents c,
       sp_delete_operation_intent = sqlite_delete_operation_intent,
       sp_save_checkpoint = sqlite_save_checkpoint c, sp_get_checkpoint = sqlite_get_checkpoint c,
       sp_delete_checkpoint = sqlite_delete_checkpoint, sp_list_checkpoints = sqlite_list_checkpoints,
       sp_active_session_counts_by_tenant = sqlite_active_session_counts_by_tenant \<rparr>"


section \<open>The contract holds\<close>

definition session_view :: "SessionCodec \<Rightarrow> SessionDb \<Rightarrow> string \<Rightarrow> SessionRecord option" where
  "session_view c db i = (case read_session c db i of Inl e \<Rightarrow> None | Inr r \<Rightarrow> r)"

text \<open>The records the codec reads back from what it writes.\<close>

definition storable_record :: "SessionCodec \<Rightarrow> SessionRecord \<Rightarrow> bool" where
  "storable_record c r \<longleftrightarrow>
     coding_ok (cd_workspace c) (sn_workspace r) \<and> coding_ok (cd_isolation c) (sn_isolation r)
     \<and> coding_ok (cd_capabilities c) (sn_capabilities r) \<and> coding_ok (cd_runtime c) (sn_runtime r)
     \<and> coding_ok (cd_execution c) (sn_execution_backing r)
     \<and> (\<forall>x. sn_llm r = Some x \<longrightarrow> coding_ok (cd_llm c) x)
     \<and> (\<forall>x. sn_lease r = Some x \<longrightarrow> coding_ok (cd_lease c) x)
     \<and> (\<forall>x. sn_lineage r = Some x \<longrightarrow> coding_ok (cd_lineage c) x)"

lemma str_to_status_roundtrip [simp]: "str_to_status (status_to_str st) = Some st"
  by (cases st) (simp_all add: str_to_status_def)

lemma decode_encode_option:
  assumes "\<forall>y. x = Some y \<longrightarrow> coding_ok c y"
  shows "\<exists>t. encode_option c x = Inr t \<and> decode_option c t = Inr x"
  using assms by (cases x) (auto simp: coding_ok_def)

lemma row_roundtrip:
  assumes "storable_record c r"
  shows "\<exists>row. record_to_row c r = Inr row \<and> row_to_record c row = Inr r
           \<and> ro_runtime_id row = sn_runtime_id r \<and> ro_created_at_ms row = sn_created_at_ms r"
proof -
  from assms obtain w i k rt ex where codes:
    "json_encode (cd_workspace c) (sn_workspace r) = Inr w" "json_decode (cd_workspace c) w = Inr (sn_workspace r)"
    "json_encode (cd_isolation c) (sn_isolation r) = Inr i" "json_decode (cd_isolation c) i = Inr (sn_isolation r)"
    "json_encode (cd_capabilities c) (sn_capabilities r) = Inr k" "json_decode (cd_capabilities c) k = Inr (sn_capabilities r)"
    "json_encode (cd_runtime c) (sn_runtime r) = Inr rt" "json_decode (cd_runtime c) rt = Inr (sn_runtime r)"
    "json_encode (cd_execution c) (sn_execution_backing r) = Inr ex"
    "json_decode (cd_execution c) ex = Inr (sn_execution_backing r)"
    unfolding storable_record_def coding_ok_def by blast
  moreover obtain l where "encode_option (cd_llm c) (sn_llm r) = Inr l" "decode_option (cd_llm c) l = Inr (sn_llm r)"
    using assms decode_encode_option [of "sn_llm r" "cd_llm c"] by (auto simp: storable_record_def)
  moreover obtain z where "encode_option (cd_lease c) (sn_lease r) = Inr z" "decode_option (cd_lease c) z = Inr (sn_lease r)"
    using assms decode_encode_option [of "sn_lease r" "cd_lease c"] by (auto simp: storable_record_def)
  moreover obtain n where "encode_option (cd_lineage c) (sn_lineage r) = Inr n" "decode_option (cd_lineage c) n = Inr (sn_lineage r)"
    using assms decode_encode_option [of "sn_lineage r" "cd_lineage c"] by (auto simp: storable_record_def)
  ultimately show ?thesis by (simp add: record_to_row_def row_to_record_def)
qed

lemma row_to_record_created:
  assumes "row_to_record c row = Inr r"
  shows "row_to_record c (row\<lparr>ro_created_at_ms := t\<rparr>) = Inr (r\<lparr>sn_created_at_ms := t\<rparr>)
     \<and> sn_created_at_ms r = ro_created_at_ms row"
  using assms by (auto simp: row_to_record_def rbind_def split: sum.splits option.splits)

lemma record_to_row_key: "record_to_row c r = Inr row \<Longrightarrow> ro_runtime_id row = sn_runtime_id r"
  by (auto simp: record_to_row_def rbind_def split: sum.splits)

text \<open>The sessions a save may be asked for: readable by the codec, with no joint session under their
  identifier, which lookups would prefer, and with a readable row if there is one.\<close>

definition sqlite_storable :: "SessionCodec \<Rightarrow> SessionDb \<Rightarrow> SessionRecord \<Rightarrow> bool" where
  "sqlite_storable c db r \<longleftrightarrow>
     storable_record c r \<and> find_row jo_runtime_id (sn_runtime_id r) (sd_joint_sessions db) = None
     \<and> (\<forall>row. find_row ro_runtime_id (sn_runtime_id r) (sd_sessions db) = Some row
           \<longrightarrow> (\<exists>old. row_to_record c row = Inr old))"

text \<open>What the contract shows of a database: its sessions, and which records it can store. Tables it does
  not read do not count.\<close>

definition session_face :: "SessionCodec \<Rightarrow> SessionDb \<Rightarrow> (string \<Rightarrow> SessionRecord option) \<times> (SessionRecord \<Rightarrow> bool)" where
  "session_face c db = (session_view c db, sqlite_storable c db)"

lemma read_session_io [simp]: "read_session c (db\<lparr>sd_io := x\<rparr>) i = read_session c db i"
  by (simp add: read_session_def split: option.split)

lemma session_face_io [simp]:
  "session_face c (db\<lparr>sd_io := x\<rparr>) = session_face c db"
  "session_face c (db\<lparr>sd_snapshot_operations := y\<rparr>) = session_face c db"
  "session_face c (db\<lparr>sd_checkpoints := z\<rparr>) = session_face c db"
  by (simp_all add: session_face_def session_view_def read_session_def sqlite_storable_def fun_eq_iff split: option.split)

lemma session_view_io [simp]:
  "session_view c (db\<lparr>sd_io := x\<rparr>) = session_view c db"
  "sqlite_storable c (db\<lparr>sd_io := x\<rparr>) = sqlite_storable c db"
  using session_face_io(1) by (simp_all add: session_face_def)

lemma sql_io_outcome:
  "sql_io db = (x, db') \<Longrightarrow> \<exists>io. db' = db\<lparr>sd_io := io\<rparr>"
  by (cases "sd_io db") (auto simp: sql_io_def split: option.splits intro: exI [of _ "sd_io db"])

lemma sql_io_view: "sql_io db = (x, db') \<Longrightarrow> session_face c db' = session_face c db"
  by (auto dest: sql_io_outcome)

lemma write_transaction_error:
  assumes "write_transaction stmt db = (Inl e, db')"
  shows "\<exists>io. db' = db\<lparr>sd_io := io\<rparr>"
  using assms
  by (auto simp: write_transaction_def and_then_def split: prod.splits sum.splits dest!: sql_io_outcome)

lemma write_transaction_ok:
  assumes "write_transaction stmt db = (Inr a, db')"
  obtains io d io' where "stmt (db\<lparr>sd_io := io\<rparr>) = (Inr a, d)" and "db' = d\<lparr>sd_io := io'\<rparr>"
  using assms
  by (auto simp: write_transaction_def and_then_def split: prod.splits sum.splits dest!: sql_io_outcome)

text \<open>A statement that leaves the sessions alone does so inside a transaction.\<close>

lemma write_transaction_view:
  assumes "\<And>io a d. stmt (db\<lparr>sd_io := io\<rparr>) = (Inr a, d) \<Longrightarrow> session_face c d = session_face c db"
    and "write_transaction stmt db = (x, db')"
  shows "session_face c db' = session_face c db"
proof (cases x)
  case (Inl e)
  then show ?thesis using write_transaction_error assms(2) by fastforce
next
  case (Inr a)
  then show ?thesis using assms by (auto elim: write_transaction_ok)
qed

lemma find_upsert:
  assumes "upsert_session row rows = (1, rows')"
  shows "find_row ro_runtime_id i rows' =
     (if i = ro_runtime_id row
      then Some (case find_row ro_runtime_id i rows of
             None \<Rightarrow> row | Some x \<Rightarrow> row\<lparr>ro_created_at_ms := ro_created_at_ms x\<rparr>)
      else find_row ro_runtime_id i rows)"
  using assms
  by (induction rows arbitrary: rows') (auto simp: find_row_def split: if_splits prod.splits)


lemma sqlite_save_outcome:
  assumes "sqlite_save c r db = (Inr (), db')"
  obtains row rows io where "record_to_row c r = Inr row"
    and "upsert_session row (sd_sessions db) = (1, rows)" and "db' = db\<lparr>sd_sessions := rows, sd_io := io\<rparr>"
    and "ro_runtime_id row \<notin> set (map jo_runtime_id (sd_joint_sessions db))"
proof -
  from assms obtain row where row: "record_to_row c r = Inr row"
    by (auto simp: sqlite_save_def split: if_splits sum.splits)
  from assms row have "write_transaction (save_statement row) db = (Inr (), db')"
    by (auto simp: sqlite_save_def split: if_splits elim: map_err_InrE)
  then obtain io d io' where "save_statement row (db\<lparr>sd_io := io\<rparr>) = (Inr (), d)" and "db' = d\<lparr>sd_io := io'\<rparr>"
    by (rule write_transaction_ok)
  then show ?thesis
    using row that [of row] by (auto simp: save_statement_def joint_identity_def Let_def split: prod.splits if_splits)
qed

lemma sqlite_save_failure:
  assumes "sqlite_save c r db = (Inl e, db')"
  shows "\<exists>io. db' = db\<lparr>sd_io := io\<rparr>"
proof (cases "record_to_row c r")
  case (Inl m)
  with assms have "db' = db\<lparr>sd_io := sd_io db\<rparr>" by (auto simp: sqlite_save_def split: if_splits)
  then show ?thesis ..
next
  case (Inr row)
  have same: "\<exists>io. db = db\<lparr>sd_io := io\<rparr>" by (rule exI [of _ "sd_io db"]) simp
  from assms Inr same show ?thesis
    by (auto simp: sqlite_save_def split: if_splits elim!: map_err_InlE dest: write_transaction_error)
qed

lemma joint_row_frame [simp]: "sd_joint_sessions (db\<lparr>sd_sessions := rows, sd_io := io\<rparr>) = sd_joint_sessions db"
  by simp

lemma sqlite_save_other:
  assumes "sqlite_save c r db = (saved, db')" and "i \<noteq> sn_runtime_id r"
  shows "session_view c db' i = session_view c db i"
proof (cases saved)
  case (Inl e)
  then show ?thesis using assms sqlite_save_failure by fastforce
next
  case (Inr u)
  with assms(1) have "sqlite_save c r db = (Inr (), db')" by simp
  then obtain row rows io where "record_to_row c r = Inr row"
      and "upsert_session row (sd_sessions db) = (1, rows)" and "db' = db\<lparr>sd_sessions := rows, sd_io := io\<rparr>"
    by (rule sqlite_save_outcome)
  then show ?thesis
    using assms(2) record_to_row_key [of c r row]
    by (simp add: session_view_def read_session_def find_upsert split: option.splits)
qed

lemma sqlite_save_own:
  assumes "sqlite_save c r db = (Inr (), db')" and "sqlite_storable c db r"
  shows "session_view c db' (sn_runtime_id r) = Some (case session_view c db (sn_runtime_id r) of
           None \<Rightarrow> r | Some old \<Rightarrow> r\<lparr>sn_created_at_ms := sn_created_at_ms old\<rparr>)"
proof -
  obtain row where row: "record_to_row c r = Inr row" "row_to_record c row = Inr r"
      "ro_runtime_id row = sn_runtime_id r"
    using row_roundtrip [of c r] assms(2) unfolding sqlite_storable_def by blast
  from assms(1) obtain rows io where up: "upsert_session row (sd_sessions db) = (1, rows)"
      and db': "db' = db\<lparr>sd_sessions := rows, sd_io := io\<rparr>"
    by (rule sqlite_save_outcome) (use row in auto)
  have no_joint: "find_row jo_runtime_id (sn_runtime_id r) (sd_joint_sessions db) = None"
    using assms(2) by (simp add: sqlite_storable_def)
  show ?thesis
  proof (cases "find_row ro_runtime_id (sn_runtime_id r) (sd_sessions db)")
    case None
    then show ?thesis using up db' no_joint row
      by (simp add: session_view_def read_session_def find_upsert)
  next
    case (Some old_row)
    with assms(2) obtain old where old: "row_to_record c old_row = Inr old"
      by (auto simp: sqlite_storable_def)
    from Some show ?thesis
      using up db' no_joint row row_to_record_created [OF old] row_to_record_created [OF row(2)] old
      by (simp add: session_view_def read_session_def find_upsert)
  qed
qed


lemma map_err_snd [simp]: "snd (map_err f m) = snd m"
  by (cases m; cases "fst m") auto

lemma read_call_view:
  assumes "map_err f (and_then (sql_io db) (\<lambda>u d. (k d, d))) = (x, db')"
  shows "session_face c db' = session_face c db"
  using assms by (auto simp: and_then_def map_err_def split: prod.splits sum.splits dest: sql_io_view)

lemma write_call_view:
  assumes "map_err f (write_transaction stmt db) = (x, db')"
    and "\<And>d a d'. stmt d = (Inr a, d') \<Longrightarrow> session_face c d' = session_face c d"
  shows "session_face c db' = session_face c db"
proof -
  obtain y where "write_transaction stmt db = (y, db')"
    using assms(1) by (cases "write_transaction stmt db") (metis map_err_snd snd_conv)
  then show ?thesis by (rule write_transaction_view [rotated]) (auto dest: assms(2))
qed

lemma sqlite_get_view:
  assumes "sqlite_get c i db = (found, db')"
  shows "session_face c db' = session_face c db \<and> (\<forall>f. found = Inr f \<longrightarrow> f = session_view c db i)"
proof -
  obtain x io where io: "sql_io db = (x, db\<lparr>sd_io := io\<rparr>)"
    by (metis prod.collapse sql_io_outcome)
  with assms show ?thesis
    by (cases x; cases "read_session c db i") (auto simp: sqlite_get_def session_view_def)
qed

lemma sqlite_save_checkpoint_view:
  assumes "sqlite_save_checkpoint c k db = (u, db')"
  shows "session_face c' db' = session_face c' db"
proof (cases "checkpoint_to_row c k")
  case (Inl e)
  with assms show ?thesis by (auto simp: sqlite_save_checkpoint_def)
next
  case (Inr row)
  with assms show ?thesis
    by (simp add: sqlite_save_checkpoint_def) (erule write_call_view, auto split: if_splits)
qed

lemma checkpoint_read_view:
  assumes "map_err f (and_then (sql_io db) (\<lambda>u d. case g d of None \<Rightarrow> (Inr None, d) | Some row \<Rightarrow> (h row, d))) = (x, db')"
  shows "session_face c db' = session_face c db"
  using assms
  by (auto simp: and_then_def map_err_def split: prod.splits sum.splits option.splits dest: sql_io_view)

lemmas sqlite_call_defs =
  sqlite_repository_def sqlite_save_operation_intent_def sqlite_operation_intents_def
  sqlite_delete_operation_intent_def sqlite_get_checkpoint_def sqlite_delete_checkpoint_def
  sqlite_list_checkpoints_def sqlite_get_joint_checkpoint_def sqlite_list_active_def
  sqlite_active_session_counts_by_tenant_def

lemma faceD: "session_face c d = session_face c db \<Longrightarrow> session_view c d = session_view c db \<and> sqlite_storable c d = sqlite_storable c db"
  by (simp add: session_face_def)

interpretation sqlite_sessions: session_repository
  "sqlite_repository c joint_transactions pending" "session_view c" "sqlite_storable c"
proof (unfold_locales, goal_cases)
  case (1 i w found w')
  then show ?case using sqlite_get_view [of c i w found w'] by (auto simp: sqlite_repository_def dest: faceD)
next
  case (2 r w e w')
  then show ?case using sqlite_save_failure [of c r w e w'] by (auto simp: sqlite_repository_def)
next
  case (3 r w saved w' i)
  then show ?case using sqlite_save_other by (simp add: sqlite_repository_def)
next
  case (4 r w w')
  then show ?case using sqlite_save_own by (simp add: sqlite_repository_def)
next
  case (5 t n w p w')
  then show ?case by (simp add: sqlite_call_defs Let_def) (rule faceD, erule read_call_view)
next
  case (6 i b w u w')
  then show ?case by (simp add: sqlite_call_defs) (rule faceD, erule write_call_view, auto)
next
  case (7 w bs w')
  then show ?case by (simp add: sqlite_call_defs) (rule faceD, erule read_call_view)
next
  case (8 i w u w')
  then show ?case by (simp add: sqlite_call_defs) (rule faceD, erule write_call_view, auto)
next
  case (9 k w u w')
  then show ?case by (intro faceD) (simp add: sqlite_repository_def sqlite_save_checkpoint_view)
next
  case (10 i w k w')
  then show ?case by (simp add: sqlite_call_defs) (rule faceD, erule checkpoint_read_view)
next
  case (11 i w d w')
  then show ?case by (simp add: sqlite_call_defs) (rule faceD, erule write_call_view, auto)
next
  case (12 i w j w')
  then show ?case by (simp add: sqlite_call_defs) (rule faceD, erule write_call_view, auto split: option.splits)
next
  case (13 w ps w')
  then show ?case by (simp add: sqlite_repository_def)
next
  case (14 t n m w cs w')
  then show ?case by (simp add: sqlite_call_defs Let_def) (rule faceD, erule read_call_view)
next
  case (15 w counts w')
  then show ?case by (simp add: sqlite_call_defs) (rule faceD, erule read_call_view)
next
  case (16 w counts w' who)
  then show ?case
    by (auto simp: sqlite_call_defs and_then_def map_err_def split: prod.splits sum.splits nat.splits)
qed


section \<open>Lookups and listings\<close>

text \<open>C20. After a session is saved, every successful lookup sees it: the saved session with the
  creation time of its first save, and every other session as it was before.\<close>

theorem session_save_get:
  assumes "sqlite_save c r db = (Inr (), db')" and "sqlite_storable c db r"
    and "sqlite_get c i db' = (Inr found, db'')"
  shows "found =
     (if i = sn_runtime_id r
      then Some (case session_view c db i of
             None \<Rightarrow> r | Some old \<Rightarrow> r\<lparr>sn_created_at_ms := sn_created_at_ms old\<rparr>)
      else session_view c db i)"
proof -
  have "found = session_view c db' i"
    using sqlite_get_view [OF assms(3)] by simp
  then show ?thesis
    using sqlite_save_own [OF assms(1,2)] sqlite_save_other [OF assms(1)] by simp
qed

text \<open>A codec that writes one fixed text and reads one fixed value, enough to store one session.\<close>

definition fixed_coding :: "'a \<Rightarrow> 'a Coding" where
  "fixed_coding x = \<lparr> json_encode = (\<lambda>_. Inr ''{}''), json_decode = (\<lambda>_. Inr x) \<rparr>"

definition sample_record :: SessionRecord where
  "sample_record =
     \<lparr> sn_execution_backing = SplitV1, sn_runtime_id = ''r1'', sn_conversation_id = ''c1'',
       sn_sender_id = ''u1'', sn_status = SsIdle, sn_created_at_ms = 5, sn_updated_at_ms = 5,
       sn_workspace = \<lparr> rw_workspace_id = ''w'', rw_root = ''/w'', rw_access = ReadWrite,
         rw_revision = None, rw_metadata = JNull \<rparr>,
       sn_isolation = \<lparr> if_boundary = Container, if_workspace_access = ReadWrite,
         if_network = NetNone, if_metadata = JNull \<rparr>,
       sn_capabilities = \<lparr> ef_sandbox = {SbExec}, ef_runtime = {} \<rparr>,
       sn_runtime = \<lparr> rs_runtime_kind = ''pi'', rs_schema_version = 1, rs_state = JNull \<rparr>,
       sn_llm = None, sn_lease = None, sn_lineage = None, sn_last_error = None,
       sn_tenant_id = Some ''acme'', sn_created_by = ''alice'' \<rparr>"

definition sample_codec :: "SessionRecord \<Rightarrow> SessionCodec" where
  "sample_codec r =
     \<lparr> cd_workspace = fixed_coding (sn_workspace r), cd_isolation = fixed_coding (sn_isolation r),
       cd_capabilities = fixed_coding (sn_capabilities r), cd_runtime = fixed_coding (sn_runtime r),
       cd_execution = fixed_coding SplitV1, cd_llm = fixed_coding (the (sn_llm r)),
       cd_lease = fixed_coding (the (sn_lease r)), cd_lineage = fixed_coding (the (sn_lineage r)),
       cd_value = fixed_coding JNull, cd_record = fixed_coding r,
       cd_joint_checkpoint = \<lparr> json_encode = (\<lambda>_. Inl ''no''), json_decode = (\<lambda>_. Inl ''no'') \<rparr> \<rparr>"

definition empty_db :: SessionDb where
  "empty_db =
     \<lparr> sd_sessions = [], sd_joint_sessions = [], sd_checkpoints = [], sd_joint_checkpoints = [], sd_public_claims = [],
       sd_snapshot_operations = [], sd_deployment_registered = False, sd_holder = None, sd_io = [] \<rparr>"

lemmas sample_defs = sample_record_def sample_codec_def fixed_coding_def empty_db_def

lemmas sqlite_exec =
  sqlite_save_def save_statement_def joint_identity_def sqlite_get_def write_transaction_def sql_io_def verify_writer_def and_then_def
  record_to_row_def row_to_record_def read_session_def find_row_def str_to_status_def

theorem session_save_get_witness:
  "fst (sqlite_get (sample_codec sample_record) ''r1''
     (snd (sqlite_save (sample_codec sample_record) sample_record empty_db))) = Inr (Some sample_record)"
proof -
  let ?c = "sample_codec sample_record"
  define db' where "db' = snd (sqlite_save ?c sample_record empty_db)"
  have save: "sqlite_save ?c sample_record empty_db = (Inr (), db')"
    by (simp add: db'_def sqlite_exec sample_defs)
  have storable: "sqlite_storable ?c empty_db sample_record"
    by (simp add: sqlite_storable_def storable_record_def coding_ok_def find_row_def sample_defs)
  have get: "sqlite_get ?c ''r1'' db' = (Inr (Some sample_record), db')"
    by (simp add: db'_def sqlite_exec sample_defs)
  from session_save_get [OF save storable get] show ?thesis
    unfolding db'_def [symmetric] get by simp
qed

lemma read_listed_all2:
  "read_listed c db is = Inr rs \<Longrightarrow> list_all2 (\<lambda>i r. read_session c db i = Inr (Some r)) is rs"
  by (induction "is" arbitrary: rs) (auto simp: rbind_def split: sum.splits option.splits)

lemma find_row_distinct:
  assumes "distinct (map key rows)" and "row \<in> set rows"
  shows "find_row key (key row) rows = Some row"
  using assms by (induction rows) (auto simp: find_row_def)

lemma row_to_record_columns:
  assumes "row_to_record c row = Inr r"
  shows "sn_tenant_id r = ro_tenant_id row \<and> str_to_status (ro_status row) = Some (sn_status r)
     \<and> sn_updated_at_ms r = ro_updated_at_ms row \<and> sn_runtime_id r = ro_runtime_id row"
  using assms by (auto simp: row_to_record_def rbind_def split: sum.splits option.splits)

lemma str_to_status_active:
  assumes "str_to_status v = Some st" and "v \<in> set active_statuses"
  shows "st \<noteq> SsFailed \<and> st \<noteq> SsClosed"
  using assms by (auto simp: active_statuses_def str_to_status_def split: if_splits)

text \<open>What the primary keys and the triggers of the two session tables guarantee, and what the joint store writes: no
  identifier occurs twice, and the columns of a joint row repeat what its document says.\<close>

definition joint_row_ok :: "SessionCodec \<Rightarrow> JointSessionRow \<Rightarrow> bool" where
  "joint_row_ok c row =
     (case json_decode (cd_record c) (jo_body row) of
        Inl e \<Rightarrow> False
      | Inr r \<Rightarrow> sn_runtime_id r = jo_runtime_id row \<and> sn_tenant_id r = jo_tenant_id row
          \<and> str_to_status (jo_status row) = Some (sn_status r) \<and> sn_updated_at_ms r = jo_updated_at_ms row)"

definition session_tables :: "SessionCodec \<Rightarrow> SessionDb \<Rightarrow> bool" where
  "session_tables c db \<longleftrightarrow>
     distinct (map ro_runtime_id (sd_sessions db) @ map jo_runtime_id (sd_joint_sessions db))
     \<and> list_all (joint_row_ok c) (sd_joint_sessions db)"

lemma find_row_None: "i \<notin> set (map key rows) \<Longrightarrow> find_row key i rows = None"
  by (induction rows) (auto simp: find_row_def)

text \<open>A record against the row of the index it is listed for.\<close>

definition listed_as :: "SessionRecord \<Rightarrow> string \<times> string option \<times> string \<times> u64 \<Rightarrow> bool" where
  "listed_as r = (\<lambda>(i, t, status, at). sn_runtime_id r = i \<and> sn_tenant_id r = t
     \<and> str_to_status status = Some (sn_status r) \<and> sn_updated_at_ms r = at)"

lemma split_listed:
  assumes "session_tables c db" and "row \<in> set (sd_sessions db)"
    and "read_session c db (ro_runtime_id row) = Inr (Some r)"
  shows "listed_as r (ro_runtime_id row, ro_tenant_id row, ro_status row, ro_updated_at_ms row)"
proof -
  have "find_row jo_runtime_id (ro_runtime_id row) (sd_joint_sessions db) = None"
    using assms(1,2) by (intro find_row_None) (auto simp: session_tables_def)
  moreover have "find_row ro_runtime_id (ro_runtime_id row) (sd_sessions db) = Some row"
    using assms(1,2) by (intro find_row_distinct) (auto simp: session_tables_def)
  ultimately have "row_to_record c row = Inr r"
    using assms(3) by (auto simp: read_session_def rbind_def split: sum.splits)
  then show ?thesis using row_to_record_columns by (simp add: listed_as_def)
qed

lemma joint_listed:
  assumes "session_tables c db" and "row \<in> set (sd_joint_sessions db)"
    and "read_session c db (jo_runtime_id row) = Inr (Some r)"
  shows "listed_as r (jo_runtime_id row, jo_tenant_id row, jo_status row, jo_updated_at_ms row)"
proof -
  have "find_row jo_runtime_id (jo_runtime_id row) (sd_joint_sessions db) = Some row"
    using assms(1,2) by (intro find_row_distinct) (auto simp: session_tables_def)
  then have "json_decode (cd_record c) (jo_body row) = Inr r"
    using assms(3) by (auto simp: read_session_def rbind_def split: sum.splits)
  moreover have "joint_row_ok c row" using assms(1,2) by (auto simp: session_tables_def list_all_iff)
  ultimately show ?thesis by (simp add: joint_row_ok_def listed_as_def)
qed

lemma index_listed:
  assumes "session_tables c db" and "e \<in> set (session_index db)" and "read_session c db (fst e) = Inr (Some r)"
  shows "listed_as r e"
  using assms(2,3) split_listed [OF assms(1), of _ r] joint_listed [OF assms(1), of _ r]
  by (auto simp: session_index_def)

lemma distinct_index: "session_tables c db \<Longrightarrow> distinct (map fst (active_index tenant_id db))"
  unfolding active_index_def session_tables_def
  by (rule distinct_map_filter) (simp add: session_index_def o_def)

definition update_key :: "string \<times> string option \<times> string \<times> u64 \<Rightarrow> int" where
  "update_key = (\<lambda>(i, t, status, at). - sint at)"

definition active_in :: "string option \<Rightarrow> SessionRecord \<Rightarrow> bool" where
  "active_in tenant_id r \<longleftrightarrow> tenant_matches tenant_id (sn_tenant_id r) \<and> sn_status r \<noteq> SsFailed \<and> sn_status r \<noteq> SsClosed"

lemma listing_columns:
  assumes "session_tables c db" and "set listed \<subseteq> set (active_index tenant_id db)"
    and all2: "list_all2 (\<lambda>e r. read_session c db (fst e) = Inr (Some r)) listed rs"
  shows "list_all (active_in tenant_id) rs \<and> map sn_runtime_id rs = map fst listed
    \<and> map (\<lambda>r. - sint (sn_updated_at_ms r)) rs = map update_key listed"
  using all2 assms(2)
proof (induction rule: list_all2_induct)
  case (Cons e es r rs)
  obtain i t status at where e: "e = (i, t, status, at)" by (cases e)
  have "e \<in> set (session_index db)" and "status \<in> set active_statuses" and "tenant_matches tenant_id t"
    using Cons.prems e by (auto simp: active_index_def)
  with index_listed [OF assms(1), of e r] Cons str_to_status_active [of status "sn_status r"]
  show ?case by (auto simp: e listed_as_def update_key_def active_in_def)
qed simp

text \<open>Saving a session keeps the tables so.\<close>

lemma upsert_session_ids:
  "upsert_session row rows = (n, rows') \<Longrightarrow>
   map ro_runtime_id rows' =
     map ro_runtime_id rows @ (if n = 1 \<and> ro_runtime_id row \<notin> set (map ro_runtime_id rows) then [ro_runtime_id row] else [])"
  by (induction row rows arbitrary: n rows' rule: upsert_session.induct) (auto split: prod.splits if_splits)

lemma sqlite_save_tables:
  assumes "session_tables c db" and "sqlite_save c' r db = (Inr (), db')"
  shows "session_tables c db'"
proof -
  obtain row rows io where up: "upsert_session row (sd_sessions db) = (1, rows)"
      and db': "db' = db\<lparr>sd_sessions := rows, sd_io := io\<rparr>"
      and "ro_runtime_id row \<notin> set (map jo_runtime_id (sd_joint_sessions db))"
    using assms(2) by (rule sqlite_save_outcome)
  with assms(1) show ?thesis
    unfolding session_tables_def db' by (auto simp: upsert_session_ids [OF up])
qed

text \<open>C38. A listing of the active sessions of a tenant (of all tenants for the administrator) draws on both session
  tables, the split and the joint one. It shows only sessions of that tenant, none of them failed or closed,
  none twice, in descending order of their last update, as many as the limit allows, and reports the uncapped
  count. The tables are taken to hold no identifier twice and joint rows whose columns repeat their
  document.\<close>

theorem list_active_scoped:
  assumes "session_tables c db" and "sqlite_list_active c tenant_id limit db = (Inr page, db')"
  shows "list_all (active_in tenant_id) (lp_sessions page)
     \<and> sorted (map (\<lambda>r. - sint (sn_updated_at_ms r)) (lp_sessions page))
     \<and> distinct (map sn_runtime_id (lp_sessions page))
     \<and> set (map sn_runtime_id (lp_sessions page)) \<subseteq> fst ` set (active_index tenant_id db)
     \<and> length (lp_sessions page) = min limit (length (active_index tenant_id db))
     \<and> lp_total_active page = word_of_nat (length (active_index tenant_id db))"
proof -
  define listed where "listed = take limit (sort_key update_key (active_index tenant_id db))"
  from assms(2) obtain x db1 where io: "sql_io db = (Inr x, db1)"
      and page: "rbind (read_listed c db1 (map fst (take limit (sort_key update_key (active_index tenant_id db1)))))
        (\<lambda>sessions. Inr \<lparr> lp_sessions = sessions,
            lp_total_active = word_of_nat (length (active_index tenant_id db1)) \<rparr>) = Inr page"
    by (auto simp: sqlite_list_active_def map_err_def and_then_def Let_def update_key_def
        split: prod.splits sum.splits)
  obtain io' where "db1 = db\<lparr>sd_io := io'\<rparr>" using sql_io_outcome [OF io] by blast
  then have same: "active_index tenant_id db1 = active_index tenant_id db"
      and reads: "\<And>i. read_session c db1 i = read_session c db i"
    by (simp_all add: active_index_def session_index_def)
  from page same obtain rs where rs: "read_listed c db1 (map fst listed) = Inr rs"
      and fields: "lp_sessions page = rs" "lp_total_active page = word_of_nat (length (active_index tenant_id db))"
    by (auto simp: listed_def rbind_def split: sum.splits)
  have all2: "list_all2 (\<lambda>e r. read_session c db (fst e) = Inr (Some r)) listed rs"
    using read_listed_all2 [OF rs] reads by (simp add: list_all2_map1)
  have subset: "set listed \<subseteq> set (active_index tenant_id db)" by (auto simp: listed_def dest: in_set_takeD)
  note columns = listing_columns [OF assms(1) subset all2]
  have "sorted (map update_key listed)"
    by (simp add: listed_def take_map [symmetric] sorted_wrt_take)
  moreover have "distinct (map fst (sort_key update_key (active_index tenant_id db)))"
    using distinct_index [OF assms(1), of tenant_id] by (simp add: distinct_map)
  then have "distinct (map fst listed)" by (simp add: listed_def take_map [symmetric])
  moreover have "length rs = min limit (length (active_index tenant_id db))"
    using list_all2_lengthD [OF all2] by (simp add: listed_def)
  ultimately show ?thesis using fields columns subset by auto
qed

text \<open>A split session and a joint one.\<close>

definition sample_joint :: SessionRecord where
  "sample_joint = sample_record\<lparr>sn_runtime_id := ''r2'', sn_updated_at_ms := 9\<rparr>"

definition mixed_codec :: SessionCodec where
  "mixed_codec = (sample_codec sample_record)\<lparr>cd_record := fixed_coding sample_joint\<rparr>"

definition mixed_db :: SessionDb where
  "mixed_db = (snd (sqlite_save mixed_codec sample_record empty_db))\<lparr>sd_joint_sessions :=
     [\<lparr> jo_runtime_id = ''r2'', jo_binding_id = ''b2'', jo_tenant_id = Some ''acme'', jo_status = ''idle'',
        jo_updated_at_ms = 9, jo_body = ''{}'' \<rparr>]\<rparr>"

lemmas mixed_defs = mixed_db_def mixed_codec_def sample_joint_def sample_defs

theorem list_active_scoped_witness:
  "\<exists>page. fst (sqlite_list_active mixed_codec (Some ''acme'') 5 mixed_db) = Inr page
   \<and> lp_sessions page = [sample_joint, sample_record] \<and> lp_total_active page = 2
   \<and> list_all (active_in (Some ''acme'')) (lp_sessions page)"
proof -
  define page where "page = \<lparr> lp_sessions = [sample_joint, sample_record], lp_total_active = 2 \<rparr>"
  have active: "active_index (Some ''acme'') mixed_db = [(''r1'', Some ''acme'', ''idle'', 5), (''r2'', Some ''acme'', ''idle'', 9)]"
    by (simp add: active_index_def session_index_def active_statuses_def tenant_matches_def sqlite_exec mixed_defs)
  have io: "sql_io mixed_db = (Inr (), mixed_db)" and read: "read_session mixed_codec mixed_db ''r1'' = Inr (Some sample_record)"
      "read_session mixed_codec mixed_db ''r2'' = Inr (Some sample_joint)"
    by (simp_all add: sqlite_exec mixed_defs)
  have sorted: "sort_key (\<lambda>(i, t, status, at). - sint at)
      [(''r1'', Some ''acme'', ''idle'', 5 :: u64), (''r2'', Some ''acme'', ''idle'', 9)] =
      [(''r2'', Some ''acme'', ''idle'', 9), (''r1'', Some ''acme'', ''idle'', 5)]"
    by code_simp
  have list: "sqlite_list_active mixed_codec (Some ''acme'') 5 mixed_db = (Inr page, mixed_db)"
    unfolding sqlite_list_active_def io and_then_def Let_def by (simp add: sorted active read page_def)
  have "session_tables mixed_codec mixed_db"
    by (simp add: session_tables_def joint_row_ok_def sqlite_exec mixed_defs)
  from list_active_scoped [OF this list] have "list_all (active_in (Some ''acme'')) (lp_sessions page)" by (rule conjunct1)
  moreover have "lp_sessions page = [sample_joint, sample_record]" and "lp_total_active page = 2"
    by (simp_all add: page_def)
  ultimately show ?thesis unfolding list by (intro exI [of _ page]) simp
qed

end
