(* ===== verification/Operation_Protocol.thy ===== *)
theory Operation_Protocol
  imports Json_Value
begin

text \<open>
  The operation protocol (\<open>src/crates/protocol/operation/src\<close>): errors with the texts they print,
  the requests of the file, path, search and execution capabilities, and the backend contract as a
  record of functions over the world \<open>'w\<close> the backend acts on. Exported file handles, which wrap an
  asynchronous reader, are left out of the backend.
\<close>

section \<open>Errors (error.rs, permission.rs)\<close>

datatype ExecutionState = NotStarted | RunningOrCompleted

fun display_execution_state :: "ExecutionState \<Rightarrow> string" where
  "display_execution_state NotStarted = ''not_started''"
| "display_execution_state RunningOrCompleted = ''running_or_completed''"

datatype SandboxPermissionCapability = PermRead | PermWrite | PermExecCwd | PermExecRuntime

fun display_permission :: "SandboxPermissionCapability \<Rightarrow> string" where
  "display_permission PermRead = ''read''"
| "display_permission PermWrite = ''write''"
| "display_permission PermExecCwd = ''exec_cwd''"
| "display_permission PermExecRuntime = ''exec_runtime''"

datatype SandboxPermissionScope = ScopeOnce | ScopeSession

record SandboxPolicyDenial =
  dn_backend_id :: string
  dn_isolation :: string
  dn_operation :: string
  dn_capability :: SandboxPermissionCapability
  dn_path :: string

definition display_denial :: "SandboxPolicyDenial \<Rightarrow> string" where
  "display_denial d =
     dn_isolation d @ '' blocked '' @ display_permission (dn_capability d) @ '' '' @ dn_path d
       @ '' for '' @ dn_operation d"

record SandboxPermissionGrantRequest =
  gq_denial :: SandboxPolicyDenial
  gq_scope :: SandboxPermissionScope

datatype OperationError =
    OpInvalidPath string
  | OpNotFound string
  | OpAlreadyExists string
  | OpNotDirectory string
  | OpNotFile string
  | OpPermissionDenied string
  | OpSandboxPolicyDenied SandboxPolicyDenial
  | OpUnsupported string
  | OpExecutionFailed string
  | OpExecutionInterrupted (op_message: string) (op_stdout: string) (op_stderr: string)
      (op_state: ExecutionState)
  | OpTransport string

fun display_operation_error :: "OperationError \<Rightarrow> string" where
  "display_operation_error (OpInvalidPath m) = ''invalid path: '' @ m"
| "display_operation_error (OpNotFound p) = ''not found: '' @ p"
| "display_operation_error (OpAlreadyExists p) = ''already exists: '' @ p"
| "display_operation_error (OpNotDirectory p) = ''not a directory: '' @ p"
| "display_operation_error (OpNotFile p) = ''not a file: '' @ p"
| "display_operation_error (OpPermissionDenied p) = ''permission denied: '' @ p"
| "display_operation_error (OpSandboxPolicyDenied d) = ''sandbox policy denied: '' @ display_denial d"
| "display_operation_error (OpUnsupported m) = ''unsupported operation: '' @ m"
| "display_operation_error (OpExecutionFailed m) = ''execution failed: '' @ m"
| "display_operation_error (OpExecutionInterrupted m out err state) =
     ''execution interrupted ('' @ display_execution_state state @ ''): '' @ m"
| "display_operation_error (OpTransport m) = ''transport error: '' @ m"

section \<open>Requests\<close>

text \<open>A \<open>BackendPath\<close> is its text; bytes are characters, as everywhere in this development.\<close>

type_synonym BackendPath = string

datatype ResolveBase = WorkspaceRoot | HomeDir | ExplicitBase BackendPath

record ResolvePathRequest =
  rz_raw_path :: string
  rz_base :: ResolveBase

record ExecRequest =
  exq_command :: string
  exq_args :: "string list"
  exq_shell :: "string option"
  exq_cwd :: "BackendPath option"
  exq_timeout_ms :: "u64 option"
  exq_env :: "(string \<times> string) list option"
  exq_extra :: "json option"

record ExecResult =
  exr_stdout :: string
  exr_stderr :: string
  exr_exit_code :: "int option"
  exr_timed_out :: bool

datatype WriteMode = WriteCreate | Overwrite | AtomicOverwrite

record WriteBytesRequest =
  wb_path :: BackendPath
  wb_content :: string
  wb_mode :: WriteMode

record WriteBytesOutcome =
  wo_path :: BackendPath
  wo_created :: bool

datatype PathKind = File | Directory | Symlink | OtherKind

record PathStat =
  ps_exists :: bool
  ps_kind :: "PathKind option"
  ps_size_bytes :: "u64 option"
  ps_modified_at :: "nat option"

datatype TempPathKind = TempFile | TempDirectory

record TempPathRequest =
  tp_kind :: TempPathKind
  tp_preferred_parent :: "BackendPath option"
  tp_prefix :: "string option"
  tp_suffix :: "string option"

record GlobRequest =
  gl_pattern :: string
  gl_base_dir :: "BackendPath option"
  gl_limit :: "nat option"

datatype GrepMode = FilesWithMatches | Content | CountMatches

record GrepRequest =
  gp_query :: string
  gp_base_dir :: BackendPath
  gp_include :: "string option"
  gp_mode :: GrepMode
  gp_head_limit :: "nat option"

section \<open>The backend (contract.rs and the capability traits)\<close>

record OperationBackendCapabilities =
  oc_supports_atomic_write :: bool
  oc_supports_grep :: bool
  oc_supports_export_file :: bool
  oc_supports_lsp :: bool

record 'w OperationPermissionControl =
  pc_sandbox_denial_for_path ::
    "BackendPath \<Rightarrow> SandboxPermissionCapability \<Rightarrow> string \<Rightarrow> 'w
       \<Rightarrow> (OperationError, SandboxPolicyDenial option) result \<times> 'w"
  pc_grant :: "SandboxPermissionGrantRequest \<Rightarrow> 'w \<Rightarrow> (OperationError, u64) result \<times> 'w"
  pc_revoke :: "u64 \<Rightarrow> 'w \<Rightarrow> (OperationError, unit) result \<times> 'w"

record 'w OperationExecutionControl =
  ec_begin_turn :: "string \<Rightarrow> 'w \<Rightarrow> (OperationError, unit) result \<times> 'w"
  ec_block_turn :: "string \<Rightarrow> 'w \<Rightarrow> (OperationError, unit) result \<times> 'w"
  ec_cancel_turn :: "string \<Rightarrow> 'w \<Rightarrow> (OperationError, unit) result \<times> 'w"
  ec_finish_turn :: "string \<Rightarrow> 'w \<Rightarrow> (OperationError, unit) result \<times> 'w"

record 'w OperationBackend =
  ob_backend_id :: string
  ob_capabilities :: OperationBackendCapabilities
  ob_workspace_root :: BackendPath
  ob_home_dir :: "BackendPath option"
  ob_resolve_path :: "ResolvePathRequest \<Rightarrow> 'w \<Rightarrow> (OperationError, BackendPath) result \<times> 'w"
  ob_stat :: "BackendPath \<Rightarrow> 'w \<Rightarrow> (OperationError, PathStat) result \<times> 'w"
  ob_read_bytes :: "BackendPath \<Rightarrow> 'w \<Rightarrow> (OperationError, string) result \<times> 'w"
  ob_write_bytes :: "WriteBytesRequest \<Rightarrow> 'w \<Rightarrow> (OperationError, WriteBytesOutcome) result \<times> 'w"
  ob_create_dir_all :: "BackendPath \<Rightarrow> 'w \<Rightarrow> (OperationError, unit) result \<times> 'w"
  ob_temp_path :: "TempPathRequest \<Rightarrow> 'w \<Rightarrow> (OperationError, BackendPath) result \<times> 'w"
  ob_glob :: "GlobRequest \<Rightarrow> 'w \<Rightarrow> (OperationError, BackendPath list) result \<times> 'w"
  ob_grep :: "GrepRequest \<Rightarrow> 'w \<Rightarrow> (OperationError, string list) result \<times> 'w"
  ob_default_shell :: "string option"
  ob_exec :: "ExecRequest \<Rightarrow> 'w \<Rightarrow> (OperationError, ExecResult) result \<times> 'w"
  ob_permission_control :: "'w OperationPermissionControl option"
  ob_execution_control :: "'w OperationExecutionControl option"
  ob_shutdown :: "'w \<Rightarrow> (OperationError, unit) result \<times> 'w"

text \<open>The body the trait supplies for permission controls that do not override it.\<close>

definition default_sandbox_denial_for_path ::
  "BackendPath \<Rightarrow> SandboxPermissionCapability \<Rightarrow> string \<Rightarrow> 'w
     \<Rightarrow> (OperationError, SandboxPolicyDenial option) result \<times> 'w" where
  "default_sandbox_denial_for_path path capability operation w = (Inr None, w)"

end
