(* ===== verification/Host_Policy.thy ===== *)
theory Host_Policy
  imports Joint_Store Operation_Protocol "HOL-Library.Sublist"
begin

text \<open>
  Admission of direct host operations on a joint session
  (\<open>src/crates/core/src/joint_host.rs\<close>): the mapping of a requested path into the workspace of the
  joint root, and the check of a request against the limits of the capability policy. The digest of
  a file's content is a parameter.
\<close>

section \<open>Requests and policies\<close>

definition host_invalid :: "string \<Rightarrow> SessionDomainError" where
  "host_invalid message = DomInvalidRequest message"

definition host_unavailable :: "string \<Rightarrow> SessionDomainError" where
  "host_unavailable message = DomUnavailable message"

record HostPathPolicyV1 =
  hp_workspace_backend_root :: string
  hp_fs_relative_workspace :: string
  hp_home_relative :: "string option"
  hp_mapping_version :: u32

record HostCapabilityPolicyV1 =
  hc_schema_version :: u32
  hc_configuration_revision :: string
  hc_deployment_id :: string
  hc_backend_release_ref :: string
  hc_sdk_fingerprint :: string
  hc_frozen_host_config_digest :: string
  hc_evidence_refs :: "string list"
  hc_paths :: HostPathPolicyV1
  hc_exec :: bool
  hc_read :: bool
  hc_overwrite :: bool
  hc_max_timeout_ms :: u64
  hc_max_output_bytes :: u32
  hc_max_argv_items :: nat
  hc_max_argv_bytes :: nat
  hc_max_file_bytes :: u32
  hc_max_inflight :: u32
  hc_max_reserved_bytes :: u64
  hc_mkdir_timeout_ms :: u64
  hc_exited_settlement_declared :: bool
  hc_timeout_settlement_declared :: bool

datatype JointHostRequest =
    HostExecRequest ExecRequest "u32 option"
  | HostReadRequest string
  | HostWriteRequest (hw_path: string) (hw_content: string) (hw_mode: WriteMode) (hw_create_parents: bool)
  | HostExportRequest string "string option"

record HostMkdirV1 =
  hm_argv :: "string list"
  hm_cwd :: string
  hm_timeout_ms :: u64
  hm_max_output_bytes :: u32

datatype HostCanonicalRequestV1 =
    CanonicalExec (ce_argv: "string list") (ce_cwd: string) (ce_timeout_ms: u64) (ce_max_output_bytes: u32)
  | CanonicalRead (cn_path: string) (cn_max_bytes: u32)
  | CanonicalWrite (cw_path: string) (cw_size: u64) (cw_sha256: string) (cw_max_bytes: u32)
      (cw_mkdir: "HostMkdirV1 option")

fun canonical_operation :: "HostCanonicalRequestV1 \<Rightarrow> string" where
  "canonical_operation (CanonicalExec _ _ _ _) = ''host_exec''"
| "canonical_operation (CanonicalRead _ _) = ''host_read''"
| "canonical_operation (CanonicalWrite _ _ _ _ _) = ''host_write''"

fun reserved_bytes :: "HostCanonicalRequestV1 \<Rightarrow> u64" where
  "reserved_bytes (CanonicalExec _ _ _ max_output_bytes) = ucast max_output_bytes"
| "reserved_bytes (CanonicalRead _ max_bytes) = ucast max_bytes"
| "reserved_bytes (CanonicalWrite _ written _ _ _) = written"

section \<open>Paths\<close>

abbreviation slash :: char where "slash \<equiv> CHR ''/''"
abbreviation nul :: char where "nul \<equiv> CHR 0x00"

definition host_relative :: "string \<Rightarrow> bool" where
  "host_relative path \<longleftrightarrow>
     \<not> starts_with path [slash] \<and> nul \<notin> set path
     \<and> \<not> (\<exists>p \<in> set (split_at slash path). p = ''..'' \<or> starts_with p ''~'')"

definition path_parts :: "string \<Rightarrow> string list" where
  "path_parts path = filter (\<lambda>s. s \<noteq> [] \<and> s \<noteq> ''.'') (split_at slash path)"

text \<open>Where a raw path starts and what is left of it: under the backend root, under the home
  directory, or relative to the workspace.\<close>

definition resolve_base :: "HostPathPolicyV1 \<Rightarrow> string \<Rightarrow> (SessionDomainError, string \<times> string) result" where
  "resolve_base p raw =
     (let root = trim_end_matches slash (hp_workspace_backend_root p)
      in if starts_with raw [slash] then
           (case strip_prefix raw root of
              None \<Rightarrow> Inl (host_invalid ''path is outside workspace mapping'')
            | Some s \<Rightarrow>
                if s = [] \<or> starts_with s [slash]
                then Inr (hp_fs_relative_workspace p, trim_start_matches slash s)
                else Inl (host_invalid ''path is outside workspace mapping''))
         else if raw = ''~'' \<or> starts_with raw ''~/'' then
           (case hp_home_relative p of
              None \<Rightarrow> Inl (host_invalid ''HOME is not configured'')
            | Some home \<Rightarrow> Inr (home, trim_start_matches slash (drop 1 raw)))
         else Inr (hp_fs_relative_workspace p, raw))"

definition valid_mapping :: "HostPathPolicyV1 \<Rightarrow> (SessionDomainError, unit) result" where
  "valid_mapping p =
     (if hp_mapping_version p \<noteq> 1
         \<or> \<not> starts_with (hp_workspace_backend_root p) [slash]
         \<or> nul \<in> set (hp_workspace_backend_root p)
         \<or> ''..'' \<in> set (split_at slash (hp_workspace_backend_root p))
         \<or> \<not> host_relative (hp_fs_relative_workspace p)
         \<or> (case hp_home_relative p of None \<Rightarrow> False | Some home \<Rightarrow> \<not> host_relative home)
      then Inl (host_invalid ''invalid fixed workspace mapping'')
      else
        (case hp_home_relative p of
           None \<Rightarrow> Inr ()
         | Some home \<Rightarrow>
             let workspace = trim_end_matches slash (hp_fs_relative_workspace p)
             in if workspace \<noteq> ''.'' \<and> workspace \<noteq> [] \<and> home \<noteq> workspace
                   \<and> \<not> starts_with home (workspace @ [slash])
                then Inl (unsupported_joint ''home_outside_workspace_mapping'') else Inr ()))"

definition host_resolve :: "HostPathPolicyV1 \<Rightarrow> string \<Rightarrow> (SessionDomainError, string) result" where
  "host_resolve p raw =
     (case valid_mapping p of
        Inl e \<Rightarrow> Inl e
      | Inr _ \<Rightarrow>
          (case resolve_base p raw of
             Inl e \<Rightarrow> Inl e
           | Inr (base, suf) \<Rightarrow>
               if \<not> host_relative suf then Inl (host_invalid ''invalid logical path'')
               else
                 let joined = join_with slash (path_parts (base @ slash # suf))
                 in Inr (if joined = [] then ''.'' else joined)))"

section \<open>Admission of a request\<close>

definition validate_host_policy :: "HostCapabilityPolicyV1 \<Rightarrow> (SessionDomainError, unit) result" where
  "validate_host_policy p =
     (if hc_schema_version p \<noteq> 1 \<or> hc_configuration_revision p = [] \<or> hc_deployment_id p = []
         \<or> hc_backend_release_ref p = [] \<or> hc_sdk_fingerprint p = [] \<or> hc_evidence_refs p = []
         \<or> \<not> (1 \<le> hc_max_timeout_ms p \<and> hc_max_timeout_ms p \<le> 300000)
         \<or> \<not> (1 \<le> hc_max_output_bytes p \<and> hc_max_output_bytes p \<le> 65536)
         \<or> \<not> (1 \<le> hc_max_argv_items p \<and> hc_max_argv_items p \<le> 256)
         \<or> \<not> (1 \<le> hc_max_argv_bytes p \<and> hc_max_argv_bytes p \<le> 32768)
         \<or> \<not> (1 \<le> hc_max_file_bytes p \<and> hc_max_file_bytes p \<le> 67108864)
         \<or> hc_max_inflight p = 0 \<or> hc_max_reserved_bytes p = 0
      then Inl (host_invalid ''unsupported Host policy or limits'')
      else (case host_resolve (hc_paths p) [] of Inl e \<Rightarrow> Inl e | Inr _ \<Rightarrow> Inr ()))"

definition preflight_exec ::
  "HostCapabilityPolicyV1 \<Rightarrow> ExecRequest \<Rightarrow> u32 option \<Rightarrow> (SessionDomainError, HostCanonicalRequestV1) result" where
  "preflight_exec p request required_output_bytes =
     (if \<not> hc_exec p \<or> (case exq_env request of None \<Rightarrow> False | Some e \<Rightarrow> e \<noteq> [])
         \<or> exq_extra request \<noteq> None \<or> exq_shell request \<noteq> None
         \<or> (case required_output_bytes of None \<Rightarrow> False | Some n \<Rightarrow> hc_max_output_bytes p < n)
      then Inl (unsupported_joint ''host_request'')
      else
        let argv = exq_command request # exq_args request;
            timeout_ms = (case exq_timeout_ms request of None \<Rightarrow> 30000 | Some t \<Rightarrow> t)
        in if trim (hd argv) = [] \<or> (\<exists>a \<in> set argv. nul \<in> set a) \<or> hc_max_argv_items p < length argv
              \<or> hc_max_argv_bytes p < sum_list (map length argv)
              \<or> \<not> (1 \<le> timeout_ms \<and> timeout_ms \<le> hc_max_timeout_ms p)
           then Inl (unsupported_joint ''host_request'')
           else
             (case host_resolve (hc_paths p) (case exq_cwd request of None \<Rightarrow> [] | Some c \<Rightarrow> c) of
                Inl e \<Rightarrow> Inl e
              | Inr cwd \<Rightarrow> Inr (CanonicalExec argv cwd timeout_ms (hc_max_output_bytes p))))"

definition mkdir_argv :: "string \<Rightarrow> string list" where
  "mkdir_argv path =
     [''mkdir'', ''-p'', ''--'', (case rsplit_once slash path of None \<Rightarrow> ''.'' | Some (parent, _) \<Rightarrow> parent)]"

definition preflight_write ::
  "(string \<Rightarrow> string) \<Rightarrow> HostCapabilityPolicyV1 \<Rightarrow> string \<Rightarrow> string \<Rightarrow> bool
     \<Rightarrow> (SessionDomainError, HostCanonicalRequestV1) result" where
  "preflight_write digest p path content create_parents =
     (if unat (hc_max_file_bytes p) < length content then Inl (unsupported_joint ''host_request'')
      else
        (case host_resolve (hc_paths p) path of
           Inl e \<Rightarrow> Inl e
         | Inr path \<Rightarrow>
             let argv = mkdir_argv path
             in if create_parents
                   \<and> (\<not> hc_exec p
                      \<or> \<not> (1 \<le> hc_mkdir_timeout_ms p \<and> hc_mkdir_timeout_ms p \<le> hc_max_timeout_ms p)
                      \<or> hc_max_argv_items p < length argv
                      \<or> hc_max_argv_bytes p < sum_list (map length argv))
                then Inl (unsupported_joint ''host_request'')
                else Inr (CanonicalWrite path (word_of_nat (length content)) (digest content)
                       (hc_max_file_bytes p)
                       (if create_parents
                        then Some \<lparr> hm_argv = argv, hm_cwd = ''.'', hm_timeout_ms = hc_mkdir_timeout_ms p,
                                    hm_max_output_bytes = hc_max_output_bytes p \<rparr>
                        else None))))"

definition preflight ::
  "(string \<Rightarrow> string) \<Rightarrow> HostCapabilityPolicyV1 \<Rightarrow> JointHostRequest
     \<Rightarrow> (SessionDomainError, HostCanonicalRequestV1) result" where
  "preflight digest p request =
     (case validate_host_policy p of
        Inl e \<Rightarrow> Inl e
      | Inr _ \<Rightarrow>
          (case request of
             HostExecRequest request required_output_bytes \<Rightarrow>
               preflight_exec p request required_output_bytes
           | HostReadRequest path \<Rightarrow>
               if hc_read p
               then (case host_resolve (hc_paths p) path of
                       Inl e \<Rightarrow> Inl e | Inr path \<Rightarrow> Inr (CanonicalRead path (hc_max_file_bytes p)))
               else Inl (unsupported_joint ''host_request'')
           | HostWriteRequest path content mode create_parents \<Rightarrow>
               if hc_overwrite p \<and> mode = Overwrite
               then preflight_write digest p path content create_parents
               else Inl (unsupported_joint ''host_request'')
           | HostExportRequest _ _ \<Rightarrow> Inl (unsupported_joint ''host_request'')))"


section \<open>Containment\<close>

lemma path_parts_no_slash: "c \<in> set (path_parts path) \<Longrightarrow> slash \<notin> set c"
  by (auto simp: path_parts_def dest: split_at_no_sep)

lemma path_parts_append: "path_parts (a @ slash # b) = path_parts a @ path_parts b"
  by (simp add: path_parts_def split_at_append_sep)

lemma path_parts_Nil [simp]: "path_parts [] = []"
  by (simp add: path_parts_def)

lemma join_with_parts: "path_parts (join_with slash (path_parts path)) = path_parts path"
proof (cases "path_parts path = []")
  case False
  then have "split_at slash (join_with slash (path_parts path)) = path_parts path"
    using path_parts_no_slash by (intro split_join) auto
  then show ?thesis by (simp add: path_parts_def)
qed simp

lemma set_join_with: "set (join_with d ps) \<subseteq> insert d (\<Union>(set ` set ps))"
  by (induction d ps rule: join_with.induct) auto

lemma set_split_at: "p \<in> set (split_at d s) \<Longrightarrow> set p \<subseteq> set s"
proof (induction s arbitrary: p)
  case (Cons c s)
  then show ?case by (cases "split_at d s") (fastforce split: if_splits)+
qed simp

lemma trim_end_append: "\<exists>k. s = trim_end_matches d s @ replicate k d"
proof -
  have "rev s = takeWhile (\<lambda>c. c = d) (rev s) @ dropWhile (\<lambda>c. c = d) (rev s)" by simp
  then have "s = rev (dropWhile (\<lambda>c. c = d) (rev s)) @ rev (takeWhile (\<lambda>c. c = d) (rev s))"
    by (metis rev_append rev_rev_ident)
  moreover have "takeWhile (\<lambda>c. c = d) (rev s) = replicate (length (takeWhile (\<lambda>c. c = d) (rev s))) d"
    by (rule replicate_length_same [symmetric]) (auto dest: set_takeWhileD)
  ultimately show ?thesis unfolding trim_end_matches_def by (metis rev_replicate)
qed

lemma path_parts_slashes: "path_parts (a @ replicate k slash) = path_parts a"
proof (induction k)
  case (Suc k)
  have "path_parts (a @ replicate (Suc k) slash) = path_parts ((a @ replicate k slash) @ slash # [])"
    by (simp add: replicate_append_same)
  also have "\<dots> = path_parts a" using Suc by (simp only: path_parts_append) simp
  finally show ?case .
qed simp

lemma path_parts_trim: "path_parts (trim_end_matches slash s) = path_parts s"
  using trim_end_append [of s slash] path_parts_slashes by metis

text \<open>Inside the workspace, and free of steps that could leave it.\<close>

definition contained_path :: "string \<Rightarrow> string \<Rightarrow> bool" where
  "contained_path workspace path \<longleftrightarrow>
     prefix (path_parts workspace) (path_parts path)
     \<and> (\<forall>c \<in> set (split_at slash path). c \<noteq> ''..'' \<and> \<not> starts_with c ''~'' \<and> c \<noteq> [])
     \<and> nul \<notin> set path"

lemma parts_relative:
  "host_relative path \<Longrightarrow> c \<in> set (path_parts path) \<Longrightarrow> c \<noteq> ''..'' \<and> \<not> starts_with c ''~'' \<and> nul \<notin> set c"
  using set_split_at by (fastforce simp: host_relative_def path_parts_def)

lemma valid_mapping_base:
  assumes "valid_mapping p = Inr ()" and "resolve_base p raw = Inr (base, suf)"
  shows "host_relative base \<and> prefix (path_parts (hp_fs_relative_workspace p)) (path_parts base)"
proof (cases "base = hp_fs_relative_workspace p")
  case True
  with assms(1) show ?thesis by (auto simp: valid_mapping_def split: if_splits)
next
  case False
  let ?w = "trim_end_matches slash (hp_fs_relative_workspace p)"
  from False assms(2) have home: "hp_home_relative p = Some base"
    by (auto simp: resolve_base_def Let_def split: if_splits option.splits)
  with assms(1) have rel: "host_relative base"
    and choice: "?w = ''.'' \<or> ?w = [] \<or> base = ?w \<or> starts_with base (?w @ [slash])"
    by (auto simp: valid_mapping_def Let_def split: if_splits)
  have "prefix (path_parts ?w) (path_parts base)"
    using choice
  proof (elim disjE)
    assume "?w = ''.''"
    then show ?thesis by (simp add: path_parts_def)
  next
    assume "starts_with base (?w @ [slash])"
    then obtain t where "base = ?w @ slash # t" by (auto simp: starts_with_iff)
    then show ?thesis by (metis path_parts_append prefixI)
  qed auto
  with rel show ?thesis by (simp add: path_parts_trim)
qed

lemma split_at_joined:
  "join_with slash (path_parts path) \<noteq> [] \<Longrightarrow>
   split_at slash (join_with slash (path_parts path)) = path_parts path"
  using path_parts_no_slash by (intro split_join) auto

lemma host_resolve_contained:
  assumes "host_resolve p raw = Inr path"
  shows "contained_path (hp_fs_relative_workspace p) path"
proof -
  let ?w = "hp_fs_relative_workspace p"
  from assms obtain base suf where valid: "valid_mapping p = Inr ()"
      and base: "resolve_base p raw = Inr (base, suf)" and rel: "host_relative suf"
      and path: "path = (if join_with slash (path_parts (base @ slash # suf)) = [] then ''.''
                  else join_with slash (path_parts (base @ slash # suf)))"
    by (auto simp: host_resolve_def Let_def split: sum.splits if_splits prod.splits)
  let ?parts = "path_parts (base @ slash # suf)"
  note in_workspace = valid_mapping_base [OF valid base]
  have clean: "c \<noteq> ''..'' \<and> \<not> starts_with c ''~'' \<and> nul \<notin> set c" if "c \<in> set ?parts" for c
    using that parts_relative in_workspace rel by (auto simp: path_parts_append)
  have "prefix (path_parts ?w) ?parts"
    using in_workspace by (simp add: path_parts_append)
  moreover have "path_parts path = ?parts"
    using join_with_parts [of "base @ slash # suf"] path by (simp add: path_parts_def split: if_splits)
  moreover have "c \<noteq> ''..'' \<and> \<not> starts_with c ''~'' \<and> c \<noteq> []" if "c \<in> set (split_at slash path)" for c
  proof (cases "join_with slash ?parts = []")
    case True
    with path that show ?thesis by simp
  next
    case False
    with path that have "c \<in> set ?parts" by (simp add: split_at_joined)
    with clean show ?thesis by (auto simp: path_parts_def)
  qed
  moreover have "nul \<notin> set path"
    using path clean set_join_with [of slash ?parts] by (auto split: if_splits)
  ultimately show ?thesis by (simp add: contained_path_def)
qed

text \<open>C35. A path accepted for a host operation stays in the workspace of the session: its components
  extend those of the workspace directory, none of them is empty, a step to the parent directory or a
  reference to a home directory, and it has no NUL byte.\<close>

theorem host_paths_contained:
  assumes "host_resolve p raw = Inr path"
  shows "contained_path (hp_fs_relative_workspace p) path"
  by (rule host_resolve_contained [OF assms])

theorem host_paths_contained_witness:
  "contained_path ''ws'' ''ws/src/main.c''
   \<and> host_resolve \<lparr> hp_workspace_backend_root = ''/work/'', hp_fs_relative_workspace = ''ws'',
        hp_home_relative = None, hp_mapping_version = 1 \<rparr> ''/work/./src//main.c'' = Inr ''ws/src/main.c''"
proof -
  let ?p = "\<lparr> hp_workspace_backend_root = ''/work/'', hp_fs_relative_workspace = ''ws'',
        hp_home_relative = None, hp_mapping_version = 1 \<rparr>"
  have run: "host_resolve ?p ''/work/./src//main.c'' = Inr ''ws/src/main.c''"
    by code_simp
  show ?thesis using host_paths_contained [OF run] run by simp
qed

section \<open>Limits\<close>

text \<open>What a policy allows a request to ask for. A command, the one that makes the parent directories of a
  written file included, is limited in its arguments, its time and its output; a file in its size.\<close>

definition command_within :: "HostCapabilityPolicyV1 \<Rightarrow> string list \<Rightarrow> u64 \<Rightarrow> u32 \<Rightarrow> bool" where
  "command_within p argv timeout_ms max_output_bytes \<longleftrightarrow>
     hc_exec p \<and> length argv \<le> hc_max_argv_items p \<and> sum_list (map length argv) \<le> hc_max_argv_bytes p
     \<and> 1 \<le> timeout_ms \<and> timeout_ms \<le> hc_max_timeout_ms p \<and> max_output_bytes = hc_max_output_bytes p"

fun within_limits :: "HostCapabilityPolicyV1 \<Rightarrow> HostCanonicalRequestV1 \<Rightarrow> bool" where
  "within_limits p (CanonicalExec argv cwd timeout_ms max_output_bytes) \<longleftrightarrow>
     command_within p argv timeout_ms max_output_bytes \<and> trim (hd argv) \<noteq> [] \<and> (\<forall>a \<in> set argv. nul \<notin> set a)
     \<and> contained_path (hp_fs_relative_workspace (hc_paths p)) cwd"
| "within_limits p (CanonicalRead path max_bytes) \<longleftrightarrow>
     hc_read p \<and> max_bytes = hc_max_file_bytes p \<and> contained_path (hp_fs_relative_workspace (hc_paths p)) path"
| "within_limits p (CanonicalWrite path written sha max_bytes mkdir) \<longleftrightarrow>
     hc_overwrite p \<and> unat written \<le> unat (hc_max_file_bytes p) \<and> max_bytes = hc_max_file_bytes p
     \<and> contained_path (hp_fs_relative_workspace (hc_paths p)) path
     \<and> (case mkdir of
          None \<Rightarrow> True
        | Some m \<Rightarrow> command_within p (hm_argv m) (hm_timeout_ms m) (hm_max_output_bytes m) \<and> hm_argv m = mkdir_argv path)"

text \<open>The canonical request does what was asked for: the command with its arguments and nothing the canonical form
  could not carry, or the content with its length and digest.\<close>

fun answers :: "(string \<Rightarrow> string) \<Rightarrow> JointHostRequest \<Rightarrow> HostCanonicalRequestV1 \<Rightarrow> bool" where
  "answers digest (HostExecRequest request required) (CanonicalExec argv cwd timeout_ms max_output_bytes) \<longleftrightarrow>
     argv = exq_command request # exq_args request \<and> (exq_env request = None \<or> exq_env request = Some [])
     \<and> exq_extra request = None \<and> exq_shell request = None
     \<and> (exq_timeout_ms request = None \<or> exq_timeout_ms request = Some timeout_ms)
     \<and> (required = None \<or> the required \<le> max_output_bytes)"
| "answers digest (HostReadRequest path) (CanonicalRead resolved max_bytes) \<longleftrightarrow> True"
| "answers digest (HostWriteRequest path content mode create_parents) (CanonicalWrite resolved written sha max_bytes mkdir) \<longleftrightarrow>
     mode = Overwrite \<and> unat written = length content \<and> sha = digest content \<and> (mkdir \<noteq> None \<longleftrightarrow> create_parents)"
| "answers digest _ _ \<longleftrightarrow> False"

lemma unat_ucast_32 [simp]: "unat (ucast (x :: u32) :: u64) = unat x"
proof -
  have "unat x < 2 ^ 32" using unsigned_less [of x] by simp
  then show ?thesis by (simp add: unsigned_ucast_eq take_bit_nat_eq_self_iff)
qed

definition policy_bounds :: "HostCapabilityPolicyV1 \<Rightarrow> bool" where
  "policy_bounds p \<longleftrightarrow>
     hc_max_timeout_ms p \<le> 300000 \<and> hc_max_output_bytes p \<le> 65536 \<and> hc_max_argv_items p \<le> 256
     \<and> hc_max_argv_bytes p \<le> 32768 \<and> hc_max_file_bytes p \<le> 67108864"

lemma validate_host_policy_bounds: "validate_host_policy p = Inr () \<Longrightarrow> policy_bounds p"
  by (auto simp: validate_host_policy_def policy_bounds_def split: if_splits)

lemma preflight_exec_within:
  assumes "preflight_exec p request n = Inr c"
  shows "within_limits p c \<and> answers digest (HostExecRequest request n) c"
proof -
  let ?argv = "exq_command request # exq_args request"
  let ?timeout = "case exq_timeout_ms request of None \<Rightarrow> 30000 | Some t \<Rightarrow> t"
  from assms obtain cwd where cwd: "host_resolve (hc_paths p) (case exq_cwd request of None \<Rightarrow> [] | Some c \<Rightarrow> c) = Inr cwd"
      and c: "c = CanonicalExec ?argv cwd ?timeout (hc_max_output_bytes p)"
      and plain: "hc_exec p" "exq_env request = None \<or> exq_env request = Some []" "exq_extra request = None"
        "exq_shell request = None" "n = None \<or> the n \<le> hc_max_output_bytes p"
      and checks: "trim (exq_command request) \<noteq> []" "\<forall>a \<in> set ?argv. nul \<notin> set a" "length ?argv \<le> hc_max_argv_items p"
        "sum_list (map length ?argv) \<le> hc_max_argv_bytes p" "1 \<le> ?timeout" "?timeout \<le> hc_max_timeout_ms p"
    by (auto simp: preflight_exec_def Let_def not_less split: if_splits sum.splits option.splits)
  from host_resolve_contained [OF cwd] plain checks show ?thesis
    unfolding c by (auto simp: command_within_def split: option.splits)
qed

lemma preflight_write_within:
  assumes "preflight_write digest p path content create_parents = Inr c" and "hc_overwrite p"
  shows "within_limits p c \<and> answers digest (HostWriteRequest path content Overwrite create_parents) c"
proof -
  from assms(1) obtain path' where path: "host_resolve (hc_paths p) path = Inr path'"
      and c: "c = CanonicalWrite path' (word_of_nat (length content)) (digest content) (hc_max_file_bytes p)
        (if create_parents
         then Some \<lparr> hm_argv = mkdir_argv path', hm_cwd = ''.'', hm_timeout_ms = hc_mkdir_timeout_ms p,
                     hm_max_output_bytes = hc_max_output_bytes p \<rparr>
         else None)"
      and len: "length content \<le> unat (hc_max_file_bytes p)"
      and mkdir: "create_parents \<Longrightarrow> command_within p (mkdir_argv path') (hc_mkdir_timeout_ms p) (hc_max_output_bytes p)"
    by (auto simp: preflight_write_def command_within_def Let_def not_less split: if_splits sum.splits)
  have "unat (hc_max_file_bytes p) < 2 ^ 32" using unsigned_less [of "hc_max_file_bytes p"] by simp
  with len have "unat (word_of_nat (length content) :: u64) = length content"
    by (simp add: unat_of_nat)
  with host_resolve_contained [OF path] len mkdir assms(2) show ?thesis unfolding c by simp
qed

lemma reserved_within:
  assumes "policy_bounds p" and "within_limits p c"
  shows "reserved_bytes c \<le> 67108864"
proof -
  have "unat (hc_max_output_bytes p) \<le> 65536" and "unat (hc_max_file_bytes p) \<le> 67108864"
    using assms(1) by (simp_all add: policy_bounds_def word_le_nat_alt)
  then show ?thesis using assms(2) by (cases c) (simp_all add: command_within_def word_le_nat_alt)
qed


definition sample_paths :: HostPathPolicyV1 where
  "sample_paths =
     \<lparr> hp_workspace_backend_root = ''/work'', hp_fs_relative_workspace = ''ws'',
       hp_home_relative = Some ''ws/home'', hp_mapping_version = 1 \<rparr>"

definition sample_policy :: HostCapabilityPolicyV1 where
  "sample_policy =
     \<lparr> hc_schema_version = 1, hc_configuration_revision = ''r1'', hc_deployment_id = ''d1'',
       hc_backend_release_ref = ''b1'', hc_sdk_fingerprint = ''f1'', hc_frozen_host_config_digest = ''c1'',
       hc_evidence_refs = [''e1''],
       hc_paths = sample_paths,
       hc_exec = True, hc_read = True, hc_overwrite = True, hc_max_timeout_ms = 60000,
       hc_max_output_bytes = 4096, hc_max_argv_items = 16, hc_max_argv_bytes = 1024,
       hc_max_file_bytes = 1048576, hc_max_inflight = 2, hc_max_reserved_bytes = 4194304,
       hc_mkdir_timeout_ms = 5000, hc_exited_settlement_declared = True,
       hc_timeout_settlement_declared = True \<rparr>"


end
