(* ===== verification/Application_State.thy ===== *)
theory Application_State
  imports Instance_Manager Session_Lease Session_Projection Turn_Gate Session_Repository Host_Policy
begin

text \<open>
  The session application (\<open>src/crates/core/src/application.rs\<close>), first part: its collaborators, its
  state, the translation of errors and events between the layers, the choice of the runtime and the
  provider of a session, the counters of open sessions per tenant, and the checks every operation
  starts with.

  The application shares its instance managers, its repository, its turn gate and its lease table with
  other holders of the same references. The state keeps the managers in a store indexed by handles and
  the repository's own state as one component; \<open>sa_world\<close> is what the runtimes, the providers, the
  clocks and the identifier generators act on. An execution owner of joint sessions acts on the world
  and on the repository it is handed. The two mutexes around snapshots order concurrent calls and are
  no part of this sequential state.
\<close>

section \<open>Collaborators\<close>

text \<open>What \<open>prepare_host_operation\<close> hands out, as far as the application reads it.\<close>

record 'x JointHostAccess =
  jh_backend :: "'x OperationBackend"
  jh_write_host :: "JointHostRequest \<Rightarrow> 'x \<Rightarrow> (SessionDomainError, u64) result \<times> 'x"

type_synonym 'x JointTurnFuture = "'x \<Rightarrow> (SessionDomainError, JointTurnTerminal) result \<times> 'x"

record 'x JointTurnSubmission =
  ju_turn_id :: string
  ju_terminal :: "'x JointTurnFuture option"

record 'x JointSessionLifecycle =
  jl_owner_kind :: string
  jl_configuration_revision :: string
  jl_prepare_host_operation ::
    "JointOperationContext \<Rightarrow> SessionRecord \<Rightarrow> JointHostRequest \<Rightarrow> 'x
       \<Rightarrow> (SessionDomainError, 'x JointHostAccess) result \<times> 'x"
  jl_reconcile :: "JointPendingOperation \<Rightarrow> 'x \<Rightarrow> (SessionDomainError, unit) result \<times> 'x"
  jl_open :: "JointOperationContext \<Rightarrow> JointOpenInput \<Rightarrow> 'x \<Rightarrow> (SessionDomainError, SessionRecord) result \<times> 'x"
  jl_submit_turn ::
    "JointOperationContext \<Rightarrow> SessionRecord \<Rightarrow> SessionTurnRequest \<Rightarrow> string \<Rightarrow> 'x
       \<Rightarrow> (SessionDomainError, 'x JointTurnSubmission) result \<times> 'x"
  jl_cancel_turn ::
    "JointOperationContext \<Rightarrow> SessionRecord \<Rightarrow> string option \<Rightarrow> 'x \<Rightarrow> (SessionDomainError, unit) result \<times> 'x"
  jl_checkpoint ::
    "JointOperationContext \<Rightarrow> SessionRecord \<Rightarrow> 'x \<Rightarrow> (SessionDomainError, JointCheckpointRecord) result \<times> 'x"
  jl_load ::
    "JointOperationContext \<Rightarrow> JointCheckpointRecord \<Rightarrow> SessionLoadRequest \<Rightarrow> 'x
       \<Rightarrow> (SessionDomainError, SessionRecord) result \<times> 'x"
  jl_close ::
    "JointOperationContext \<Rightarrow> SessionRecord \<Rightarrow> string option \<Rightarrow> 'x
       \<Rightarrow> (SessionDomainError, SessionRecord) result \<times> 'x"
  jl_ensure_attached :: "SessionRecord \<Rightarrow> 'x \<Rightarrow> (SessionDomainError, unit) result \<times> 'x"
  jl_check_alive :: "SessionRecord \<Rightarrow> 'x \<Rightarrow> (SessionDomainError, bool) result \<times> 'x"
  jl_delete_checkpoint ::
    "JointOperationContext \<Rightarrow> JointCheckpointRecord \<Rightarrow> 'x \<Rightarrow> (SessionDomainError, bool) result \<times> 'x"

type_synonym 'w SessionEnvironmentNormalizer =
  "SecurityContext \<Rightarrow> SessionOpenRequest \<Rightarrow> 'w
     \<Rightarrow> (SessionDomainError, NormalizedSessionEnvironment) result \<times> 'w"

type_synonym 'w manager = "('w, 'w OperationBackend) InstanceManager"

text \<open>The providers of a registration map a provider identifier to the handle of its manager; no
  identifier occurs twice.\<close>

record ('w, 'r) RuntimeRegistration =
  rg_runtime :: "('w, 'w OperationBackend) AgentRuntime"
  rg_providers :: "(string \<times> nat) list"
  rg_environment :: "'w SessionEnvironmentNormalizer"
  rg_joint_lifecycle :: "('w \<times> 'r) JointSessionLifecycle option"

definition new_RuntimeRegistration ::
  "('w, 'w OperationBackend) AgentRuntime \<Rightarrow> (string \<times> nat) list \<Rightarrow> 'w SessionEnvironmentNormalizer
     \<Rightarrow> ('w, 'r) RuntimeRegistration" where
  "new_RuntimeRegistration runtime providers environment =
     \<lparr> rg_runtime = runtime, rg_providers = providers, rg_environment = environment,
       rg_joint_lifecycle = None \<rparr>"

definition with_joint_lifecycle ::
  "('w \<times> 'r) JointSessionLifecycle \<Rightarrow> ('w, 'r) RuntimeRegistration \<Rightarrow> ('w, 'r) RuntimeRegistration" where
  "with_joint_lifecycle joint_owner reg = reg\<lparr>rg_joint_lifecycle := Some joint_owner\<rparr>"

section \<open>State\<close>

record ('w, 'r) SessionApplication =
  sa_runtimes :: "string \<rightharpoonup> ('w, 'r) RuntimeRegistration"
  sa_default_runtime_kind :: string
  sa_records :: "'r SessionRepository"
  sa_turn_ids :: "'w \<Rightarrow> string \<times> 'w"
  sa_runtime_ids :: "'w \<Rightarrow> string \<times> 'w"
  sa_clock :: "'w \<Rightarrow> u64 \<times> 'w"
  sa_lease_clock :: "'w \<Rightarrow> u64 option \<times> 'w"
  sa_lease_table :: "SessionLeaseTable option"
  sa_turn_gate :: TurnGate
  sa_tenant_sessions :: "string \<rightharpoonup> nat"
  sa_managers :: "nat \<Rightarrow> 'w manager"
  sa_repo :: 'r
  sa_world :: 'w

type_synonym ('a, 'w, 'r) outcome =
  "(SessionDomainError, 'a) result \<times> ('w, 'r) SessionApplication"

text \<open>The parts of the environment an application is built from.\<close>

record ('w, 'r) Assembly =
  as_records :: "'r SessionRepository"
  as_turn_ids :: "'w \<Rightarrow> string \<times> 'w"
  as_runtime_ids :: "'w \<Rightarrow> string \<times> 'w"
  as_clock :: "'w \<Rightarrow> u64 \<times> 'w"
  as_lease_clock :: "'w \<Rightarrow> u64 option \<times> 'w"
  as_managers :: "nat \<Rightarrow> 'w manager"
  as_repo :: 'r
  as_world :: 'w

fun register_runtimes ::
  "('w, 'r) RuntimeRegistration list \<Rightarrow> (string \<rightharpoonup> ('w, 'r) RuntimeRegistration)
     \<Rightarrow> (SessionDomainError, string \<rightharpoonup> ('w, 'r) RuntimeRegistration) result" where
  "register_runtimes [] runtimes = Inr runtimes"
| "register_runtimes (reg # regs) runtimes =
     (let kind = trim (ar_runtime_kind (rg_runtime reg))
      in if kind = [] then Inl (DomInvalidRequest ''runtime kind must not be empty'')
         else if runtimes kind \<noteq> None then Inl (DomInvalidRequest (''duplicate runtime kind: '' @ kind))
         else register_runtimes regs (runtimes(kind \<mapsto> reg)))"

definition with_runtime_registry ::
  "string \<Rightarrow> ('w, 'r) RuntimeRegistration list \<Rightarrow> ('w, 'r) Assembly
     \<Rightarrow> (SessionDomainError, ('w, 'r) SessionApplication) result" where
  "with_runtime_registry default_kind regs parts =
     (case register_runtimes regs Map.empty of
        Inl e \<Rightarrow> Inl e
      | Inr runtimes \<Rightarrow>
          if runtimes default_kind = None
          then Inl (DomInvalidRequest (''default runtime kind '' @ quoted default_kind @ '' is not registered''))
          else Inr \<lparr> sa_runtimes = runtimes, sa_default_runtime_kind = default_kind,
                 sa_records = as_records parts, sa_turn_ids = as_turn_ids parts,
                 sa_runtime_ids = as_runtime_ids parts, sa_clock = as_clock parts,
                 sa_lease_clock = as_lease_clock parts, sa_lease_table = None,
                 sa_turn_gate = default_TurnGate, sa_tenant_sessions = Map.empty,
                 sa_managers = as_managers parts, sa_repo = as_repo parts, sa_world = as_world parts \<rparr>)"

definition new_SessionApplication ::
  "('w, 'r) RuntimeRegistration \<Rightarrow> ('w, 'r) Assembly \<Rightarrow> (SessionDomainError, ('w, 'r) SessionApplication) result" where
  "new_SessionApplication reg parts =
     with_runtime_registry (ar_runtime_kind (rg_runtime reg)) [reg] parts"

definition with_lease_table ::
  "SessionLeaseTable \<Rightarrow> ('w, 'r) SessionApplication \<Rightarrow> ('w, 'r) SessionApplication" where
  "with_lease_table table s = s\<lparr>sa_lease_table := Some table\<rparr>"

section \<open>Calls\<close>

definition call_ambient ::
  "('w \<Rightarrow> 'a \<times> 'w) \<Rightarrow> ('w, 'r) SessionApplication \<Rightarrow> 'a \<times> ('w, 'r) SessionApplication" where
  "call_ambient f s = (let (a, w) = f (sa_world s) in (a, s\<lparr>sa_world := w\<rparr>))"

definition call_repo ::
  "('r \<Rightarrow> 'a \<times> 'r) \<Rightarrow> ('w, 'r) SessionApplication \<Rightarrow> 'a \<times> ('w, 'r) SessionApplication" where
  "call_repo f s = (let (a, r) = f (sa_repo s) in (a, s\<lparr>sa_repo := r\<rparr>))"

definition call_joint ::
  "('w \<times> 'r \<Rightarrow> 'a \<times> 'w \<times> 'r) \<Rightarrow> ('w, 'r) SessionApplication \<Rightarrow> 'a \<times> ('w, 'r) SessionApplication" where
  "call_joint f s = (let (a, w, r) = f (sa_world s, sa_repo s) in (a, s\<lparr>sa_world := w, sa_repo := r\<rparr>))"

definition call_manager ::
  "nat \<Rightarrow> ('w manager \<Rightarrow> 'a \<times> 'w manager) \<Rightarrow> ('w, 'r) SessionApplication \<Rightarrow> 'a \<times> ('w, 'r) SessionApplication" where
  "call_manager h f s =
     (let (a, mg) = f ((sa_managers s h)\<lparr>im_world := sa_world s\<rparr>)
      in (a, s\<lparr>sa_managers := (sa_managers s)(h := mg), sa_world := im_world mg\<rparr>))"

section \<open>Errors and events between the layers\<close>

fun map_provider_error :: "ProviderControlError \<Rightarrow> SessionDomainError" where
  "map_provider_error (NotFound resource_ref) = DomNotFound resource_ref"
| "map_provider_error (InvalidRequest message) = DomInvalidRequest message"
| "map_provider_error (UnsupportedCapability _ capability) = DomUnsupportedCapability FamSandbox capability"
| "map_provider_error (ResourceLimitExceeded _ _ _ most) =
     DomQuotaExceeded ''provider containers'' (word_of_nat most)"
| "map_provider_error e = DomUnavailable (display_control_error e)"

fun map_runtime_error :: "RuntimeError \<Rightarrow> SessionDomainError" where
  "map_runtime_error (RtInvalidRequest _ message) = DomInvalidRequest message"
| "map_runtime_error (RtNotFound runtime_id) = DomNotFound runtime_id"
| "map_runtime_error (RtConflict _ message) = DomConflict message"
| "map_runtime_error (RtUnsupportedCapability capability) = DomUnsupportedCapability FamRuntime capability"
| "map_runtime_error (RtWorkerUnavailable message _) = DomUnavailable message"
| "map_runtime_error (RtStateCorrupt message) = DomInvalidRequest message"
| "map_runtime_error (RtInternal message) = DomInternal message None"

fun map_operation_error :: "OperationError \<Rightarrow> SessionDomainError" where
  "map_operation_error (OpNotFound path) = DomInvalidRequest (''file or path not found: '' @ path)"
| "map_operation_error (OpUnsupported message) = DomUnsupportedCapability FamSandbox message"
| "map_operation_error (OpTransport message) = DomUnavailable message"
| "map_operation_error e = DomInvalidRequest (display_operation_error e)"

fun lease_check_failure_to_domain_error :: "string \<Rightarrow> LeaseCheckFailure \<Rightarrow> SessionDomainError" where
  "lease_check_failure_to_domain_error runtime_id (LeaseBusyFailure b) =
     DomLeaseConflict runtime_id (Some (lb_holder_client_id b)) (lb_holder_pid b) (lb_holder_hostname b)"
| "lease_check_failure_to_domain_error runtime_id LeaseClockSkew =
     DomUnavailable ''daemon wall clock is before UNIX_EPOCH; lease enforcement is fail-closed''"

fun project_runtime_event :: "string \<Rightarrow> string \<Rightarrow> RuntimeEvent \<Rightarrow> SessionEvent" where
  "project_runtime_event r t (ReOutputDelta stream_id sequence delta) =
     EvOutputDelta r t stream_id sequence delta"
| "project_runtime_event r t (ReToolActivity activity_id phase name status summary ext) =
     EvToolActivity r t activity_id phase name status summary ext"
| "project_runtime_event r t (ReInteractionRequested interaction_id kind prompt options ext) =
     EvInteractionRequested r t interaction_id kind prompt False options ext"
| "project_runtime_event r t (ReCompleted outcome usage) = EvTurnCompleted r t outcome (UsageKnown usage)"
| "project_runtime_event r t (ReFailed error usage) =
     EvTurnFailed r t \<lparr> tf_code = rf_code error, tf_message = rf_message error,
       tf_retryable = rf_retryable error, tf_details = rf_details error \<rparr> (UsageKnown usage)"
| "project_runtime_event r t (ReExtension namespace payload) = EvExtension r (Some t) namespace payload"
| "project_runtime_event r t ReUnknown = EvExtension r (Some t) ''runtime.unknown'' JNull"


section \<open>Runtimes and providers\<close>

definition registration ::
  "('w, 'r) SessionApplication \<Rightarrow> string \<Rightarrow> (SessionDomainError, ('w, 'r) RuntimeRegistration) result" where
  "registration s kind =
     ok_or (sa_runtimes s kind) (DomInvalidRequest (''unknown runtime_kind '' @ quoted kind))"

definition registration_for_record ::
  "('w, 'r) SessionApplication \<Rightarrow> SessionRecord \<Rightarrow> (SessionDomainError, ('w, 'r) RuntimeRegistration) result" where
  "registration_for_record s r = registration s (rs_runtime_kind (sn_runtime r))"

definition provider_id_from_metadata :: "json \<Rightarrow> string option" where
  "provider_id_from_metadata metadata =
     Option.bind (case json_get metadata ''backend_id'' of
                    Some v \<Rightarrow> Some v | None \<Rightarrow> json_get metadata ''tool_backend_id'') as_str"

definition only_provider :: "('w, 'r) RuntimeRegistration \<Rightarrow> string option" where
  "only_provider reg = (case rg_providers reg of [(provider_id, _)] \<Rightarrow> Some provider_id | _ \<Rightarrow> None)"

definition registered_provider ::
  "('w, 'r) RuntimeRegistration \<Rightarrow> string \<Rightarrow> (SessionDomainError, string \<times> nat) result" where
  "registered_provider reg provider_id =
     (case map_of (rg_providers reg) provider_id of
        None \<Rightarrow> Inl (DomInvalidRequest (''provider backend_id '' @ quoted provider_id @ '' is not registered''))
      | Some h \<Rightarrow> Inr (provider_id, h))"

fun find_map :: "('a \<Rightarrow> 'b option) \<Rightarrow> 'a list \<Rightarrow> 'b option" where
  "find_map f [] = None"
| "find_map f (x # xs) = (case f x of Some y \<Rightarrow> Some y | None \<Rightarrow> find_map f xs)"

definition provider_for_request ::
  "('w, 'r) RuntimeRegistration \<Rightarrow> SessionOpenRequest \<Rightarrow> (SessionDomainError, string \<times> nat) result" where
  "provider_for_request reg request =
     (case (case find_map (provider_id_from_metadata \<circ> snd) (oq_ext request) of
              Some provider_id \<Rightarrow> Some provider_id | None \<Rightarrow> only_provider reg) of
        None \<Rightarrow> Inl (DomInvalidRequest ''runtime extension must specify backend_id'')
      | Some provider_id \<Rightarrow> registered_provider reg provider_id)"

definition provider_for_isolation ::
  "('w, 'r) RuntimeRegistration \<Rightarrow> IsolationFacts \<Rightarrow> (SessionDomainError, string \<times> nat) result" where
  "provider_for_isolation reg isolation =
     (case (case provider_id_from_metadata (if_metadata isolation) of
              Some provider_id \<Rightarrow> Some provider_id | None \<Rightarrow> only_provider reg) of
        None \<Rightarrow> Inl (DomInternal ''persisted session is missing provider backend_id'' None)
      | Some provider_id \<Rightarrow> registered_provider reg provider_id)"

text \<open>\<open>value[key] = v\<close> on a document known to be an object.\<close>

definition with_field :: "string \<Rightarrow> json \<Rightarrow> json \<Rightarrow> json" where
  "with_field key v j = (case json_set j key v of Some j' \<Rightarrow> j' | None \<Rightarrow> j)"

definition provider_options :: "RuntimeWorkspace \<Rightarrow> IsolationFacts \<Rightarrow> string \<Rightarrow> json" where
  "provider_options workspace isolation provider_id =
     (let options = (case json_get (if_metadata isolation) ''provider_options'' of
                       Some v \<Rightarrow> if is_object v then v else JObj []
                     | None \<Rightarrow> JObj []);
          options = with_field ''workspace_root'' (JStr (rw_root workspace)) options
      in if provider_id = ''e2b'' \<and> json_get options ''allow_internet_access'' = None
         then with_field ''allow_internet_access'' (JBool True) options else options)"

section \<open>Execution owners of joint sessions\<close>

definition joint_owner ::
  "('w, 'r) SessionApplication \<Rightarrow> string \<Rightarrow> JointBinding
     \<Rightarrow> (SessionDomainError, ('w \<times> 'r) JointSessionLifecycle) result" where
  "joint_owner s runtime_kind binding =
     (case validate_binding binding of
        Inl e \<Rightarrow> Inl e
      | Inr _ \<Rightarrow>
          if \<not> sp_supports_joint_transactions (sa_records s) then Inl (unsupported_joint ''durable_repository'')
          else
            (case registration s runtime_kind of
               Inl e \<Rightarrow> Inl e
             | Inr reg \<Rightarrow>
                 (case rg_joint_lifecycle reg of
                    Some found \<Rightarrow>
                      if jl_owner_kind found = jb_owner_kind binding then Inr found
                      else Inl (DomUnavailable ''persisted joint execution owner is unavailable'')
                  | None \<Rightarrow> Inl (DomUnavailable ''persisted joint execution owner is unavailable''))))"

text \<open>The context of an operation on a session bound to an owner; the identifier of the intent is
  drawn from the generator of runtime identifiers.\<close>

definition joint_context ::
  "SecurityContext \<Rightarrow> SessionRecord \<Rightarrow> JointBinding \<Rightarrow> string \<Rightarrow> string option \<Rightarrow> string option
     \<Rightarrow> ('w, 'r) SessionApplication \<Rightarrow> JointOperationContext \<times> ('w, 'r) SessionApplication" where
  "joint_context ctx r binding operation target checkpoint s =
     (let (fresh, s) = call_ambient (sa_runtime_ids s) s
      in ((joint_operation_context ctx (''joint-'' @ fresh) operation (rs_runtime_kind (sn_runtime r))
             (jb_configuration_revision binding) (Some (sn_runtime_id r)) target checkpoint)
            \<lparr>jx_tenant_id := sn_tenant_id r,
             jx_owner_ref := (case sn_tenant_id r of
                                Some t \<Rightarrow> ''tenant/'' @ t | None \<Rightarrow> SECURITY_ADMIN_OWNER_REF)\<rparr>, s))"

definition reject_joint_resource :: "SessionRecord \<Rightarrow> string \<Rightarrow> (SessionDomainError, unit) result" where
  "reject_joint_resource r operation =
     (case joint (sn_execution_backing r) of
        None \<Rightarrow> Inr ()
      | Some binding \<Rightarrow>
          (case validate_binding binding of Inl e \<Rightarrow> Inl e | Inr _ \<Rightarrow> Inl (unsupported_joint operation)))"

section \<open>Open sessions per tenant\<close>

definition tenant_count :: "('w, 'r) SessionApplication \<Rightarrow> string \<Rightarrow> nat" where
  "tenant_count s tenant_id = (case sa_tenant_sessions s tenant_id of None \<Rightarrow> 0 | Some n \<Rightarrow> n)"

definition restore_tenant_session_counts :: "('w, 'r) SessionApplication \<Rightarrow> (unit, 'w, 'r) outcome" where
  "restore_tenant_session_counts s =
     and_then (call_repo (sp_active_session_counts_by_tenant (sa_records s)) s)
       (\<lambda>counts s. (Inr (), s\<lparr>sa_tenant_sessions := counts\<rparr>))"

definition reserve_tenant_session ::
  "string \<Rightarrow> u32 option \<Rightarrow> ('w, 'r) SessionApplication \<Rightarrow> (u32, unit) result \<times> ('w, 'r) SessionApplication" where
  "reserve_tenant_session tenant_id limit s =
     (let current = tenant_count s tenant_id
      in case limit of
           Some n \<Rightarrow>
             if unat n \<le> current then (Inl n, s)
             else (Inr (), s\<lparr>sa_tenant_sessions := (sa_tenant_sessions s)(tenant_id \<mapsto> current + 1)\<rparr>)
         | None \<Rightarrow> (Inr (), s\<lparr>sa_tenant_sessions := (sa_tenant_sessions s)(tenant_id \<mapsto> current + 1)\<rparr>))"

definition release_tenant_session :: "string \<Rightarrow> ('w, 'r) SessionApplication \<Rightarrow> ('w, 'r) SessionApplication" where
  "release_tenant_session tenant_id s =
     (case sa_tenant_sessions s tenant_id of
        None \<Rightarrow> s
      | Some n \<Rightarrow>
          s\<lparr>sa_tenant_sessions :=
             (sa_tenant_sessions s)(tenant_id := (if n - 1 = 0 then None else Some (n - 1)))\<rparr>)"

text \<open>The two calls as \<open>open\<close>, \<open>load\<close> and \<open>fork\<close> make them, which do nothing for a caller without a
  tenant.\<close>

definition reserve_slot :: "SecurityContext \<Rightarrow> ('w, 'r) SessionApplication \<Rightarrow> (unit, 'w, 'r) outcome" where
  "reserve_slot ctx s =
     (case sx_tenant_id ctx of
        None \<Rightarrow> (Inr (), s)
      | Some tenant_id \<Rightarrow>
          map_err (\<lambda>limit. DomQuotaExceeded ''sessions'' limit)
            (reserve_tenant_session tenant_id (tq_max_sessions (sx_quota ctx)) s))"

definition release_slot :: "string option \<Rightarrow> ('w, 'r) SessionApplication \<Rightarrow> ('w, 'r) SessionApplication" where
  "release_slot slot s = (case slot of None \<Rightarrow> s | Some tenant_id \<Rightarrow> release_tenant_session tenant_id s)"

section \<open>Checks\<close>

definition require_non_empty_runtime_id :: "string \<Rightarrow> (SessionDomainError, unit) result" where
  "require_non_empty_runtime_id runtime_id =
     (if runtime_id = [] then Inl (DomInvalidRequest ''runtime_id must not be empty'') else Inr ())"

definition require_session ::
  "SecurityContext \<Rightarrow> string \<Rightarrow> ('w, 'r) SessionApplication \<Rightarrow> (SessionRecord, 'w, 'r) outcome" where
  "require_session ctx runtime_id s =
     and_then (require_non_empty_runtime_id runtime_id, s) (\<lambda>_ s.
     and_then (call_repo (sp_get (sa_records s) runtime_id) s) (\<lambda>found s.
       case found of
         None \<Rightarrow> (Inl (DomNotFound runtime_id), s)
       | Some r \<Rightarrow>
           if \<not> owns ctx (sn_tenant_id r) then (Inl (DomNotFound runtime_id), s) else (Inr r, s)))"

definition check_visible ::
  "SecurityContext \<Rightarrow> string \<Rightarrow> ('w, 'r) SessionApplication \<Rightarrow> (unit, 'w, 'r) outcome" where
  "check_visible ctx runtime_id s = and_then (require_session ctx runtime_id s) (\<lambda>_ s. (Inr (), s))"

definition check_lease_holder ::
  "string \<Rightarrow> SessionLeaseClaim \<Rightarrow> ('w, 'r) SessionApplication \<Rightarrow> (unit, 'w, 'r) outcome" where
  "check_lease_holder runtime_id lease s =
     (case sa_lease_table s of
        None \<Rightarrow> (Inr (), s)
      | Some table \<Rightarrow>
          (let (now, s) = call_ambient (sa_lease_clock s) s
           in map_err (lease_check_failure_to_domain_error runtime_id)
                (check_holder now runtime_id (cl_client_id lease) table, s)))"

text \<open>What a call that only touches the session's lease entry does to the table.\<close>

definition update_leases ::
  "(u64 option \<Rightarrow> SessionLeaseTable \<Rightarrow> SessionLeaseTable) \<Rightarrow> ('w, 'r) SessionApplication
     \<Rightarrow> ('w, 'r) SessionApplication" where
  "update_leases f s =
     (case sa_lease_table s of
        None \<Rightarrow> s
      | Some table \<Rightarrow>
          (let (now, s) = call_ambient (sa_lease_clock s) s in s\<lparr>sa_lease_table := Some (f now table)\<rparr>))"

definition unsupported_runtime_capability :: "string \<Rightarrow> SessionDomainError" where
  "unsupported_runtime_capability capability = DomUnsupportedCapability FamRuntime capability"

text \<open>Claiming the session for an operation, running it, and the guard's release when it ends in
  whatever way.\<close>

definition claim_operation ::
  "string \<Rightarrow> ('w, 'r) SessionApplication \<Rightarrow> (string, 'w, 'r) outcome" where
  "claim_operation runtime_id s =
     (let (turn, s) = call_ambient (sa_turn_ids s) s;
          operation_id = ''operation-'' @ turn
      in case claim runtime_id operation_id (sa_turn_gate s) of
           (Inl active, gate) \<Rightarrow>
             (Inl (DomConflict (''session has an active operation or turn: '' @ active)), s\<lparr>sa_turn_gate := gate\<rparr>)
         | (Inr _, gate) \<Rightarrow> (Inr operation_id, s\<lparr>sa_turn_gate := gate\<rparr>))"

definition release_claim ::
  "string \<Rightarrow> string \<Rightarrow> ('w, 'r) SessionApplication \<Rightarrow> ('w, 'r) SessionApplication" where
  "release_claim runtime_id claim_id s = s\<lparr>sa_turn_gate := release runtime_id claim_id (sa_turn_gate s)\<rparr>"

definition guarded ::
  "string \<Rightarrow> (('w, 'r) SessionApplication \<Rightarrow> ('a, 'w, 'r) outcome) \<Rightarrow> ('w, 'r) SessionApplication
     \<Rightarrow> ('a, 'w, 'r) outcome" where
  "guarded runtime_id body s =
     and_then (claim_operation runtime_id s) (\<lambda>operation_id s.
       let (res, s) = body s in (res, release_claim runtime_id operation_id s))"

section \<open>Admission of workspaces\<close>

definition validate_git_url_hygiene :: "string \<Rightarrow> (SessionDomainError, unit) result" where
  "validate_git_url_hygiene url =
     (case strip_prefix url ''https://'' of
        None \<Rightarrow> Inl (DomInvalidRequest (''git workspace url rejected: ''
                   @ ''only https:// git urls are allowed for tenant sessions''))
      | Some rest \<Rightarrow>
          if CHR ''@'' \<in> set (hd (split_at (CHR ''/'') rest))
          then Inl (DomInvalidRequest (''git workspace url rejected: ''
                  @ ''git urls must not embed credentials (user:password@host)''))
          else Inr ())"

text \<open>The section sign and the dash of the messages, in UTF-8.\<close>

definition section_sign :: string where
  "section_sign = [CHR 0xC2, CHR 0xA7]"

definition em_dash :: string where
  "em_dash = [CHR 0xE2, CHR 0x80, CHR 0x94]"

definition enforce_workspace_axiom ::
  "SecurityContext \<Rightarrow> WorkspaceSpec \<Rightarrow> bool \<Rightarrow> (SessionDomainError, unit) result" where
  "enforce_workspace_axiom ctx workspace provider_is_sandbox =
     (if is_admin ctx then Inr ()
      else
        (case (workspace, provider_is_sandbox) of
           (Git url _ _, True) \<Rightarrow> validate_git_url_hygiene url
         | _ \<Rightarrow> Inl (DomInvalidRequest
                 (''tenant sessions require a sandboxed provider and a git workspace source (see docs/tenancy_design.md ''
                  @ section_sign @ ''0/'' @ section_sign @ ''5.4)''))))"

end
