(* ===== verification/Application_Open.thy ===== *)
theory Application_Open
  imports Application_State
begin

text \<open>
  The session application (\<open>src/crates/core/src/application.rs\<close>), second part: attaching to the
  runtime of a stored session, opening a session, and the listings.
\<close>

section \<open>Calls with translated errors\<close>

definition runtime_call ::
  "('w \<Rightarrow> (RuntimeError, 'a) result \<times> 'w) \<Rightarrow> ('w, 'r) SessionApplication \<Rightarrow> ('a, 'w, 'r) outcome" where
  "runtime_call f s = map_err map_runtime_error (call_ambient f s)"

definition provider_call ::
  "nat \<Rightarrow> ('w manager \<Rightarrow> (ProviderControlError, 'a) result \<times> 'w manager) \<Rightarrow> ('w, 'r) SessionApplication
     \<Rightarrow> ('a, 'w, 'r) outcome" where
  "provider_call h f s = map_err map_provider_error (call_manager h f s)"

definition save_record :: "SessionRecord \<Rightarrow> ('w, 'r) SessionApplication \<Rightarrow> (unit, 'w, 'r) outcome" where
  "save_record r s = call_repo (sp_save (sa_records s) r) s"

definition get_record :: "string \<Rightarrow> ('w, 'r) SessionApplication \<Rightarrow> (SessionRecord option, 'w, 'r) outcome" where
  "get_record runtime_id s = call_repo (sp_get (sa_records s) runtime_id) s"

definition now_ms :: "('w, 'r) SessionApplication \<Rightarrow> u64 \<times> ('w, 'r) SessionApplication" where
  "now_ms s = call_ambient (sa_clock s) s"

definition next_runtime_id :: "('w, 'r) SessionApplication \<Rightarrow> string \<times> ('w, 'r) SessionApplication" where
  "next_runtime_id s = call_ambient (sa_runtime_ids s) s"

text \<open>\<open>let _ = ...\<close>: the result is dropped, its effects stay.\<close>

definition stop_runtime_quietly ::
  "('w, 'r) RuntimeRegistration \<Rightarrow> string \<Rightarrow> ('w, 'r) SessionApplication \<Rightarrow> ('w, 'r) SessionApplication" where
  "stop_runtime_quietly reg runtime_id s = snd (call_ambient (ar_stop (rg_runtime reg) runtime_id) s)"

definition stop_instance_quietly ::
  "nat \<Rightarrow> string \<Rightarrow> ('w, 'r) SessionApplication \<Rightarrow> ('w, 'r) SessionApplication" where
  "stop_instance_quietly h runtime_id s = snd (call_manager h (stop_instance runtime_id) s)"

definition export_runtime_snapshot ::
  "('w, 'r) RuntimeRegistration \<Rightarrow> string \<Rightarrow> ('w, 'r) SessionApplication
     \<Rightarrow> (RuntimeStateSnapshot \<times> ResolvedLlm option, 'w, 'r) outcome" where
  "export_runtime_snapshot reg runtime_id s =
     and_then (runtime_call (ar_export_state (rg_runtime reg) runtime_id) s) (\<lambda>state s.
     and_then (runtime_call (ar_describe_llm (rg_runtime reg) runtime_id) s) (\<lambda>llm s.
       (Inr (state, map_option resolved_llm_from llm), s)))"

section \<open>Attaching to a stored session\<close>

definition mark_restoration_failed ::
  "SessionRecord \<Rightarrow> SessionDomainError \<Rightarrow> ('w, 'r) SessionApplication \<Rightarrow> ('w, 'r) SessionApplication" where
  "mark_restoration_failed r e s =
     (let (now, s) = now_ms s
      in snd (save_record (r\<lparr>sn_status := SsFailed, sn_last_error := Some (display_domain_error e),
                             sn_updated_at_ms := now\<rparr>) s))"

definition restart_request :: "SessionRecord \<Rightarrow> RuntimeStartRequest" where
  "restart_request r =
     \<lparr> sq_runtime_id = sn_runtime_id r, sq_conversation_id = sn_conversation_id r,
       sq_sender_id = sn_sender_id r, sq_workspace = sn_workspace r, sq_state = Some (sn_runtime r),
       sq_llm = None, sq_ext = [] \<rparr>"

text \<open>The runtime has no instance for the session: it is started again from the stored state, if
  there is one.\<close>

definition restart_runtime ::
  "('w, 'r) RuntimeRegistration \<Rightarrow> SessionRecord \<Rightarrow> 'w OperationBackend \<Rightarrow> ('w, 'r) SessionApplication
     \<Rightarrow> (unit, 'w, 'r) outcome" where
  "restart_runtime reg r backend s =
     (if rs_state (sn_runtime r) = JNull then (Inl (DomNotFound (sn_runtime_id r)), s)
      else
        on_err (runtime_call (ar_start (rg_runtime reg) (restart_request r) backend) s)
          (\<lambda>e s. (Inl e, mark_restoration_failed r e s))
          (\<lambda>_ s.
        on_err (runtime_call (ar_attach (rg_runtime reg) (sn_runtime_id r) backend) s)
          (\<lambda>e s. (Inl e, mark_restoration_failed r e s))
          (\<lambda>_ s.
            if sn_status r = SsRunning then
              (let (now, s) = now_ms s
               in save_record (r\<lparr>sn_status := SsIdle,
                    sn_last_error := Some ''previous turn interrupted by service restart; tool effects were not replayed or rolled back'',
                    sn_updated_at_ms := now\<rparr>) s)
            else (Inr (), s))))"

definition reattach_runtime ::
  "('w, 'r) RuntimeRegistration \<Rightarrow> SessionRecord \<Rightarrow> ('w, 'r) SessionApplication \<Rightarrow> (unit, 'w, 'r) outcome" where
  "reattach_runtime reg r s =
     and_then (provider_for_isolation reg (sn_isolation r), s) (\<lambda>(_, h) s.
       case backend_for (sa_managers s h) (sn_runtime_id r) of
         Inl e \<Rightarrow>
           (let error = map_provider_error e
            in if is_dom_unavailable error then (Inl error, s)
               else (Inl error, mark_restoration_failed r error s))
       | Inr backend \<Rightarrow>
           on_err (runtime_call (ar_attach (rg_runtime reg) (sn_runtime_id r) backend) s)
             (\<lambda>e s. if is_dom_not_found e then restart_runtime reg r backend s else (Inl e, s))
             (\<lambda>_ s. (Inr (), s)))"

definition ensure_runtime_attached ::
  "SessionRecord \<Rightarrow> ('w, 'r) SessionApplication \<Rightarrow> (unit, 'w, 'r) outcome" where
  "ensure_runtime_attached r s =
     (case joint (sn_execution_backing r) of
        Some binding \<Rightarrow>
          and_then (joint_owner s (rs_runtime_kind (sn_runtime r)) binding, s) (\<lambda>owner s.
            call_joint (jl_ensure_attached owner r) s)
      | None \<Rightarrow>
          and_then (registration_for_record s r, s) (\<lambda>reg s.
            on_err (runtime_call (ar_check_alive (rg_runtime reg) (sn_runtime_id r)) s)
              (\<lambda>e s. if is_dom_not_found e then reattach_runtime reg r s else (Inl e, s))
              (\<lambda>alive s. if alive then (Inr (), s) else reattach_runtime reg r s)))"

text \<open>Capabilities of sessions stored before their provider had snapshots.\<close>

definition refreshed_capabilities :: "bool \<Rightarrow> EffectiveCapabilities \<Rightarrow> EffectiveCapabilities" where
  "refreshed_capabilities snapshots caps =
     (let sandbox = (if snapshots then insert SbSnapshot (ef_sandbox caps) else ef_sandbox caps - {SbSnapshot})
      in caps\<lparr>ef_sandbox := sandbox,
              ef_runtime :=
                (if SbSnapshot \<in> sandbox \<and> DcStateExport \<in> ef_runtime caps
                 then ef_runtime caps \<union> {DcCheckpoint, DcFork}
                 else ef_runtime caps - {DcCheckpoint, DcFork})\<rparr>)"

definition refresh_docker_snapshot_capabilities ::
  "SessionRecord \<Rightarrow> ('w, 'r) SessionApplication \<Rightarrow> (SessionRecord, 'w, 'r) outcome" where
  "refresh_docker_snapshot_capabilities r s =
     (if joint (sn_execution_backing r) \<noteq> None
         \<or> provider_id_from_metadata (if_metadata (sn_isolation r)) \<noteq> Some ''docker''
      then (Inr r, s)
      else
        and_then (registration_for_record s r, s) (\<lambda>reg s.
        and_then (provider_for_isolation reg (sn_isolation r), s) (\<lambda>(_, h) s.
        and_then (provider_call h (inspect_instance (sn_runtime_id r)) s) (\<lambda>status s.
          let r = r\<lparr>sn_capabilities := refreshed_capabilities
                      (CapSnapshot \<in> set (pc_lifecycle (st_capabilities status))) (sn_capabilities r)\<rparr>
          in and_then (save_record r s) (\<lambda>_ s. (Inr r, s))))))"

section \<open>Opening a session\<close>

definition open_existing ::
  "SecurityContext \<Rightarrow> SessionOpenRequest \<Rightarrow> string \<Rightarrow> SessionRecord \<Rightarrow> ('w, 'r) SessionApplication
     \<Rightarrow> (SessionOpenResponse, 'w, 'r) outcome" where
  "open_existing ctx request runtime_id r s =
     (if \<not> owns ctx (sn_tenant_id r) then (Inl (DomNotFound runtime_id), s)
      else if (case oq_runtime_kind request of None \<Rightarrow> False | Some k \<Rightarrow> k \<noteq> rs_runtime_kind (sn_runtime r))
      then (Inl (DomConflict (''session runtime_kind is '' @ quoted (rs_runtime_kind (sn_runtime r))
              @ '', not requested '' @ quoted (case oq_runtime_kind request of None \<Rightarrow> [] | Some k \<Rightarrow> k))), s)
      else
        and_then (ensure_runtime_attached r s) (\<lambda>_ s.
          (Inr (project_session
             (if sn_status r = SsRunning \<and> joint (sn_execution_backing r) = None
              then r\<lparr>sn_status := SsIdle\<rparr> else r)), s)))"

text \<open>The options a request passes to the provider replace those of the normalized environment.\<close>

definition adopt_provider_options ::
  "SessionOpenRequest \<Rightarrow> NormalizedSessionEnvironment \<Rightarrow> (SessionDomainError, NormalizedSessionEnvironment) result" where
  "adopt_provider_options request n =
     (case json_get (dp_options (oq_deployment request)) ''provider_options'' of
        None \<Rightarrow> Inr n
      | Some options \<Rightarrow>
          if \<not> is_object options
          then Inl (DomInvalidRequest ''deployment.options.provider_options must be an object'')
          else
            let metadata = if_metadata (ne_isolation n);
                metadata = (if is_object metadata then metadata else JObj [])
            in Inr (n\<lparr>ne_isolation := (ne_isolation n)
                      \<lparr>if_metadata := with_field ''provider_options'' options metadata\<rparr>\<rparr>))"

definition fail_closed_gate ::
  "SecurityContext \<Rightarrow> SessionOpenRequest \<Rightarrow> NormalizedSessionEnvironment \<Rightarrow> (SessionDomainError, unit) result" where
  "fail_closed_gate ctx request n =
     (if is_admin ctx then Inr ()
      else if if_boundary (ne_isolation n) = Host
      then Inl (DomInvalidRequest (''fail-closed: non-admin session normalized to a host isolation boundary ''
             @ em_dash @ '' refusing to start (docs/tenancy_design.md '' @ section_sign @ ''0)''))
      else (case oq_workspace request of
              LocalPath _ \<Rightarrow>
                Inl (DomInvalidRequest (''fail-closed: non-admin session requested a local-path workspace ''
                  @ em_dash @ '' refusing to start (docs/tenancy_design.md '' @ section_sign @ ''0)''))
            | _ \<Rightarrow> Inr ()))"

definition runtime_wire_capabilities ::
  "AgentRuntimeCapability set \<Rightarrow> SandboxCapability set \<Rightarrow> SessionRuntimeCapability set" where
  "runtime_wire_capabilities offered sandbox =
     (let wire = Option.these (runtime_capability ` offered)
      in if SbSnapshot \<in> sandbox \<and> WStateExport \<in> wire then wire \<union> {WCheckpoint, WFork} else wire)"

definition check_requested_capabilities ::
  "SessionCapabilityRequest \<Rightarrow> SandboxCapability set \<Rightarrow> SessionRuntimeCapability set
     \<Rightarrow> (SessionDomainError, unit) result" where
  "check_requested_capabilities wanted sandbox wire =
     (case find (\<lambda>c. c \<in> cq_sandbox wanted \<and> domain_sandbox_capability c \<notin> sandbox) all_sandbox_capabilities of
        Some c \<Rightarrow> Inl (DomUnsupportedCapability FamSandbox (sandbox_capability_name c))
      | None \<Rightarrow>
          (case find (\<lambda>c. c \<in> cq_runtime wanted \<and> c \<notin> wire) all_runtime_capabilities of
             Some c \<Rightarrow> Inl (DomUnsupportedCapability FamRuntime (runtime_capability_name c))
           | None \<Rightarrow> Inr ()))"

definition effective_capabilities ::
  "NormalizedSessionEnvironment \<Rightarrow> SessionRuntimeCapability set \<Rightarrow> EffectiveCapabilities" where
  "effective_capabilities n wire =
     \<lparr> ef_sandbox = ne_sandbox_capabilities n, ef_runtime = Option.these (domain_runtime_capability ` wire) \<rparr>"

definition open_start_request ::
  "string \<Rightarrow> SessionOpenRequest \<Rightarrow> NormalizedSessionEnvironment \<Rightarrow> RuntimeStartRequest" where
  "open_start_request runtime_id request n =
     \<lparr> sq_runtime_id = runtime_id, sq_conversation_id = oq_conversation_id request,
       sq_sender_id = oq_sender_id request, sq_workspace = ne_workspace n, sq_state = None,
       sq_llm = oq_llm request, sq_ext = oq_ext request \<rparr>"

definition open_joint ::
  "SecurityContext \<Rightarrow> SessionOpenRequest \<Rightarrow> string \<Rightarrow> string \<Rightarrow> ('w, 'r) RuntimeRegistration
     \<Rightarrow> ('w \<times> 'r) JointSessionLifecycle \<Rightarrow> NormalizedSessionEnvironment \<Rightarrow> SessionRuntimeCapability set
     \<Rightarrow> ('w, 'r) SessionApplication \<Rightarrow> (SessionOpenResponse, 'w, 'r) outcome" where
  "open_joint ctx request runtime_id runtime_kind reg owner n wire s =
     and_then (ensure_that (sp_supports_joint_transactions (sa_records s))
                 (unsupported_joint ''durable_repository'') s) (\<lambda>_ s.
     and_then (validate_binding \<lparr> jb_owner_kind = jl_owner_kind owner, jb_binding_id = runtime_id,
                 jb_configuration_revision = jl_configuration_revision owner \<rparr>, s) (\<lambda>_ s.
     and_then (runtime_call (ar_probe_llm (rg_runtime reg) (open_start_request runtime_id request n)) s) (\<lambda>_ s.
       let (fresh, s) = next_runtime_id s;
           context = joint_operation_context ctx (''joint-'' @ fresh) ''open'' runtime_kind
                       (jl_configuration_revision owner) None (Some runtime_id) None
       in and_then (call_joint (jl_open owner context
                     \<lparr> ji_request = request, ji_normalized = n, ji_capabilities = effective_capabilities n wire \<rparr>) s)
          (\<lambda>r s.
          and_then (validate_committed_session r context (jl_owner_kind owner), s) (\<lambda>_ s.
            if sn_workspace r \<noteq> ne_workspace n \<or> sn_isolation r \<noteq> ne_isolation n
            then (Inl (unsupported_joint ''normalization_mismatch''), s)
            else
              and_then (get_record (sn_runtime_id r) s) (\<lambda>found s.
                if found \<noteq> Some r then (Inl (unsupported_joint ''uncommitted_publication''), s)
                else (Inr (project_session r), s)))))))"

definition opened_record ::
  "SecurityContext \<Rightarrow> SessionOpenRequest \<Rightarrow> string \<Rightarrow> u64 \<Rightarrow> NormalizedSessionEnvironment
     \<Rightarrow> SessionRuntimeCapability set \<Rightarrow> RuntimeStateSnapshot \<Rightarrow> ResolvedLlm option \<Rightarrow> SessionRecord" where
  "opened_record ctx request runtime_id now n wire state llm =
     \<lparr> sn_execution_backing = SplitV1, sn_runtime_id = runtime_id,
       sn_conversation_id = oq_conversation_id request, sn_sender_id = oq_sender_id request,
       sn_status = SsIdle, sn_created_at_ms = now, sn_updated_at_ms = now,
       sn_workspace = ne_workspace n, sn_isolation = ne_isolation n,
       sn_capabilities = effective_capabilities n wire, sn_runtime = state,
       sn_llm = (case llm of None \<Rightarrow> ne_llm n | Some l \<Rightarrow> Some l), sn_lease = ne_lease n,
       sn_lineage = None, sn_last_error = None, sn_tenant_id = sx_tenant_id ctx,
       sn_created_by = sx_principal ctx \<rparr>"

text \<open>The state of a session whose runtime cannot export any.\<close>

definition export_or_blank ::
  "('w, 'r) RuntimeRegistration \<Rightarrow> string \<Rightarrow> ('w, 'r) SessionApplication
     \<Rightarrow> (RuntimeStateSnapshot \<times> ResolvedLlm option, 'w, 'r) outcome" where
  "export_or_blank reg runtime_id s =
     on_err (export_runtime_snapshot reg runtime_id s)
       (\<lambda>e s. if is_dom_unsupported e
              then (Inr (\<lparr> rs_runtime_kind = ar_runtime_kind (rg_runtime reg), rs_schema_version = 1,
                            rs_state = JNull \<rparr>, None), s)
              else (Inl e, s))
       (\<lambda>exported s. (Inr exported, s))"

text \<open>From the started instance on: starting the runtime in it, exporting its state and publishing the
  record, each with the cleanup of what was already done.\<close>

definition open_started ::
  "SecurityContext \<Rightarrow> SessionOpenRequest \<Rightarrow> string \<Rightarrow> ('w, 'r) RuntimeRegistration \<Rightarrow> NormalizedSessionEnvironment
     \<Rightarrow> SessionRuntimeCapability set \<Rightarrow> u64 \<Rightarrow> nat \<Rightarrow> 'w OperationBackend \<Rightarrow> ('w, 'r) SessionApplication
     \<Rightarrow> (SessionOpenResponse, 'w, 'r) outcome" where
  "open_started ctx request runtime_id reg n wire now h backend s =
     on_err (runtime_call (ar_start (rg_runtime reg) (open_start_request runtime_id request n) backend) s)
       (\<lambda>e s. (Inl e, release_slot (sx_tenant_id ctx) (stop_instance_quietly h runtime_id s)))
       (\<lambda>_ s.
     on_err (export_or_blank reg runtime_id s)
       (\<lambda>e s. (Inl e, release_slot (sx_tenant_id ctx)
                 (stop_instance_quietly h runtime_id (stop_runtime_quietly reg runtime_id s))))
       (\<lambda>(state, llm) s.
         let r = opened_record ctx request runtime_id now n wire state llm
         in on_err (save_record r s)
              (\<lambda>e s. (Inl e, release_slot (sx_tenant_id ctx)
                        (stop_instance_quietly h runtime_id (stop_runtime_quietly reg runtime_id s))))
              (\<lambda>_ s. (Inr (project_session r),
                       update_leases (\<lambda>clock. ensure_unclaimed clock runtime_id) s))))"

definition open_split ::
  "SecurityContext \<Rightarrow> SessionOpenRequest \<Rightarrow> string \<Rightarrow> ('w, 'r) RuntimeRegistration \<Rightarrow> NormalizedSessionEnvironment
     \<Rightarrow> SessionRuntimeCapability set \<Rightarrow> ('w, 'r) SessionApplication \<Rightarrow> (SessionOpenResponse, 'w, 'r) outcome" where
  "open_split ctx request runtime_id reg n wire s =
     and_then (reserve_slot ctx s) (\<lambda>_ s.
     on_err (runtime_call (ar_probe_llm (rg_runtime reg) (open_start_request runtime_id request n)) s)
       (\<lambda>e s. (Inl e, release_slot (sx_tenant_id ctx) s))
       (\<lambda>_ s.
         let (now, s) = now_ms s
         in and_then (provider_for_request reg request, s) (\<lambda>(provider_id, h) s.
            on_err (provider_call h (start_instance runtime_id provider_id (owner_ref ctx)
                      (provider_options (ne_workspace n) (ne_isolation n) provider_id)
                      (sandbox_limit (sx_quota ctx) provider_id)) s)
              (\<lambda>e s. (Inl e, release_slot (sx_tenant_id ctx) s))
              (\<lambda>backend s. open_started ctx request runtime_id reg n wire now h backend s))))"

definition open_new ::
  "SecurityContext \<Rightarrow> SessionOpenRequest \<Rightarrow> string \<Rightarrow> ('w, 'r) SessionApplication
     \<Rightarrow> (SessionOpenResponse, 'w, 'r) outcome" where
  "open_new ctx request runtime_id s =
     (let runtime_kind = (case oq_runtime_kind request of Some k \<Rightarrow> k | None \<Rightarrow> sa_default_runtime_kind s)
      in and_then (registration s runtime_kind, s) (\<lambda>reg s.
         and_then (map_err map_runtime_error (ar_validate_llm_config (rg_runtime reg) (oq_llm request), s)) (\<lambda>_ s.
         and_then (call_ambient (rg_environment reg ctx request) s) (\<lambda>n s.
         and_then (adopt_provider_options request n, s) (\<lambda>n s.
         and_then (fail_closed_gate ctx request n, s) (\<lambda>_ s.
           let wire = runtime_wire_capabilities (ar_capabilities_for_context (rg_runtime reg) (oq_ext request))
                        (ne_sandbox_capabilities n)
           in and_then (check_requested_capabilities (oq_requested_capabilities request)
                          (ne_sandbox_capabilities n) wire, s) (\<lambda>_ s.
              case rg_joint_lifecycle reg of
                Some owner \<Rightarrow> open_joint ctx request runtime_id runtime_kind reg owner n wire s
              | None \<Rightarrow> open_split ctx request runtime_id reg n wire s)))))))"

definition open_impl ::
  "SecurityContext \<Rightarrow> SessionOpenRequest \<Rightarrow> ('w, 'r) SessionApplication \<Rightarrow> (SessionOpenResponse, 'w, 'r) outcome" where
  "open_impl ctx request s =
     (let (runtime_id, s) = (case oq_runtime_id request of
                               Some i \<Rightarrow> (i, s) | None \<Rightarrow> next_runtime_id s)
      in and_then (require_non_empty_runtime_id runtime_id, s) (\<lambda>_ s.
         and_then (get_record runtime_id s) (\<lambda>found s.
           case found of
             Some r \<Rightarrow> open_existing ctx request runtime_id r s
           | None \<Rightarrow> open_new ctx request runtime_id s)))"

section \<open>Listings\<close>

definition list_sessions_impl ::
  "SecurityContext \<Rightarrow> nat \<Rightarrow> ('w, 'r) SessionApplication \<Rightarrow> (SessionListResponse, 'w, 'r) outcome" where
  "list_sessions_impl ctx limit s =
     and_then (call_repo (sp_list_active (sa_records s) (sx_tenant_id ctx) limit) s) (\<lambda>page s.
       (Inr \<lparr> ls_sessions = map project_session_summary (lp_sessions page),
              ls_has_more = length (lp_sessions page) < unat (lp_total_active page),
              ls_quota = \<lparr> qs_max_sessions = tq_max_sessions (sx_quota ctx),
                           qs_max_sandboxes = tq_max_sandboxes (sx_quota ctx),
                           qs_active_sessions = lp_total_active page,
                           qs_max_requests_per_minute = tq_max_requests_per_minute (sx_quota ctx) \<rparr> \<rparr>, s))"

definition tenant_has_active_sessions ::
  "string \<Rightarrow> ('w, 'r) SessionApplication \<Rightarrow> (bool, 'w, 'r) outcome" where
  "tenant_has_active_sessions tenant_id s =
     and_then (call_repo (sp_list_active (sa_records s) (Some tenant_id) 1) s) (\<lambda>page s.
       (Inr (0 < lp_total_active page), s))"

definition list_active_sessions_for_reclaim_sweep ::
  "nat \<Rightarrow> ('w, 'r) SessionApplication \<Rightarrow> (SessionListPage, 'w, 'r) outcome" where
  "list_active_sessions_for_reclaim_sweep limit s = call_repo (sp_list_active (sa_records s) None limit) s"

end
