(* ===== verification/Application_Control.thy ===== *)
theory Application_Control
  imports Application_Open
begin

text \<open>
  The session application (\<open>src/crates/core/src/application.rs\<close>), third part: turns with the task
  that forwards their events, interactions, cancellation, heartbeats, and the end of a session.
\<close>

section \<open>Turns\<close>

text \<open>What a submission leaves to its background task: the events the runtime will send, or the owner's
  future of a joint turn. A replayed submission has no task.\<close>

datatype ('w, 'r) TurnTask =
    ForwardTask "('w, 'r) RuntimeRegistration" "RuntimeEvent list"
  | JointTask "('w \<times> 'r) JointTurnFuture"

record ('w, 'r) SessionSubmission =
  sb_receipt :: SessionSubmitReceipt
  sb_task :: "('w, 'r) TurnTask option"

definition turn_receipt :: "string \<Rightarrow> string \<Rightarrow> SessionSubmitReceipt" where
  "turn_receipt runtime_id turn_id =
     \<lparr> sr_runtime_id = runtime_id, sr_turn_id = turn_id, sr_accepted_kind = AcceptedTurn \<rparr>"

definition runtime_turn_request :: "SessionTurnRequest \<Rightarrow> string \<Rightarrow> RuntimeTurnRequest" where
  "runtime_turn_request request turn_id =
     \<lparr> rt_runtime_id = tq_runtime_id request, rt_turn_id = turn_id, rt_text = tq_text request,
       rt_entry = \<lparr> en_kind = ec_entry_kind (tq_entry request), en_instance_id = ec_instance_id (tq_entry request),
                    en_message_id = ec_message_id (tq_entry request),
                    en_reply_to_message_id = ec_reply_to_message_id (tq_entry request) \<rparr>,
       rt_llm = tq_llm request, rt_reasoning_effort = tq_reasoning_effort request, rt_ext = tq_ext request \<rparr>"

definition submit_joint_turn ::
  "SecurityContext \<Rightarrow> SessionRecord \<Rightarrow> JointBinding \<Rightarrow> SessionTurnRequest \<Rightarrow> ('w, 'r) SessionApplication
     \<Rightarrow> (('w, 'r) SessionSubmission, 'w, 'r) outcome" where
  "submit_joint_turn ctx r binding request s =
     and_then (check_lease_holder (sn_runtime_id r) (tq_lease request) s) (\<lambda>_ s.
     and_then (joint_owner s (rs_runtime_kind (sn_runtime r)) binding, s) (\<lambda>owner s.
       let (context, s) = joint_context ctx r binding ''turn'' None None s;
           (turn_id, s) = call_ambient (sa_turn_ids s) s
       in and_then (call_joint (jl_submit_turn owner context r request turn_id) s) (\<lambda>submitted s.
            let receipt = turn_receipt (sn_runtime_id r) (ju_turn_id submitted)
            in case ju_terminal submitted of
                 None \<Rightarrow> (Inr \<lparr> sb_receipt = receipt, sb_task = None \<rparr>, s)
               | Some terminal \<Rightarrow>
                   (Inr \<lparr> sb_receipt = receipt, sb_task = Some (JointTask terminal) \<rparr>,
                    s\<lparr>sa_turn_gate := (sa_turn_gate s)
                        \<lparr>tg_active := (tg_active (sa_turn_gate s))(sn_runtime_id r \<mapsto> ju_turn_id submitted)\<rparr>\<rparr>))))"

text \<open>The claim of the session's turn, the submission to the runtime, and the memory of its receipt.\<close>

definition start_turn ::
  "('w, 'r) RuntimeRegistration \<Rightarrow> SessionTurnRequest \<Rightarrow> ('w, 'r) SessionApplication
     \<Rightarrow> (('w, 'r) SessionSubmission, 'w, 'r) outcome" where
  "start_turn reg request s =
     (let runtime_id = tq_runtime_id request; (turn_id, s) = call_ambient (sa_turn_ids s) s
      in case claim runtime_id turn_id (sa_turn_gate s) of
           (Inl active, gate) \<Rightarrow>
             (Inl (DomConflict (''another turn is active on this session: '' @ active)), s\<lparr>sa_turn_gate := gate\<rparr>)
         | (Inr _, gate) \<Rightarrow>
             on_err (runtime_call (ar_submit_turn (rg_runtime reg) (runtime_turn_request request turn_id))
                       (s\<lparr>sa_turn_gate := gate\<rparr>))
               (\<lambda>e s. (Inl e, release_claim runtime_id turn_id s))
               (\<lambda>events s.
                  (Inr \<lparr> sb_receipt = turn_receipt runtime_id turn_id, sb_task = Some (ForwardTask reg events) \<rparr>,
                   (case tq_client_request_id request of
                      None \<Rightarrow> s
                    | Some request_id \<Rightarrow>
                        s\<lparr>sa_turn_gate := remember_receipt runtime_id request_id turn_id (sa_turn_gate s)\<rparr>))))"

definition submit_turn_impl ::
  "SecurityContext \<Rightarrow> SessionTurnRequest \<Rightarrow> ('w, 'r) SessionApplication
     \<Rightarrow> (('w, 'r) SessionSubmission, 'w, 'r) outcome" where
  "submit_turn_impl ctx request s =
     and_then (require_session ctx (tq_runtime_id request) s) (\<lambda>r s.
       case joint (sn_execution_backing r) of
         Some binding \<Rightarrow> submit_joint_turn ctx r binding request s
       | None \<Rightarrow>
           and_then (registration_for_record s r, s) (\<lambda>reg s.
           and_then (map_err map_runtime_error (ar_validate_llm_config (rg_runtime reg) (tq_llm request), s)) (\<lambda>_ s.
           and_then (ensure_runtime_attached r s) (\<lambda>_ s.
           and_then (check_lease_holder (tq_runtime_id request) (tq_lease request) s) (\<lambda>_ s.
           and_then (ensure_that (tq_llm request = None \<or> DcModelOverride \<in> ef_runtime (sn_capabilities r))
                       (unsupported_runtime_capability ''model_override'') s) (\<lambda>_ s.
           and_then (ensure_that (tq_reasoning_effort request = None
                         \<or> DcReasoningControl \<in> ef_runtime (sn_capabilities r))
                       (unsupported_runtime_capability ''reasoning_control'') s) (\<lambda>_ s.
             case Option.bind (tq_client_request_id request)
                    (\<lambda>request_id. replayed_receipt (tq_runtime_id request) request_id (sa_turn_gate s)) of
               Some turn_id \<Rightarrow>
                 (Inr \<lparr> sb_receipt = turn_receipt (tq_runtime_id request) turn_id, sb_task = None \<rparr>, s)
             | None \<Rightarrow> start_turn reg request s)))))))"

section \<open>Forwarding the events of a turn\<close>

definition status_after :: "RuntimeEvent \<Rightarrow> SessionStatus" where
  "status_after event = (case event of ReCompleted _ _ \<Rightarrow> SsIdle | _ \<Rightarrow> SsFailed)"

text \<open>The durability boundary of a terminal event: the runtime's state and the new status are saved
  before the event is sent.\<close>

definition persist_terminal ::
  "('w, 'r) RuntimeRegistration \<Rightarrow> string \<Rightarrow> RuntimeEvent \<Rightarrow> ('w, 'r) SessionApplication
     \<Rightarrow> (unit, 'w, 'r) outcome" where
  "persist_terminal reg runtime_id event s =
     and_then (on_err (runtime_call (ar_export_state (rg_runtime reg) runtime_id) s)
                 (\<lambda>e s. if is_dom_unsupported e then (Inr None, s) else (Inl e, s))
                 (\<lambda>state s. (Inr (Some state), s))) (\<lambda>state s.
     and_then (get_record runtime_id s) (\<lambda>found s.
     and_then (ok_or found (DomNotFound runtime_id), s) (\<lambda>r s.
       let r = (case state of None \<Rightarrow> r | Some st \<Rightarrow> r\<lparr>sn_runtime := st\<rparr>)
       in and_then (runtime_call (ar_describe_llm (rg_runtime reg) runtime_id) s) (\<lambda>llm s.
          let r = (case llm of None \<Rightarrow> r | Some l \<Rightarrow> r\<lparr>sn_llm := Some (resolved_llm_from l)\<rparr>);
              (now, s) = now_ms s
          in save_record (r\<lparr>sn_status := status_after event, sn_updated_at_ms := now\<rparr>) s))))"

definition persist_failure_event :: "SessionDomainError \<Rightarrow> RuntimeEvent" where
  "persist_failure_event e =
     ReFailed \<lparr> rf_code = ''runtime_state_persist_failed'', rf_message = display_domain_error e,
                rf_retryable = True, rf_details = JNull \<rparr> default_SessionUsage"

text \<open>One event: a terminal one is persisted, replaced by a failure when that fails, and frees the
  session's turn.\<close>

definition settle_event ::
  "('w, 'r) RuntimeRegistration \<Rightarrow> string \<Rightarrow> string \<Rightarrow> RuntimeEvent \<Rightarrow> ('w, 'r) SessionApplication
     \<Rightarrow> RuntimeEvent \<times> ('w, 'r) SessionApplication" where
  "settle_event reg runtime_id turn_id event s =
     (if is_terminal_event event
      then (let (persisted, s) = persist_terminal reg runtime_id event s;
                event = (case persisted of Inl e \<Rightarrow> persist_failure_event e | Inr _ \<Rightarrow> event)
            in (event, release_claim runtime_id turn_id s))
      else (event, s))"

text \<open>The loop over the runtime's events. \<open>deliver k\<close> says whether the subscriber takes the send
  number \<open>k\<close> in time. The result is the sequence of delivered events, whether the loop ended with a
  terminal event, and whether the subscriber was given up.\<close>

fun forward_loop ::
  "('w, 'r) RuntimeRegistration \<Rightarrow> string \<Rightarrow> string \<Rightarrow> (nat \<Rightarrow> bool) \<Rightarrow> nat \<Rightarrow> RuntimeEvent list
     \<Rightarrow> ('w, 'r) SessionApplication \<Rightarrow> (SessionEvent list \<times> bool \<times> bool) \<times> ('w, 'r) SessionApplication" where
  "forward_loop reg runtime_id turn_id deliver k [] s = (([], False, False), s)"
| "forward_loop reg runtime_id turn_id deliver k (event # events) s =
     (let terminal = is_terminal_event event;
          (settled, s) = settle_event reg runtime_id turn_id event s;
          sent = project_runtime_event runtime_id turn_id settled
      in if \<not> deliver k then (([], terminal, True), s)
         else if terminal then (([sent], True, False), s)
         else (let ((later, terminal_seen, abandoned), s) =
                     forward_loop reg runtime_id turn_id deliver (k + 1) events s
               in ((sent # later, terminal_seen, abandoned), s)))"

definition stream_closed_event :: "string \<Rightarrow> string \<Rightarrow> SessionEvent" where
  "stream_closed_event runtime_id turn_id =
     EvTurnFailed runtime_id turn_id
       \<lparr> tf_code = ''event_stream_closed'', tf_message = ''runtime event stream closed before a terminal event'',
         tf_retryable = True, tf_details = JNull \<rparr> (UsageKnown default_SessionUsage)"

definition forward_turn ::
  "('w, 'r) RuntimeRegistration \<Rightarrow> string \<Rightarrow> string \<Rightarrow> (nat \<Rightarrow> bool) \<Rightarrow> RuntimeEvent list
     \<Rightarrow> ('w, 'r) SessionApplication \<Rightarrow> SessionEvent list \<times> ('w, 'r) SessionApplication" where
  "forward_turn reg runtime_id turn_id deliver events s =
     (let ((sent, terminal_seen, abandoned), s) = forward_loop reg runtime_id turn_id deliver 0 events s;
          (sent, s) =
            (if abandoned \<and> \<not> terminal_seen
             then (sent, snd (call_ambient (ar_cancel (rg_runtime reg)
                      \<lparr> cc_runtime_id = runtime_id, cc_turn_id = Some turn_id \<rparr>) s))
             else if \<not> terminal_seen
             then (if deliver (length events) then sent @ [stream_closed_event runtime_id turn_id] else sent, s)
             else (sent, s))
      in (sent, release_claim runtime_id turn_id s))"

text \<open>The task of a joint turn, whose terminal the owner has already made durable.\<close>

definition joint_terminal_events ::
  "string \<Rightarrow> string \<Rightarrow> (SessionDomainError, JointTurnTerminal) result \<Rightarrow> SessionEvent list \<times> SessionEvent" where
  "joint_terminal_events runtime_id turn_id res =
     (case res of
        Inr t \<Rightarrow>
          if tt_cancelled t then ([], EvTurnCompleted runtime_id turn_id OutCancelled UsageUnknown)
          else if tt_failure t = None
          then ((case tt_reply t of None \<Rightarrow> [] | Some delta \<Rightarrow> [EvOutputDelta runtime_id turn_id ''assistant'' 1 delta]),
                EvTurnCompleted runtime_id turn_id OutComplete UsageUnknown)
          else ([], EvTurnFailed runtime_id turn_id
                      \<lparr> tf_code = ''message_failed'',
                        tf_message = (case tt_failure t of None \<Rightarrow> ''Message failed'' | Some m \<Rightarrow> m),
                        tf_retryable = False, tf_details = JNull \<rparr> UsageUnknown)
      | Inl _ \<Rightarrow>
          ([], EvTurnFailed runtime_id turn_id
                 \<lparr> tf_code = ''message_unresolved'',
                   tf_message = ''Message observation unresolved; execution protection retained'',
                   tf_retryable = False, tf_details = JNull \<rparr> UsageUnknown))"

definition forward_joint_turn ::
  "string \<Rightarrow> string \<Rightarrow> (nat \<Rightarrow> bool) \<Rightarrow> ('w \<times> 'r) JointTurnFuture \<Rightarrow> ('w, 'r) SessionApplication
     \<Rightarrow> SessionEvent list \<times> ('w, 'r) SessionApplication" where
  "forward_joint_turn runtime_id turn_id deliver terminal s =
     (let (res, s) = call_joint terminal s;
          (output, event) = joint_terminal_events runtime_id turn_id res
      in ((if deliver 0 then output else []) @ (if deliver (length output) then [event] else []),
          release_claim runtime_id turn_id s))"

section \<open>Interactions and cancellation\<close>

definition answer_interaction_impl ::
  "SecurityContext \<Rightarrow> SessionInteractionRequest \<Rightarrow> ('w, 'r) SessionApplication
     \<Rightarrow> (SessionSubmitReceipt, 'w, 'r) outcome" where
  "answer_interaction_impl ctx request s =
     and_then (require_session ctx (iq_runtime_id request) s) (\<lambda>r s.
     and_then (reject_joint_resource r ''answer_interaction_impl'', s) (\<lambda>_ s.
     and_then (ensure_runtime_attached r s) (\<lambda>_ s.
     and_then (ensure_that (DcInteraction \<in> ef_runtime (sn_capabilities r))
                 (unsupported_runtime_capability ''interaction'') s) (\<lambda>_ s.
     and_then (registration_for_record s r, s) (\<lambda>reg s.
     and_then (runtime_call (ar_answer_interaction (rg_runtime reg)
                 \<lparr> ri_runtime_id = iq_runtime_id request, ri_turn_id = iq_turn_id request,
                   ri_interaction_id = iq_interaction_id request, ri_answer = iq_answer request,
                   ri_ext = iq_ext request \<rparr>) s) (\<lambda>_ s.
       (Inr \<lparr> sr_runtime_id = iq_runtime_id request, sr_turn_id = iq_turn_id request,
              sr_accepted_kind = AcceptedInteraction \<rparr>, s)))))))"

definition cancel_impl ::
  "SecurityContext \<Rightarrow> string \<Rightarrow> string option \<Rightarrow> ('w, 'r) SessionApplication \<Rightarrow> (unit, 'w, 'r) outcome" where
  "cancel_impl ctx runtime_id turn_id s =
     and_then (require_session ctx runtime_id s) (\<lambda>r s.
       case joint (sn_execution_backing r) of
         Some binding \<Rightarrow>
           and_then (joint_owner s (rs_runtime_kind (sn_runtime r)) binding, s) (\<lambda>owner s.
             let (context, s) = joint_context ctx r binding ''cancel'' None None s
             in call_joint (jl_cancel_turn owner context r turn_id) s)
       | None \<Rightarrow>
           and_then (ensure_that (case turn_id of None \<Rightarrow> True
                                  | Some t \<Rightarrow> tg_active (sa_turn_gate s) runtime_id = Some t)
                       (DomNotFound runtime_id) s) (\<lambda>_ s.
           and_then (ensure_runtime_attached r s) (\<lambda>_ s.
           and_then (registration_for_record s r, s) (\<lambda>reg s.
             runtime_call (ar_cancel (rg_runtime reg)
               \<lparr> cc_runtime_id = runtime_id, cc_turn_id = turn_id \<rparr>) s))))"

section \<open>Closing a session\<close>

definition closed_response :: "string \<Rightarrow> u64 \<Rightarrow> SessionControlResponse" where
  "closed_response runtime_id now =
     \<lparr> ct_runtime_id = runtime_id, ct_status = LsClosed, ct_updated_at_ms = now \<rparr>"

definition record_response :: "string \<Rightarrow> SessionRecord \<Rightarrow> SessionControlResponse" where
  "record_response runtime_id r =
     \<lparr> ct_runtime_id = runtime_id, ct_status = project_status (sn_status r),
       ct_updated_at_ms = sn_updated_at_ms r \<rparr>"

text \<open>What is forgotten of a closed session.\<close>

definition forget_closed ::
  "string \<Rightarrow> ('w, 'r) SessionApplication \<Rightarrow> ('w, 'r) SessionApplication" where
  "forget_closed runtime_id s =
     s\<lparr>sa_lease_table := map_option (lease_remove runtime_id) (sa_lease_table s),
       sa_turn_gate := forget_session runtime_id (sa_turn_gate s)\<rparr>"

definition finalize_joint ::
  "SecurityContext \<Rightarrow> SessionRecord \<Rightarrow> JointBinding \<Rightarrow> string \<Rightarrow> string option \<Rightarrow> ('w, 'r) SessionApplication
     \<Rightarrow> (SessionControlResponse, 'w, 'r) outcome" where
  "finalize_joint ctx r binding runtime_id note s =
     and_then (joint_owner s (rs_runtime_kind (sn_runtime r)) binding, s) (\<lambda>owner s.
       let (context, s) = joint_context ctx r binding ''close'' (Some runtime_id) None s
       in and_then (call_joint (jl_close owner context r note) s) (\<lambda>committed s.
          and_then (validate_committed_session committed context (jl_owner_kind owner), s) (\<lambda>_ s.
            if sn_status committed \<noteq> SsClosed then (Inl (unsupported_joint ''uncommitted_close''), s)
            else
              and_then (get_record runtime_id s) (\<lambda>found s.
                if found \<noteq> Some committed then (Inl (unsupported_joint ''uncommitted_close''), s)
                else (Inr (closed_response runtime_id (sn_updated_at_ms committed)), forget_closed runtime_id s)))))"

text \<open>The provider's instance of the session is destroyed when the provider can be told.\<close>

definition destroy_instance_of ::
  "('w, 'r) RuntimeRegistration \<Rightarrow> SessionRecord \<Rightarrow> string \<Rightarrow> ('w, 'r) SessionApplication \<Rightarrow> (unit, 'w, 'r) outcome" where
  "destroy_instance_of reg r runtime_id s =
     (case provider_for_isolation reg (sn_isolation r) of
        Inl _ \<Rightarrow> (Inr (), s)
      | Inr (_, h) \<Rightarrow> provider_call h (destroy_by_runtime_id runtime_id) s)"

definition finalize_split ::
  "SessionRecord \<Rightarrow> string \<Rightarrow> string option \<Rightarrow> ('w, 'r) SessionApplication
     \<Rightarrow> (SessionControlResponse, 'w, 'r) outcome" where
  "finalize_split r runtime_id note s =
     and_then (registration_for_record s r, s) (\<lambda>reg s.
     and_then (on_err (runtime_call (ar_stop (rg_runtime reg) runtime_id) s)
                 (\<lambda>e s. if is_dom_not_found e then (Inr (), s) else (Inl e, s))
                 (\<lambda>_ s. (Inr (), s))) (\<lambda>_ s.
     and_then (destroy_instance_of reg r runtime_id s) (\<lambda>_ s.
       let (now, s) = now_ms s;
           r = r\<lparr>sn_status := SsClosed, sn_updated_at_ms := now,
                 sn_last_error := (if note = None then sn_last_error r else note)\<rparr>
       in and_then (save_record r s) (\<lambda>_ s.
            (Inr (closed_response runtime_id now), release_slot (sn_tenant_id r) (forget_closed runtime_id s))))))"

definition finalize_closed_session ::
  "SecurityContext \<Rightarrow> SessionRecord \<Rightarrow> string \<Rightarrow> string option \<Rightarrow> ('w, 'r) SessionApplication
     \<Rightarrow> (SessionControlResponse, 'w, 'r) outcome" where
  "finalize_closed_session ctx r runtime_id note s =
     (case joint (sn_execution_backing r) of
        Some binding \<Rightarrow> finalize_joint ctx r binding runtime_id note s
      | None \<Rightarrow> finalize_split r runtime_id note s)"

definition close_impl ::
  "SecurityContext \<Rightarrow> string \<Rightarrow> SessionLeaseClaim \<Rightarrow> ('w, 'r) SessionApplication
     \<Rightarrow> (SessionControlResponse, 'w, 'r) outcome" where
  "close_impl ctx runtime_id lease s =
     and_then (get_record runtime_id s) (\<lambda>_ s.
     and_then (require_session ctx runtime_id s) (\<lambda>r s.
     and_then (check_lease_holder runtime_id lease s) (\<lambda>_ s.
       finalize_closed_session ctx r runtime_id None s)))"

definition reclaim_impl ::
  "SecurityContext \<Rightarrow> string \<Rightarrow> ('w, 'r) SessionApplication \<Rightarrow> (SessionControlResponse, 'w, 'r) outcome" where
  "reclaim_impl ctx runtime_id s =
     and_then (require_session ctx runtime_id s) (\<lambda>r s.
       if sn_status r \<in> {SsClosed, SsFailed} then (Inr (record_response runtime_id r), s)
       else finalize_closed_session ctx r runtime_id
              (Some ''provider sandbox no longer exists (idle-timeout expiry)'') s)"

section \<open>Liveness and leases\<close>

fun is_provider_not_found :: "ProviderControlError \<Rightarrow> bool" where
  "is_provider_not_found (NotFound _) = True"
| "is_provider_not_found _ = False"

definition check_alive ::
  "SecurityContext \<Rightarrow> string \<Rightarrow> ('w, 'r) SessionApplication \<Rightarrow> (bool, 'w, 'r) outcome" where
  "check_alive ctx runtime_id s =
     and_then (require_session ctx runtime_id s) (\<lambda>r s.
       case joint (sn_execution_backing r) of
         Some binding \<Rightarrow>
           and_then (joint_owner s (rs_runtime_kind (sn_runtime r)) binding, s) (\<lambda>owner s.
             call_joint (jl_check_alive owner r) s)
       | None \<Rightarrow>
           and_then (registration_for_record s r, s) (\<lambda>reg s.
           and_then (runtime_call (ar_check_alive (rg_runtime reg) runtime_id) s) (\<lambda>runtime_alive s.
           and_then (provider_for_isolation reg (sn_isolation r), s) (\<lambda>(_, h) s.
             on_err (call_manager h (inspect_instance runtime_id) s)
               (\<lambda>e s. if is_provider_not_found e then (Inr False, s) else (Inl (map_provider_error e), s))
               (\<lambda>_ s. (Inr runtime_alive, s))))))"

definition detach_impl ::
  "SecurityContext \<Rightarrow> string \<Rightarrow> SessionLeaseClaim \<Rightarrow> ('w, 'r) SessionApplication
     \<Rightarrow> (SessionControlResponse, 'w, 'r) outcome" where
  "detach_impl ctx runtime_id lease s =
     and_then (require_session ctx runtime_id s) (\<lambda>r s.
       (Inr (record_response runtime_id r),
        (case cl_client_id lease of
           None \<Rightarrow> s
         | Some client_id \<Rightarrow> s\<lparr>sa_lease_table := map_option (detach runtime_id client_id) (sa_lease_table s)\<rparr>)))"

definition heartbeat_impl ::
  "SecurityContext \<Rightarrow> string \<Rightarrow> SessionLeaseClaim \<Rightarrow> ('w, 'r) SessionApplication
     \<Rightarrow> (SessionHeartbeatResponse, 'w, 'r) outcome" where
  "heartbeat_impl ctx runtime_id lease s =
     and_then (require_session ctx runtime_id s) (\<lambda>_ s.
       case sa_lease_table s of
         None \<Rightarrow> (Inr \<lparr> hb_runtime_id = runtime_id, hb_accepted = True, hb_lease_expires_at_ms = None \<rparr>, s)
       | Some table \<Rightarrow>
           and_then (ok_or (cl_client_id lease) (DomLeaseRequired runtime_id), s) (\<lambda>client_id s.
             let (clock, s) = call_ambient (sa_lease_clock s) s;
                 (res, table) = heartbeat clock runtime_id client_id (cl_client_pid lease) (cl_client_hostname lease) table
             in and_then (map_err (lease_check_failure_to_domain_error runtime_id)
                            (res, s\<lparr>sa_lease_table := Some table\<rparr>)) (\<lambda>_ s.
                let (now, s) = now_ms s
                in (Inr \<lparr> hb_runtime_id = runtime_id, hb_accepted = True,
                          hb_lease_expires_at_ms = Some (now + lt_stale_threshold_ms table) \<rparr>, s))))"

end
