(* ===== verification/Utf8_Lossy.thy ===== *)
theory Utf8_Lossy
  imports Gov_Prelude
begin

text \<open>
  \<open>String::from_utf8_lossy\<close> on bytes, as the program applies it to the output of commands and to the
  files it searches: well-formed sequences are kept, and the longest start of every other sequence is
  replaced by the replacement character.
\<close>

definition byte :: "char \<Rightarrow> nat" where
  "byte c = of_char c"

definition in_range :: "nat \<Rightarrow> nat \<Rightarrow> char \<Rightarrow> bool" where
  "in_range lo hi c \<longleftrightarrow> lo \<le> byte c \<and> byte c \<le> hi"

abbreviation continuation :: "char \<Rightarrow> bool" where
  "continuation \<equiv> in_range 0x80 0xBF"

text \<open>The second byte a three or four byte sequence may have after its first.\<close>

definition second_ok :: "char \<Rightarrow> char \<Rightarrow> bool" where
  "second_ok c d \<longleftrightarrow>
     (if byte c = 0xE0 then in_range 0xA0 0xBF d
      else if byte c = 0xED then in_range 0x80 0x9F d
      else if byte c = 0xF0 then in_range 0x90 0xBF d
      else if byte c = 0xF4 then in_range 0x80 0x8F d
      else continuation d)"

text \<open>Length of the longest start of a well-formed sequence, and whether the sequence is complete.\<close>

fun utf8_head :: "string \<Rightarrow> nat \<times> bool" where
  "utf8_head [] = (0, True)"
| "utf8_head (c # rest) =
     (if byte c < 0x80 then (1, True)
      else if in_range 0xC2 0xDF c then
        (case rest of d # _ \<Rightarrow> if continuation d then (2, True) else (1, False) | [] \<Rightarrow> (1, False))
      else if in_range 0xE0 0xEF c then
        (case rest of
           d # rest \<Rightarrow>
             if second_ok c d
             then (case rest of e # _ \<Rightarrow> if continuation e then (3, True) else (2, False) | [] \<Rightarrow> (2, False))
             else (1, False)
         | [] \<Rightarrow> (1, False))
      else if in_range 0xF0 0xF4 c then
        (case rest of
           d # rest \<Rightarrow>
             if second_ok c d
             then (case rest of
                     e # rest \<Rightarrow>
                       if continuation e
                       then (case rest of f # _ \<Rightarrow> if continuation f then (4, True) else (3, False) | [] \<Rightarrow> (3, False))
                       else (2, False)
                   | [] \<Rightarrow> (2, False))
             else (1, False)
         | [] \<Rightarrow> (1, False))
      else (1, False))"

definition replacement_character :: string where
  "replacement_character = [CHR 0xEF, CHR 0xBF, CHR 0xBD]"

lemma utf8_head_pos: "s \<noteq> [] \<Longrightarrow> 0 < fst (utf8_head s)"
  by (cases s) (auto split: list.split)

function from_utf8_lossy :: "string \<Rightarrow> string" where
  "from_utf8_lossy s =
     (if s = [] then []
      else
        let (n, complete) = utf8_head s
        in (if complete then take n s else replacement_character) @ from_utf8_lossy (drop n s))"
  by pat_completeness auto
termination
proof (relation "measure length")
  show "(drop n s, s) \<in> measure length" if "s \<noteq> []" and "x = utf8_head s" and "(n, complete) = x" for s x n complete
    using utf8_head_pos [OF that(1)] that by (cases "utf8_head s") auto
qed simp

declare from_utf8_lossy.simps [simp del]

end
