(* ===== verification/Application_Operations.thy ===== *)
theory Application_Operations
  imports Application_Control Utf8_Lossy
begin

text \<open>
  The session application (\<open>src/crates/core/src/application.rs\<close>), fourth part: commands and file
  transfers on the workspace of a session. The base64 codec is third-party code and a parameter;
  the output of a command is decoded lossily.
\<close>

section \<open>Contents of files on the wire\<close>

record Base64 =
  b6_encode :: "string \<Rightarrow> string"
  b6_decode :: "string \<Rightarrow> string option"

section \<open>Access to the backend of a session\<close>

fun debug_sandbox_capability :: "SandboxCapability \<Rightarrow> string" where
  "debug_sandbox_capability SbExec = ''Exec''"
| "debug_sandbox_capability SbFileRead = ''FileRead''"
| "debug_sandbox_capability SbFileWrite = ''FileWrite''"
| "debug_sandbox_capability SbPause = ''Pause''"
| "debug_sandbox_capability SbSnapshot = ''Snapshot''"
| "debug_sandbox_capability SbNetwork = ''Network''"

definition check_sandbox_access ::
  "SessionRecord \<Rightarrow> SandboxCapability \<Rightarrow> (SessionDomainError, unit) result" where
  "check_sandbox_access r capability =
     (if capability \<notin> ef_sandbox (sn_capabilities r)
      then Inl (DomUnsupportedCapability FamSandbox (debug_sandbox_capability capability))
      else if capability \<in> {SbExec, SbFileWrite} \<and> rw_access (sn_workspace r) \<noteq> ReadWrite
      then Inl (DomInvalidRequest ''workspace is read-only'')
      else Inr ())"

definition timeout_out_of_range :: "u64 option \<Rightarrow> bool" where
  "timeout_out_of_range timeout_ms =
     (case timeout_ms of None \<Rightarrow> False | Some ms \<Rightarrow> ms = 0 \<or> 3600000 < ms)"

definition check_host_request :: "JointHostRequest \<Rightarrow> (SessionDomainError, unit) result" where
  "check_host_request request =
     (case request of
        HostExecRequest exec _ \<Rightarrow>
          if timeout_out_of_range (exq_timeout_ms exec)
          then Inl (host_invalid ''timeout_ms must be between 1 and 3600000'')
          else if trim (exq_command exec) = []
          then Inl (host_invalid ''command must contain a nonempty executable'')
          else Inr ()
      | _ \<Rightarrow> Inr ())"

text \<open>Both take the rest of the operation as an argument, since the guard they return lives until its
  end.\<close>

definition joint_host_access ::
  "SecurityContext \<Rightarrow> string \<Rightarrow> SessionLeaseClaim \<Rightarrow> SandboxCapability \<Rightarrow> JointHostRequest
     \<Rightarrow> (('w \<times> 'r) JointHostAccess \<Rightarrow> ('w, 'r) SessionApplication \<Rightarrow> ('a, 'w, 'r) outcome)
     \<Rightarrow> ('w, 'r) SessionApplication \<Rightarrow> ('a, 'w, 'r) outcome" where
  "joint_host_access ctx runtime_id lease capability request body s =
     and_then (require_session ctx runtime_id s) (\<lambda>r s.
     and_then (check_lease_holder runtime_id lease s) (\<lambda>_ s.
     and_then (check_sandbox_access r capability, s) (\<lambda>_ s.
     and_then (check_host_request request, s) (\<lambda>_ s.
     and_then (ok_or (joint (sn_execution_backing r)) (unsupported_joint ''host_route''), s) (\<lambda>binding s.
     and_then (joint_owner s (rs_runtime_kind (sn_runtime r)) binding, s) (\<lambda>owner s.
       guarded runtime_id (\<lambda>s.
         let (context, s) = joint_context ctx r binding ''host'' None None s
         in and_then (call_joint (jl_prepare_host_operation owner context r request) s) body) s))))))"

definition operation_backend ::
  "SecurityContext \<Rightarrow> string \<Rightarrow> SessionLeaseClaim \<Rightarrow> SandboxCapability
     \<Rightarrow> ('w OperationBackend \<Rightarrow> ('w, 'r) SessionApplication \<Rightarrow> ('a, 'w, 'r) outcome)
     \<Rightarrow> ('w, 'r) SessionApplication \<Rightarrow> ('a, 'w, 'r) outcome" where
  "operation_backend ctx runtime_id lease capability body s =
     and_then (require_session ctx runtime_id s) (\<lambda>r s.
     and_then (reject_joint_resource r ''operation_backend'', s) (\<lambda>_ s.
     and_then (check_lease_holder runtime_id lease s) (\<lambda>_ s.
     and_then (check_sandbox_access r capability, s) (\<lambda>_ s.
       guarded runtime_id (\<lambda>s.
         and_then (registration_for_record s r, s) (\<lambda>reg s.
         and_then (provider_for_isolation reg (sn_isolation r), s) (\<lambda>(_, h) s.
         and_then (map_err map_provider_error (backend_for (sa_managers s h) runtime_id, s)) body))) s))))"

definition operation_call ::
  "('w \<Rightarrow> (OperationError, 'a) result \<times> 'w) \<Rightarrow> ('w, 'r) SessionApplication \<Rightarrow> ('a, 'w, 'r) outcome" where
  "operation_call f s = map_err map_operation_error (call_ambient f s)"

definition host_call ::
  "('w \<times> 'r \<Rightarrow> (OperationError, 'a) result \<times> 'w \<times> 'r) \<Rightarrow> ('w, 'r) SessionApplication \<Rightarrow> ('a, 'w, 'r) outcome" where
  "host_call f s = map_err map_operation_error (call_joint f s)"

text \<open>The first step of each operation: is the session bound to a joint owner?\<close>

definition routed ::
  "SecurityContext \<Rightarrow> string \<Rightarrow> (('w, 'r) SessionApplication \<Rightarrow> ('a, 'w, 'r) outcome)
     \<Rightarrow> (('w, 'r) SessionApplication \<Rightarrow> ('a, 'w, 'r) outcome) \<Rightarrow> ('w, 'r) SessionApplication \<Rightarrow> ('a, 'w, 'r) outcome" where
  "routed ctx runtime_id on_joint on_split s =
     and_then (require_session ctx runtime_id s) (\<lambda>r s.
       if joint (sn_execution_backing r) \<noteq> None then on_joint s else on_split s)"

section \<open>Commands\<close>

definition exec_request_of ::
  "string \<Rightarrow> string list \<Rightarrow> string option \<Rightarrow> SessionExecRequest \<Rightarrow> ExecRequest" where
  "exec_request_of command args cwd request =
     \<lparr> exq_command = command, exq_args = args, exq_shell = None, exq_cwd = cwd,
       exq_timeout_ms = Some (case xq_timeout_ms request of None \<Rightarrow> 30000 | Some ms \<Rightarrow> ms),
       exq_env = Some (xq_env request), exq_extra = None \<rparr>"

definition exec_result_of :: "ExecResult \<Rightarrow> SessionExecResult" where
  "exec_result_of res =
     \<lparr> xr_stdout = from_utf8_lossy (exr_stdout res), xr_stderr = from_utf8_lossy (exr_stderr res),
       xr_exit_code = exr_exit_code res, xr_timed_out = exr_timed_out res \<rparr>"

definition exec_joint ::
  "SecurityContext \<Rightarrow> SessionExecRequest \<Rightarrow> ('w, 'r) SessionApplication \<Rightarrow> (SessionExecResult, 'w, 'r) outcome" where
  "exec_joint ctx request s =
     (let exec = exec_request_of (case xq_command request of [] \<Rightarrow> [] | c # _ \<Rightarrow> c)
                   (drop 1 (xq_command request)) (xq_cwd request) request
      in joint_host_access ctx (xq_runtime_id request) (xq_lease request) SbExec (HostExecRequest exec None)
           (\<lambda>host s. and_then (host_call (ob_exec (jh_backend host) exec) s) (\<lambda>res s. (Inr (exec_result_of res), s))) s)"

definition exec_split ::
  "SecurityContext \<Rightarrow> SessionExecRequest \<Rightarrow> ('w, 'r) SessionApplication \<Rightarrow> (SessionExecResult, 'w, 'r) outcome" where
  "exec_split ctx request s =
     operation_backend ctx (xq_runtime_id request) (xq_lease request) SbExec (\<lambda>backend s.
       and_then (ensure_that (\<not> timeout_out_of_range (xq_timeout_ms request))
                   (DomInvalidRequest ''timeout_ms must be between 1 and 3600000'') s) (\<lambda>_ s.
         case xq_command request of
           [] \<Rightarrow> (Inl (DomInvalidRequest ''command must contain a nonempty executable''), s)
         | command # args \<Rightarrow>
             if trim command = [] then (Inl (DomInvalidRequest ''command must contain a nonempty executable''), s)
             else
               and_then (case xq_cwd request of
                           Some raw_path \<Rightarrow>
                             operation_call (ob_resolve_path backend
                               \<lparr> rz_raw_path = raw_path, rz_base = WorkspaceRoot \<rparr>) s
                         | None \<Rightarrow> (Inr (ob_workspace_root backend), s)) (\<lambda>cwd s.
               and_then (operation_call (ob_exec backend (exec_request_of command args (Some cwd) request)) s)
                 (\<lambda>res s. (Inr (exec_result_of res), s))))) s"

definition exec_impl ::
  "SecurityContext \<Rightarrow> SessionExecRequest \<Rightarrow> ('w, 'r) SessionApplication \<Rightarrow> (SessionExecResult, 'w, 'r) outcome" where
  "exec_impl ctx request s = routed ctx (xq_runtime_id request) (exec_joint ctx request) (exec_split ctx request) s"

section \<open>Files\<close>

definition read_result :: "Base64 \<Rightarrow> string \<Rightarrow> string \<Rightarrow> SessionFileReadResult" where
  "read_result b path bytes =
     \<lparr> rr_path = path, rr_content_base64 = b6_encode b bytes, rr_media_type = None \<rparr>"

definition read_file_impl ::
  "Base64 \<Rightarrow> SecurityContext \<Rightarrow> SessionFileReadRequest \<Rightarrow> ('w, 'r) SessionApplication
     \<Rightarrow> (SessionFileReadResult, 'w, 'r) outcome" where
  "read_file_impl b ctx request s =
     (let where_to = \<lparr> rz_raw_path = rq_path request, rz_base = WorkspaceRoot \<rparr>
      in routed ctx (rq_runtime_id request)
        (joint_host_access ctx (rq_runtime_id request) (rq_lease request) SbFileRead (HostReadRequest (rq_path request))
           (\<lambda>host s.
              and_then (host_call (ob_resolve_path (jh_backend host) where_to) s) (\<lambda>path s.
              and_then (host_call (ob_read_bytes (jh_backend host) path) s) (\<lambda>bytes s.
                (Inr (read_result b path bytes), s)))))
        (operation_backend ctx (rq_runtime_id request) (rq_lease request) SbFileRead
           (\<lambda>backend s.
              and_then (operation_call (ob_resolve_path backend where_to) s) (\<lambda>path s.
              and_then (operation_call (ob_read_bytes backend path) s) (\<lambda>bytes s.
                (Inr (read_result b path bytes), s))))) s)"

definition create_parents_of ::
  "'w OperationBackend \<Rightarrow> string \<Rightarrow> ('w, 'r) SessionApplication \<Rightarrow> (unit, 'w, 'r) outcome" where
  "create_parents_of backend path s =
     (case rsplit_once (CHR ''/'') path of
        None \<Rightarrow> (Inr (), s)
      | Some (parent, _) \<Rightarrow>
          if parent = [] then (Inr (), s) else operation_call (ob_create_dir_all backend parent) s)"

definition write_file_joint ::
  "Base64 \<Rightarrow> SecurityContext \<Rightarrow> SessionFileWriteRequest \<Rightarrow> ('w, 'r) SessionApplication
     \<Rightarrow> (SessionFileWriteResult, 'w, 'r) outcome" where
  "write_file_joint b ctx request s =
     and_then (ok_or (b6_decode b (wq_content_base64 request)) (host_invalid ''content_base64 is not valid base64''), s)
       (\<lambda>content s.
          let host_request = HostWriteRequest (wq_path request) content Overwrite (wq_create_parents request)
          in joint_host_access ctx (wq_runtime_id request) (wq_lease request) SbFileWrite host_request
               (\<lambda>host s.
                  and_then (host_call (ob_resolve_path (jh_backend host)
                              \<lparr> rz_raw_path = wq_path request, rz_base = WorkspaceRoot \<rparr>) s) (\<lambda>path s.
                  and_then (call_joint (jh_write_host host host_request) s) (\<lambda>written s.
                    (Inr \<lparr> wr_path = path, wr_bytes_written = written \<rparr>, s)))) s)"

definition write_file_split ::
  "Base64 \<Rightarrow> SecurityContext \<Rightarrow> SessionFileWriteRequest \<Rightarrow> ('w, 'r) SessionApplication
     \<Rightarrow> (SessionFileWriteResult, 'w, 'r) outcome" where
  "write_file_split b ctx request s =
     operation_backend ctx (wq_runtime_id request) (wq_lease request) SbFileWrite (\<lambda>backend s.
       and_then (ok_or (b6_decode b (wq_content_base64 request))
                   (DomInvalidRequest ''content_base64 is not valid base64''), s) (\<lambda>content s.
       and_then (operation_call (ob_resolve_path backend
                   \<lparr> rz_raw_path = wq_path request, rz_base = WorkspaceRoot \<rparr>) s) (\<lambda>path s.
       and_then (if wq_create_parents request then create_parents_of backend path s else (Inr (), s)) (\<lambda>_ s.
       and_then (operation_call (ob_write_bytes backend
                   \<lparr> wb_path = path, wb_content = content, wb_mode = Overwrite \<rparr>) s) (\<lambda>_ s.
         (Inr \<lparr> wr_path = path, wr_bytes_written = word_of_nat (length content) \<rparr>, s)))))) s"

definition write_file_impl ::
  "Base64 \<Rightarrow> SecurityContext \<Rightarrow> SessionFileWriteRequest \<Rightarrow> ('w, 'r) SessionApplication
     \<Rightarrow> (SessionFileWriteResult, 'w, 'r) outcome" where
  "write_file_impl b ctx request s =
     routed ctx (wq_runtime_id request) (write_file_joint b ctx request) (write_file_split b ctx request) s"

end
