(* ===== verification/Application_Snapshots.thy ===== *)
theory Application_Snapshots
  imports Application_Operations
begin

text \<open>
  The session application (\<open>src/crates/core/src/application.rs\<close>), fifth part: checkpoints, sessions
  loaded from them, forks, and the reconciliation of operations that were cut off. Each operation that
  touches a provider snapshot first records an intent; what an interrupted operation leaves behind is
  found through it. The JSON codec of runtime snapshots is a parameter.
\<close>

record SnapshotCodec =
  sc_to_value :: "RuntimeStateSnapshot \<Rightarrow> (string, json) result"
  sc_from_value :: "json \<Rightarrow> (string, RuntimeStateSnapshot) result"

section \<open>Calls\<close>

definition save_intent :: "string \<Rightarrow> json \<Rightarrow> ('w, 'r) SessionApplication \<Rightarrow> (unit, 'w, 'r) outcome" where
  "save_intent intent_id body s = call_repo (sp_save_operation_intent (sa_records s) intent_id body) s"

definition delete_intent :: "string \<Rightarrow> ('w, 'r) SessionApplication \<Rightarrow> (unit, 'w, 'r) outcome" where
  "delete_intent intent_id s = call_repo (sp_delete_operation_intent (sa_records s) intent_id) s"

definition delete_state_quietly ::
  "('w, 'r) RuntimeRegistration \<Rightarrow> RuntimeStateSnapshot \<Rightarrow> ('w, 'r) SessionApplication \<Rightarrow> ('w, 'r) SessionApplication" where
  "delete_state_quietly reg state s = snd (call_ambient (ar_delete_checkpoint_state (rg_runtime reg) state) s)"

definition delete_snapshot_quietly ::
  "nat \<Rightarrow> string \<Rightarrow> string \<Rightarrow> ('w, 'r) SessionApplication \<Rightarrow> ('w, 'r) SessionApplication" where
  "delete_snapshot_quietly h provider_id snapshot_id s =
     snd (call_manager h (delete_snapshot provider_id snapshot_id) s)"

text \<open>The source encodes the state of a deleted checkpoint inside a JSON literal, which would panic where
  this is an error; the encoder of a snapshot, whose parts are all JSON values, never fails.\<close>

definition encode_state ::
  "SnapshotCodec \<Rightarrow> RuntimeStateSnapshot \<Rightarrow> (SessionDomainError, json) result" where
  "encode_state codec state = (case sc_to_value codec state of Inl m \<Rightarrow> Inl (DomInternal m None) | Inr j \<Rightarrow> Inr j)"

definition ended :: "SessionRecord option \<Rightarrow> bool" where
  "ended found = (case found of None \<Rightarrow> True | Some r \<Rightarrow> sn_status r \<in> {SsClosed, SsFailed})"

section \<open>Checkpoints\<close>

definition checkpoint_intent :: "SessionRecord \<Rightarrow> string \<Rightarrow> string \<Rightarrow> string \<Rightarrow> json" where
  "checkpoint_intent r provider_id runtime_id checkpoint_id =
     obj_of [(''kind'', JStr ''checkpoint''), (''runtime_kind'', JStr (rs_runtime_kind (sn_runtime r))),
             (''provider'', JStr provider_id), (''source'', JStr runtime_id), (''checkpoint'', JStr checkpoint_id),
             (''snapshot'', JStr (''request:'' @ checkpoint_id))]"

definition checkpoint_record ::
  "SecurityContext \<Rightarrow> SessionRecord \<Rightarrow> string \<Rightarrow> string \<Rightarrow> string \<Rightarrow> RuntimeStateSnapshot \<Rightarrow> u64 \<Rightarrow> CheckpointRecord" where
  "checkpoint_record ctx r runtime_id checkpoint_id snapshot_id state now =
     \<lparr> ck_checkpoint_id = checkpoint_id, ck_source_runtime_id = runtime_id,
       ck_provider_snapshot_id = snapshot_id, ck_runtime_state = state, ck_workspace = sn_workspace r,
       ck_isolation = sn_isolation r, ck_capabilities = sn_capabilities r, ck_owner_ref = owner_ref ctx,
       ck_tenant_id = sn_tenant_id r, ck_created_by = Some (sx_principal ctx), ck_created_at_ms = now \<rparr>"

definition checkpoint_result :: "string \<Rightarrow> string \<Rightarrow> u64 \<Rightarrow> SessionCheckpointResult" where
  "checkpoint_result checkpoint_id runtime_id now =
     \<lparr> ks_checkpoint_id = checkpoint_id, ks_runtime_id = runtime_id, ks_checkpoint_scope = ScopeFull,
       ks_created_at_ms = now \<rparr>"

definition checkpoint_joint ::
  "SecurityContext \<Rightarrow> SessionRecord \<Rightarrow> JointBinding \<Rightarrow> ('w, 'r) SessionApplication
     \<Rightarrow> (SessionCheckpointResult, 'w, 'r) outcome" where
  "checkpoint_joint ctx r binding s =
     and_then (joint_owner s (rs_runtime_kind (sn_runtime r)) binding, s) (\<lambda>owner s.
       let (fresh, s) = next_runtime_id s;
           checkpoint_id = ''checkpoint-'' @ fresh;
           (context, s) = joint_context ctx r binding ''checkpoint'' None (Some checkpoint_id) s
       in and_then (call_joint (jl_checkpoint owner context r) s) (\<lambda>c s.
          and_then (validate_binding (jc_binding c), s) (\<lambda>_ s.
            if jc_checkpoint_id c \<noteq> checkpoint_id \<or> jc_source_runtime_id c \<noteq> sn_runtime_id r
               \<or> jc_tenant_id c \<noteq> jx_tenant_id context \<or> jc_runtime_kind c \<noteq> jx_runtime_kind context
               \<or> jb_owner_kind (jc_binding c) \<noteq> jl_owner_kind owner
               \<or> jb_configuration_revision (jc_binding c) \<noteq> jx_configuration_revision context
               \<or> jc_owner_ref c \<noteq> jx_owner_ref context
            then (Inl (unsupported_joint ''uncommitted_checkpoint''), s)
            else
              and_then (call_repo (sp_get_joint_checkpoint (sa_records s) checkpoint_id) s) (\<lambda>found s.
                if found \<noteq> Some c then (Inl (unsupported_joint ''uncommitted_checkpoint''), s)
                else (Inr (checkpoint_result checkpoint_id (sn_runtime_id r) (jc_created_at_ms c)), s)))))"

text \<open>From the provider's snapshot on: the source must still be open and its instance active.\<close>

definition publish_checkpoint ::
  "SecurityContext \<Rightarrow> SessionRecord \<Rightarrow> string \<Rightarrow> string \<Rightarrow> string \<Rightarrow> nat \<Rightarrow> ('w, 'r) RuntimeRegistration
     \<Rightarrow> RuntimeStateSnapshot \<Rightarrow> string \<Rightarrow> ('w, 'r) SessionApplication
     \<Rightarrow> (SessionCheckpointResult, 'w, 'r) outcome" where
  "publish_checkpoint ctx r runtime_id checkpoint_id provider_id h reg state snapshot_id s =
     and_then (get_record runtime_id s) (\<lambda>found s.
     and_then (ensure_that (\<not> ended found) (DomConflict ''session closed during checkpoint'') s) (\<lambda>_ s.
     and_then (provider_call h (inspect_instance runtime_id) s) (\<lambda>status s.
     and_then (ensure_that (st_state status = Active) (DomUnavailable ''source is no longer active'') s) (\<lambda>_ s.
       let (now, s) = now_ms s
       in on_err (call_repo (sp_save_checkpoint (sa_records s)
                    (checkpoint_record ctx r runtime_id checkpoint_id snapshot_id state now)) s)
            (\<lambda>e s. (Inl e, delete_snapshot_quietly h provider_id snapshot_id (delete_state_quietly reg state s)))
            (\<lambda>_ s. and_then (delete_intent checkpoint_id s) (\<lambda>_ s.
                     (Inr (checkpoint_result checkpoint_id runtime_id now), s)))))))"

definition checkpoint_split ::
  "SnapshotCodec \<Rightarrow> SecurityContext \<Rightarrow> SessionRecord \<Rightarrow> string \<Rightarrow> ('w, 'r) RuntimeRegistration
     \<Rightarrow> ('w, 'r) SessionApplication \<Rightarrow> (SessionCheckpointResult, 'w, 'r) outcome" where
  "checkpoint_split codec ctx r runtime_id reg s =
     and_then (provider_for_isolation reg (sn_isolation r), s) (\<lambda>(provider_id, h) s.
       let (fresh, s) = next_runtime_id s;
           checkpoint_id = ''checkpoint-'' @ fresh;
           intent = checkpoint_intent r provider_id runtime_id checkpoint_id
       in and_then (save_intent checkpoint_id intent s) (\<lambda>_ s.
          and_then (runtime_call (ar_export_checkpoint_state (rg_runtime reg) runtime_id) s) (\<lambda>state s.
          and_then (encode_state codec state, s) (\<lambda>history s.
            let intent = with_field ''history'' history intent
            in and_then (save_intent checkpoint_id intent s) (\<lambda>_ s.
               on_err (provider_call h (checkpoint_instance_correlated runtime_id
                         (obj_of [(''request_id'', JStr checkpoint_id)])) s)
                 (\<lambda>e s. (Inl e, delete_state_quietly reg state s))
                 (\<lambda>snapshot s.
                    let intent = with_field ''snapshot'' (JStr (ps_snapshot_id snapshot)) intent
                    in and_then (save_intent checkpoint_id intent s) (\<lambda>_ s.
                       publish_checkpoint ctx r runtime_id checkpoint_id provider_id h reg state
                         (ps_snapshot_id snapshot) s)))))))"

definition checkpoint ::
  "SnapshotCodec \<Rightarrow> SecurityContext \<Rightarrow> SessionCheckpointRequest \<Rightarrow> ('w, 'r) SessionApplication
     \<Rightarrow> (SessionCheckpointResult, 'w, 'r) outcome" where
  "checkpoint codec ctx request s =
     and_then (get_record (kq_runtime_id request) s) (\<lambda>_ s.
     and_then (require_session ctx (kq_runtime_id request) s) (\<lambda>r s.
     and_then (check_lease_holder (kq_runtime_id request) (kq_lease request) s) (\<lambda>_ s.
       guarded (kq_runtime_id request) (\<lambda>s.
         and_then (ensure_that (DcStateExport \<in> ef_runtime (sn_capabilities r))
                     (DomUnsupportedCapability FamRuntime ''state_export'') s) (\<lambda>_ s.
         and_then (ensure_runtime_attached r s) (\<lambda>_ s.
         and_then (refresh_docker_snapshot_capabilities r s) (\<lambda>r s.
         and_then (ensure_that (kq_requested_scope request \<noteq> Some ScopeWorkspaceOnly)
                     (DomInvalidRequest ''only full checkpoint scope is supported'') s) (\<lambda>_ s.
         and_then (registration_for_record s r, s) (\<lambda>reg s.
         and_then (ensure_that (DcCheckpoint \<in> ef_runtime (sn_capabilities r)
                                 \<and> SbSnapshot \<in> ef_sandbox (sn_capabilities r))
                     (DomUnsupportedCapability FamRuntime ''checkpoint'') s) (\<lambda>_ s.
           case joint (sn_execution_backing r) of
             Some binding \<Rightarrow> checkpoint_joint ctx r binding s
           | None \<Rightarrow> checkpoint_split codec ctx r (kq_runtime_id request) reg s))))))) s)))"

definition list_checkpoints_impl ::
  "SecurityContext \<Rightarrow> nat \<Rightarrow> nat \<Rightarrow> ('w, 'r) SessionApplication \<Rightarrow> (SessionCheckpointListResponse, 'w, 'r) outcome" where
  "list_checkpoints_impl ctx limit offset s =
     and_then (call_repo (sp_list_checkpoints (sa_records s) (sx_tenant_id ctx) limit offset) s) (\<lambda>page s.
       let returned = length (cp_checkpoints page);
           has_more = saturating_add (word_of_nat offset) (word_of_nat returned) < cp_total page
       in (Inr \<lparr> cr_checkpoints = map (\<lambda>e. \<lparr> cs_checkpoint_id = ce_checkpoint_id e,
                   cs_source_runtime_id = ce_source_runtime_id e, cs_tenant_id = ce_tenant_id e,
                   cs_created_by = ce_created_by e, cs_created_at_ms = ce_created_at_ms e \<rparr>) (cp_checkpoints page),
                 cr_total = cp_total page, cr_has_more = has_more,
                 cr_next_offset = (if has_more then Some (offset + returned) else None) \<rparr>, s))"

section \<open>Loading a checkpoint\<close>

definition nonempty_trimmed :: "string option \<Rightarrow> string option" where
  "nonempty_trimmed x = Option.bind x (\<lambda>v. if trim v = [] then None else Some (trim v))"

definition resolved_llm_of_override :: "LlmOverrideRequest \<Rightarrow> ResolvedLlm option" where
  "resolved_llm_of_override llm =
     (case (nonempty_trimmed (lo_provider llm), nonempty_trimmed (lo_model llm)) of
        (Some provider, Some model) \<Rightarrow>
          Some \<lparr> rl_provider = provider, rl_model = model, rl_api_base = lo_api_base llm, rl_api = lo_api llm,
                 rl_capabilities = lo_capabilities llm,
                 rl_credential_source =
                   (case nonempty_trimmed (lo_api_key llm) of
                      Some _ \<Rightarrow> ''request''
                    | None \<Rightarrow>
                        (case nonempty_trimmed (lo_api_key_env llm) of
                           Some name \<Rightarrow> ''env:'' @ name | None \<Rightarrow> ''runtime_default'')) \<rparr>
      | _ \<Rightarrow> None)"

definition load_joint ::
  "SecurityContext \<Rightarrow> SessionLoadRequest \<Rightarrow> string \<Rightarrow> JointCheckpointRecord \<Rightarrow> ('w, 'r) SessionApplication
     \<Rightarrow> (SessionOpenResponse, 'w, 'r) outcome" where
  "load_joint ctx request runtime_id c s =
     (if \<not> owns ctx (jc_tenant_id c) then (Inl (DomNotFound (lq_checkpoint_id request)), s)
      else
        and_then (joint_owner s (jc_runtime_kind c) (jc_binding c), s) (\<lambda>owner s.
          let context = (joint_operation_context ctx (''load:'' @ runtime_id) ''load'' (jc_runtime_kind c)
                          (jb_configuration_revision (jc_binding c)) (Some (jc_source_runtime_id c))
                          (Some runtime_id) (Some (jc_checkpoint_id c)))
                         \<lparr>jx_tenant_id := jc_tenant_id c, jx_owner_ref := jc_owner_ref c\<rparr>
          in and_then (call_joint (jl_load owner context c request) s) (\<lambda>r s.
             and_then (validate_committed_session r context (jl_owner_kind owner), s) (\<lambda>_ s.
             and_then (get_record (sn_runtime_id r) s) (\<lambda>found s.
               if found \<noteq> Some r then (Inl (unsupported_joint ''uncommitted_publication''), s)
               else (Inr (project_session r), s))))))"

definition load_start_request ::
  "SecurityContext \<Rightarrow> SessionLoadRequest \<Rightarrow> string \<Rightarrow> CheckpointRecord \<Rightarrow> RuntimeStartRequest" where
  "load_start_request ctx request runtime_id c =
     \<lparr> sq_runtime_id = runtime_id,
       sq_conversation_id = (case lq_conversation_id request of Some i \<Rightarrow> i | None \<Rightarrow> ck_source_runtime_id c),
       sq_sender_id = (case lq_sender_id request of Some i \<Rightarrow> i | None \<Rightarrow> sx_principal ctx),
       sq_workspace = ck_workspace c, sq_state = Some (ck_runtime_state c), sq_llm = lq_llm request, sq_ext = [] \<rparr>"

definition loaded_record ::
  "SecurityContext \<Rightarrow> SessionLoadRequest \<Rightarrow> string \<Rightarrow> CheckpointRecord \<Rightarrow> u64 \<Rightarrow> RuntimeStateSnapshot
     \<Rightarrow> ResolvedLlm option \<Rightarrow> SessionRecord" where
  "loaded_record ctx request runtime_id c now state llm =
     \<lparr> sn_execution_backing = SplitV1, sn_runtime_id = runtime_id,
       sn_conversation_id = (case lq_conversation_id request of Some i \<Rightarrow> i | None \<Rightarrow> ck_source_runtime_id c),
       sn_sender_id = (case lq_sender_id request of Some i \<Rightarrow> i | None \<Rightarrow> sx_principal ctx),
       sn_status = SsIdle, sn_created_at_ms = now, sn_updated_at_ms = now, sn_workspace = ck_workspace c,
       sn_isolation = ck_isolation c, sn_capabilities = ck_capabilities c, sn_runtime = state,
       sn_llm = (case llm of Some l \<Rightarrow> Some l | None \<Rightarrow> Option.bind (lq_llm request) resolved_llm_of_override),
       sn_lease = None,
       sn_lineage = Some \<lparr> ln_parent_runtime_id = None, ln_source_checkpoint_id = Some (lq_checkpoint_id request) \<rparr>,
       sn_last_error = None, sn_tenant_id = sx_tenant_id ctx, sn_created_by = sx_principal ctx \<rparr>"

text \<open>Leaving an operation that had started an instance, and perhaps a runtime in it.\<close>

definition abandon_instance ::
  "SecurityContext \<Rightarrow> nat \<Rightarrow> string \<Rightarrow> ('w, 'r) SessionApplication \<Rightarrow> ('w, 'r) SessionApplication" where
  "abandon_instance ctx h runtime_id s = release_slot (sx_tenant_id ctx) (stop_instance_quietly h runtime_id s)"

definition abandon_runtime ::
  "SecurityContext \<Rightarrow> ('w, 'r) RuntimeRegistration \<Rightarrow> nat \<Rightarrow> string \<Rightarrow> ('w, 'r) SessionApplication
     \<Rightarrow> ('w, 'r) SessionApplication" where
  "abandon_runtime ctx reg h runtime_id s = abandon_instance ctx h runtime_id (stop_runtime_quietly reg runtime_id s)"

definition load_split ::
  "SecurityContext \<Rightarrow> SessionLoadRequest \<Rightarrow> string \<Rightarrow> CheckpointRecord \<Rightarrow> ('w, 'r) RuntimeRegistration
     \<Rightarrow> ('w, 'r) SessionApplication \<Rightarrow> (SessionOpenResponse, 'w, 'r) outcome" where
  "load_split ctx request runtime_id c reg s =
     and_then (reserve_slot ctx s) (\<lambda>_ s.
     and_then (provider_for_isolation reg (ck_isolation c), s) (\<lambda>(provider_id, h) s.
     and_then (save_intent (''load:'' @ runtime_id)
                 (obj_of [(''kind'', JStr ''load''), (''provider'', JStr provider_id),
                          (''runtime_kind'', JStr (rs_runtime_kind (ck_runtime_state c))),
                          (''target'', JStr runtime_id)]) s) (\<lambda>_ s.
     on_err (provider_call h (load_instance_from_snapshot runtime_id provider_id (owner_ref ctx)
               (ck_provider_snapshot_id c) (provider_options (ck_workspace c) (ck_isolation c) provider_id)
               (sandbox_limit (sx_quota ctx) provider_id)) s)
       (\<lambda>e s. (Inl e, release_slot (sx_tenant_id ctx) s))
       (\<lambda>backend s.
     on_err (runtime_call (ar_start (rg_runtime reg) (load_start_request ctx request runtime_id c) backend) s)
       (\<lambda>e s. (Inl e, abandon_instance ctx h runtime_id s))
       (\<lambda>_ s.
     on_err (export_runtime_snapshot reg runtime_id s)
       (\<lambda>e s. (Inl e, abandon_runtime ctx reg h runtime_id s))
       (\<lambda>(state, llm) s.
          let (now, s) = now_ms s;
              r = loaded_record ctx request runtime_id c now state llm
          in on_err (save_record r s)
               (\<lambda>e s. (Inl e, abandon_runtime ctx reg h runtime_id s))
               (\<lambda>_ s. and_then (delete_intent (''load:'' @ runtime_id) s) (\<lambda>_ s.
                        (Inr (project_session r), s)))))))))"

definition load_checkpoint ::
  "SecurityContext \<Rightarrow> SessionLoadRequest \<Rightarrow> ('w, 'r) SessionApplication \<Rightarrow> (SessionOpenResponse, 'w, 'r) outcome" where
  "load_checkpoint ctx request s =
     and_then (call_repo (sp_get_joint_checkpoint (sa_records s) (lq_checkpoint_id request)) s) (\<lambda>joint_checkpoint s.
       let (runtime_id, s) = (case lq_runtime_id request of Some i \<Rightarrow> (i, s) | None \<Rightarrow> next_runtime_id s)
       in case joint_checkpoint of
            Some c \<Rightarrow> load_joint ctx request runtime_id c s
          | None \<Rightarrow>
              and_then (call_repo (sp_get_checkpoint (sa_records s) (lq_checkpoint_id request)) s) (\<lambda>found s.
                case found of
                  None \<Rightarrow> (Inl (DomNotFound (lq_checkpoint_id request)), s)
                | Some c \<Rightarrow>
                    if \<not> owns ctx (ck_tenant_id c) then (Inl (DomNotFound (lq_checkpoint_id request)), s)
                    else
                      and_then (registration s (rs_runtime_kind (ck_runtime_state c)), s) (\<lambda>reg s.
                      and_then (map_err map_runtime_error (ar_validate_llm_config (rg_runtime reg) (lq_llm request), s))
                        (\<lambda>_ s. load_split ctx request runtime_id c reg s))))"

section \<open>Deleting a checkpoint\<close>

definition delete_joint_checkpoint ::
  "SecurityContext \<Rightarrow> string \<Rightarrow> JointCheckpointRecord \<Rightarrow> ('w, 'r) SessionApplication
     \<Rightarrow> (SessionCheckpointDeleteResult, 'w, 'r) outcome" where
  "delete_joint_checkpoint ctx checkpoint_id c s =
     (if \<not> owns ctx (jc_tenant_id c) then (Inl (DomNotFound checkpoint_id), s)
      else
        and_then (joint_owner s (jc_runtime_kind c) (jc_binding c), s) (\<lambda>owner s.
          let context = (joint_operation_context ctx (''delete:'' @ checkpoint_id) ''delete_checkpoint'' (jc_runtime_kind c)
                          (jb_configuration_revision (jc_binding c)) (Some (jc_source_runtime_id c)) None
                          (Some (jc_checkpoint_id c)))
                         \<lparr>jx_tenant_id := jc_tenant_id c, jx_owner_ref := jc_owner_ref c\<rparr>
          in and_then (call_joint (jl_delete_checkpoint owner context c) s) (\<lambda>deleted s.
               if deleted
               then and_then (call_repo (sp_get_joint_checkpoint (sa_records s) checkpoint_id) s) (\<lambda>found s.
                      if found \<noteq> None then (Inl (unsupported_joint ''uncommitted_delete''), s)
                      else (Inr \<lparr> ds_checkpoint_id = checkpoint_id, ds_deleted = True \<rparr>, s))
               else (Inr \<lparr> ds_checkpoint_id = checkpoint_id, ds_deleted = False \<rparr>, s))))"

definition delete_split_checkpoint ::
  "SnapshotCodec \<Rightarrow> string \<Rightarrow> CheckpointRecord \<Rightarrow> ('w, 'r) SessionApplication
     \<Rightarrow> (SessionCheckpointDeleteResult, 'w, 'r) outcome" where
  "delete_split_checkpoint codec checkpoint_id c s =
     and_then (registration s (rs_runtime_kind (ck_runtime_state c)), s) (\<lambda>reg s.
     and_then (provider_for_isolation reg (ck_isolation c), s) (\<lambda>(provider_id, h) s.
     and_then (encode_state codec (ck_runtime_state c), s) (\<lambda>history s.
     and_then (save_intent (''delete:'' @ checkpoint_id)
                 (obj_of [(''kind'', JStr ''delete''), (''provider'', JStr provider_id),
                          (''runtime_kind'', JStr (rs_runtime_kind (ck_runtime_state c))),
                          (''checkpoint'', JStr checkpoint_id),
                          (''snapshot'', JStr (ck_provider_snapshot_id c)), (''history'', history)]) s) (\<lambda>_ s.
     and_then (provider_call h (delete_snapshot provider_id (ck_provider_snapshot_id c)) s) (\<lambda>_ s.
     and_then (runtime_call (ar_delete_checkpoint_state (rg_runtime reg) (ck_runtime_state c)) s) (\<lambda>_ s.
     and_then (call_repo (sp_delete_checkpoint (sa_records s) checkpoint_id) s) (\<lambda>_ s.
     and_then (delete_intent (''delete:'' @ checkpoint_id) s) (\<lambda>_ s.
       (Inr \<lparr> ds_checkpoint_id = checkpoint_id, ds_deleted = True \<rparr>, s)))))))))"

definition delete_checkpoint_impl ::
  "SnapshotCodec \<Rightarrow> SecurityContext \<Rightarrow> SessionCheckpointDeleteRequest \<Rightarrow> ('w, 'r) SessionApplication
     \<Rightarrow> (SessionCheckpointDeleteResult, 'w, 'r) outcome" where
  "delete_checkpoint_impl codec ctx request s =
     and_then (call_repo (sp_get_joint_checkpoint (sa_records s) (dq_checkpoint_id request)) s) (\<lambda>joint_checkpoint s.
       case joint_checkpoint of
         Some c \<Rightarrow> delete_joint_checkpoint ctx (dq_checkpoint_id request) c s
       | None \<Rightarrow>
           and_then (call_repo (sp_get_checkpoint (sa_records s) (dq_checkpoint_id request)) s) (\<lambda>found s.
             case found of
               None \<Rightarrow> (Inl (DomNotFound (dq_checkpoint_id request)), s)
             | Some c \<Rightarrow>
                 if \<not> owns ctx (ck_tenant_id c) then (Inl (DomNotFound (dq_checkpoint_id request)), s)
                 else delete_split_checkpoint codec (dq_checkpoint_id request) c s))"

end
