(* ===== verification/Application_Recovery.thy ===== *)
theory Application_Recovery
  imports Application_Snapshots
begin

text \<open>
  The session application (\<open>src/crates/core/src/application.rs\<close>), sixth part: forks of a running
  session, and the reconciliation of the intents that interrupted operations left behind.
\<close>

section \<open>Forks\<close>

definition fork_intent :: "SessionRecord \<Rightarrow> string \<Rightarrow> string \<Rightarrow> string \<Rightarrow> json" where
  "fork_intent parent provider_id runtime_id parent_id =
     obj_of [(''kind'', JStr ''fork''), (''provider'', JStr provider_id),
             (''runtime_kind'', JStr (rs_runtime_kind (sn_runtime parent))), (''target'', JStr runtime_id),
             (''source'', JStr parent_id), (''snapshot'', JStr (''request:fork:'' @ runtime_id))]"

definition fork_start_request ::
  "SessionForkRequest \<Rightarrow> SessionRecord \<Rightarrow> string \<Rightarrow> RuntimeStateSnapshot \<Rightarrow> RuntimeStartRequest" where
  "fork_start_request request parent runtime_id exported =
     \<lparr> sq_runtime_id = runtime_id,
       sq_conversation_id = (case fq_conversation_id request of Some i \<Rightarrow> i | None \<Rightarrow> sn_conversation_id parent),
       sq_sender_id = (case fq_sender_id request of Some i \<Rightarrow> i | None \<Rightarrow> sn_sender_id parent),
       sq_workspace = sn_workspace parent, sq_state = Some exported, sq_llm = None, sq_ext = [] \<rparr>"

definition forked_record ::
  "SecurityContext \<Rightarrow> SessionForkRequest \<Rightarrow> SessionRecord \<Rightarrow> string \<Rightarrow> u64 \<Rightarrow> RuntimeStateSnapshot
     \<Rightarrow> ResolvedLlm option \<Rightarrow> SessionRecord" where
  "forked_record ctx request parent runtime_id now state llm =
     \<lparr> sn_execution_backing = SplitV1, sn_runtime_id = runtime_id,
       sn_conversation_id = (case fq_conversation_id request of Some i \<Rightarrow> i | None \<Rightarrow> sn_conversation_id parent),
       sn_sender_id = (case fq_sender_id request of Some i \<Rightarrow> i | None \<Rightarrow> sn_sender_id parent),
       sn_status = SsIdle, sn_created_at_ms = now, sn_updated_at_ms = now, sn_workspace = sn_workspace parent,
       sn_isolation = sn_isolation parent, sn_capabilities = sn_capabilities parent, sn_runtime = state,
       sn_llm = (case llm of Some l \<Rightarrow> Some l | None \<Rightarrow> sn_llm parent), sn_lease = None,
       sn_lineage = Some \<lparr> ln_parent_runtime_id = Some (fq_parent_runtime_id request), ln_source_checkpoint_id = None \<rparr>,
       sn_last_error = None, sn_tenant_id = sx_tenant_id ctx, sn_created_by = sx_principal ctx \<rparr>"

text \<open>The end of a fork: the parent must still be open and active, then the record is saved.\<close>

definition publish_fork ::
  "SecurityContext \<Rightarrow> SessionForkRequest \<Rightarrow> SessionRecord \<Rightarrow> string \<Rightarrow> u64 \<Rightarrow> nat \<Rightarrow> ('w, 'r) RuntimeRegistration
     \<Rightarrow> RuntimeStateSnapshot \<Rightarrow> ResolvedLlm option \<Rightarrow> ('w, 'r) SessionApplication
     \<Rightarrow> (SessionOpenResponse, 'w, 'r) outcome" where
  "publish_fork ctx request parent runtime_id now h reg state llm s =
     and_then (get_record (fq_parent_runtime_id request) s) (\<lambda>found s.
     and_then (ensure_that (\<not> ended found) (DomConflict ''parent closed during fork'') s) (\<lambda>_ s.
     and_then (provider_call h (inspect_instance (fq_parent_runtime_id request)) s) (\<lambda>status s.
     and_then (ensure_that (st_state status = Active) (DomUnavailable ''fork source is no longer active'') s) (\<lambda>_ s.
       let r = forked_record ctx request parent runtime_id now state llm
       in on_err (save_record r s)
            (\<lambda>e s. (Inl e, abandon_runtime ctx reg h runtime_id s))
            (\<lambda>_ s. (Inr (project_session r), s))))))"

text \<open>From the provider's snapshot of the parent on. The snapshot is deleted whether the load succeeded
  or not.\<close>

definition fork_from_snapshot ::
  "SecurityContext \<Rightarrow> SessionForkRequest \<Rightarrow> SessionRecord \<Rightarrow> string \<Rightarrow> u64 \<Rightarrow> string \<Rightarrow> nat
     \<Rightarrow> ('w, 'r) RuntimeRegistration \<Rightarrow> RuntimeStateSnapshot \<Rightarrow> string \<Rightarrow> ('w, 'r) SessionApplication
     \<Rightarrow> (SessionOpenResponse, 'w, 'r) outcome" where
  "fork_from_snapshot ctx request parent runtime_id now provider_id h reg exported snapshot_id s =
     (let (loaded, s) = provider_call h (load_instance_from_snapshot runtime_id provider_id (owner_ref ctx)
             snapshot_id (provider_options (sn_workspace parent) (sn_isolation parent) provider_id)
             (sandbox_limit (sx_quota ctx) provider_id)) s;
          s = delete_snapshot_quietly h provider_id snapshot_id s
      in on_err (loaded, s)
           (\<lambda>e s. (Inl e, release_slot (sx_tenant_id ctx) (delete_state_quietly reg exported s)))
           (\<lambda>backend s.
         on_err (runtime_call (ar_start (rg_runtime reg) (fork_start_request request parent runtime_id exported) backend) s)
           (\<lambda>e s. (Inl e, abandon_instance ctx h runtime_id (delete_state_quietly reg exported s)))
           (\<lambda>_ s.
         on_err (export_runtime_snapshot reg runtime_id (delete_state_quietly reg exported s))
           (\<lambda>e s. (Inl e, abandon_runtime ctx reg h runtime_id s))
           (\<lambda>(state, llm) s. publish_fork ctx request parent runtime_id now h reg state llm s))))"

definition fork_reserved ::
  "SnapshotCodec \<Rightarrow> SecurityContext \<Rightarrow> SessionForkRequest \<Rightarrow> SessionRecord \<Rightarrow> string \<Rightarrow> u64
     \<Rightarrow> ('w, 'r) RuntimeRegistration \<Rightarrow> ('w, 'r) SessionApplication \<Rightarrow> (SessionOpenResponse, 'w, 'r) outcome" where
  "fork_reserved codec ctx request parent runtime_id now reg s =
     (let intent_id = ''fork:'' @ runtime_id;
          chosen = provider_for_isolation reg (sn_isolation parent);
          intent_provider = (case chosen of Inr (p, _) \<Rightarrow> p | Inl _ \<Rightarrow> []);
          intent = fork_intent parent intent_provider runtime_id (fq_parent_runtime_id request)
      in and_then (if intent_provider = [] then (Inr (), s) else save_intent intent_id intent s) (\<lambda>_ s.
         on_err (runtime_call (ar_export_checkpoint_state (rg_runtime reg) (fq_parent_runtime_id request)) s)
           (\<lambda>e s. (Inl e, release_slot (sx_tenant_id ctx) s))
           (\<lambda>exported s.
         and_then (encode_state codec exported, s) (\<lambda>history s.
           let intent = with_field ''history'' history intent
           in and_then (save_intent intent_id intent s) (\<lambda>_ s.
              on_err (chosen, s)
                (\<lambda>e s. (Inl e, release_slot (sx_tenant_id ctx) (delete_state_quietly reg exported s)))
                (\<lambda>(provider_id, h) s.
              on_err (provider_call h (checkpoint_instance_correlated (fq_parent_runtime_id request)
                        (obj_of [(''request_id'', JStr intent_id)])) s)
                (\<lambda>e s. (Inl e, release_slot (sx_tenant_id ctx) (delete_state_quietly reg exported s)))
                (\<lambda>snapshot s.
                  let intent = with_field ''snapshot'' (JStr (ps_snapshot_id snapshot)) intent
                  in and_then (save_intent intent_id intent s) (\<lambda>_ s.
                     fork_from_snapshot ctx request parent runtime_id now provider_id h reg exported
                       (ps_snapshot_id snapshot) s))))))))"

definition fork_impl ::
  "SnapshotCodec \<Rightarrow> SecurityContext \<Rightarrow> SessionForkRequest \<Rightarrow> ('w, 'r) SessionApplication
     \<Rightarrow> (SessionOpenResponse, 'w, 'r) outcome" where
  "fork_impl codec ctx request s =
     and_then (require_session ctx (fq_parent_runtime_id request) s) (\<lambda>parent s.
     and_then (reject_joint_resource parent ''fork'', s) (\<lambda>_ s.
     and_then (check_lease_holder (fq_parent_runtime_id request) (fq_lease request) s) (\<lambda>_ s.
       guarded (fq_parent_runtime_id request) (\<lambda>s.
         and_then (ensure_that (DcStateExport \<in> ef_runtime (sn_capabilities parent))
                     (DomUnsupportedCapability FamRuntime ''state_export'') s) (\<lambda>_ s.
         and_then (ensure_runtime_attached parent s) (\<lambda>_ s.
         and_then (refresh_docker_snapshot_capabilities parent s) (\<lambda>parent s.
         and_then (registration_for_record s parent, s) (\<lambda>reg s.
         and_then (ensure_that (DcFork \<in> ef_runtime (sn_capabilities parent)
                                 \<and> SbSnapshot \<in> ef_sandbox (sn_capabilities parent))
                     (DomUnsupportedCapability FamRuntime ''fork'') s) (\<lambda>_ s.
           let (runtime_id, s) = (case fq_runtime_id request of Some i \<Rightarrow> (i, s) | None \<Rightarrow> next_runtime_id s);
               (now, s) = now_ms s
           in and_then (reserve_slot ctx s) (\<lambda>_ s.
                fork_reserved codec ctx request parent runtime_id now reg s))))))) s)))"

section \<open>Reconciliation\<close>

text \<open>The pending operations of joint owners: each is reconciled, the first error is kept.\<close>

fun reconcile_joint ::
  "JointPendingOperation list \<Rightarrow> SessionDomainError option \<Rightarrow> ('w, 'r) SessionApplication
     \<Rightarrow> SessionDomainError option \<times> ('w, 'r) SessionApplication" where
  "reconcile_joint [] first_error s = (first_error, s)"
| "reconcile_joint (pending # rest) first_error s =
     (let (res, s) =
        (case joint_owner s (jx_runtime_kind (jp_context (po_request pending))) (ja_binding (po_admission pending)) of
           Inl e \<Rightarrow> (Inl e, s)
         | Inr owner \<Rightarrow> call_joint (jl_reconcile owner pending) s)
      in reconcile_joint rest
           (case (first_error, res) of (None, Inl e) \<Rightarrow> Some e | _ \<Rightarrow> first_error) s)"

definition tolerate_missing ::
  "(ProviderControlError, 'a) result \<times> ('w, 'r) SessionApplication \<Rightarrow> (unit, 'w, 'r) outcome" where
  "tolerate_missing m =
     on_err m (\<lambda>e s. if is_provider_not_found e then (Inr (), s) else (Inl (map_provider_error e), s))
       (\<lambda>_ s. (Inr (), s))"

text \<open>A target session that was never published is stopped, its half-loaded instance included.\<close>

definition discard_target ::
  "('w, 'r) RuntimeRegistration \<Rightarrow> nat \<Rightarrow> string option \<Rightarrow> ('w, 'r) SessionApplication \<Rightarrow> (unit, 'w, 'r) outcome" where
  "discard_target reg h target s =
     (case target of
        None \<Rightarrow> (Inr (), s)
      | Some runtime_id \<Rightarrow>
          and_then (get_record runtime_id s) (\<lambda>found s.
            if found \<noteq> None then (Inr (), s)
            else
              and_then (provider_call h (abort_pending_snapshot_load runtime_id)
                          (stop_runtime_quietly reg runtime_id s)) (\<lambda>_ s.
                tolerate_missing (call_manager h (stop_instance runtime_id) s))))"

definition discard_snapshot ::
  "SnapshotCodec \<Rightarrow> ('w, 'r) RuntimeRegistration \<Rightarrow> string \<Rightarrow> nat \<Rightarrow> json \<Rightarrow> ('w, 'r) SessionApplication
     \<Rightarrow> (unit, 'w, 'r) outcome" where
  "discard_snapshot codec reg provider_id h body s =
     and_then (case json_str body ''snapshot'' of
                 None \<Rightarrow> (Inr (), s)
               | Some snapshot_id \<Rightarrow> tolerate_missing (call_manager h (delete_snapshot provider_id snapshot_id) s)) (\<lambda>_ s.
       case json_get body ''history'' of
         None \<Rightarrow> (Inr (), s)
       | Some history \<Rightarrow>
           (case sc_from_value codec history of
              Inl m \<Rightarrow> (Inl (DomInternal m None), s)
            | Inr state \<Rightarrow> runtime_call (ar_delete_checkpoint_state (rg_runtime reg) state) s))"

definition is_delete_intent :: "json \<Rightarrow> bool" where
  "is_delete_intent body \<longleftrightarrow> json_index body ''kind'' = JStr ''delete''"

text \<open>An intent of kind delete always names its checkpoint; the source's \<open>unwrap\<close> panics on one that
  does not, which is the last error here.\<close>

definition reconcile_snapshot_intent ::
  "SnapshotCodec \<Rightarrow> string \<Rightarrow> json \<Rightarrow> ('w, 'r) SessionApplication \<Rightarrow> (unit, 'w, 'r) outcome" where
  "reconcile_snapshot_intent codec intent_id body s =
     (if json_get body ''execution_backing'' \<noteq> None then (Inl (unsupported_joint ''legacy_intent''), s)
      else
        let kind = (case json_str body ''runtime_kind'' of None \<Rightarrow> [] | Some k \<Rightarrow> k);
            provider_id = (case json_str body ''provider'' of None \<Rightarrow> [] | Some p \<Rightarrow> p)
        in and_then (registration s kind, s) (\<lambda>reg s.
           and_then (ok_or (map_of (rg_providers reg) provider_id)
                       (DomUnavailable ''snapshot provider unavailable''), s) (\<lambda>h s.
           and_then (if is_delete_intent body then (Inr False, s)
                     else (case json_str body ''checkpoint'' of
                             None \<Rightarrow> (Inr False, s)
                           | Some c \<Rightarrow> and_then (call_repo (sp_get_checkpoint (sa_records s) c) s)
                                        (\<lambda>found s. (Inr (found \<noteq> None), s)))) (\<lambda>published s.
           and_then (discard_target reg h (json_str body ''target'') s) (\<lambda>_ s.
           and_then (if published then (Inr (), s) else discard_snapshot codec reg provider_id h body s) (\<lambda>_ s.
           and_then (if is_delete_intent body
                     then (case json_str body ''checkpoint'' of
                             None \<Rightarrow> (Inl (DomInternal ''called Option::unwrap() on a None value'' None), s)
                           | Some c \<Rightarrow> and_then (call_repo (sp_delete_checkpoint (sa_records s) c) s) (\<lambda>_ s. (Inr (), s)))
                     else (Inr (), s)) (\<lambda>_ s.
             delete_intent intent_id s)))))))"

definition intent_retry_delay :: "u64 \<Rightarrow> u64" where
  "intent_retry_delay attempts = min (push_bit (unat (min attempts 5)) 1000) 30000"

definition json_u64_or_zero :: "json \<Rightarrow> string \<Rightarrow> u64" where
  "json_u64_or_zero body key = (case json_u64 body key of None \<Rightarrow> 0 | Some n \<Rightarrow> n)"

text \<open>The note of a failed attempt on its intent.\<close>

definition retry_note ::
  "json \<Rightarrow> SessionDomainError \<Rightarrow> ('w, 'r) SessionApplication \<Rightarrow> json \<times> ('w, 'r) SessionApplication" where
  "retry_note body e s =
     (let attempts = saturating_add (json_u64_or_zero body ''retry_count'') 1;
          (now, s) = now_ms s
      in (with_field ''retry_at_ms'' (json_of_u64 (saturating_add now (intent_retry_delay attempts)))
            (with_field ''last_error'' (JStr (display_domain_error e))
              (with_field ''retry_count'' (json_of_u64 attempts) body)), s))"

fun reconcile_intents ::
  "SnapshotCodec \<Rightarrow> (string \<times> json) list \<Rightarrow> SessionDomainError option \<Rightarrow> ('w, 'r) SessionApplication
     \<Rightarrow> (SessionDomainError option, 'w, 'r) outcome" where
  "reconcile_intents codec [] first_error s = (Inr first_error, s)"
| "reconcile_intents codec ((intent_id, body) # rest) first_error s =
     (let (now, s) = now_ms s
      in if now < json_u64_or_zero body ''retry_at_ms'' then reconcile_intents codec rest first_error s
         else
           on_err (reconcile_snapshot_intent codec intent_id body s)
             (\<lambda>e s.
                let (body, s) = retry_note body e s
                in and_then (save_intent intent_id body s) (\<lambda>_ s.
                     reconcile_intents codec rest (case first_error of None \<Rightarrow> Some e | Some f \<Rightarrow> Some f) s))
             (\<lambda>_ s. reconcile_intents codec rest first_error s))"

text \<open>\<open>lock_free\<close> is the outcome of \<open>try_lock\<close> on the mutex a live snapshot operation holds.\<close>

definition reconcile_snapshot_intents ::
  "SnapshotCodec \<Rightarrow> bool \<Rightarrow> ('w, 'r) SessionApplication \<Rightarrow> (unit, 'w, 'r) outcome" where
  "reconcile_snapshot_intents codec lock_free s =
     and_then (call_repo (sp_pending_joint_operations (sa_records s)) s) (\<lambda>pending s.
       let (joint_error, s) = reconcile_joint pending None s
       in if \<not> lock_free then (case joint_error of None \<Rightarrow> (Inr (), s) | Some e \<Rightarrow> (Inl e, s))
          else
            and_then (call_repo (sp_operation_intents (sa_records s)) s) (\<lambda>intents s.
            and_then (reconcile_intents codec intents joint_error s) (\<lambda>first_error s.
              case first_error of None \<Rightarrow> (Inr (), s) | Some e \<Rightarrow> (Inl e, s))))"

end
