(* ===== verification/State_Frames.thy ===== *)
theory State_Frames
  imports Gov_Prelude
begin

text \<open>
  A calculus for what a computation on a state leaves alone. \<open>keeps f s m\<close> says that a computation \<open>m\<close>
  started in the state \<open>s\<close> ends in a state with the same \<open>f\<close>, \<open>preserves P s m\<close> that it ends in a state
  with \<open>P\<close> if it starts in one. Their rules follow the combinators by which the models are written and
  are proved once, for every relation that is closed under sequencing.
\<close>

section \<open>A calculus of frames\<close>

named_theorems frame "rules of the frame calculus"
named_theorems preserving "rules for what is preserved"

text \<open>A relation between the states before and after a computation that is closed under sequencing.\<close>

definition steps :: "('s \<Rightarrow> 's \<Rightarrow> bool) \<Rightarrow> 's \<Rightarrow> 'a \<times> 's \<Rightarrow> bool" where
  "steps R s m \<longleftrightarrow> R s (snd m)"

locale frame_relation =
  fixes R :: "'s \<Rightarrow> 's \<Rightarrow> bool"
  assumes R_refl: "R s s" and R_trans: "R s t \<Longrightarrow> R t u \<Longrightarrow> R s u"
begin

lemma steps_pure: "steps R s (a, s)"
  by (simp add: steps_def R_refl)

lemma steps_and_then:
  assumes "steps R s m" and "\<And>a t. m = (Inr a, t) \<Longrightarrow> steps R t (k a t)"
  shows "steps R s (and_then m k)"
proof (cases m)
  case (Pair r t)
  with assms show ?thesis by (cases r) (auto simp: steps_def intro: R_trans)
qed

lemma steps_on_err:
  assumes "steps R s m" and "\<And>e t. m = (Inl e, t) \<Longrightarrow> steps R t (h e t)"
    and "\<And>a t. m = (Inr a, t) \<Longrightarrow> steps R t (k a t)"
  shows "steps R s (on_err m h k)"
proof (cases m)
  case (Pair r t)
  with assms show ?thesis by (cases r) (auto simp: steps_def intro: R_trans)
qed

lemma steps_map_err: "steps R s m \<Longrightarrow> steps R s (map_err g m)"
  by (cases m; cases "fst m") (simp_all add: steps_def)

lemma steps_let:
  assumes "steps R s m" and "\<And>a t. m = (a, t) \<Longrightarrow> steps R t (k a t)"
  shows "steps R s (case m of (a, t) \<Rightarrow> k a t)"
  using assms by (cases m) (auto simp: steps_def intro: R_trans)

lemma steps_Let: "(\<And>a. a = b \<Longrightarrow> steps R s (k a)) \<Longrightarrow> steps R s (Let b k)"
  by (simp add: Let_def)

lemma steps_case_prod_arg:
  "(\<And>a b. p = (a, b) \<Longrightarrow> steps R s (k a b s)) \<Longrightarrow> steps R s ((case p of (a, b) \<Rightarrow> k a b) s)"
  by (cases p) simp

lemma steps_if: "(b \<Longrightarrow> steps R s m) \<Longrightarrow> (\<not> b \<Longrightarrow> steps R s n) \<Longrightarrow> steps R s (if b then m else n)"
  by simp

lemma steps_option:
  "(x = None \<Longrightarrow> steps R s m) \<Longrightarrow> (\<And>a. x = Some a \<Longrightarrow> steps R s (n a)) \<Longrightarrow>
   steps R s (case x of None \<Rightarrow> m | Some a \<Rightarrow> n a)"
  by (cases x) simp_all

lemma steps_sum:
  "(\<And>e. x = Inl e \<Longrightarrow> steps R s (m e)) \<Longrightarrow> (\<And>a. x = Inr a \<Longrightarrow> steps R s (n a)) \<Longrightarrow>
   steps R s (case x of Inl e \<Rightarrow> m e | Inr a \<Rightarrow> n a)"
  by (cases x) simp_all

lemma steps_list:
  "(x = [] \<Longrightarrow> steps R s m) \<Longrightarrow> (\<And>a as. x = a # as \<Longrightarrow> steps R s (n a as)) \<Longrightarrow>
   steps R s (case x of [] \<Rightarrow> m | a # as \<Rightarrow> n a as)"
  by (cases x) simp_all

lemma steps_ensure_that: "steps R s (ensure_that b e s)"
  by (cases b) (simp_all add: steps_def R_refl)

end

text \<open>What a computation leaves alone, and what it preserves.\<close>

definition keeps :: "('s \<Rightarrow> 'x) \<Rightarrow> 's \<Rightarrow> 'a \<times> 's \<Rightarrow> bool" where
  "keeps f s m \<longleftrightarrow> f (snd m) = f s"

definition preserves :: "('s \<Rightarrow> bool) \<Rightarrow> 's \<Rightarrow> 'a \<times> 's \<Rightarrow> bool" where
  "preserves P s m \<longleftrightarrow> (P s \<longrightarrow> P (snd m))"

interpretation kept: frame_relation "\<lambda>s t. f t = f s" for f :: "'s \<Rightarrow> 'x"
  by unfold_locales simp_all

interpretation preserved: frame_relation "\<lambda>s t. P s \<longrightarrow> P t" for P :: "'s \<Rightarrow> bool"
  by unfold_locales simp_all

lemma keeps_steps: "keeps f = steps (\<lambda>s t. f t = f s)"
  by (simp add: fun_eq_iff keeps_def steps_def)

lemma preserves_steps: "preserves P = steps (\<lambda>s t. P s \<longrightarrow> P t)"
  by (simp add: fun_eq_iff preserves_def steps_def)

lemmas keeps_pure [frame] = kept.steps_pure [folded keeps_steps]
lemmas keeps_and_then [frame] = kept.steps_and_then [folded keeps_steps]
lemmas keeps_on_err [frame] = kept.steps_on_err [folded keeps_steps]
lemmas keeps_map_err [frame] = kept.steps_map_err [folded keeps_steps]
lemmas keeps_let [frame] = kept.steps_let [folded keeps_steps]
lemmas keeps_Let [frame] = kept.steps_Let [folded keeps_steps]
lemmas keeps_case_prod_arg [frame] = kept.steps_case_prod_arg [folded keeps_steps]
lemmas keeps_if [frame] = kept.steps_if [folded keeps_steps]
lemmas keeps_option [frame] = kept.steps_option [folded keeps_steps]
lemmas keeps_sum [frame] = kept.steps_sum [folded keeps_steps]
lemmas keeps_list [frame] = kept.steps_list [folded keeps_steps]
lemmas keeps_ensure_that [frame] = kept.steps_ensure_that [folded keeps_steps]

lemmas preserves_pure [preserving] = preserved.steps_pure [folded preserves_steps]
lemmas preserves_and_then [preserving] = preserved.steps_and_then [folded preserves_steps]
lemmas preserves_on_err [preserving] = preserved.steps_on_err [folded preserves_steps]
lemmas preserves_map_err [preserving] = preserved.steps_map_err [folded preserves_steps]
lemmas preserves_let [preserving] = preserved.steps_let [folded preserves_steps]
lemmas preserves_Let [preserving] = preserved.steps_Let [folded preserves_steps]
lemmas preserves_case_prod_arg [preserving] = preserved.steps_case_prod_arg [folded preserves_steps]
lemmas preserves_if [preserving] = preserved.steps_if [folded preserves_steps]
lemmas preserves_option [preserving] = preserved.steps_option [folded preserves_steps]
lemmas preserves_sum [preserving] = preserved.steps_sum [folded preserves_steps]
lemmas preserves_list [preserving] = preserved.steps_list [folded preserves_steps]
lemmas preserves_ensure_that [preserving] = preserved.steps_ensure_that [folded preserves_steps]

lemma keeps_preserves: "keeps f s m \<Longrightarrow> preserves (\<lambda>s. P (f s)) s m"
  by (simp add: keeps_def preserves_def)

text \<open>A state that is changed before the computation goes on, or after it.\<close>

lemma keeps_before: "f t = f s \<Longrightarrow> keeps f t m \<Longrightarrow> keeps f s m"
  by (simp add: keeps_def)

lemma keeps_after: "f t = f s \<Longrightarrow> keeps f s (a, t)"
  by (simp add: keeps_def)

lemma keeps_snd: "keeps f s m \<Longrightarrow> f (snd m) = f s"
  by (simp add: keeps_def)

lemma keepsD: "keeps f s m \<Longrightarrow> m = (a, t) \<Longrightarrow> f t = f s"
  by (auto simp: keeps_def)

lemma keeps_comp: "keeps f s m \<Longrightarrow> keeps (\<lambda>s. g (f s)) s m"
  by (simp add: keeps_def)

end
