(* ===== verification/Application_Frames.thy ===== *)
theory Application_Frames
  imports Application_Recovery State_Frames
begin

text \<open>
  What the operations of the session application leave alone, in the calculus of frames: the frame of an
  operation follows from the frames of the calls it makes. The frames are proved for the application's
  own memory (turn gate, tenant counters, lease table) and, in the locale of the repository's contract,
  for the stored sessions.
\<close>

named_theorems memory_frame "what leaves the application's own memory alone"

section \<open>The application's own memory\<close>

definition app_config where
  "app_config s =
     (sa_runtimes s, sa_default_runtime_kind s, sa_records s, sa_turn_ids s, sa_runtime_ids s, sa_clock s,
      sa_lease_clock s)"

definition app_memory where
  "app_memory s = (app_config s, sa_turn_gate s, sa_tenant_sessions s, sa_lease_table s)"

lemma call_ambient_memory [memory_frame]: "keeps app_memory s (call_ambient f s)"
  by (simp add: keeps_def call_ambient_def app_memory_def app_config_def Let_def split: prod.split)

lemma call_repo_memory [memory_frame]: "keeps app_memory s (call_repo f s)"
  by (simp add: keeps_def call_repo_def app_memory_def app_config_def Let_def split: prod.split)

lemma call_joint_memory [memory_frame]: "keeps app_memory s (call_joint f s)"
  by (simp add: keeps_def call_joint_def app_memory_def app_config_def Let_def split: prod.split)

lemma call_manager_memory [memory_frame]: "keeps app_memory s (call_manager h f s)"
  by (simp add: keeps_def call_manager_def app_memory_def app_config_def Let_def split: prod.split)

lemmas call_defs = runtime_call_def provider_call_def save_record_def get_record_def now_ms_def
  next_runtime_id_def save_intent_def delete_intent_def operation_call_def host_call_def

lemma runtime_call_memory [memory_frame]: "keeps app_memory s (runtime_call f s)"
  and provider_call_memory [memory_frame]: "keeps app_memory s (provider_call h g s)"
  and save_record_memory [memory_frame]: "keeps app_memory s (save_record r s)"
  and get_record_memory [memory_frame]: "keeps app_memory s (get_record i s)"
  and now_ms_memory [memory_frame]: "keeps app_memory s (now_ms s)"
  and next_runtime_id_memory [memory_frame]: "keeps app_memory s (next_runtime_id s)"
  and save_intent_memory [memory_frame]: "keeps app_memory s (save_intent i b s)"
  and delete_intent_memory [memory_frame]: "keeps app_memory s (delete_intent i s)"
  and operation_call_memory [memory_frame]: "keeps app_memory s (operation_call p s)"
  and host_call_memory [memory_frame]: "keeps app_memory s (host_call q s)"
  unfolding call_defs by (intro frame memory_frame)+

lemma stop_runtime_quietly_memory [simp]: "app_memory (stop_runtime_quietly reg i s) = app_memory s"
  by (simp add: stop_runtime_quietly_def keeps_snd call_ambient_memory)

lemma stop_instance_quietly_memory [simp]: "app_memory (stop_instance_quietly h i s) = app_memory s"
  by (simp add: stop_instance_quietly_def keeps_snd call_manager_memory)

lemma delete_state_quietly_memory [simp]: "app_memory (delete_state_quietly reg st s) = app_memory s"
  by (simp add: delete_state_quietly_def keeps_snd call_ambient_memory)

lemma delete_snapshot_quietly_memory [simp]: "app_memory (delete_snapshot_quietly h p i s) = app_memory s"
  by (simp add: delete_snapshot_quietly_def keeps_snd call_manager_memory)

lemma require_session_memory [memory_frame]: "keeps app_memory s (require_session ctx i s)"
  unfolding require_session_def Let_def by (intro frame memory_frame; simp add: keeps_def)

lemma check_lease_holder_memory [memory_frame]: "keeps app_memory s (check_lease_holder i lease s)"
  unfolding check_lease_holder_def Let_def by (intro frame memory_frame; simp add: keeps_def)

lemma joint_context_memory [memory_frame]: "keeps app_memory s (joint_context ctx r b opr target ck s)"
  unfolding joint_context_def Let_def by (intro frame memory_frame; simp add: keeps_def)

lemma export_runtime_snapshot_memory [memory_frame]: "keeps app_memory s (export_runtime_snapshot reg i s)"
  unfolding export_runtime_snapshot_def Let_def by (intro frame memory_frame; simp add: keeps_def)

lemma mark_restoration_failed_memory [simp]: "app_memory (mark_restoration_failed r e s) = app_memory s"
proof (cases "now_ms s")
  case (Pair now t)
  then show ?thesis
    using keepsD [OF now_ms_memory Pair] by (simp add: mark_restoration_failed_def keeps_snd [OF save_record_memory])
qed

lemma restart_runtime_memory [memory_frame]: "keeps app_memory s (restart_runtime reg r b s)"
  unfolding restart_runtime_def Let_def by (intro frame memory_frame; simp add: keeps_def)

lemma reattach_runtime_memory [memory_frame]: "keeps app_memory s (reattach_runtime reg r s)"
  unfolding reattach_runtime_def Let_def by (intro frame memory_frame; simp add: keeps_def)

lemma ensure_runtime_attached_memory [memory_frame]: "keeps app_memory s (ensure_runtime_attached r s)"
  unfolding ensure_runtime_attached_def Let_def by (intro frame memory_frame; simp add: keeps_def)

lemma refresh_memory [memory_frame]: "keeps app_memory s (refresh_docker_snapshot_capabilities r s)"
  unfolding refresh_docker_snapshot_capabilities_def Let_def by (intro frame memory_frame; simp add: keeps_def)

lemma open_existing_memory [memory_frame]: "keeps app_memory s (open_existing ctx request i r s)"
  unfolding open_existing_def Let_def by (intro frame memory_frame; simp add: keeps_def)

lemma open_joint_memory [memory_frame]: "keeps app_memory s (open_joint ctx request i kind reg owner n wire s)"
  unfolding open_joint_def Let_def by (intro frame memory_frame; simp add: keeps_def)

lemma export_or_blank_memory [memory_frame]: "keeps app_memory s (export_or_blank reg i s)"
  unfolding export_or_blank_def by (intro frame memory_frame)

lemma answer_interaction_memory [memory_frame]: "keeps app_memory s (answer_interaction_impl ctx request s)"
  unfolding answer_interaction_impl_def by (intro frame memory_frame)

lemma cancel_memory [memory_frame]: "keeps app_memory s (cancel_impl ctx i turn s)"
  unfolding cancel_impl_def Let_def by (intro frame memory_frame)

lemma check_alive_memory [memory_frame]: "keeps app_memory s (check_alive ctx i s)"
  unfolding check_alive_def by (intro frame memory_frame)

lemma persist_terminal_memory [memory_frame]: "keeps app_memory s (persist_terminal reg i event s)"
  unfolding persist_terminal_def Let_def by (intro frame memory_frame)

lemma destroy_instance_memory [memory_frame]: "keeps app_memory s (destroy_instance_of reg r i s)"
  unfolding destroy_instance_of_def by (intro frame; simp add: split_beta memory_frame)

lemma checkpoint_joint_memory [memory_frame]: "keeps app_memory s (checkpoint_joint ctx r binding s)"
  unfolding checkpoint_joint_def Let_def by (intro frame memory_frame)

lemma publish_checkpoint_memory [memory_frame]:
  "keeps app_memory s (publish_checkpoint ctx r i ck p h reg state snapshot s)"
  unfolding publish_checkpoint_def Let_def by (intro frame memory_frame; simp add: keeps_def)

lemma checkpoint_split_memory [memory_frame]: "keeps app_memory s (checkpoint_split codec ctx r i reg s)"
  unfolding checkpoint_split_def Let_def by (intro frame memory_frame; simp add: keeps_def)

lemma list_checkpoints_memory [memory_frame]: "keeps app_memory s (list_checkpoints_impl ctx n m s)"
  unfolding list_checkpoints_impl_def Let_def by (intro frame memory_frame)

lemma list_sessions_memory [memory_frame]: "keeps app_memory s (list_sessions_impl ctx n s)"
  unfolding list_sessions_impl_def by (intro frame memory_frame)

lemma load_joint_memory [memory_frame]: "keeps app_memory s (load_joint ctx request i c s)"
  unfolding load_joint_def Let_def by (intro frame memory_frame)

lemma delete_checkpoint_memory [memory_frame]: "keeps app_memory s (delete_checkpoint_impl codec ctx request s)"
  unfolding delete_checkpoint_impl_def delete_joint_checkpoint_def delete_split_checkpoint_def Let_def
  by (intro frame memory_frame)

lemma discard_target_memory [memory_frame]: "keeps app_memory s (discard_target reg h target s)"
proof -
  have stopped: "keeps app_memory t (and_then (provider_call h f (stop_runtime_quietly reg i t)) k)"
    if "\<And>a u. keeps app_memory u (k a u)" for t i and f :: "_ manager \<Rightarrow> (_, unit) result \<times> _" and k
    by (rule keeps_before [where t = "stop_runtime_quietly reg i t"]) (simp, intro keeps_and_then provider_call_memory that)
  show ?thesis
    unfolding discard_target_def tolerate_missing_def
    by (intro keeps_option keeps_pure, rule keeps_and_then, rule get_record_memory, intro keeps_if keeps_pure,
        rule stopped, intro frame memory_frame)
qed

lemma discard_snapshot_memory [memory_frame]: "keeps app_memory s (discard_snapshot codec reg p h body s)"
  unfolding discard_snapshot_def tolerate_missing_def by (intro frame memory_frame)

lemma reconcile_snapshot_intent_memory [memory_frame]:
  "keeps app_memory s (reconcile_snapshot_intent codec i body s)"
  unfolding reconcile_snapshot_intent_def Let_def by (intro frame memory_frame)

lemma retry_note_memory [memory_frame]: "keeps app_memory s (retry_note body e s)"
  unfolding retry_note_def Let_def by (intro frame memory_frame)

lemma reconcile_intents_memory [memory_frame]: "keeps app_memory s (reconcile_intents codec intents first_error s)"
proof (induction intents arbitrary: first_error s)
  case (Cons intent intents)
  obtain i body where intent: "intent = (i, body)" by (cases intent)
  show ?case
    unfolding intent reconcile_intents.simps Let_def
    by (rule keeps_let [OF now_ms_memory], intro keeps_if keeps_on_err keeps_and_then
        keeps_let [OF retry_note_memory] reconcile_snapshot_intent_memory save_intent_memory Cons.IH)
qed (simp add: keeps_def)

lemma reconcile_joint_memory [memory_frame]: "keeps app_memory s (reconcile_joint pending first_error s)"
proof (induction pending arbitrary: first_error s)
  case (Cons p pending)
  show ?case
    unfolding reconcile_joint.simps Let_def
    by (rule keeps_let, intro keeps_sum keeps_pure call_joint_memory, rule Cons.IH)
qed (simp add: keeps_def)

lemma reconcile_snapshot_intents_memory [memory_frame]:
  "keeps app_memory s (reconcile_snapshot_intents codec lock_free s)"
  unfolding reconcile_snapshot_intents_def Let_def
  by (intro keeps_and_then keeps_let [OF reconcile_joint_memory] keeps_if keeps_option keeps_pure
      call_repo_memory reconcile_intents_memory)

end
