(* ===== verification/Application_Demo.thy ===== *)
theory Application_Demo
  imports Application_Recovery Manager_Demo
begin

text \<open>
  A small deployment to run the application with: a repository in memory, a runtime that answers every
  turn with one piece of output, the provider of \<open>Manager_Demo\<close>, and sessions of two tenants. The
  repository meets the contract of session repositories.
\<close>

section \<open>A repository in memory\<close>

record demo_store =
  ds_sessions :: "(string \<times> SessionRecord) list"
  ds_intents :: "(string \<times> json) list"
  ds_checkpoints :: "(string \<times> CheckpointRecord) list"

definition demo_sessions :: "demo_store \<Rightarrow> string \<Rightarrow> SessionRecord option" where
  "demo_sessions w = map_of (ds_sessions w)"

definition demo_save :: "SessionRecord \<Rightarrow> (unit, demo_store) repo_call" where
  "demo_save r w =
     (Inr (), w\<lparr>ds_sessions := AList.update (sn_runtime_id r)
        (case map_of (ds_sessions w) (sn_runtime_id r) of
           None \<Rightarrow> r | Some old \<Rightarrow> r\<lparr>sn_created_at_ms := sn_created_at_ms old\<rparr>) (ds_sessions w)\<rparr>)"

definition demo_active :: "string option \<Rightarrow> demo_store \<Rightarrow> SessionRecord list" where
  "demo_active t w =
     filter (\<lambda>r. sn_status r \<notin> {SsClosed, SsFailed} \<and> (t = None \<or> sn_tenant_id r = t)) (map snd (ds_sessions w))"

definition demo_repository :: "demo_store SessionRepository" where
  "demo_repository =
     \<lparr> sp_supports_joint_transactions = False,
       sp_get_joint_checkpoint = (\<lambda>i w. (Inr None, w)),
       sp_pending_joint_operations = (\<lambda>w. (Inr [], w)),
       sp_get = (\<lambda>i w. (Inr (demo_sessions w i), w)),
       sp_save = demo_save,
       sp_list_active = (\<lambda>t n w. (Inr \<lparr> lp_sessions = take n (demo_active t w),
           lp_total_active = word_of_nat (length (demo_active t w)) \<rparr>, w)),
       sp_save_operation_intent = (\<lambda>i b w. (Inr (), w\<lparr>ds_intents := AList.update i b (ds_intents w)\<rparr>)),
       sp_operation_intents = (\<lambda>w. (Inr (ds_intents w), w)),
       sp_delete_operation_intent = (\<lambda>i w. (Inr (), w\<lparr>ds_intents := AList.delete i (ds_intents w)\<rparr>)),
       sp_save_checkpoint = (\<lambda>k w. (Inr (), w\<lparr>ds_checkpoints := AList.update (ck_checkpoint_id k) k (ds_checkpoints w)\<rparr>)),
       sp_get_checkpoint = (\<lambda>i w. (Inr (map_of (ds_checkpoints w) i), w)),
       sp_delete_checkpoint = (\<lambda>i w. (Inr (map_of (ds_checkpoints w) i \<noteq> None),
           w\<lparr>ds_checkpoints := AList.delete i (ds_checkpoints w)\<rparr>)),
       sp_list_checkpoints = (\<lambda>t n m w. (Inr \<lparr> cp_checkpoints = [], cp_total = 0 \<rparr>, w)),
       sp_active_session_counts_by_tenant = (\<lambda>w. (Inr (\<lambda>t. case length (demo_active (Some t) w) of
           0 \<Rightarrow> None | Suc n \<Rightarrow> Some (Suc n)), w)) \<rparr>"

interpretation demo_store: session_repository demo_repository demo_sessions "\<lambda>w r. True"
  by unfold_locales
    (auto simp: demo_repository_def demo_sessions_def demo_save_def update_conv' split: option.splits nat.splits)

section \<open>A runtime and its sessions\<close>

definition demo_backend :: "demo_world OperationBackend" where
  "demo_backend =
     \<lparr> ob_backend_id = ''be'',
       ob_capabilities = \<lparr> oc_supports_atomic_write = False, oc_supports_grep = False,
         oc_supports_export_file = False, oc_supports_lsp = False \<rparr>,
       ob_workspace_root = ''/work'', ob_home_dir = None,
       ob_resolve_path = (\<lambda>q w. (Inr (''/work/'' @ rz_raw_path q), w)),
       ob_stat = (\<lambda>p w. (Inl (OpNotFound p), w)),
       ob_read_bytes = (\<lambda>p w. (Inr ''text'', w)),
       ob_write_bytes = (\<lambda>q w. (Inl (OpNotFound (wb_path q)), w)),
       ob_create_dir_all = (\<lambda>p w. (Inr (), w)),
       ob_temp_path = (\<lambda>q w. (Inr ''/tmp/x'', w)),
       ob_glob = (\<lambda>q w. (Inr [], w)), ob_grep = (\<lambda>q w. (Inr [], w)), ob_default_shell = None,
       ob_exec = (\<lambda>q w. (Inl (OpNotFound (exq_command q)), w)),
       ob_permission_control = None, ob_execution_control = None, ob_shutdown = (\<lambda>w. (Inr (), w)) \<rparr>"

definition demo_snapshot :: RuntimeStateSnapshot where
  "demo_snapshot = \<lparr> rs_runtime_kind = ''pi'', rs_schema_version = 1, rs_state = JStr ''state'' \<rparr>"

definition demo_runtime :: "(demo_world, demo_world OperationBackend) AgentRuntime" where
  "demo_runtime =
     \<lparr> ar_runtime_kind = ''pi'', ar_validate_llm_config = default_validate_llm_config,
       ar_capabilities_for_context = (\<lambda>ext. {RcStateExport}),
       ar_start = (\<lambda>q b w. (Inr (), w)), ar_attach = (\<lambda>i b w. (Inr (), w)), ar_stop = (\<lambda>i w. (Inr (), w)),
       ar_check_alive = (\<lambda>i w. (Inr True, w)),
       ar_submit_turn = (\<lambda>q w. (Inr [ReOutputDelta ''assistant'' 1 ''done'', ReCompleted OutComplete default_SessionUsage], w)),
       ar_answer_interaction = (\<lambda>q w. (Inr (), w)), ar_cancel = (\<lambda>q w. (Inr (), w)),
       ar_probe_llm = default_probe_llm, ar_describe_llm = (\<lambda>i w. (Inr None, w)),
       ar_export_state = (\<lambda>i w. (Inr demo_snapshot, w)),
       ar_export_checkpoint_state = (\<lambda>i w. (Inr demo_snapshot, w)),
       ar_delete_checkpoint_state = (\<lambda>st w. (Inr (), w)), ar_load_state = (\<lambda>i st w. (Inr (), w)) \<rparr>"

definition demo_isolation :: IsolationFacts where
  "demo_isolation =
     \<lparr> if_boundary = Container, if_workspace_access = ReadWrite, if_network = NetIsolated, if_metadata = JNull \<rparr>"

definition demo_workspace :: RuntimeWorkspace where
  "demo_workspace =
     \<lparr> rw_workspace_id = ''ws'', rw_root = ''/work'', rw_access = ReadWrite, rw_revision = None, rw_metadata = JNull \<rparr>"

text \<open>A normalizer that gives every session the same container.\<close>

definition demo_environment :: "demo_world SessionEnvironmentNormalizer" where
  "demo_environment = (\<lambda>ctx request w.
     (Inr \<lparr> ne_workspace = demo_workspace, ne_isolation = demo_isolation,
            ne_sandbox_capabilities = {SbExec, SbFileRead}, ne_llm = None, ne_lease = None \<rparr>, w))"

text \<open>One provider, or two between which a request has to choose.\<close>

definition demo_registration :: "string list \<Rightarrow> (demo_world, demo_store) RuntimeRegistration" where
  "demo_registration providers =
     new_RuntimeRegistration demo_runtime (map (\<lambda>p. (p, 0)) providers) demo_environment"

definition demo_provider :: "string list \<Rightarrow> demo_world manager" where
  "demo_provider is =
     new_InstanceManager demo_lifecycle (\<lambda>inst w. (Inr demo_backend, w)) demo_ledger demo_ambient ''local''
       (new_InstanceManagerConfig 2 3)
       \<lparr> dw_ids = is, dw_create_failures = 0, dw_delete_failures = 0, dw_clock = 0,
         dw_active = [], dw_deleted = [] \<rparr>"

definition demo_record :: "string \<Rightarrow> string \<Rightarrow> SessionStatus \<Rightarrow> SessionRecord" where
  "demo_record i t status =
     \<lparr> sn_execution_backing = SplitV1, sn_runtime_id = i, sn_conversation_id = ''c'', sn_sender_id = ''u'',
       sn_status = status, sn_created_at_ms = 1, sn_updated_at_ms = 1, sn_workspace = demo_workspace,
       sn_isolation = demo_isolation,
       sn_capabilities = \<lparr> ef_sandbox = {SbExec, SbFileRead}, ef_runtime = {DcStateExport} \<rparr>,
       sn_runtime = demo_snapshot, sn_llm = None, sn_lease = None, sn_lineage = None, sn_last_error = None,
       sn_tenant_id = Some t, sn_created_by = ''u'' \<rparr>"

definition demo_store_of :: "SessionRecord list \<Rightarrow> demo_store" where
  "demo_store_of rs = \<lparr> ds_sessions = map (\<lambda>r. (sn_runtime_id r, r)) rs, ds_intents = [], ds_checkpoints = [] \<rparr>"

definition demo_app ::
  "string list \<Rightarrow> SessionRecord list \<Rightarrow> (string \<rightharpoonup> nat) \<Rightarrow> (demo_world, demo_store) SessionApplication" where
  "demo_app providers rs counts =
     \<lparr> sa_runtimes = [''pi'' \<mapsto> demo_registration providers], sa_default_runtime_kind = ''pi'',
       sa_records = demo_repository, sa_turn_ids = (\<lambda>w. (''t1'', w)), sa_runtime_ids = (\<lambda>w. (''r1'', w)),
       sa_clock = (\<lambda>w. (7, w)), sa_lease_clock = (\<lambda>w. (Some 7, w)), sa_lease_table = None,
       sa_turn_gate = default_TurnGate, sa_tenant_sessions = counts,
       sa_managers = (\<lambda>h. demo_provider [''i1'', ''i2'']), sa_repo = demo_store_of rs,
       sa_world = im_world (demo_provider [''i1'', ''i2'']) \<rparr>"

lemmas demo_app_defs =
  demo_app_def demo_store_of_def demo_record_def demo_registration_def new_RuntimeRegistration_def
  demo_runtime_def demo_environment_def demo_workspace_def demo_isolation_def demo_snapshot_def
  demo_repository_def demo_sessions_def demo_save_def demo_backend_def default_TurnGate_def
  default_probe_llm_def default_validate_llm_config_def

lemmas call_simps = call_ambient_def call_repo_def call_manager_def runtime_call_def provider_call_def
  save_record_def get_record_def now_ms_def next_runtime_id_def

lemma demo_app_records [simp]: "sa_records (demo_app providers rs counts) = demo_repository"
  by (simp add: demo_app_def)

lemma demo_app_sessions:
  "demo_sessions (sa_repo (demo_app providers rs counts)) = map_of (map (\<lambda>r. (sn_runtime_id r, r)) rs)"
  by (simp add: demo_app_def demo_sessions_def demo_store_of_def)

end
