(* ===== verification/Application_Access.thy ===== *)
theory Application_Access
  imports Application_Frames Application_Demo
begin

text \<open>
  Who can reach a session, and that an operation gives back what it claims. The calls on sessions are
  gathered in the type \<open>SessionCall\<close>, so that a property of all of them is stated once.
\<close>

section \<open>The calls on sessions\<close>

datatype SessionCall =
    CallVisible string
  | CallOpen SessionOpenRequest
  | CallSubmit SessionTurnRequest
  | CallAnswer SessionInteractionRequest
  | CallCancel string "string option"
  | CallClose string SessionLeaseClaim
  | CallReclaim string
  | CallAlive string
  | CallDetach string SessionLeaseClaim
  | CallHeartbeat string SessionLeaseClaim
  | CallExec SessionExecRequest
  | CallRead SessionFileReadRequest
  | CallWrite SessionFileWriteRequest
  | CallCheckpoint SessionCheckpointRequest
  | CallLoad SessionLoadRequest
  | CallFork SessionForkRequest

text \<open>The identifier of the session that a call looks up. Opening looks up the identifier it is given, if any.
  Loading a checkpoint and forking look up no session under the identifier of the session they create, which
  a fork has besides that of its parent.\<close>

fun call_target :: "SessionCall \<Rightarrow> string option" where
  "call_target (CallVisible i) = Some i"
| "call_target (CallOpen q) = oq_runtime_id q"
| "call_target (CallSubmit q) = Some (tq_runtime_id q)"
| "call_target (CallAnswer q) = Some (iq_runtime_id q)"
| "call_target (CallCancel i _) = Some i"
| "call_target (CallClose i _) = Some i"
| "call_target (CallReclaim i) = Some i"
| "call_target (CallAlive i) = Some i"
| "call_target (CallDetach i _) = Some i"
| "call_target (CallHeartbeat i _) = Some i"
| "call_target (CallExec q) = Some (xq_runtime_id q)"
| "call_target (CallRead q) = Some (rq_runtime_id q)"
| "call_target (CallWrite q) = Some (wq_runtime_id q)"
| "call_target (CallCheckpoint q) = Some (kq_runtime_id q)"
| "call_target (CallLoad q) = None"
| "call_target (CallFork q) = Some (fq_parent_runtime_id q)"

text \<open>The outcome without the value returned.\<close>

definition erased :: "('a, 'w, 'r) outcome \<Rightarrow> (unit, 'w, 'r) outcome" where
  "erased m = and_then m (\<lambda>_ s. (Inr (), s))"

fun perform ::
  "Base64 \<Rightarrow> SnapshotCodec \<Rightarrow> SecurityContext \<Rightarrow> SessionCall \<Rightarrow> ('w, 'r) SessionApplication
     \<Rightarrow> (unit, 'w, 'r) outcome" where
  "perform b codec ctx (CallVisible i) s = check_visible ctx i s"
| "perform b codec ctx (CallOpen q) s = erased (open_impl ctx q s)"
| "perform b codec ctx (CallSubmit q) s = erased (submit_turn_impl ctx q s)"
| "perform b codec ctx (CallAnswer q) s = erased (answer_interaction_impl ctx q s)"
| "perform b codec ctx (CallCancel i turn) s = cancel_impl ctx i turn s"
| "perform b codec ctx (CallClose i lease) s = erased (close_impl ctx i lease s)"
| "perform b codec ctx (CallReclaim i) s = erased (reclaim_impl ctx i s)"
| "perform b codec ctx (CallAlive i) s = erased (check_alive ctx i s)"
| "perform b codec ctx (CallDetach i lease) s = erased (detach_impl ctx i lease s)"
| "perform b codec ctx (CallHeartbeat i lease) s = erased (heartbeat_impl ctx i lease s)"
| "perform b codec ctx (CallExec q) s = erased (exec_impl ctx q s)"
| "perform b codec ctx (CallRead q) s = erased (read_file_impl b ctx q s)"
| "perform b codec ctx (CallWrite q) s = erased (write_file_impl b ctx q s)"
| "perform b codec ctx (CallCheckpoint q) s = erased (checkpoint codec ctx q s)"
| "perform b codec ctx (CallLoad q) s = erased (load_checkpoint ctx q s)"
| "perform b codec ctx (CallFork q) s = erased (fork_impl codec ctx q s)"

section \<open>Sessions of other tenants\<close>

text \<open>The call failed and did nothing but read: the error is that of a missing session, or that of a
  repository that could not be read.\<close>

definition hidden ::
  "('r \<Rightarrow> string \<Rightarrow> SessionRecord option) \<Rightarrow> string \<Rightarrow> ('w, 'r) SessionApplication \<Rightarrow> ('a, 'w, 'r) outcome \<Rightarrow> bool" where
  "hidden view i s m \<longleftrightarrow>
     (\<exists>e w. m = (Inl e, s\<lparr>sa_repo := w\<rparr>) \<and> view w = view (sa_repo s)
        \<and> (e = DomNotFound i \<or> (\<exists>w0 w1. sp_get (sa_records s) i w0 = (Inl e, w1))))"

lemma hiddenI:
  assumes "view w = view (sa_repo s)" and "e = DomNotFound i \<or> sp_get (sa_records s) i w0 = (Inl e, w1)"
  shows "hidden view i s (Inl e, s\<lparr>sa_repo := w\<rparr>)"
  unfolding hidden_def using assms by blast

lemma hiddenE:
  assumes "hidden view i s m"
  obtains e w where "m = (Inl e, s\<lparr>sa_repo := w\<rparr>)" and "view w = view (sa_repo s)"
    and "e = DomNotFound i \<or> (\<exists>w0 w1. sp_get (sa_records s) i w0 = (Inl e, w1))"
  using assms unfolding hidden_def by blast

lemma hidden_and_then: "hidden view i s m \<Longrightarrow> hidden view i s (and_then m k)"
  by (erule hiddenE) (auto intro: hiddenI)

lemma hidden_erased: "hidden view i s m \<Longrightarrow> hidden view i s (erased m)"
  unfolding erased_def by (rule hidden_and_then)

lemma hidden_after_read:
  assumes "hidden view i (s\<lparr>sa_repo := w\<rparr>) m" and "view w = view (sa_repo s)"
  shows "hidden view i s m"
proof -
  from assms(1) obtain e w' where "m = (Inl e, s\<lparr>sa_repo := w'\<rparr>)" and "view w' = view w"
      and "e = DomNotFound i \<or> (\<exists>w0 w1. sp_get (sa_records s) i w0 = (Inl e, w1))"
    by (rule hiddenE) simp
  with assms(2) show ?thesis by (auto intro: hiddenI)
qed

context session_repository
begin

lemma get_outcome:
  obtains (failed) e w where "call_repo (sp_get repo i) s = (Inl e, s\<lparr>sa_repo := w\<rparr>)" and "view w = view (sa_repo s)"
      and "sp_get repo i (sa_repo s) = (Inl e, w)"
  | (read) w where "call_repo (sp_get repo i) s = (Inr (view (sa_repo s) i), s\<lparr>sa_repo := w\<rparr>)"
      and "view w = view (sa_repo s)" and "storable w = storable (sa_repo s)"
proof -
  obtain found w where got: "sp_get repo i (sa_repo s) = (found, w)" by (cases "sp_get repo i (sa_repo s)")
  then have same: "view w = view (sa_repo s)" "storable w = storable (sa_repo s)" using get_view by blast+
  show ?thesis
  proof (cases found)
    case (Inl e)
    then show ?thesis using got same failed by (simp add: call_repo_def)
  next
    case (Inr f)
    then have "f = view (sa_repo s) i" using get_view [OF got] by simp
    then show ?thesis using Inr got same read by (simp add: call_repo_def)
  qed
qed

lemma require_session_unfold:
  assumes "i \<noteq> []"
  shows "require_session ctx i s = and_then (get_record i s) (\<lambda>found s.
       case found of
         None \<Rightarrow> (Inl (DomNotFound i), s)
       | Some r \<Rightarrow> if \<not> owns ctx (sn_tenant_id r) then (Inl (DomNotFound i), s) else (Inr r, s))"
  using assms by (simp add: require_session_def require_non_empty_runtime_id_def get_record_def)

lemma require_session_hidden:
  assumes "sa_records s = repo" and "i \<noteq> []"
    and "\<And>r. view (sa_repo s) i = Some r \<Longrightarrow> \<not> owns ctx (sn_tenant_id r)"
  shows "hidden view i s (require_session ctx i s)"
proof (cases rule: get_outcome [of i s])
  case (failed e w)
  then show ?thesis using assms(1,2) by (auto simp: require_session_unfold get_record_def intro: hiddenI)
next
  case (read w)
  then show ?thesis using assms
    by (auto simp: require_session_unfold get_record_def intro: hiddenI split: option.splits)
qed

lemma read_then_hidden:
  assumes "sa_records s = repo"
    and "\<And>w found. view w = view (sa_repo s) \<Longrightarrow> hidden view i (s\<lparr>sa_repo := w\<rparr>) (k found (s\<lparr>sa_repo := w\<rparr>))"
  shows "hidden view i s (and_then (get_record i s) k)"
proof (cases rule: get_outcome [of i s])
  case (failed e w)
  then show ?thesis using assms(1) by (auto simp: get_record_def intro: hiddenI)
next
  case (read w)
  then show ?thesis using assms by (auto simp: get_record_def intro: hidden_after_read)
qed

lemma open_foreign_hidden:
  assumes "sa_records s = repo" and "oq_runtime_id request = Some i" and "i \<noteq> []"
    and "view (sa_repo s) i = Some r" and "\<not> owns ctx (sn_tenant_id r)"
  shows "hidden view i s (open_impl ctx request s)"
proof (cases rule: get_outcome [of i s])
  case (failed e w)
  then show ?thesis using assms
    by (auto simp: open_impl_def require_non_empty_runtime_id_def get_record_def intro: hiddenI)
next
  case (read w)
  then show ?thesis using assms
    by (auto simp: open_impl_def require_non_empty_runtime_id_def get_record_def open_existing_def intro: hiddenI)
qed

lemma perform_hidden:
  assumes "sa_records s = repo" and "call_target c = Some i" and "i \<noteq> []"
    and "view (sa_repo s) i = Some r" and "\<not> owns ctx (sn_tenant_id r)"
  shows "hidden view i s (perform b codec ctx c s)"
proof -
  have req: "hidden view i s (require_session ctx i s)"
    by (rule require_session_hidden [OF assms(1,3)]) (use assms(4,5) in simp)
  show ?thesis
  proof (cases c)
    case (CallOpen q)
    then show ?thesis using assms by (auto intro: hidden_erased open_foreign_hidden)
  next
    case (CallClose j lease)
    have "hidden view i s (close_impl ctx i lease s)"
      unfolding close_impl_def
      by (rule read_then_hidden [OF assms(1)], rule hidden_and_then, rule require_session_hidden)
        (use assms in auto)
    then show ?thesis using CallClose assms(2) by (simp add: hidden_erased)
  next
    case (CallCheckpoint q)
    have "hidden view (kq_runtime_id q) s (checkpoint codec ctx q s)"
      unfolding checkpoint_def
      by (rule read_then_hidden [OF assms(1)], rule hidden_and_then, rule require_session_hidden)
        (use assms CallCheckpoint in auto)
    then show ?thesis using CallCheckpoint assms(2) by (simp add: hidden_erased)
  qed (use req assms(2) in \<open>auto simp: check_visible_def submit_turn_impl_def answer_interaction_impl_def cancel_impl_def
        reclaim_impl_def check_alive_def detach_impl_def heartbeat_impl_def exec_impl_def read_file_impl_def
        write_file_impl_def routed_def fork_impl_def Let_def intro!: hidden_erased hidden_and_then\<close>)
qed

end

text \<open>C2. A session of another tenant is out of reach for every call that looks a session up by its identifier:
  turns, answers, cancellations, closing, reclaiming, liveness checks, detaching, heartbeats, commands, file
  transfers, checkpoints, forks of it and an open under its identifier. The call fails with the error of a
  missing session (or with the error of a repository that cannot be read), changes nothing but what reading
  changes in the repository, and leaves every stored session as it was. Loading a checkpoint, and the child of a
  fork, look up no session under the identifier they store to, and the property says nothing of that
  identifier.\<close>

theorem foreign_session_hidden:
  assumes "session_repository (sa_records s) view storable"
    and "view (sa_repo s) i = Some r" and "\<not> owns ctx (sn_tenant_id r)" and "i \<noteq> []"
    and "call_target c = Some i"
  shows "hidden view i s (perform b codec ctx c s)"
  using session_repository.perform_hidden [OF assms(1) refl assms(5,4,2,3)] .

theorem foreign_session_hidden_witness:
  "hidden demo_sessions ''r2''
     (demo_app [''be''] [demo_record ''r2'' ''globex'' SsIdle] Map.empty)
     (perform \<lparr> b6_encode = id, b6_decode = Some \<rparr> \<lparr> sc_to_value = Inr \<circ> rs_state, sc_from_value = \<lambda>j. Inl ''x'' \<rparr>
        (tenant ''acme'' ''u'') (CallReclaim ''r2'')
        (demo_app [''be''] [demo_record ''r2'' ''globex'' SsIdle] Map.empty))"
proof -
  let ?s = "demo_app [''be''] [demo_record ''r2'' ''globex'' SsIdle] Map.empty"
  have "session_repository (sa_records ?s) demo_sessions (\<lambda>w r. True)"
    using demo_store.session_repository_axioms by simp
  moreover have "demo_sessions (sa_repo ?s) ''r2'' = Some (demo_record ''r2'' ''globex'' SsIdle)"
    by (simp add: demo_app_sessions demo_record_def)
  moreover have "\<not> owns (tenant ''acme'' ''u'') (sn_tenant_id (demo_record ''r2'' ''globex'' SsIdle))"
    by (simp add: owns_def tenant_def demo_record_def)
  ultimately show ?thesis
    by (intro foreign_session_hidden) simp_all
qed

section \<open>Claims\<close>

text \<open>The calls that work on the sandbox of a session, under a claim of its turn.\<close>

fun claims_session :: "SessionCall \<Rightarrow> bool" where
  "claims_session (CallExec _) = True"
| "claims_session (CallRead _) = True"
| "claims_session (CallWrite _) = True"
| "claims_session (CallCheckpoint _) = True"
| "claims_session (CallFork _) = True"
| "claims_session _ = False"

lemma memory_gate: "keeps app_memory s m \<Longrightarrow> keeps sa_turn_gate s m"
  by (simp add: keeps_def app_memory_def)

lemmas gate_frame = memory_frame [THEN memory_gate]

lemma reserve_slot_gate: "keeps sa_turn_gate s (reserve_slot ctx s)"
  by (simp add: reserve_slot_def reserve_tenant_session_def keeps_def Let_def split: option.split)

lemma release_slot_gate [simp]: "sa_turn_gate (release_slot t s) = sa_turn_gate s"
  by (simp add: release_slot_def release_tenant_session_def split: option.split)

lemma memory_gate_eq: "app_memory t = app_memory s \<Longrightarrow> sa_turn_gate t = sa_turn_gate s"
  by (simp add: app_memory_def)

lemma quiet_gate [simp]:
  "sa_turn_gate (stop_runtime_quietly reg i s) = sa_turn_gate s"
  "sa_turn_gate (stop_instance_quietly h i s) = sa_turn_gate s"
  "sa_turn_gate (delete_state_quietly reg st s) = sa_turn_gate s"
  "sa_turn_gate (delete_snapshot_quietly h p i s) = sa_turn_gate s"
  by (rule memory_gate_eq, simp)+

lemma abandon_gate [simp]:
  "sa_turn_gate (abandon_instance ctx h i s) = sa_turn_gate s"
  "sa_turn_gate (abandon_runtime ctx reg h i s) = sa_turn_gate s"
  by (simp_all add: abandon_instance_def abandon_runtime_def)

lemma publish_fork_gate: "keeps sa_turn_gate s (publish_fork ctx q parent i now h reg state llm s)"
  unfolding publish_fork_def Let_def by (intro frame gate_frame; simp add: keeps_def)

lemma fork_from_snapshot_gate:
  "keeps sa_turn_gate s (fork_from_snapshot ctx q parent i now p h reg exported snapshot s)"
proof -
  have quiet: "keeps sa_turn_gate t m" if "keeps sa_turn_gate (delete_snapshot_quietly h p snapshot t) m" for t m
    using that by (simp add: keeps_def)
  have quiet': "keeps sa_turn_gate t m" if "keeps sa_turn_gate (delete_state_quietly reg exported t) m" for t m
    using that by (simp add: keeps_def)
  show ?thesis
    unfolding fork_from_snapshot_def Let_def
    by (rule keeps_let, rule gate_frame, rule quiet, rule keeps_on_err, rule keeps_pure, simp add: keeps_def,
        rule keeps_on_err, rule gate_frame, simp add: keeps_def, rule keeps_on_err, rule quiet',
        rule gate_frame, simp add: keeps_def, intro frame publish_fork_gate)
qed

lemma fork_reserved_gate: "keeps sa_turn_gate s (fork_reserved codec ctx q parent i now reg s)"
  unfolding fork_reserved_def Let_def
  by (intro frame gate_frame fork_from_snapshot_gate; simp add: keeps_def)

lemma guarded_gate:
  assumes "\<And>t. keeps sa_turn_gate t (body t)"
  shows "keeps sa_turn_gate s (guarded i body s)"
proof (cases "call_ambient (sa_turn_ids s) s")
  case (Pair turn t)
  then have same: "sa_turn_gate t = sa_turn_gate s"
    by (intro memory_gate_eq keepsD [OF call_ambient_memory])
  show ?thesis
  proof (cases "tg_active (sa_turn_gate s) i")
    case None
    let ?u = "t\<lparr>sa_turn_gate := (sa_turn_gate s)\<lparr>tg_active := (tg_active (sa_turn_gate s))(i \<mapsto> ''operation-'' @ turn)\<rparr>\<rparr>"
    have "sa_turn_gate (snd (body ?u)) = sa_turn_gate ?u" by (rule keeps_snd [OF assms])
    moreover have "(tg_active (sa_turn_gate s))(i := None) = tg_active (sa_turn_gate s)"
      using None by (simp add: fun_upd_idem)
    ultimately show ?thesis
      using None by (simp add: guarded_def claim_operation_def Pair claim_def same keeps_def release_claim_def
          release_def split_beta Let_def)
  next
    case (Some t')
    then show ?thesis
      by (simp add: guarded_def claim_operation_def Pair claim_def same keeps_def)
  qed
qed

lemma routed_gate:
  "(\<And>t. keeps sa_turn_gate t (m t)) \<Longrightarrow> (\<And>t. keeps sa_turn_gate t (n t)) \<Longrightarrow> keeps sa_turn_gate s (routed ctx i m n s)"
  unfolding routed_def by (intro frame gate_frame)

lemma joint_host_access_gate:
  assumes "\<And>h t. keeps sa_turn_gate t (body h t)"
  shows "keeps sa_turn_gate s (joint_host_access ctx i lease cap request body s)"
  unfolding joint_host_access_def Let_def by (intro frame gate_frame guarded_gate assms)

lemma operation_backend_gate:
  assumes "\<And>h t. keeps sa_turn_gate t (body h t)"
  shows "keeps sa_turn_gate s (operation_backend ctx i lease cap body s)"
  unfolding operation_backend_def by (intro frame gate_frame guarded_gate assms)

lemma create_parents_gate: "keeps sa_turn_gate s (create_parents_of backend path s)"
  unfolding create_parents_of_def
  by (cases "rsplit_once (CHR ''/'') path") (auto intro!: frame gate_frame)

lemmas access_gate = routed_gate joint_host_access_gate operation_backend_gate create_parents_gate

lemma exec_gate: "keeps sa_turn_gate s (exec_impl ctx q s)"
  unfolding exec_impl_def exec_joint_def exec_split_def Let_def by (intro access_gate frame gate_frame)

lemma read_file_gate: "keeps sa_turn_gate s (read_file_impl b ctx q s)"
  unfolding read_file_impl_def Let_def by (intro access_gate frame gate_frame)

lemma write_file_gate: "keeps sa_turn_gate s (write_file_impl b ctx q s)"
  unfolding write_file_impl_def write_file_joint_def write_file_split_def Let_def
  by (intro access_gate frame gate_frame)

lemma checkpoint_gate: "keeps sa_turn_gate s (checkpoint codec ctx q s)"
  unfolding checkpoint_def by (intro frame gate_frame guarded_gate)

lemma fork_gate: "keeps sa_turn_gate s (fork_impl codec ctx q s)"
proof -
  have fresh: "keeps sa_turn_gate t (case fq_runtime_id q of Some i \<Rightarrow> (i, t) | None \<Rightarrow> next_runtime_id t)" for t :: "('a, 'b) SessionApplication"
    by (intro frame gate_frame)
  show ?thesis
    unfolding fork_impl_def Let_def
    by (intro frame gate_frame guarded_gate fresh reserve_slot_gate fork_reserved_gate)
qed

lemma keeps_erased: "keeps f s m \<Longrightarrow> keeps f s (erased m)"
  unfolding erased_def by (intro frame)

lemma perform_gate: "claims_session c \<Longrightarrow> keeps sa_turn_gate s (perform b codec ctx c s)"
  by (cases c) (auto intro!: keeps_erased exec_gate read_file_gate write_file_gate checkpoint_gate fork_gate)

text \<open>What a refused call may have done to the outside: looked sessions up, and drawn the number of an operation and
  read the lease clock. Every command, file access and call of a runtime, a provider or a joint owner would be
  another change of the outside.\<close>

inductive looked_up :: "('w, 'r) SessionApplication \<Rightarrow> ('w, 'r) SessionApplication \<Rightarrow> bool" for s where
  untouched: "looked_up s s"
| number_drawn: "looked_up s t \<Longrightarrow> looked_up s (t\<lparr>sa_world := snd (sa_turn_ids s (sa_world t))\<rparr>)"
| clock_read: "looked_up s t \<Longrightarrow> looked_up s (t\<lparr>sa_world := snd (sa_lease_clock s (sa_world t))\<rparr>)"
| session_read: "looked_up s t \<Longrightarrow> looked_up s (t\<lparr>sa_repo := snd (sp_get (sa_records s) i (sa_repo t))\<rparr>)"

definition quiet ::
  "('r \<Rightarrow> string \<Rightarrow> SessionRecord option) \<Rightarrow> ('w, 'r) SessionApplication \<Rightarrow> ('w, 'r) SessionApplication \<Rightarrow> bool" where
  "quiet view s t \<longleftrightarrow>
     looked_up s t \<and> t = s\<lparr>sa_world := sa_world t, sa_repo := sa_repo t\<rparr> \<and> view (sa_repo t) = view (sa_repo s)"

lemma quiet_refl: "quiet view s s"
  by (simp add: quiet_def untouched)

lemma quietE:
  assumes "quiet view s t"
  obtains w r where "looked_up s t" and "t = s\<lparr>sa_world := w, sa_repo := r\<rparr>" and "view r = view (sa_repo s)"
  using assms unfolding quiet_def by blast

lemma quiet_fields:
  assumes "quiet view s t"
  shows "app_memory t = app_memory s" and "sa_managers t = sa_managers s" and "sa_records t = sa_records s"
    and "view (sa_repo t) = view (sa_repo s)" and "sa_turn_gate t = sa_turn_gate s"
    and "sa_turn_ids t = sa_turn_ids s" and "sa_lease_clock t = sa_lease_clock s"
  using assms by (auto elim!: quietE simp: app_memory_def app_config_def)

lemma quiet_turn_id: "quiet view s t \<Longrightarrow> quiet view s (t\<lparr>sa_world := snd (sa_turn_ids s (sa_world t))\<rparr>)"
  using number_drawn [of s t] by (elim quietE) (simp add: quiet_def)

lemma quiet_lease_clock: "quiet view s t \<Longrightarrow> quiet view s (t\<lparr>sa_world := snd (sa_lease_clock s (sa_world t))\<rparr>)"
  using clock_read [of s t] by (elim quietE) (simp add: quiet_def)

lemma quiet_repo:
  assumes "quiet view s t" and "sp_get (sa_records s) i (sa_repo t) = (found, r)" and "view r = view (sa_repo t)"
  shows "quiet view s (t\<lparr>sa_repo := r\<rparr>)"
  using assms session_read [of s t i] by (elim quietE) (simp add: quiet_def)

lemma quiet_gate_again: "quiet view s t \<Longrightarrow> quiet view s (t\<lparr>sa_turn_gate := sa_turn_gate s\<rparr>)"
  by (elim quietE) (simp add: quiet_def)

definition refused ::
  "('r \<Rightarrow> string \<Rightarrow> SessionRecord option) \<Rightarrow> ('w, 'r) SessionApplication \<Rightarrow> ('a, 'w, 'r) outcome \<Rightarrow> bool" where
  "refused view s m \<longleftrightarrow> quiet view s (snd m) \<and> (\<exists>e. fst m = Inl e)"

lemma refused_and_then:
  assumes "quiet view s (snd m)" and "\<And>a t. m = (Inr a, t) \<Longrightarrow> quiet view s t \<Longrightarrow> refused view s (k a t)"
  shows "refused view s (and_then m k)"
proof (cases m)
  case (Pair r t)
  with assms show ?thesis by (cases r) (auto simp: refused_def)
qed

lemma refused_pure_then:
  assumes "quiet view s t" and "\<And>a. x = Inr a \<Longrightarrow> refused view s (k a t)"
  shows "refused view s (and_then (x, t) k)"
  using assms by (intro refused_and_then) auto

lemma refused_erased: "refused view s m \<Longrightarrow> refused view s (erased m)"
  by (cases m; cases "fst m") (auto simp: refused_def erased_def)

lemma check_lease_holder_quiet:
  assumes "quiet view s t"
  shows "quiet view s (snd (check_lease_holder i lease t))"
proof -
  have "quiet view s (t\<lparr>sa_world := snd (sa_lease_clock t (sa_world t))\<rparr>)"
    using quiet_lease_clock [OF assms] quiet_fields(7) [OF assms] by simp
  then show ?thesis
    using assms
    by (auto simp: check_lease_holder_def call_ambient_def map_err_def Let_def split: option.split prod.split sum.split)
qed

lemma guarded_busy:
  assumes "quiet view s t" and "tg_active (sa_turn_gate s) i = Some other"
  shows "refused view s (guarded i body t)"
proof -
  let ?t = "t\<lparr>sa_world := snd (sa_turn_ids t (sa_world t))\<rparr>"
  have "quiet view s ?t"
    using quiet_turn_id [OF assms(1)] quiet_fields(6) [OF assms(1)] by simp
  then have "quiet view s (?t\<lparr>sa_turn_gate := sa_turn_gate s\<rparr>)" by (rule quiet_gate_again)
  then show ?thesis
    using assms(2) quiet_fields(5) [OF assms(1)]
    by (auto simp: guarded_def claim_operation_def claim_def call_ambient_def refused_def split_beta Let_def)
qed

context session_repository
begin

lemma call_get_quiet:
  assumes "quiet view s t" and "sa_records s = repo"
  obtains found w where "call_repo (sp_get repo i) t = (found, t\<lparr>sa_repo := w\<rparr>)" and "quiet view s (t\<lparr>sa_repo := w\<rparr>)"
proof -
  obtain found w where got: "sp_get repo i (sa_repo t) = (found, w)" by (cases "sp_get repo i (sa_repo t)")
  then have "view w = view (sa_repo t)" using get_view by blast
  then show thesis
    using got quiet_repo [OF assms(1)] assms(2) by (intro that [of found w]) (auto simp: call_repo_def)
qed

lemma get_record_quiet:
  assumes "quiet view s t" and "sa_records s = repo"
  shows "quiet view s (snd (get_record i t))"
  using assms(2) quiet_fields(3) [OF assms(1)] by (auto simp: get_record_def intro: call_get_quiet [OF assms, of i])

lemma require_session_quiet:
  assumes "quiet view s t" and "sa_records s = repo"
  shows "quiet view s (snd (require_session ctx i t))"
proof (cases "i = []")
  case True
  then show ?thesis using assms by (simp add: require_session_def require_non_empty_runtime_id_def)
next
  case False
  obtain found w where "get_record i t = (found, t\<lparr>sa_repo := w\<rparr>)" and "quiet view s (t\<lparr>sa_repo := w\<rparr>)"
    using call_get_quiet [OF assms, of i] assms quiet_fields [OF assms(1)] by (auto simp: get_record_def)
  then show ?thesis
    using False by (cases found) (auto simp: require_session_unfold split: option.split)
qed

lemma routed_busy:
  assumes "sa_records s = repo"
    and "\<And>t. quiet view s t \<Longrightarrow> refused view s (m t)" and "\<And>t. quiet view s t \<Longrightarrow> refused view s (n t)"
  shows "refused view s (routed ctx i m n s)"
  unfolding routed_def
  by (intro refused_and_then require_session_quiet quiet_refl assms(1)) (auto intro: assms)

lemma joint_host_access_busy:
  assumes "quiet view s t" and "sa_records s = repo" and "tg_active (sa_turn_gate s) i = Some other"
  shows "refused view s (joint_host_access ctx i lease cap request body t)"
  unfolding joint_host_access_def using assms
  by (intro refused_and_then require_session_quiet check_lease_holder_quiet guarded_busy) simp_all

lemma operation_backend_busy:
  assumes "quiet view s t" and "sa_records s = repo" and "tg_active (sa_turn_gate s) i = Some other"
  shows "refused view s (operation_backend ctx i lease cap body t)"
  unfolding operation_backend_def using assms
  by (intro refused_and_then require_session_quiet check_lease_holder_quiet guarded_busy) simp_all

lemma perform_busy:
  assumes "sa_records s = repo" and "claims_session c" and "call_target c = Some i" and "tg_active (sa_turn_gate s) i = Some other"
  shows "refused view s (perform b codec ctx c s)"
proof (cases c)
  case (CallCheckpoint q)
  then show ?thesis
    using assms
    by (auto simp: checkpoint_def intro!: refused_erased refused_and_then get_record_quiet require_session_quiet
        check_lease_holder_quiet guarded_busy quiet_refl)
next
  case (CallFork q)
  then show ?thesis
    using assms
    by (auto simp: fork_impl_def intro!: refused_erased refused_and_then require_session_quiet
        check_lease_holder_quiet guarded_busy quiet_refl)
qed (use assms in \<open>auto simp: exec_impl_def exec_joint_def exec_split_def read_file_impl_def write_file_impl_def
      write_file_joint_def write_file_split_def Let_def
      intro!: refused_erased routed_busy joint_host_access_busy operation_backend_busy refused_pure_then\<close>)

end

text \<open>C5. Commands, file transfers, checkpoints and forks give back the claim they take: whatever happens in
  them, the turn gate is afterwards what it was before. While a turn or another operation holds the
  session, they fail before they reach its sandbox: of the outside they have only looked sessions up, drawn
  the number of an operation and read the lease clock, so no command has run and no file has been touched; and
  no instance manager, no stored session, no counter and no lease changes.\<close>

theorem operations_return_claim:
  assumes "session_repository (sa_records s) view storable" and "claims_session c"
  shows "sa_turn_gate (snd (perform b codec ctx c s)) = sa_turn_gate s \<and>
    (Option.bind (call_target c) (tg_active (sa_turn_gate s)) \<noteq> None \<longrightarrow>
       (\<exists>e. fst (perform b codec ctx c s) = Inl e) \<and> quiet view s (snd (perform b codec ctx c s)))"
  using keeps_snd [OF perform_gate [OF assms(2)]] session_repository.perform_busy [OF assms(1) refl assms(2)]
  by (auto simp: refused_def split: bind_splits)

definition demo_busy :: "(demo_world, demo_store) SessionApplication" where
  "demo_busy =
     (demo_app [''be''] [demo_record ''r2'' ''globex'' SsIdle] Map.empty)
       \<lparr>sa_turn_gate := default_TurnGate\<lparr>tg_active := [''r2'' \<mapsto> ''t9'']\<rparr>\<rparr>"

theorem operations_return_claim_witness:
  "\<exists>e t. perform \<lparr> b6_encode = id, b6_decode = Some \<rparr>
      \<lparr> sc_to_value = Inr \<circ> rs_state, sc_from_value = \<lambda>j. Inl ''x'' \<rparr> (tenant ''globex'' ''u'')
      (CallRead \<lparr> rq_runtime_id = ''r2'', rq_path = ''a'', rq_lease = default_SessionLeaseClaim \<rparr>) demo_busy = (Inl e, t)
    \<and> quiet demo_sessions demo_busy t \<and> sa_turn_gate t = sa_turn_gate demo_busy"
proof -
  let ?c = "CallRead \<lparr> rq_runtime_id = ''r2'', rq_path = ''a'', rq_lease = default_SessionLeaseClaim \<rparr>"
  have "session_repository (sa_records demo_busy) demo_sessions (\<lambda>w r. True)"
    using demo_store.session_repository_axioms by (simp add: demo_busy_def)
  moreover have "claims_session ?c" by simp
  moreover have "Option.bind (call_target ?c) (tg_active (sa_turn_gate demo_busy)) \<noteq> None"
    by (simp add: demo_busy_def)
  ultimately show ?thesis
    using operations_return_claim [of demo_busy demo_sessions "\<lambda>w r. True" ?c] by (metis prod.collapse)
qed

end
