(* ===== verification/Application_Turns.thy ===== *)
theory Application_Turns
  imports Application_Access
begin

text \<open>
  The task that forwards the events of a turn: what a subscriber receives, what is stored before it does,
  and what is left of the turn's claim.
\<close>

section \<open>What the subscriber receives\<close>

text \<open>The events that end a turn.\<close>

fun turn_over :: "SessionEvent \<Rightarrow> bool" where
  "turn_over (EvTurnCompleted _ _ _ _) = True"
| "turn_over (EvTurnFailed _ _ _ _) = True"
| "turn_over _ = False"

lemma turn_over_project [simp]: "turn_over (project_runtime_event i t event) = is_terminal_event event"
  by (cases event) simp_all

lemma settle_terminal [simp]: "is_terminal_event (fst (settle_event reg i t event s)) = is_terminal_event event"
  by (auto simp: settle_event_def persist_failure_event_def Let_def split: prod.split sum.split)

definition before_terminal :: "RuntimeEvent list \<Rightarrow> RuntimeEvent list" where
  "before_terminal = takeWhile (\<lambda>e. \<not> is_terminal_event e)"

text \<open>A stream: projected events before the terminal one in their order, from the first on, and after
  all of them perhaps one event that ends the turn.\<close>

definition turn_stream :: "string \<Rightarrow> string \<Rightarrow> RuntimeEvent list \<Rightarrow> SessionEvent list \<Rightarrow> SessionEvent list \<Rightarrow> bool" where
  "turn_stream i t events body ending \<longleftrightarrow>
     body = map (project_runtime_event i t) (take (length body) (before_terminal events)) \<and>
     length ending \<le> 1 \<and>
     (ending \<noteq> [] \<longrightarrow> turn_over (hd ending) \<and> length body = length (before_terminal events))"

lemma turn_stream_Nil: "turn_stream i t events [] []"
  by (simp add: turn_stream_def)

lemma turn_stream_Cons:
  assumes "\<not> is_terminal_event e" and "turn_stream i t events body ending"
  shows "turn_stream i t (e # events) (project_runtime_event i t e # body) ending"
  using assms by (simp add: turn_stream_def before_terminal_def)

lemma turn_stream_body: "turn_stream i t events body ending \<Longrightarrow> e \<in> set body \<Longrightarrow> \<not> turn_over e"
proof -
  assume stream: "turn_stream i t events body ending" and "e \<in> set body"
  then have "e \<in> project_runtime_event i t ` set (take (length body) (before_terminal events))"
    unfolding turn_stream_def by (metis list.set_map)
  then show ?thesis
    by (auto dest!: in_set_takeD simp: before_terminal_def dest: set_takeWhileD)
qed

lemma settle_other: "\<not> is_terminal_event event \<Longrightarrow> settle_event reg i t event s = (event, s)"
  by (simp add: settle_event_def)

lemma forward_loop_stream:
  assumes "forward_loop reg i t deliver k events s = ((sent, seen, abandoned), s')"
  shows "\<exists>body ending. sent = body @ ending \<and> turn_stream i t events body ending \<and>
     (ending \<noteq> [] \<longrightarrow> seen) \<and> (seen \<and> \<not> abandoned \<longrightarrow> ending \<noteq> []) \<and>
     (\<not> seen \<and> \<not> abandoned \<longrightarrow> before_terminal events = events \<and> length body = length events) \<and>
     (abandoned \<longrightarrow> (\<exists>n. \<not> deliver n))"
  using assms
proof (induction events arbitrary: k s sent seen abandoned)
  case Nil
  then show ?case by (auto simp: turn_stream_def before_terminal_def)
next
  case (Cons e events)
  obtain settled u where se: "settle_event reg i t e s = (settled, u)" by (cases "settle_event reg i t e s")
  then have term_eq: "is_terminal_event settled = is_terminal_event e" using settle_terminal [of reg i t e s] by simp
  show ?case
  proof (cases "deliver k")
    case False
    with Cons.prems se have "sent = []" "seen = is_terminal_event e" "abandoned" by auto
    then show ?thesis using False turn_stream_Nil by auto
  next
    case True
    show ?thesis
    proof (cases "is_terminal_event e")
      case True
      with Cons.prems se \<open>deliver k\<close> have "sent = [project_runtime_event i t settled]" "seen" "\<not> abandoned" by auto
      then show ?thesis using True term_eq
        by (intro exI [of _ "[]"] exI [of _ "[project_runtime_event i t settled]"])
          (simp add: turn_stream_def before_terminal_def)
    next
      case False
      then have "settled = e \<and> u = s" using se by (simp add: settle_other)
      with Cons.prems se False True obtain later where
        loop: "forward_loop reg i t deliver (k + 1) events s = ((later, seen, abandoned), s')"
        and sent: "sent = project_runtime_event i t e # later"
        by (auto simp: Let_def split: prod.splits)
      from Cons.IH [OF loop] obtain body ending where "later = body @ ending"
          and "turn_stream i t events body ending" and rest: "ending \<noteq> [] \<longrightarrow> seen" "seen \<and> \<not> abandoned \<longrightarrow> ending \<noteq> []"
            "\<not> seen \<and> \<not> abandoned \<longrightarrow> before_terminal events = events \<and> length body = length events"
            "abandoned \<longrightarrow> (\<exists>n. \<not> deliver n)"
        by blast
      with False have "turn_stream i t (e # events) (project_runtime_event i t e # body) ending"
        by (intro turn_stream_Cons)
      moreover have "\<not> seen \<and> \<not> abandoned \<longrightarrow> before_terminal (e # events) = e # events"
        using rest False by (simp add: before_terminal_def)
      ultimately show ?thesis using \<open>later = body @ ending\<close> sent rest by (metis append_Cons length_Cons)
    qed
  qed
qed

section \<open>The claim of the turn\<close>

lemma release_again: "release i t (release i t g) = release i t g"
  by (simp add: release_def)

lemma settle_gate:
  "sa_turn_gate (snd (settle_event reg i t event s)) \<in> {sa_turn_gate s, release i t (sa_turn_gate s)}"
  using keeps_snd [OF memory_gate [OF persist_terminal_memory], of reg i event s]
  by (auto simp: settle_event_def release_claim_def Let_def split: prod.split sum.split)

lemma forward_loop_gate:
  "release i t (sa_turn_gate (snd (forward_loop reg i t deliver k events s))) = release i t (sa_turn_gate s)"
proof (induction events arbitrary: k s)
  case (Cons e events)
  obtain settled u where se: "settle_event reg i t e s = (settled, u)" by (cases "settle_event reg i t e s")
  then have "release i t (sa_turn_gate u) = release i t (sa_turn_gate s)"
    using settle_gate [of reg i t e s] by (auto simp: release_again)
  then show ?case using Cons.IH [of "k + 1" u] se by (auto simp: Let_def split: prod.splits)
qed simp

lemma forward_turn_gate:
  "sa_turn_gate (snd (forward_turn reg i t deliver events s)) = release i t (sa_turn_gate s)"
proof -
  obtain sent seen abandoned u where loop: "forward_loop reg i t deliver 0 events s = ((sent, seen, abandoned), u)"
    by (cases "forward_loop reg i t deliver 0 events s") auto
  then have "release i t (sa_turn_gate u) = release i t (sa_turn_gate s)"
    using forward_loop_gate [of i t reg deliver 0 events s] by simp
  then show ?thesis
    using loop
    by (simp add: forward_turn_def release_claim_def Let_def keeps_snd [OF memory_gate [OF call_ambient_memory]])
qed

text \<open>C6. The subscriber of a turn receives the runtime's events in their order, each exactly once from the
  first on, and at most one event that ends the turn, after all others; if no delivery fails there is
  exactly one. Whatever the runtime sends and however delivery fails, the turn's claim is given back,
  and no other claim is touched.\<close>

theorem turn_stream_ends_once:
  assumes "forward_turn reg i t deliver events s = (sent, s')"
  shows "(\<exists>body ending. sent = body @ ending \<and>
       body = map (project_runtime_event i t) (take (length body) (before_terminal events)) \<and>
       (\<forall>e \<in> set body. \<not> turn_over e) \<and>
       (ending = [] \<or> (\<exists>e. ending = [e] \<and> turn_over e \<and> length body = length (before_terminal events))) \<and>
       ((\<forall>k. deliver k) \<longrightarrow> ending \<noteq> [])) \<and>
     sa_turn_gate s' = release i t (sa_turn_gate s)"
proof
  obtain loop_sent seen abandoned u where loop:
      "forward_loop reg i t deliver 0 events s = ((loop_sent, seen, abandoned), u)"
    by (cases "forward_loop reg i t deliver 0 events s") auto
  from forward_loop_stream [OF this] obtain body ending where ls: "loop_sent = body @ ending"
      and stream: "turn_stream i t events body ending"
      and ends: "ending \<noteq> [] \<longrightarrow> seen" "seen \<and> \<not> abandoned \<longrightarrow> ending \<noteq> []"
        "\<not> seen \<and> \<not> abandoned \<longrightarrow> before_terminal events = events \<and> length body = length events"
        "abandoned \<longrightarrow> (\<exists>n. \<not> deliver n)"
    by blast
  define closing where "closing =
      (if \<not> seen \<and> \<not> abandoned \<and> deliver (length events) then [stream_closed_event i t] else [])"
  have sent: "sent = body @ (ending @ closing)"
    using assms loop ls by (auto simp: forward_turn_def closing_def Let_def split: prod.splits if_splits)
  have stream': "turn_stream i t events body (ending @ closing)"
    using stream ends by (auto simp: turn_stream_def closing_def stream_closed_event_def)
  have "ending @ closing = [] \<or> (\<exists>e. ending @ closing = [e] \<and> turn_over e \<and> length body = length (before_terminal events))"
    using stream' by (cases "ending @ closing") (auto simp: turn_stream_def)
  moreover have "(\<forall>k. deliver k) \<longrightarrow> ending @ closing \<noteq> []" using ends by (auto simp: closing_def)
  ultimately show "\<exists>body ending. sent = body @ ending \<and>
       body = map (project_runtime_event i t) (take (length body) (before_terminal events)) \<and>
       (\<forall>e \<in> set body. \<not> turn_over e) \<and>
       (ending = [] \<or> (\<exists>e. ending = [e] \<and> turn_over e \<and> length body = length (before_terminal events))) \<and>
       ((\<forall>k. deliver k) \<longrightarrow> ending \<noteq> [])"
    using sent stream' turn_stream_body [OF stream'] unfolding turn_stream_def by blast
next
  show "sa_turn_gate s' = release i t (sa_turn_gate s)"
    using forward_turn_gate [of reg i t deliver events s] assms by simp
qed

theorem turn_stream_ends_once_witness:
  "\<exists>body ending. fst (forward_turn (demo_registration [''be'']) ''r2'' ''t1'' (\<lambda>k. True) [ReOutputDelta ''a'' 1 ''x'']
        (demo_app [''be''] [demo_record ''r2'' ''globex'' SsIdle] Map.empty)) = body @ ending \<and>
      length body \<le> 1 \<and> (\<exists>e. ending = [e] \<and> turn_over e)"
proof -
  let ?m = "forward_turn (demo_registration [''be'']) ''r2'' ''t1'' (\<lambda>k. True) [ReOutputDelta ''a'' 1 ''x'']
        (demo_app [''be''] [demo_record ''r2'' ''globex'' SsIdle] Map.empty)"
  have "?m = (fst ?m, snd ?m)" by simp
  from turn_stream_ends_once [OF this] obtain body ending where "fst ?m = body @ ending"
      and body: "body = map (project_runtime_event ''r2'' ''t1'')
            (take (length body) (before_terminal [ReOutputDelta ''a'' 1 ''x'']))"
      and "\<exists>e. ending = [e] \<and> turn_over e"
    by auto
  moreover have "length body \<le> 1"
    using arg_cong [OF body, of length] by (simp add: before_terminal_def)
  ultimately show ?thesis by blast
qed

section \<open>What is stored before the subscriber knows\<close>

text \<open>The sessions of a state, as far as the frames below speak of them.\<close>

definition stored where
  "stored repo view storable s =
     (sa_records s = repo, if sa_records s = repo then Some (view (sa_repo s), storable (sa_repo s)) else None)"

lemma call_ambient_stored: "keeps (stored repo view storable) s (call_ambient f s)"
  by (simp add: keeps_def stored_def call_ambient_def Let_def split: prod.split)

lemma runtime_call_stored: "keeps (stored repo view storable) s (runtime_call f s)"
  unfolding runtime_call_def by (intro keeps_map_err call_ambient_stored)

lemma now_ms_stored: "keeps (stored repo view storable) s (now_ms s)"
  unfolding now_ms_def by (rule call_ambient_stored)

lemma release_claim_stored [simp]: "stored repo view storable (release_claim i t s) = stored repo view storable s"
  by (simp add: stored_def release_claim_def)

lemma stored_eq:
  "sa_records s = repo \<Longrightarrow> stored repo view storable t = stored repo view storable s \<longleftrightarrow>
     sa_records t = repo \<and> view (sa_repo t) = view (sa_repo s) \<and> storable (sa_repo t) = storable (sa_repo s)"
  by (auto simp: stored_def)

context session_repository
begin

lemma get_record_stored: "keeps (stored repo view storable) s (get_record i s)"
proof (cases "sa_records s = repo")
  case True
  then show ?thesis
    using get_view [of i "sa_repo s" "fst (sp_get repo i (sa_repo s))" "snd (sp_get repo i (sa_repo s))"]
    by (simp add: keeps_def get_record_def call_repo_def stored_def split_beta)
qed (simp add: keeps_def get_record_def call_repo_def stored_def split_beta)

lemma get_record_found:
  assumes "get_record i s = (Inr found, t)" and "sa_records s = repo"
  shows "found = view (sa_repo s) i"
  using assms by (cases rule: get_outcome [of i s]) (auto simp: get_record_def)

lemma save_record_own:
  assumes "save_record r s = (Inr (), t)" and "sa_records s = repo" and "storable (sa_repo s) r"
  shows "view (sa_repo t) (sn_runtime_id r) = Some (case view (sa_repo s) (sn_runtime_id r) of
           None \<Rightarrow> r | Some old \<Rightarrow> r\<lparr>sn_created_at_ms := sn_created_at_ms old\<rparr>)"
  using assms save_own [of r "sa_repo s"] by (auto simp: save_record_def call_repo_def split: prod.splits)

lemma persist_terminal_stores:
  assumes "persist_terminal reg i event s = (Inr (), s')" and "sa_records s = repo"
    and "\<And>r. view (sa_repo s) i = Some r \<Longrightarrow> sn_runtime_id r = i"
    and "\<And>r. sn_runtime_id r = i \<Longrightarrow> storable (sa_repo s) r"
  shows "\<exists>old r. view (sa_repo s) i = Some old \<and> view (sa_repo s') i = Some r \<and> sn_status r = status_after event"
proof -
  from assms(1) obtain state s1 found s2 r0 s3 llm s4 where
    exported: "on_err (runtime_call (ar_export_state (rg_runtime reg) i) s)
                 (\<lambda>e s. if is_dom_unsupported e then (Inr None, s) else (Inl e, s))
                 (\<lambda>state s. (Inr (Some state), s)) = (Inr state, s1)"
    and got: "get_record i s1 = (Inr found, s2)" and r0: "(ok_or found (DomNotFound i), s2) = (Inr r0, s3)"
    and described: "runtime_call (ar_describe_llm (rg_runtime reg) i) s3 = (Inr llm, s4)"
    and saved: "(let r = (case state of None \<Rightarrow> r0 | Some st \<Rightarrow> r0\<lparr>sn_runtime := st\<rparr>);
                     r = (case llm of None \<Rightarrow> r | Some l \<Rightarrow> r\<lparr>sn_llm := Some (resolved_llm_from l)\<rparr>);
                     (now, s) = now_ms s4
                 in save_record (r\<lparr>sn_status := status_after event, sn_updated_at_ms := now\<rparr>) s) = (Inr (), s')"
    unfolding persist_terminal_def Let_def by (elim and_then_InrE) blast
  have "keeps (stored repo view storable) s (on_err (runtime_call (ar_export_state (rg_runtime reg) i) s)
                 (\<lambda>e s. if is_dom_unsupported e then (Inr None, s) else (Inl e, s))
                 (\<lambda>state s. (Inr (Some state), s)))"
    by (intro frame runtime_call_stored)
  from keepsD [OF this exported] have s1: "stored repo view storable s1 = stored repo view storable s" .
  with keepsD [OF get_record_stored got] have s2: "stored repo view storable s2 = stored repo view storable s" by simp
  have found: "found = view (sa_repo s) i"
    using get_record_found [OF got] s1 assms(2) by (simp add: stored_eq)
  with r0 have r0': "view (sa_repo s) i = Some r0" and "s3 = s2" by (auto simp: ok_or_def split: option.splits)
  have "stored repo view storable s4 = stored repo view storable s3" by (rule keepsD [OF runtime_call_stored described])
  with s2 \<open>s3 = s2\<close> have s4: "stored repo view storable s4 = stored repo view storable s" by simp
  obtain now s5 where now: "now_ms s4 = (now, s5)" by (cases "now_ms s4")
  have "stored repo view storable s5 = stored repo view storable s4" by (rule keepsD [OF now_ms_stored now])
  with s4 have s5: "stored repo view storable s5 = stored repo view storable s" by simp
  define r where "r = (case llm of None \<Rightarrow> (case state of None \<Rightarrow> r0 | Some st \<Rightarrow> r0\<lparr>sn_runtime := st\<rparr>)
      | Some l \<Rightarrow> (case state of None \<Rightarrow> r0 | Some st \<Rightarrow> r0\<lparr>sn_runtime := st\<rparr>)\<lparr>sn_llm := Some (resolved_llm_from l)\<rparr>)
      \<lparr>sn_status := status_after event, sn_updated_at_ms := now\<rparr>"
  from saved now have save: "save_record r s5 = (Inr (), s')" by (simp add: r_def Let_def)
  have "sn_runtime_id r = i" using assms(3) [OF r0'] by (simp add: r_def split: option.split)
  moreover have "sn_status r = status_after event" by (simp add: r_def)
  ultimately show ?thesis
    using save_record_own [OF save] s5 assms(2,4) r0' by (auto simp: stored_eq split: option.splits)
qed

end

lemma settle_completed:
  assumes "settle_event reg i t event s = (settled, u)" and "project_runtime_event i t settled = EvTurnCompleted i' t' outcome usage"
  shows "\<exists>v. persist_terminal reg i event s = (Inr (), v) \<and> u = release_claim i t v \<and> status_after event = SsIdle"
proof -
  from assms(2) obtain o' u' where settled: "settled = ReCompleted o' u'" by (cases settled) auto
  then have "is_terminal_event event" using assms(1) settle_terminal [of reg i t event s] by simp
  with assms(1) settled show ?thesis
    by (auto simp: settle_event_def persist_failure_event_def status_after_def Let_def split: prod.splits sum.splits)
qed

lemma forward_loop_completed:
  assumes "forward_loop reg i t deliver k events s = ((sent, seen, abandoned), s')"
    and "EvTurnCompleted i' t' outcome usage \<in> set sent"
  shows "seen \<and> (\<exists>event v. persist_terminal reg i event s = (Inr (), v) \<and> s' = release_claim i t v \<and> status_after event = SsIdle)"
  using assms
proof (induction events arbitrary: k sent)
  case (Cons e events)
  obtain settled u where se: "settle_event reg i t e s = (settled, u)" by (cases "settle_event reg i t e s")
  show ?case
  proof (cases "is_terminal_event e")
    case True
    with Cons.prems se have "seen" and "s' = u" and "project_runtime_event i t settled = EvTurnCompleted i' t' outcome usage"
      by (auto simp: Let_def split: if_splits)
    with settle_completed [OF se] show ?thesis by blast
  next
    case False
    then have "settled = e \<and> u = s" using se by (simp add: settle_other)
    with Cons.prems se False obtain later where "forward_loop reg i t deliver (k + 1) events s = ((later, seen, abandoned), s')"
        and "EvTurnCompleted i' t' outcome usage \<in> set later"
      by (cases e) (auto simp: Let_def split: prod.splits if_splits)
    then show ?thesis by (rule Cons.IH)
  qed
qed simp

text \<open>C3. When a subscriber is told that a turn completed, the session is already stored with the status of
  an idle session. The status it had before is not looked at, so the turn of a session that was closed in
  the meantime makes it an open session again.\<close>

theorem completed_turn_is_durable:
  assumes "session_repository (sa_records s) view storable"
    and "\<And>r. view (sa_repo s) i = Some r \<Longrightarrow> sn_runtime_id r = i"
    and "\<And>r. sn_runtime_id r = i \<Longrightarrow> storable (sa_repo s) r"
    and "forward_turn reg i t deliver events s = (sent, s')"
    and "EvTurnCompleted i t outcome usage \<in> set sent"
  shows "\<exists>r. view (sa_repo s') i = Some r \<and> sn_status r = SsIdle"
proof -
  obtain loop_sent seen abandoned u where loop:
      "forward_loop reg i t deliver 0 events s = ((loop_sent, seen, abandoned), u)"
    by (cases "forward_loop reg i t deliver 0 events s") auto
  have "EvTurnCompleted i t outcome usage \<in> set loop_sent"
    using assms(4,5) loop by (auto simp: forward_turn_def stream_closed_event_def Let_def split: if_splits)
  from forward_loop_completed [OF loop this] obtain event v where seen: "seen"
      and persisted: "persist_terminal reg i event s = (Inr (), v)" and u: "u = release_claim i t v"
      and idle: "status_after event = SsIdle"
    by blast
  have "sa_repo s' = sa_repo v"
    using assms(4) loop seen u by (auto simp: forward_turn_def release_claim_def Let_def)
  with session_repository.persist_terminal_stores [OF assms(1) persisted refl assms(2,3)] idle
  show ?thesis by auto
qed

theorem completed_turn_is_durable_witness:
  "\<exists>r. demo_sessions (sa_repo (snd (forward_turn (demo_registration [''be'']) ''r2'' ''t1'' (\<lambda>k. True)
        [ReCompleted OutComplete default_SessionUsage]
        (demo_app [''be''] [demo_record ''r2'' ''globex'' SsClosed] Map.empty)))) ''r2'' = Some r \<and> sn_status r = SsIdle"
proof -
  let ?s = "demo_app [''be''] [demo_record ''r2'' ''globex'' SsClosed] Map.empty"
  let ?m = "forward_turn (demo_registration [''be'']) ''r2'' ''t1'' (\<lambda>k. True)
        [ReCompleted OutComplete default_SessionUsage] ?s"
  have repo: "session_repository (sa_records ?s) demo_sessions (\<lambda>w r. True)"
    using demo_store.session_repository_axioms by simp
  have key: "sn_runtime_id r = ''r2''" if "demo_sessions (sa_repo ?s) ''r2'' = Some r" for r
    using that by (auto simp: demo_app_sessions demo_record_def split: if_splits)
  have run: "?m = (fst ?m, snd ?m)" by simp
  have "EvTurnCompleted ''r2'' ''t1'' OutComplete (UsageKnown default_SessionUsage) \<in> set (fst ?m)"
    by (simp add: forward_turn_def settle_event_def persist_terminal_def demo_app_defs call_simps Let_def)
  from completed_turn_is_durable [OF repo key TrueI run this] show ?thesis by simp
qed

end
