(* ===== verification/Application_Opening.thy ===== *)
theory Application_Opening
  imports Application_Turns
begin

text \<open>
  Opening a session: how the tenant's counter of open sessions moves, and what is stored when the caller
  is told that the session is open.
\<close>

section \<open>The counter of open sessions\<close>

lemma memory_count: "keeps app_memory s m \<Longrightarrow> keeps tenant_count s m"
  by (auto simp: keeps_def app_memory_def tenant_count_def fun_eq_iff)

lemmas count_frame = memory_frame [THEN memory_count]

lemma memory_count_eq: "app_memory t = app_memory s \<Longrightarrow> tenant_count t = tenant_count s"
  by (auto simp: app_memory_def tenant_count_def fun_eq_iff)

lemma quiet_count [simp]:
  "tenant_count (stop_runtime_quietly reg i s) = tenant_count s"
  "tenant_count (stop_instance_quietly h i s) = tenant_count s"
  "tenant_count (delete_state_quietly reg st s) = tenant_count s"
  "tenant_count (delete_snapshot_quietly h p i s) = tenant_count s"
  by (rule memory_count_eq, simp)+

lemma release_slot_count:
  "tenant_count (release_slot slot s) =
     (case slot of None \<Rightarrow> tenant_count s | Some t \<Rightarrow> (tenant_count s)(t := tenant_count s t - 1))"
  by (auto simp: release_slot_def release_tenant_session_def tenant_count_def fun_eq_iff split: option.split)

lemma update_leases_count [simp]: "tenant_count (update_leases f s) = tenant_count s"
  by (simp add: update_leases_def call_ambient_def tenant_count_def fun_eq_iff Let_def split: option.split prod.split)

text \<open>The counter after a reservation.\<close>

definition taken :: "string option \<Rightarrow> (string \<Rightarrow> nat) \<Rightarrow> string \<Rightarrow> nat" where
  "taken slot c = (case slot of None \<Rightarrow> c | Some t \<Rightarrow> c(t := c t + 1))"

definition within_limit :: "SecurityContext \<Rightarrow> (string \<Rightarrow> nat) \<Rightarrow> bool" where
  "within_limit ctx c \<longleftrightarrow>
     (\<forall>t n. sx_tenant_id ctx = Some t \<longrightarrow> tq_max_sessions (sx_quota ctx) = Some n \<longrightarrow> c t \<le> unat n)"

lemma release_taken: "tenant_count s = taken slot c \<Longrightarrow> tenant_count (release_slot slot s) = c"
  by (cases slot) (auto simp: release_slot_count taken_def)

lemma reserve_slot_outcome:
  assumes "reserve_slot ctx s = (res, s')"
  obtains (granted) "res = Inr ()" and "tenant_count s' = taken (sx_tenant_id ctx) (tenant_count s)"
      and "within_limit ctx (tenant_count s')"
  | (refused) n where "res = Inl (DomQuotaExceeded ''sessions'' n)" and "s' = s"
      and "tq_max_sessions (sx_quota ctx) = Some n" and "\<exists>t. sx_tenant_id ctx = Some t \<and> unat n \<le> tenant_count s t"
  using assms
  by (auto simp: reserve_slot_def reserve_tenant_session_def tenant_count_def taken_def within_limit_def Let_def
      fun_eq_iff split: option.splits if_splits)

text \<open>The outcome of an operation that has a slot: success keeps it, failure gives it back.\<close>

definition slot_settled :: "string option \<Rightarrow> (string \<Rightarrow> nat) \<Rightarrow> ('a, 'w, 'r) outcome \<Rightarrow> bool" where
  "slot_settled slot c m \<longleftrightarrow>
     tenant_count (snd m) = (case fst m of Inl e \<Rightarrow> c | Inr a \<Rightarrow> taken slot c)"

lemma settled_on_err:
  assumes "tenant_count s = taken slot c" and "keeps tenant_count s m"
    and "\<And>e t. tenant_count t = taken slot c \<Longrightarrow> m = (Inl e, t) \<Longrightarrow> slot_settled slot c (h e t)"
    and "\<And>a t. tenant_count t = taken slot c \<Longrightarrow> m = (Inr a, t) \<Longrightarrow> slot_settled slot c (k a t)"
  shows "slot_settled slot c (on_err m h k)"
proof (cases m)
  case (Pair r t)
  with assms(1,2) have "tenant_count t = taken slot c" by (simp add: keeps_def)
  with assms Pair show ?thesis by (cases r) auto
qed

lemma settled_let:
  assumes "tenant_count s = taken slot c" and "keeps tenant_count s m"
    and "\<And>a t. tenant_count t = taken slot c \<Longrightarrow> m = (a, t) \<Longrightarrow> slot_settled slot c (k a t)"
  shows "slot_settled slot c (case m of (a, t) \<Rightarrow> k a t)"
  using assms by (cases m) (auto simp: keeps_def)

lemma open_started_slot:
  assumes "tenant_count s = taken (sx_tenant_id ctx) c"
  shows "slot_settled (sx_tenant_id ctx) c (open_started ctx request i reg n wire now h backend s)"
  unfolding open_started_def Let_def
  by (rule settled_on_err [OF assms], rule count_frame, simp add: slot_settled_def release_taken,
      rule settled_on_err, assumption, rule count_frame, simp add: slot_settled_def release_taken,
      clarsimp, rule settled_on_err, assumption, rule count_frame)
    (simp_all add: slot_settled_def release_taken)

lemma open_split_slot:
  assumes "open_split ctx request i reg n wire s = (res, s')"
  shows "(case res of
      Inr a \<Rightarrow> tenant_count s' = taken (sx_tenant_id ctx) (tenant_count s) \<and> within_limit ctx (tenant_count s')
    | Inl e \<Rightarrow> tenant_count s' = tenant_count s \<or>
        provider_for_request reg request = Inl e \<and> tenant_count s' = taken (sx_tenant_id ctx) (tenant_count s))"
proof -
  obtain r s1 where reserve: "reserve_slot ctx s = (r, s1)" by (cases "reserve_slot ctx s")
  then show ?thesis
  proof (cases rule: reserve_slot_outcome)
    case (refused n)
    with assms reserve show ?thesis by (auto simp: open_split_def)
  next
    case granted
    let ?slot = "sx_tenant_id ctx" and ?c = "tenant_count s"
    let ?after = "\<lambda>s. on_err (runtime_call (ar_probe_llm (rg_runtime reg) (open_start_request i request n)) s)
       (\<lambda>e s. (Inl e, release_slot ?slot s))
       (\<lambda>_ s. let (now, s) = now_ms s
         in and_then (provider_for_request reg request, s) (\<lambda>(provider_id, h) s.
            on_err (provider_call h (start_instance i provider_id (owner_ref ctx)
                      (provider_options (ne_workspace n) (ne_isolation n) provider_id)
                      (sandbox_limit (sx_quota ctx) provider_id)) s)
              (\<lambda>e s. (Inl e, release_slot ?slot s))
              (\<lambda>backend s. open_started ctx request i reg n wire now h backend s)))"
    have run: "?after s1 = (res, s')"
      using assms granted(1) reserve unfolding open_split_def by simp
    show ?thesis
    proof (cases "provider_for_request reg request")
      case (Inr p)
      obtain provider_id h where p: "p = (provider_id, h)" by (cases p)
      have "slot_settled ?slot ?c (?after s1)"
        unfolding Let_def Inr p
        by (rule settled_on_err [OF granted(2)], rule count_frame, simp add: slot_settled_def release_taken,
            rule settled_let, assumption, rule count_frame, simp, rule settled_on_err, assumption, rule count_frame)
          (simp_all add: slot_settled_def release_taken open_started_slot [unfolded slot_settled_def])
      then show ?thesis using run granted(2,3) by (auto simp: slot_settled_def split: sum.splits)
    next
      case (Inl e)
      obtain p s2 where probe: "runtime_call (ar_probe_llm (rg_runtime reg) (open_start_request i request n)) s1 = (p, s2)"
        by (cases "runtime_call (ar_probe_llm (rg_runtime reg) (open_start_request i request n)) s1")
      then have s2: "tenant_count s2 = taken ?slot ?c" using granted(2) keepsD [OF memory_count [OF runtime_call_memory] probe] by simp
      obtain now s3 where now: "now_ms s2 = (now, s3)" by (cases "now_ms s2")
      then have "tenant_count s3 = taken ?slot ?c" using s2 keepsD [OF memory_count [OF now_ms_memory] now] by simp
      with run probe now Inl s2 show ?thesis by (cases p) (auto simp: release_taken)
    qed
  qed
qed

text \<open>A computation that leaves the counters alone unless it ends in opening a new session that is not
  bound to a joint owner.\<close>

definition opens_at_end ::
  "SecurityContext \<Rightarrow> SessionOpenRequest \<Rightarrow> string \<Rightarrow> ('w, 'r) SessionApplication \<Rightarrow> (SessionOpenResponse, 'w, 'r) outcome \<Rightarrow> bool" where
  "opens_at_end ctx request i s m \<longleftrightarrow>
     ((\<exists>e. fst m = Inl e) \<or> (\<exists>kind reg owner. sa_runtimes s kind = Some reg \<and> rg_joint_lifecycle reg = Some owner)) \<and>
        tenant_count (snd m) = tenant_count s \<or>
     (\<exists>kind reg n wire s1. sa_runtimes s kind = Some reg \<and> tenant_count s1 = tenant_count s \<and>
        open_split ctx request i reg n wire s1 = m)"

lemma opens_at_end_then:
  assumes "app_memory t = app_memory s" and "keeps app_memory t m"
    and "\<And>a u. m = (Inr a, u) \<Longrightarrow> app_memory u = app_memory s \<Longrightarrow> opens_at_end ctx request i s (k a u)"
  shows "opens_at_end ctx request i s (and_then m k)"
proof (cases m)
  case (Pair r u)
  with assms(1,2) have "app_memory u = app_memory s" by (simp add: keeps_def)
  moreover from this have "tenant_count u = tenant_count s" by (rule memory_count_eq)
  ultimately show ?thesis using assms(3) Pair by (cases r) (simp_all add: opens_at_end_def)
qed

lemma opens_at_end_pure:
  assumes "app_memory t = app_memory s" and "\<And>a. x = Inr a \<Longrightarrow> opens_at_end ctx request i s (k a t)"
  shows "opens_at_end ctx request i s (and_then (x, t) k)"
  using assms by (intro opens_at_end_then [OF assms(1)] keeps_pure) auto

lemma registration_found: "registration s kind = Inr reg \<Longrightarrow> sa_runtimes s kind = Some reg"
  by (auto simp: registration_def ok_or_def split: option.splits)

lemma open_new_at_end:
  assumes "app_memory t = app_memory s"
  shows "opens_at_end ctx request i s (open_new ctx request i t)"
proof -
  have joint: "opens_at_end ctx request i s (open_joint ctx request i kind reg owner n wire u)"
    if "sa_runtimes t kind = Some reg" and "rg_joint_lifecycle reg = Some owner" and "app_memory u = app_memory s" for kind reg owner n wire u
  proof -
    have "sa_runtimes s kind = Some reg" using that(1) assms by (simp add: app_memory_def app_config_def)
    moreover have "tenant_count (snd (open_joint ctx request i kind reg owner n wire u)) = tenant_count s"
      using that(3) by (intro memory_count_eq) (simp add: keeps_snd [OF open_joint_memory])
    ultimately show ?thesis using that(2) unfolding opens_at_end_def by blast
  qed
  have split: "opens_at_end ctx request i s (open_split ctx request i reg n wire u)"
    if "sa_runtimes t kind = Some reg" and "app_memory u = app_memory s" for kind reg n wire u
  proof -
    have "sa_runtimes s kind = Some reg" using that(1) assms by (simp add: app_memory_def app_config_def)
    then show ?thesis using memory_count_eq [OF that(2)] unfolding opens_at_end_def by blast
  qed
  show ?thesis
    unfolding open_new_def Let_def
    by (rule opens_at_end_pure [OF assms], drule registration_found,
        rule opens_at_end_then [OF assms], rule keeps_map_err, rule keeps_pure,
        rule opens_at_end_then, assumption, rule call_ambient_memory,
        rule opens_at_end_pure, assumption, rule opens_at_end_pure, assumption, rule opens_at_end_pure, assumption)
      (simp add: joint split split: option.split)
qed

lemma opens_at_end_count:
  assumes "opens_at_end ctx request i s (res, s')"
  shows "(case res of
      Inr a \<Rightarrow> tenant_count s' = tenant_count s \<or>
        tenant_count s' = taken (sx_tenant_id ctx) (tenant_count s) \<and> within_limit ctx (tenant_count s')
    | Inl e \<Rightarrow> tenant_count s' = tenant_count s \<or>
        (\<exists>kind reg. sa_runtimes s kind = Some reg \<and> provider_for_request reg request = Inl e) \<and>
        tenant_count s' = taken (sx_tenant_id ctx) (tenant_count s)) \<and>
    ((\<forall>kind reg. sa_runtimes s kind = Some reg \<longrightarrow> rg_joint_lifecycle reg = None) \<longrightarrow>
      (\<forall>a. res = Inr a \<longrightarrow> tenant_count s' = taken (sx_tenant_id ctx) (tenant_count s)))"
  using assms unfolding opens_at_end_def
proof (elim disjE conjE exE)
  fix kind reg n wire s1
  assume reg: "sa_runtimes s kind = Some reg" and c: "tenant_count s1 = tenant_count s"
    and run: "open_split ctx request i reg n wire s1 = (res, s')"
  from open_split_slot [OF run] reg c show ?thesis by (auto split: sum.splits)
qed (auto split: sum.splits)

text \<open>C4. Opening a session moves the caller's counter of open sessions, and no other counter, in two ways
  only: success for a new session takes one slot, within the tenant's limit, and a failure after the
  reservation gives the slot back, with one exception: when the provider for the request cannot be
  chosen, the call fails and keeps the slot.\<close>

theorem open_slot_accounting:
  assumes "open_impl ctx request s = (res, s')" and "session_repository (sa_records s) view storable"
  shows "(case res of
      Inr a \<Rightarrow> tenant_count s' = tenant_count s \<or>
        tenant_count s' = taken (sx_tenant_id ctx) (tenant_count s) \<and> within_limit ctx (tenant_count s')
    | Inl e \<Rightarrow> tenant_count s' = tenant_count s \<or>
        (\<exists>kind reg. sa_runtimes s kind = Some reg \<and> provider_for_request reg request = Inl e) \<and>
        tenant_count s' = taken (sx_tenant_id ctx) (tenant_count s)) \<and>
    ((\<forall>kind reg. sa_runtimes s kind = Some reg \<longrightarrow> rg_joint_lifecycle reg = None) \<and>
      (\<exists>i. oq_runtime_id request = Some i \<and> view (sa_repo s) i = None) \<longrightarrow>
      (\<forall>a. res = Inr a \<longrightarrow> tenant_count s' = taken (sx_tenant_id ctx) (tenant_count s)))"
proof -
  obtain i s1 where id: "(case oq_runtime_id request of Some i \<Rightarrow> (i, s) | None \<Rightarrow> next_runtime_id s) = (i, s1)"
    by (cases "case oq_runtime_id request of Some i \<Rightarrow> (i, s) | None \<Rightarrow> next_runtime_id s")
  have s1: "app_memory s1 = app_memory s"
    using id keepsD [OF next_runtime_id_memory, of s i s1] by (auto split: option.splits)
  obtain found s2 where got: "get_record i s1 = (found, s2)" by (cases "get_record i s1")
  have s2: "app_memory s2 = app_memory s" using s1 keepsD [OF get_record_memory got] by simp
  show ?thesis
  proof (cases "i \<noteq> [] \<and> found = Inr None")
    case True
    with assms(1) id got have "open_new ctx request i s2 = (res, s')"
      by (simp add: open_impl_def require_non_empty_runtime_id_def)
    with open_new_at_end [OF s2] have "opens_at_end ctx request i s (res, s')" by metis
    from opens_at_end_count [OF this] show ?thesis by blast
  next
    case False
    have "app_memory s' = app_memory s"
    proof (cases found)
      case (Inr f)
      with False assms(1) id got s1 s2 show ?thesis
        by (cases f)
          (auto simp: open_impl_def require_non_empty_runtime_id_def split: if_splits dest: keepsD [OF open_existing_memory])
    qed (use assms(1) id got s1 s2 in \<open>auto simp: open_impl_def require_non_empty_runtime_id_def split: if_splits\<close>)
    then have same: "tenant_count s' = tenant_count s" by (rule memory_count_eq)
    have "\<not> (\<exists>a. res = Inr a)" if "oq_runtime_id request = Some j" and "view (sa_repo s) j = None" for j
    proof -
      have "s1 = s" "i = j" using that(1) id by auto
      with session_repository.get_record_found [OF assms(2), of i s] got that(2) False have "i = [] \<or> (\<exists>e. found = Inl e)"
        by (cases found) auto
      with assms(1) id got show ?thesis
        by (auto simp: open_impl_def require_non_empty_runtime_id_def split: if_splits)
    qed
    with same show ?thesis by (auto split: sum.splits)
  qed
qed

text \<open>A tenant opens a session of a runtime with two providers and names none of them.\<close>

definition demo_open_request :: "string \<Rightarrow> SessionOpenRequest" where
  "demo_open_request i =
     \<lparr> oq_runtime_id = Some i, oq_runtime_kind = None, oq_conversation_id = ''c'', oq_sender_id = ''u'',
       oq_workspace = Git ''https://git.example/x'' None None,
       oq_deployment = \<lparr> dp_profile = None, dp_resource_class = None, dp_options = JNull \<rparr>,
       oq_requested_capabilities = \<lparr> cq_sandbox = {}, cq_runtime = {} \<rparr>, oq_llm = None, oq_ext = [],
       oq_lease = default_SessionLeaseClaim \<rparr>"

lemma find_nothing [simp]: "find (\<lambda>x. False) xs = None"
  by (induction xs) simp_all

lemma nothing_requested: "check_requested_capabilities \<lparr> cq_sandbox = {}, cq_runtime = {} \<rparr> sandbox wire = Inr ()"
  by (simp add: check_requested_capabilities_def)

theorem open_slot_accounting_witness:
  "(\<exists>e. fst (open_impl (tenant ''acme'' ''u'') (demo_open_request ''r1'') (demo_app [''be'', ''fe''] [] Map.empty)) = Inl e) \<and>
    tenant_count (snd (open_impl (tenant ''acme'' ''u'') (demo_open_request ''r1'') (demo_app [''be'', ''fe''] [] Map.empty)))
      = taken (Some ''acme'') (tenant_count (demo_app [''be'', ''fe''] [] Map.empty))"
proof -
  let ?s = "demo_app [''be'', ''fe''] [] Map.empty"
  let ?m = "open_impl (tenant ''acme'' ''u'') (demo_open_request ''r1'') ?s"
  have repo: "session_repository (sa_records ?s) demo_sessions (\<lambda>w r. True)"
    using demo_store.session_repository_axioms by simp
  have run: "?m = (fst ?m, snd ?m)" by simp
  have "\<exists>e. fst ?m = Inl e" and "tenant_count (snd ?m) ''acme'' \<noteq> tenant_count ?s ''acme''"
    by (simp_all add: open_impl_def open_new_def open_split_def demo_open_request_def demo_app_defs call_simps Let_def
        require_non_empty_runtime_id_def registration_def ok_or_def adopt_provider_options_def fail_closed_gate_def
        is_admin_def tenant_def nothing_requested reserve_slot_def reserve_tenant_session_def
        default_TenantQuota_def tenant_count_def provider_for_request_def only_provider_def)
  then have "\<exists>e. fst ?m = Inl e" and "tenant_count (snd ?m) \<noteq> tenant_count ?s" by auto
  with open_slot_accounting [OF run repo] show ?thesis by (auto simp: tenant_def)
qed

section \<open>What is stored of an opened session\<close>

lemma on_err_InrE:
  assumes "on_err m h k = (Inr a, t)"
  obtains x u where "m = (Inr x, u)" and "k x u = (Inr a, t)"
  | e u where "m = (Inl e, u)" and "h e u = (Inr a, t)"
proof (cases m)
  case (Pair r u)
  with assms that show ?thesis by (cases r) auto
qed

lemma call_manager_stored: "keeps (stored repo view storable) s (call_manager h f s)"
  by (simp add: keeps_def call_manager_def stored_def Let_def split: prod.splits)

lemma provider_call_stored: "keeps (stored repo view storable) s (provider_call h f s)"
  unfolding provider_call_def by (intro keeps_map_err call_manager_stored)

lemma export_runtime_snapshot_stored: "keeps (stored repo view storable) s (export_runtime_snapshot reg i s)"
  unfolding export_runtime_snapshot_def by (intro keeps_and_then keeps_pure runtime_call_stored)

lemma export_or_blank_stored: "keeps (stored repo view storable) s (export_or_blank reg i s)"
  unfolding export_or_blank_def by (intro keeps_on_err keeps_if keeps_pure export_runtime_snapshot_stored)

lemma reserve_slot_stored: "keeps (stored repo view storable) s (reserve_slot ctx s)"
  by (simp add: reserve_slot_def reserve_tenant_session_def keeps_def stored_def Let_def split: option.split)

lemma update_leases_repo [simp]: "sa_repo (update_leases f s) = sa_repo s" "sa_records (update_leases f s) = sa_records s"
  by (simp_all add: update_leases_def call_ambient_def Let_def split: option.split prod.split)

text \<open>What a caller who is no administrator finds stored: a session of his tenant in a sandbox.\<close>

definition contained :: "SecurityContext \<Rightarrow> SessionOpenRequest \<Rightarrow> SessionRecord \<Rightarrow> bool" where
  "contained ctx request r \<longleftrightarrow>
     sn_tenant_id r = sx_tenant_id ctx \<and> if_boundary (sn_isolation r) \<noteq> Host \<and>
     (\<forall>path. oq_workspace request \<noteq> LocalPath path)"

lemma fail_closed_gate_contained:
  assumes "fail_closed_gate ctx request n = Inr ()" and "\<not> is_admin ctx"
  shows "if_boundary (ne_isolation n) \<noteq> Host \<and> (\<forall>path. oq_workspace request \<noteq> LocalPath path)"
  using assms by (auto simp: fail_closed_gate_def split: if_splits WorkspaceSpec.splits)

context session_repository
begin

lemma open_started_stored:
  assumes "open_started ctx request i reg n wire now h backend s = (Inr resp, s')" and "sa_records s = repo"
    and "view (sa_repo s) i = None" and "\<And>r. sn_runtime_id r = i \<Longrightarrow> storable (sa_repo s) r"
  shows "\<exists>r. view (sa_repo s') i = Some r \<and> resp = project_session r \<and> sn_tenant_id r = sx_tenant_id ctx
    \<and> sn_isolation r = ne_isolation n"
proof -
  from assms(1) obtain u1 s1 state llm s2 u2 s3 where
    start: "runtime_call (ar_start (rg_runtime reg) (open_start_request i request n) backend) s = (Inr u1, s1)"
    and export: "export_or_blank reg i s1 = (Inr (state, llm), s2)"
    and save: "save_record (opened_record ctx request i now n wire state llm) s2 = (Inr u2, s3)"
    and resp: "resp = project_session (opened_record ctx request i now n wire state llm)"
    and s': "s' = update_leases (\<lambda>clock. ensure_unclaimed clock i) s3"
    unfolding open_started_def Let_def by (auto elim!: on_err_InrE)
  have "stored repo view storable s2 = stored repo view storable s"
    using keepsD [OF runtime_call_stored start, of repo view storable] keepsD [OF export_or_blank_stored export, of repo view storable]
    by simp
  then have s2: "sa_records s2 = repo" "view (sa_repo s2) = view (sa_repo s)" "storable (sa_repo s2) = storable (sa_repo s)"
    using assms(2) by (simp_all add: stored_eq)
  have key: "sn_runtime_id (opened_record ctx request i now n wire state llm) = i" by (simp add: opened_record_def)
  have "view (sa_repo s3) i = Some (opened_record ctx request i now n wire state llm)"
    using save_record_own [of "opened_record ctx request i now n wire state llm" s2 s3] save s2 assms(3,4) key by simp
  then show ?thesis using resp s' by (simp add: opened_record_def)
qed

lemma open_split_stored:
  assumes "open_split ctx request i reg n wire s = (Inr resp, s')" and "sa_records s = repo"
    and "view (sa_repo s) i = None" and "\<And>r. sn_runtime_id r = i \<Longrightarrow> storable (sa_repo s) r"
  shows "\<exists>r. view (sa_repo s') i = Some r \<and> resp = project_session r \<and> sn_tenant_id r = sx_tenant_id ctx
    \<and> sn_isolation r = ne_isolation n"
proof -
  from assms(1) obtain u0 s0 u1 s1 provider_id h backend s3 where
    reserve: "reserve_slot ctx s = (Inr u0, s0)"
    and probe: "runtime_call (ar_probe_llm (rg_runtime reg) (open_start_request i request n)) s0 = (Inr u1, s1)"
    and create: "provider_call h (start_instance i provider_id (owner_ref ctx)
                      (provider_options (ne_workspace n) (ne_isolation n) provider_id)
                      (sandbox_limit (sx_quota ctx) provider_id)) (snd (now_ms s1)) = (Inr backend, s3)"
    and started: "open_started ctx request i reg n wire (fst (now_ms s1)) h backend s3 = (Inr resp, s')"
    unfolding open_split_def Let_def
    by (auto elim!: and_then_InrE on_err_InrE simp: split_beta)
  have "stored repo view storable s3 = stored repo view storable s"
    using keepsD [OF reserve_slot_stored reserve, of repo view storable] keepsD [OF runtime_call_stored probe, of repo view storable]
      keeps_snd [OF now_ms_stored, of repo view storable s1] keepsD [OF provider_call_stored create, of repo view storable]
    by simp
  then show ?thesis using open_started_stored [OF started] assms(2-4) by (simp add: stored_eq)
qed

lemma open_joint_stored:
  assumes "open_joint ctx request i kind reg owner n wire s = (Inr resp, s')" and "sa_records s = repo"
  shows "\<exists>r. view (sa_repo s') i = Some r \<and> resp = project_session r \<and> sn_tenant_id r = sx_tenant_id ctx
    \<and> sn_isolation r = ne_isolation n"
proof -
  from assms(1) obtain r cid s1 where
    valid: "validate_committed_session r (joint_operation_context ctx cid ''open'' kind
              (jl_configuration_revision owner) None (Some i) None) (jl_owner_kind owner) = Inr ()"
    and iso: "sn_isolation r = ne_isolation n"
    and got: "get_record (sn_runtime_id r) s1 = (Inr (Some r), s')" and resp: "resp = project_session r"
    unfolding open_joint_def Let_def
    by (auto elim!: and_then_InrE simp: split_beta split: if_splits)
  have "app_memory s' = app_memory s" by (rule keepsD [OF open_joint_memory assms(1)])
  moreover have "app_memory s' = app_memory s1" by (rule keepsD [OF get_record_memory got])
  ultimately have s1: "sa_records s1 = repo" using assms(2) by (simp add: app_memory_def app_config_def)
  have "view (sa_repo s1) (sn_runtime_id r) = Some r" using get_record_found [OF got s1] by simp
  moreover have "stored repo view storable s' = stored repo view storable s1" by (rule keepsD [OF get_record_stored got])
  moreover have "sn_runtime_id r = i" and "sn_tenant_id r = sx_tenant_id ctx"
    using valid by (auto simp: validate_committed_session_def joint_operation_context_def
        split: option.splits sum.splits if_splits)
  ultimately show ?thesis using s1 iso resp by (simp add: stored_eq)
qed

lemma open_new_contained:
  assumes "open_new ctx request i s = (Inr resp, s')" and "sa_records s = repo" and "\<not> is_admin ctx"
    and "view (sa_repo s) i = None" and "\<And>r. sn_runtime_id r = i \<Longrightarrow> storable (sa_repo s) r"
  shows "\<exists>r. view (sa_repo s') i = Some r \<and> resp = project_session r \<and> contained ctx request r"
proof -
  from assms(1) obtain kind reg n0 s1 n wire where
    env: "call_ambient (rg_environment reg ctx request) s = (Inr n0, s1)"
    and gate: "fail_closed_gate ctx request n = Inr ()"
    and ended: "(case rg_joint_lifecycle reg of
                Some owner \<Rightarrow> open_joint ctx request i kind reg owner n wire s1
              | None \<Rightarrow> open_split ctx request i reg n wire s1) = (Inr resp, s')"
    unfolding open_new_def Let_def by (auto elim!: and_then_InrE map_err_InrE)
  have "stored repo view storable s1 = stored repo view storable s" by (rule keepsD [OF call_ambient_stored env])
  then have s1: "sa_records s1 = repo" "view (sa_repo s1) i = None" "\<And>r. sn_runtime_id r = i \<Longrightarrow> storable (sa_repo s1) r"
    using assms(2,4,5) by (simp_all add: stored_eq)
  have "\<exists>r. view (sa_repo s') i = Some r \<and> resp = project_session r \<and> sn_tenant_id r = sx_tenant_id ctx
    \<and> sn_isolation r = ne_isolation n"
    using ended open_joint_stored [OF _ s1(1)] open_split_stored [OF _ s1] by (auto split: option.splits)
  with fail_closed_gate_contained [OF gate assms(3)] show ?thesis by (auto simp: contained_def)
qed

end

text \<open>C7. When a caller who is no administrator is told that a new session is open, the session he is shown
  is stored under its identifier, belongs to his tenant, runs behind a boundary other than the host's,
  and was not asked for with a path of the host as its workspace. This holds for sessions bound to a
  joint owner too, whatever the owner does.\<close>

theorem opened_session_contained:
  assumes "session_repository (sa_records s) view storable"
    and "open_impl ctx request s = (Inr resp, s')" and "\<not> is_admin ctx"
    and "oq_runtime_id request = Some i" and "view (sa_repo s) i = None"
    and "\<And>r. sn_runtime_id r = i \<Longrightarrow> storable (sa_repo s) r"
  shows "\<exists>r. view (sa_repo s') i = Some r \<and> resp = project_session r \<and> sn_tenant_id r = sx_tenant_id ctx \<and>
    if_boundary (sn_isolation r) \<noteq> Host \<and> (\<forall>path. oq_workspace request \<noteq> LocalPath path)"
proof -
  from assms(2,4) obtain found s1 where got: "get_record i s = (Inr found, s1)"
      and rest: "(case found of Some r \<Rightarrow> open_existing ctx request i r s1 | None \<Rightarrow> open_new ctx request i s1) = (Inr resp, s')"
    by (auto simp: open_impl_def elim!: and_then_InrE)
  have "found = None" using session_repository.get_record_found [OF assms(1) got refl] assms(5) by simp
  moreover have "stored (sa_records s) view storable s1 = stored (sa_records s) view storable s"
    by (rule keepsD [OF session_repository.get_record_stored [OF assms(1)] got])
  ultimately have "\<exists>r. view (sa_repo s') i = Some r \<and> resp = project_session r \<and> contained ctx request r"
    using session_repository.open_new_contained [OF assms(1), of ctx request i s1 resp s'] rest assms(3,5,6)
    by (simp add: stored_eq)
  then show ?thesis by (auto simp: contained_def)
qed

lemma demo_open_succeeds:
  "\<exists>resp. fst (open_impl (tenant ''acme'' ''u'') (demo_open_request ''r1'') (demo_app [''be''] [] Map.empty)) = Inr resp"
  by (simp add: open_impl_def open_new_def open_split_def open_started_def demo_open_request_def demo_app_defs call_simps
      Let_def require_non_empty_runtime_id_def registration_def ok_or_def adopt_provider_options_def fail_closed_gate_def
      is_admin_def tenant_def nothing_requested reserve_slot_def reserve_tenant_session_def default_TenantQuota_def
      tenant_count_def provider_for_request_def only_provider_def registered_provider_def export_or_blank_def
      export_runtime_snapshot_def update_leases_def demo_provider_def manager_defs demo_defs create_loop.simps
      owner_ref_def sandbox_limit_def)

theorem opened_session_contained_witness:
  "\<exists>r. demo_sessions (sa_repo (snd (open_impl (tenant ''acme'' ''u'') (demo_open_request ''r1'')
        (demo_app [''be''] [] Map.empty)))) ''r1'' = Some r \<and>
      sn_tenant_id r = Some ''acme'' \<and> if_boundary (sn_isolation r) \<noteq> Host"
proof -
  let ?s = "demo_app [''be''] [] Map.empty"
  let ?m = "open_impl (tenant ''acme'' ''u'') (demo_open_request ''r1'') ?s"
  have repo: "session_repository (sa_records ?s) demo_sessions (\<lambda>w r. True)"
    using demo_store.session_repository_axioms by simp
  obtain resp where run: "?m = (Inr resp, snd ?m)" using demo_open_succeeds by (metis prod.collapse)
  have "\<not> is_admin (tenant ''acme'' ''u'')" by (simp add: is_admin_def tenant_def)
  moreover have "oq_runtime_id (demo_open_request ''r1'') = Some ''r1''" by (simp add: demo_open_request_def)
  moreover have "demo_sessions (sa_repo ?s) ''r1'' = None" by (simp add: demo_app_sessions)
  ultimately show ?thesis using opened_session_contained [OF repo run] by (auto simp: tenant_def)
qed

end
