(* ===== verification/Application_Closing.thy ===== *)
theory Application_Closing
  imports Application_Opening
begin

text \<open>
  The end of a session, with and without a joint owner, and sessions loaded from a checkpoint under an
  identifier of the caller's choice.
\<close>

section \<open>Closing\<close>

text \<open>A computation that keeps \<open>f\<close> whenever it fails.\<close>

definition failing_keeps :: "('s \<Rightarrow> 'x) \<Rightarrow> 's \<Rightarrow> ('e, 'a) result \<times> 's \<Rightarrow> bool" where
  "failing_keeps f s m \<longleftrightarrow> (\<forall>e t. m = (Inl e, t) \<longrightarrow> f t = f s)"

lemma failing_and_then:
  assumes "keeps f s m" and "\<And>a t. m = (Inr a, t) \<Longrightarrow> failing_keeps f t (k a t)"
  shows "failing_keeps f s (and_then m k)"
proof (cases m)
  case (Pair r t)
  with assms show ?thesis by (cases r) (auto simp: failing_keeps_def keeps_def)
qed

lemma failing_let:
  assumes "keeps f s m" and "\<And>a t. m = (a, t) \<Longrightarrow> failing_keeps f t (k a t)"
  shows "failing_keeps f s (case m of (a, t) \<Rightarrow> k a t)"
  using assms by (cases m) (auto simp: failing_keeps_def keeps_def)

lemma failing_last:
  assumes "failing_keeps f s m" and "\<And>a t. m = (Inr a, t) \<Longrightarrow> \<exists>b. fst (k a t) = Inr b"
  shows "failing_keeps f s (and_then m k)"
proof (cases m)
  case (Pair r t)
  with assms show ?thesis by (cases r) (auto simp: failing_keeps_def)
qed

lemma keeps_failing: "keeps f s m \<Longrightarrow> failing_keeps f s m"
  by (auto simp: keeps_def failing_keeps_def)

lemma check_lease_holder_stored: "keeps (stored repo view storable) s (check_lease_holder i lease s)"
  by (auto simp: keeps_def stored_def check_lease_holder_def call_ambient_def map_err_def Let_def
      split: option.split prod.split sum.split)

lemma destroy_instance_stored: "keeps (stored repo view storable) s (destroy_instance_of reg r i s)"
  unfolding destroy_instance_of_def by (intro keeps_sum keeps_pure; simp add: split_beta provider_call_stored)

lemma stop_runtime_stored:
  "keeps (stored repo view storable) s (on_err (runtime_call (ar_stop (rg_runtime reg) i) s)
     (\<lambda>e s. if is_dom_not_found e then (Inr (), s) else (Inl e, s)) (\<lambda>_ s. (Inr (), s)))"
  by (intro keeps_on_err keeps_if keeps_pure runtime_call_stored)

lemma stop_runtime_memory:
  "keeps app_memory s (on_err (runtime_call (ar_stop (rg_runtime reg) i) s)
     (\<lambda>e s. if is_dom_not_found e then (Inr (), s) else (Inl e, s)) (\<lambda>_ s. (Inr (), s)))"
  by (intro keeps_on_err keeps_if keeps_pure runtime_call_memory)

text \<open>What the application still knows of a session it has closed: neither a turn, nor receipts, nor a
  lease, and one slot less of its tenant.\<close>

definition forgotten :: "string \<Rightarrow> string option \<Rightarrow> ('w, 'r) SessionApplication \<Rightarrow> ('w, 'r) SessionApplication \<Rightarrow> bool" where
  "forgotten i slot s s' \<longleftrightarrow>
     sa_turn_gate s' = forget_session i (sa_turn_gate s) \<and>
     sa_lease_table s' = map_option (lease_remove i) (sa_lease_table s) \<and>
     tenant_count s' = (case slot of None \<Rightarrow> tenant_count s | Some t \<Rightarrow> (tenant_count s)(t := tenant_count s t - 1))"

lemma forgotten_start: "app_memory t = app_memory s \<Longrightarrow> forgotten i slot t s' = forgotten i slot s s'"
  using memory_count_eq [of t s] by (cases slot) (simp_all add: forgotten_def app_memory_def)

lemma forgotten_closed:
  assumes "app_memory t = app_memory s"
  shows "forgotten i slot s (release_slot slot (forget_closed i t))"
proof -
  have "tenant_count (forget_closed i t) = tenant_count s"
    using memory_count_eq [OF assms] by (simp add: forget_closed_def tenant_count_def fun_eq_iff)
  then show ?thesis
    using assms
    by (auto simp: forgotten_def release_slot_count)
      (auto simp: release_slot_def release_tenant_session_def forget_closed_def app_memory_def split: option.split)
qed

text \<open>What is given back to the tenant: the slot of a session that no joint owner holds.\<close>

definition slot_of :: "SessionRecord \<Rightarrow> string option" where
  "slot_of r = (if joint (sn_execution_backing r) = None then sn_tenant_id r else None)"

context session_repository
begin

lemma save_record_failing: "failing_keeps (stored repo view storable) s (save_record r s)"
  using save_error [of r "sa_repo s"]
  by (auto simp: failing_keeps_def stored_def save_record_def call_repo_def split: prod.splits)

lemma require_session_stored: "keeps (stored repo view storable) s (require_session ctx i s)"
proof (cases "i = []")
  case False
  then show ?thesis
    unfolding require_session_unfold [OF False]
    by (intro keeps_and_then get_record_stored keeps_option keeps_if keeps_pure)
qed (simp add: require_session_def require_non_empty_runtime_id_def keeps_def)

lemma require_session_found:
  assumes "require_session ctx i s = (Inr r, t)" and "sa_records s = repo"
  shows "view (sa_repo s) i = Some r \<and> owns ctx (sn_tenant_id r)"
proof (cases "i = []")
  case False
  with assms show ?thesis
    by (auto simp: require_session_unfold elim!: and_then_InrE split: option.splits if_splits dest!: get_record_found)
qed (use assms in \<open>simp add: require_session_def require_non_empty_runtime_id_def\<close>)

lemma finalize_split_failing:
  "failing_keeps app_memory s (finalize_split r i note s)"
  "failing_keeps (stored repo view storable) s (finalize_split r i note s)"
  unfolding finalize_split_def Let_def
  by (intro failing_and_then [OF keeps_pure] failing_and_then [OF stop_runtime_memory]
      failing_and_then [OF destroy_instance_memory] failing_let [OF now_ms_memory]
      failing_last keeps_failing save_record_memory, simp)
    (intro failing_and_then [OF keeps_pure] failing_and_then [OF stop_runtime_stored]
      failing_and_then [OF destroy_instance_stored] failing_let [OF now_ms_stored]
      failing_last save_record_failing, simp)

lemma finalize_split_outcome:
  assumes "finalize_split r i note s = (res, s')" and "sa_records s = repo" and "sn_runtime_id r = i"
    and "\<And>r. sn_runtime_id r = i \<Longrightarrow> storable (sa_repo s) r"
  shows "(case res of
      Inr resp \<Rightarrow> (\<exists>r'. view (sa_repo s') i = Some r' \<and> sn_status r' = SsClosed \<and> sn_tenant_id r' = sn_tenant_id r) \<and>
        forgotten i (sn_tenant_id r) s s'
    | Inl e \<Rightarrow> view (sa_repo s') = view (sa_repo s) \<and> app_memory s' = app_memory s)"
proof (cases res)
  case (Inr resp)
  with assms(1) obtain reg u1 s1 u2 s2 s4 where
    stop: "on_err (runtime_call (ar_stop (rg_runtime reg) i) s)
       (\<lambda>e s. if is_dom_not_found e then (Inr (), s) else (Inl e, s)) (\<lambda>_ s. (Inr (), s)) = (Inr u1, s1)"
    and destroy: "destroy_instance_of reg r i s1 = (Inr u2, s2)"
    and save: "save_record (r\<lparr>sn_status := SsClosed, sn_updated_at_ms := fst (now_ms s2),
                 sn_last_error := (if note = None then sn_last_error r else note)\<rparr>) (snd (now_ms s2)) = (Inr (), s4)"
    and s': "s' = release_slot (sn_tenant_id r) (forget_closed i s4)"
    unfolding finalize_split_def Let_def
    by (auto elim!: and_then_InrE simp: split_beta)
  define s3 where "s3 = snd (now_ms s2)"
  have "stored repo view storable s3 = stored repo view storable s"
    using keepsD [OF stop_runtime_stored stop, of repo view storable] keepsD [OF destroy_instance_stored destroy, of repo view storable]
      keeps_snd [OF now_ms_stored, of repo view storable s2] by (simp add: s3_def)
  then have s3: "sa_records s3 = repo" "view (sa_repo s3) = view (sa_repo s)" "storable (sa_repo s3) = storable (sa_repo s)"
    using assms(2) by (simp_all add: stored_eq)
  have "app_memory s4 = app_memory s"
    using keepsD [OF stop_runtime_memory stop] keepsD [OF destroy_instance_memory destroy] keeps_snd [OF now_ms_memory, of s2]
      keepsD [OF save_record_memory save] by simp
  moreover have "sa_repo s' = sa_repo s4"
    by (simp add: s' release_slot_def release_tenant_session_def forget_closed_def split: option.split)
  moreover have "\<exists>r'. view (sa_repo s4) i = Some r' \<and> sn_status r' = SsClosed \<and> sn_tenant_id r' = sn_tenant_id r"
    using save_record_own [OF save [folded s3_def] s3(1)] s3 assms(3,4) by (auto split: option.splits)
  ultimately show ?thesis using Inr s' forgotten_closed by simp
next
  case (Inl e)
  then show ?thesis
    using finalize_split_failing [of s r i "note"] assms(1,2) by (simp add: failing_keeps_def stored_eq)
qed

text \<open>A joint owner may have changed the repository in any way before it fails; what it reports as closed is looked up.\<close>

lemma finalize_joint_outcome:
  assumes "finalize_joint ctx r binding i note s = (res, s')" and "sa_records s = repo"
  shows "(case res of
      Inr resp \<Rightarrow> (\<exists>r'. view (sa_repo s') i = Some r' \<and> sn_status r' = SsClosed \<and> sn_tenant_id r' = sn_tenant_id r) \<and>
        forgotten i None s s'
    | Inl e \<Rightarrow> app_memory s' = app_memory s)"
proof (cases res)
  case (Inr resp)
  let ?c = "joint_context ctx r binding ''close'' (Some i) None s"
  from assms(1) Inr obtain owner committed t1 t2 where
    "joint_owner s (rs_runtime_kind (sn_runtime r)) binding = Inr owner"
    and close: "call_joint (jl_close owner (fst ?c) r note) (snd ?c) = (Inr committed, t1)"
    and valid: "validate_committed_session committed (fst ?c) (jl_owner_kind owner) = Inr ()"
    and status: "sn_status committed = SsClosed"
    and got: "get_record i t1 = (Inr (Some committed), t2)" and s': "s' = forget_closed i t2"
    unfolding finalize_joint_def Let_def
    by (auto elim!: and_then_InrE simp: split_beta split: if_splits)
  have "app_memory (snd ?c) = app_memory s" by (rule keeps_snd [OF joint_context_memory])
  then have mem: "app_memory t1 = app_memory s" "app_memory t2 = app_memory s"
    using keepsD [OF call_joint_memory close] keepsD [OF get_record_memory got] by simp_all
  then have repo: "sa_records t1 = repo" using assms(2) by (simp add: app_memory_def app_config_def)
  have "stored repo view storable t2 = stored repo view storable t1" by (rule keepsD [OF get_record_stored got])
  then have "view (sa_repo t2) i = Some committed"
    using get_record_found [OF got repo] repo by (simp add: stored_eq)
  moreover have "sn_tenant_id committed = sn_tenant_id r"
    using valid by (auto simp: validate_committed_session_def joint_context_def split_beta Let_def
        split: option.splits sum.splits if_splits)
  moreover have "forgotten i None s (forget_closed i t2)"
    using forgotten_closed [OF mem(2), of i None] by (simp add: release_slot_def)
  moreover have "sa_repo (forget_closed i t2) = sa_repo t2" by (simp add: forget_closed_def)
  ultimately show ?thesis using Inr s' status by simp
next
  case (Inl e)
  have "failing_keeps app_memory s (finalize_joint ctx r binding i note s)"
    unfolding finalize_joint_def
    by (intro failing_and_then [OF keeps_pure], unfold Let_def, intro failing_let [OF joint_context_memory]
        failing_and_then [OF call_joint_memory] failing_and_then [OF keeps_pure])
      (auto simp: failing_keeps_def elim!: and_then_InlE dest: keepsD [OF get_record_memory] split: if_splits)
  with assms(1) Inl show ?thesis by (simp add: failing_keeps_def)
qed

lemma finalize_closed_outcome:
  assumes "finalize_closed_session ctx r i note s = (res, s')" and "sa_records s = repo" and "sn_runtime_id r = i"
    and "\<And>r. sn_runtime_id r = i \<Longrightarrow> storable (sa_repo s) r"
  shows "(case res of
      Inr resp \<Rightarrow> (\<exists>r'. view (sa_repo s') i = Some r' \<and> sn_status r' = SsClosed \<and> sn_tenant_id r' = sn_tenant_id r) \<and>
        forgotten i (slot_of r) s s'
    | Inl e \<Rightarrow> app_memory s' = app_memory s \<and> (joint (sn_execution_backing r) = None \<longrightarrow> view (sa_repo s') = view (sa_repo s)))"
proof (cases "joint (sn_execution_backing r)")
  case None
  then have run: "finalize_split r i note s = (res, s')" using assms(1) by (simp add: finalize_closed_session_def)
  show ?thesis using finalize_split_outcome [OF run assms(2-4)] None by (cases res) (simp_all add: slot_of_def)
next
  case (Some binding)
  then have run: "finalize_joint ctx r binding i note s = (res, s')" using assms(1) by (simp add: finalize_closed_session_def)
  show ?thesis using finalize_joint_outcome [OF run assms(2)] Some by (cases res) (simp_all add: slot_of_def)
qed

lemma close_impl_outcome:
  assumes "close_impl ctx i lease s = (res, s')" and "sa_records s = repo"
    and "view (sa_repo s) i = Some r" and "sn_runtime_id r = i"
    and "\<And>r. sn_runtime_id r = i \<Longrightarrow> storable (sa_repo s) r"
  shows "(case res of
      Inr resp \<Rightarrow> owns ctx (sn_tenant_id r) \<and>
        (\<exists>r'. view (sa_repo s') i = Some r' \<and> sn_status r' = SsClosed \<and> sn_tenant_id r' = sn_tenant_id r) \<and>
        forgotten i (slot_of r) s s'
    | Inl e \<Rightarrow> app_memory s' = app_memory s \<and> (joint (sn_execution_backing r) = None \<longrightarrow> view (sa_repo s') = view (sa_repo s)))"
proof -
  let ?pre = "and_then (get_record i s) (\<lambda>_ s. and_then (require_session ctx i s) (\<lambda>r s.
     and_then (check_lease_holder i lease s) (\<lambda>_ s. (Inr r, s))))"
  have run: "and_then ?pre (\<lambda>r s. finalize_closed_session ctx r i None s) = (res, s')"
    using assms(1) by (simp add: close_impl_def and_then_def split: prod.splits sum.splits)
  have mem: "keeps app_memory s ?pre"
    by (intro keeps_and_then keeps_pure get_record_memory require_session_memory check_lease_holder_memory)
  have sto: "keeps (stored repo view storable) s ?pre"
    by (intro keeps_and_then keeps_pure get_record_stored require_session_stored check_lease_holder_stored)
  obtain x t where pre: "?pre = (x, t)" by (cases ?pre)
  have t: "app_memory t = app_memory s" "sa_records t = repo" "view (sa_repo t) = view (sa_repo s)"
      "storable (sa_repo t) = storable (sa_repo s)"
    using keepsD [OF mem pre] keepsD [OF sto pre] assms(2) by (simp_all add: stored_eq)
  show ?thesis
  proof (cases x)
    case (Inl e)
    with run pre t show ?thesis by auto
  next
    case (Inr r0)
    from pre Inr obtain f s1 s2 where "get_record i s = (Inr f, s1)" and req: "require_session ctx i s1 = (Inr r0, s2)"
      by (auto elim!: and_then_InrE)
    from this(1) have "stored repo view storable s1 = stored repo view storable s" by (rule keepsD [OF get_record_stored])
    with require_session_found [OF req] assms(2,3) have r0: "r0 = r" "owns ctx (sn_tenant_id r)"
      by (simp_all add: stored_eq)
    have "finalize_closed_session ctx r i None t = (res, s')" using run pre Inr r0 by simp
    from finalize_closed_outcome [OF this t(2) assms(4)] assms(5) t r0(2) show ?thesis
      using forgotten_start [OF t(1), of i "slot_of r" s'] by (auto split: sum.splits)
  qed
qed

end

text \<open>C10. A successful close was made by the owner of the session, and leaves the session stored as closed for the same
  tenant and its turn, its receipts and its lease forgotten; the counter of its tenant is one lower, except
  for a session that is bound to a joint owner, which never took a slot. A close that fails leaves turns,
  receipts, leases and counters as they were and, unless the session is bound to a joint owner, every stored
  session; the runtime and the instance may already have been stopped by then, and the session can be closed
  again. The status of the session is not looked at: closing a closed session lowers the counter once more.\<close>

theorem close_outcome:
  assumes "session_repository (sa_records s) view storable"
    and "close_impl ctx i lease s = (res, s')"
    and "view (sa_repo s) i = Some r" and "sn_runtime_id r = i"
    and "\<And>r. sn_runtime_id r = i \<Longrightarrow> storable (sa_repo s) r"
  shows "(case res of
      Inr resp \<Rightarrow> owns ctx (sn_tenant_id r) \<and>
        (\<exists>r'. view (sa_repo s') i = Some r' \<and> sn_status r' = SsClosed \<and> sn_tenant_id r' = sn_tenant_id r) \<and>
        sa_turn_gate s' = forget_session i (sa_turn_gate s) \<and>
        sa_lease_table s' = map_option (lease_remove i) (sa_lease_table s) \<and>
        tenant_count s' = (case slot_of r of None \<Rightarrow> tenant_count s
          | Some t \<Rightarrow> (tenant_count s)(t := tenant_count s t - 1))
    | Inl e \<Rightarrow> sa_turn_gate s' = sa_turn_gate s \<and> sa_lease_table s' = sa_lease_table s \<and>
        sa_tenant_sessions s' = sa_tenant_sessions s \<and>
        (joint (sn_execution_backing r) = None \<longrightarrow> view (sa_repo s') = view (sa_repo s)))"
  using session_repository.close_impl_outcome [OF assms(1,2) refl assms(3-5)]
  by (cases res) (simp_all add: forgotten_def app_memory_def)

theorem close_outcome_witness:
  "tenant_count (snd (close_impl (tenant ''acme'' ''u'') ''r1'' default_SessionLeaseClaim
     (demo_app [''be''] [demo_record ''r1'' ''acme'' SsClosed, demo_record ''r2'' ''acme'' SsIdle] [''acme'' \<mapsto> 1]))) ''acme'' = 0"
proof -
  let ?s = "demo_app [''be''] [demo_record ''r1'' ''acme'' SsClosed, demo_record ''r2'' ''acme'' SsIdle] [''acme'' \<mapsto> 1]"
  let ?m = "close_impl (tenant ''acme'' ''u'') ''r1'' default_SessionLeaseClaim ?s"
  have repo: "session_repository (sa_records ?s) demo_sessions (\<lambda>w r. True)"
    using demo_store.session_repository_axioms by simp
  have run: "?m = (fst ?m, snd ?m)" by simp
  have found: "demo_sessions (sa_repo ?s) ''r1'' = Some (demo_record ''r1'' ''acme'' SsClosed)"
    by (simp add: demo_app_sessions demo_record_def)
  obtain resp where "fst ?m = Inr resp"
    by (simp add: close_impl_def require_session_def require_non_empty_runtime_id_def check_lease_holder_def
        finalize_closed_session_def finalize_split_def destroy_instance_of_def registration_for_record_def registration_def
        provider_for_isolation_def provider_id_from_metadata_def only_provider_def registered_provider_def
        destroy_by_runtime_id_def destroy_by_ledger_locked_def demo_provider_def
        demo_app_defs call_simps Let_def ok_or_def owns_def tenant_def manager_defs demo_defs)
  with close_outcome [OF repo run found] show ?thesis
    by (simp add: slot_of_def demo_record_def demo_app_def tenant_count_def)
qed

section \<open>Loading under a chosen identifier\<close>

context session_repository
begin

lemma call_repo_stored:
  assumes "\<And>w x w'. f w = (x, w') \<Longrightarrow> view w' = view w \<and> storable w' = storable w"
  shows "keeps (stored repo view storable) s (call_repo f s)"
  using assms [of "sa_repo s" "fst (f (sa_repo s))" "snd (f (sa_repo s))"]
  by (simp add: keeps_def call_repo_def stored_def split_beta)

lemma save_intent_stored:
  assumes "sa_records s = repo"
  shows "keeps (stored repo view storable) s (save_intent i b s)"
  unfolding save_intent_def assms by (rule call_repo_stored) (rule save_intent_view)

lemma delete_intent_stored:
  assumes "sa_records s = repo"
  shows "keeps (stored repo view storable) s (delete_intent i s)"
  unfolding delete_intent_def assms by (rule call_repo_stored) (rule delete_intent_view)

lemma load_split_stored:
  assumes "load_split ctx request i c reg s = (Inr resp, s')" and "sa_records s = repo"
    and "\<And>r. sn_runtime_id r = i \<Longrightarrow> storable (sa_repo s) r"
  shows "\<exists>r. view (sa_repo s') i = Some r \<and> sn_tenant_id r = sx_tenant_id ctx \<and> sn_created_by r = sx_principal ctx"
proof -
  from assms(1) obtain u0 s0 provider_id h body u1 s1 backend s2 u2 s3 state llm s4 s5 u3 where
    reserve: "reserve_slot ctx s = (Inr u0, s0)"
    and intent: "save_intent (''load:'' @ i) body s0 = (Inr u1, s1)"
    and create: "provider_call h (load_instance_from_snapshot i provider_id (owner_ref ctx)
               (ck_provider_snapshot_id c) (provider_options (ck_workspace c) (ck_isolation c) provider_id)
               (sandbox_limit (sx_quota ctx) provider_id)) s1 = (Inr backend, s2)"
    and start: "runtime_call (ar_start (rg_runtime reg) (load_start_request ctx request i c) backend) s2 = (Inr u2, s3)"
    and export: "export_runtime_snapshot reg i s3 = (Inr (state, llm), s4)"
    and save: "save_record (loaded_record ctx request i c (fst (now_ms s4)) state llm) (snd (now_ms s4)) = (Inr (), s5)"
    and delete: "delete_intent (''load:'' @ i) s5 = (Inr u3, s')"
    unfolding load_split_def Let_def
    by (auto elim!: and_then_InrE on_err_InrE simp: split_beta)
  let ?f = "stored repo view storable"
  let ?r = "loaded_record ctx request i c (fst (now_ms s4)) state llm"
  have s0: "?f s0 = ?f s" by (rule keepsD [OF reserve_slot_stored reserve])
  then have "sa_records s0 = repo" using assms(2) by (simp add: stored_eq)
  from keepsD [OF save_intent_stored [OF this] intent] s0 have "?f s1 = ?f s" by simp
  then have "?f (snd (now_ms s4)) = ?f s"
    using keepsD [OF provider_call_stored create, of repo view storable] keepsD [OF runtime_call_stored start, of repo view storable]
      keepsD [OF export_runtime_snapshot_stored export, of repo view storable] keeps_snd [OF now_ms_stored, of repo view storable s4]
    by simp
  then have s4: "sa_records (snd (now_ms s4)) = repo" "storable (sa_repo (snd (now_ms s4))) = storable (sa_repo s)"
    using assms(2) by (simp_all add: stored_eq)
  have "app_memory s5 = app_memory (snd (now_ms s4))" by (rule keepsD [OF save_record_memory save])
  then have "sa_records s5 = repo" using s4 by (simp add: app_memory_def app_config_def)
  with keepsD [OF delete_intent_stored delete] have "view (sa_repo s') = view (sa_repo s5)" by (simp add: stored_eq)
  moreover have "sn_runtime_id ?r = i" by (simp add: loaded_record_def)
  ultimately show ?thesis
    using save_record_own [OF save s4(1)] s4(2) assms(3) by (auto simp: loaded_record_def split: option.splits)
qed

end

text \<open>C30. A session loaded from a checkpoint replaces whatever session is stored under the identifier the
  caller asked for: afterwards the identifier names a session of the caller's tenant, created by the
  caller, also when it named a session of another tenant before.\<close>

theorem load_replaces_session:
  assumes "session_repository (sa_records s) view storable"
    and "\<And>w. fst (sp_get_joint_checkpoint (sa_records s) (lq_checkpoint_id request) w) = Inr None"
    and "load_checkpoint ctx request s = (Inr resp, s')" and "lq_runtime_id request = Some i"
    and "\<And>r. sn_runtime_id r = i \<Longrightarrow> storable (sa_repo s) r"
  shows "\<exists>r. view (sa_repo s') i = Some r \<and> sn_tenant_id r = sx_tenant_id ctx \<and> sn_created_by r = sx_principal ctx"
proof -
  let ?repo = "sa_records s" and ?f = "stored (sa_records s) view storable" and ?ck = "lq_checkpoint_id request"
  have joint: "keeps ?f s (call_repo (sp_get_joint_checkpoint ?repo ?ck) s)"
    by (rule session_repository.call_repo_stored [OF assms(1)], rule session_repository.joint_checkpoint_view [OF assms(1)])
  have split: "keeps ?f t (call_repo (sp_get_checkpoint ?repo ?ck) t)" for t
    by (rule session_repository.call_repo_stored [OF assms(1)], rule session_repository.get_checkpoint_view [OF assms(1)])
  have none: "fst (call_repo (sp_get_joint_checkpoint ?repo ?ck) s) = Inr None"
    using assms(2) by (simp add: call_repo_def split_beta)
  define s1 where "s1 = snd (call_repo (sp_get_joint_checkpoint ?repo ?ck) s)"
  have s1: "?f s1 = ?f s" unfolding s1_def by (rule keeps_snd [OF joint])
  then have records: "sa_records s1 = ?repo" by (simp add: stored_eq)
  have "call_repo (sp_get_joint_checkpoint ?repo ?ck) s = (Inr None, s1)"
    using none by (simp add: s1_def prod_eq_iff)
  with assms(3,4) records obtain c reg s2 found where
    got: "call_repo (sp_get_checkpoint ?repo ?ck) s1 = (found, s2)"
    and load: "load_split ctx request i c reg s2 = (Inr resp, s')"
    by (auto simp: load_checkpoint_def elim!: and_then_InrE map_err_InrE split: option.splits if_splits)
  from keepsD [OF split got] s1 have "?f s2 = ?f s" by simp
  then have "sa_records s2 = ?repo" "storable (sa_repo s2) = storable (sa_repo s)" by (simp_all add: stored_eq)
  with session_repository.load_split_stored [OF assms(1) load] assms(5) show ?thesis by simp
qed

text \<open>Tenant acme loads a checkpoint under the identifier of a session of tenant globex.\<close>

definition demo_checkpoint :: CheckpointRecord where
  "demo_checkpoint =
     \<lparr> ck_checkpoint_id = ''k1'', ck_source_runtime_id = ''r1'', ck_provider_snapshot_id = ''s1'',
       ck_runtime_state = demo_snapshot, ck_workspace = demo_workspace, ck_isolation = demo_isolation,
       ck_capabilities = \<lparr> ef_sandbox = {SbExec}, ef_runtime = {DcStateExport} \<rparr>, ck_owner_ref = ''tenant/acme'',
       ck_tenant_id = Some ''acme'', ck_created_by = Some ''u'', ck_created_at_ms = 1 \<rparr>"

definition demo_load_app :: "(demo_world, demo_store) SessionApplication" where
  "demo_load_app =
     (let s = demo_app [''be''] [demo_record ''r2'' ''globex'' SsIdle] Map.empty
      in s\<lparr>sa_repo := (sa_repo s)\<lparr>ds_checkpoints := [(''k1'', demo_checkpoint)]\<rparr>\<rparr>)"

definition demo_load_request :: SessionLoadRequest where
  "demo_load_request =
     \<lparr> lq_checkpoint_id = ''k1'', lq_runtime_id = Some ''r2'', lq_conversation_id = None, lq_sender_id = None,
       lq_requested_capabilities = \<lparr> cq_sandbox = {}, cq_runtime = {} \<rparr>,
       lq_deployment = \<lparr> dp_profile = None, dp_resource_class = None, dp_options = JNull \<rparr>,
       lq_lease = default_SessionLeaseClaim, lq_llm = None \<rparr>"

lemma demo_load_succeeds:
  "\<exists>resp. fst (load_checkpoint (tenant ''acme'' ''u'') demo_load_request demo_load_app) = Inr resp"
  by (simp add: load_checkpoint_def load_split_def demo_load_app_def demo_load_request_def demo_checkpoint_def
      save_intent_def delete_intent_def demo_app_defs call_simps Let_def registration_def ok_or_def owns_def tenant_def
      reserve_slot_def reserve_tenant_session_def default_TenantQuota_def tenant_count_def
      provider_for_isolation_def provider_id_from_metadata_def only_provider_def registered_provider_def
      export_runtime_snapshot_def demo_provider_def manager_defs demo_defs create_loop.simps owner_ref_def sandbox_limit_def)

theorem load_replaces_session_witness:
  "\<exists>r. demo_sessions (sa_repo (snd (load_checkpoint (tenant ''acme'' ''u'') demo_load_request demo_load_app))) ''r2'' = Some r \<and>
      sn_tenant_id r = Some ''acme''"
proof -
  let ?m = "load_checkpoint (tenant ''acme'' ''u'') demo_load_request demo_load_app"
  have repo: "session_repository (sa_records demo_load_app) demo_sessions (\<lambda>w r. True)"
    using demo_store.session_repository_axioms by (simp add: demo_load_app_def Let_def)
  have none: "fst (sp_get_joint_checkpoint (sa_records demo_load_app) (lq_checkpoint_id demo_load_request) w) = Inr None" for w
    by (simp add: demo_load_app_def demo_repository_def Let_def)
  obtain resp where run: "?m = (Inr resp, snd ?m)" using demo_load_succeeds by (metis prod.collapse)
  show ?thesis
    using load_replaces_session [OF repo none run, of "''r2''"] by (auto simp: tenant_def demo_load_request_def)
qed

end
