(* ===== verification/Session_Sweepers.thy ===== *)
theory Session_Sweepers
  imports Application_Closing
begin

text \<open>
  The background sweeps of the session application: the orphan reaper, which closes sessions whose lease
  has had no heartbeat for too long (\<open>src/crates/core/src/orphan_reaper.rs\<close>), and the reclaim sweeper,
  which closes sessions whose sandbox is gone (\<open>src/crates/core/src/reclaim_sweeper.rs\<close>). One sweep is one
  function; the timer loops that repeat it are not modelled. The reaper is handed the lease table the
  application was built with, so it reads it in the application's state. The outcomes the sources log are
  returned.
\<close>

section \<open>The orphan reaper\<close>

text \<open>Durations are numbers of milliseconds.\<close>

record OrphanReaperConfig =
  or_threshold :: nat
  or_interval :: nat

definition default_OrphanReaperConfig :: OrphanReaperConfig where
  "default_OrphanReaperConfig = \<lparr> or_threshold = unat ORPHAN_SESSION_THRESHOLD_MS, or_interval = 600000 \<rparr>"

datatype ReapOutcome = StillLive | ReapClosed | CloseFailed SessionDomainError

definition reap_one_record_with_threshold ::
  "string \<Rightarrow> u64 \<Rightarrow> ('w, 'r) SessionApplication \<Rightarrow> ReapOutcome \<times> ('w, 'r) SessionApplication" where
  "reap_one_record_with_threshold session_id threshold_ms s =
     (let (clock, s) = call_ambient (sa_lease_clock s) s
      in if (case sa_lease_table s of None \<Rightarrow> False | Some table \<Rightarrow> has_live_lease clock session_id threshold_ms table)
         then (StillLive, s)
         else (case close_impl (admin ''system:orphan-reaper'') session_id default_SessionLeaseClaim s of
                 (Inr _, s) \<Rightarrow> (ReapClosed, s)
               | (Inl e, s) \<Rightarrow> (CloseFailed e, s)))"

fun reap_entries ::
  "u64 \<Rightarrow> u64 \<Rightarrow> (string \<times> string \<times> u64) list \<Rightarrow> ('w, 'r) SessionApplication
     \<Rightarrow> (string \<times> ReapOutcome) list \<times> ('w, 'r) SessionApplication" where
  "reap_entries now threshold_ms [] s = ([], s)"
| "reap_entries now threshold_ms ((session_id, holder, last_heartbeat_ms) # entries) s =
     (if saturating_sub now last_heartbeat_ms \<le> threshold_ms then reap_entries now threshold_ms entries s
      else
        let (reaped, s) = reap_one_record_with_threshold session_id threshold_ms s;
            (outcomes, s) = reap_entries now threshold_ms entries s
        in ((session_id, reaped) # outcomes, s))"

definition threshold_ms_of :: "OrphanReaperConfig \<Rightarrow> u64" where
  "threshold_ms_of config = word_of_nat (min (or_threshold config) (2 ^ 64 - 1))"

definition orphan_sweep_once ::
  "OrphanReaperConfig \<Rightarrow> ('w, 'r) SessionApplication \<Rightarrow> (string \<times> ReapOutcome) list \<times> ('w, 'r) SessionApplication" where
  "orphan_sweep_once config s =
     (let (clock, s) = call_ambient (sa_lease_clock s) s
      in case clock of
           None \<Rightarrow> ([], s)
         | Some now \<Rightarrow>
             reap_entries now (threshold_ms_of config)
               (case sa_lease_table s of None \<Rightarrow> [] | Some table \<Rightarrow> lease_snapshot table) s)"

section \<open>The reclaim sweeper\<close>

definition RECLAIM_SWEEP_MAX_CANDIDATES :: nat where
  "RECLAIM_SWEEP_MAX_CANDIDATES = 10000"

datatype SweepOutcome = SweepAlive | SweepClosed | CheckFailed SessionDomainError | ReclaimFailed SessionDomainError

definition sweep_one_record ::
  "SecurityContext \<Rightarrow> string \<Rightarrow> ('w, 'r) SessionApplication \<Rightarrow> SweepOutcome \<times> ('w, 'r) SessionApplication" where
  "sweep_one_record ctx runtime_id s =
     (case check_alive ctx runtime_id s of
        (Inl e, s) \<Rightarrow> (CheckFailed e, s)
      | (Inr alive, s) \<Rightarrow>
          if alive then (SweepAlive, s)
          else (case reclaim_impl ctx runtime_id s of
                  (Inr _, s) \<Rightarrow> (SweepClosed, s)
                | (Inl e, s) \<Rightarrow> (ReclaimFailed e, s)))"

fun sweep_records ::
  "SecurityContext \<Rightarrow> SessionRecord list \<Rightarrow> ('w, 'r) SessionApplication
     \<Rightarrow> (string \<times> SweepOutcome) list \<times> ('w, 'r) SessionApplication" where
  "sweep_records ctx [] s = ([], s)"
| "sweep_records ctx (r # rs) s =
     (let (swept, s) = sweep_one_record ctx (sn_runtime_id r) s;
          (outcomes, s) = sweep_records ctx rs s
      in ((sn_runtime_id r, swept) # outcomes, s))"

definition reclaim_sweep_once ::
  "('w, 'r) SessionApplication \<Rightarrow> (string \<times> SweepOutcome) list \<times> ('w, 'r) SessionApplication" where
  "reclaim_sweep_once s =
     (case list_active_sessions_for_reclaim_sweep RECLAIM_SWEEP_MAX_CANDIDATES s of
        (Inl e, s) \<Rightarrow> ([], s)
      | (Inr page, s) \<Rightarrow> sweep_records (admin ''system:reclaim-sweeper'') (lp_sessions page) s)"

section \<open>A close touches one session\<close>

definition stored_at where
  "stored_at repo view i s = (sa_records s = repo, if sa_records s = repo then view (sa_repo s) i else None)"

lemma stored_at_of_stored: "keeps (stored repo view storable) s m \<Longrightarrow> keeps (stored_at repo view i) s m"
  by (auto simp: keeps_def stored_def stored_at_def split: if_splits)

lemma release_forget_stored_at [simp]:
  "stored_at repo view i (release_slot slot (forget_closed j s)) = stored_at repo view i s"
  by (simp add: stored_at_def release_slot_def release_tenant_session_def forget_closed_def split: option.split)

text \<open>Sessions bound to a joint owner, and sessions stored under their own identifier.\<close>

definition bound_joint :: "(string \<Rightarrow> SessionRecord option) \<Rightarrow> string \<Rightarrow> bool" where
  "bound_joint sessions i \<longleftrightarrow> (\<exists>r. sessions i = Some r \<and> joint (sn_execution_backing r) \<noteq> None)"

definition own_id :: "(string \<Rightarrow> SessionRecord option) \<Rightarrow> string \<Rightarrow> bool" where
  "own_id sessions j \<longleftrightarrow> (\<forall>r. sessions j = Some r \<longrightarrow> sn_runtime_id r = j)"

text \<open>What the sweeps rely on in the joint owners that are registered: closing a session stores no other one, and asking
  whether a session is alive stores none.\<close>

definition owners_local ::
  "('r \<Rightarrow> string \<Rightarrow> SessionRecord option) \<Rightarrow> (string \<rightharpoonup> ('w, 'r) RuntimeRegistration) \<Rightarrow> bool" where
  "owners_local view runtimes \<longleftrightarrow>
     (\<forall>kind reg owner. runtimes kind = Some reg \<and> rg_joint_lifecycle reg = Some owner \<longrightarrow>
        (\<forall>c r note x i. i \<noteq> sn_runtime_id r \<longrightarrow> view (snd (snd (jl_close owner c r note x))) i = view (snd x) i) \<and>
        (\<forall>r x. view (snd (snd (jl_check_alive owner r x))) = view (snd x)))"

lemma owners_localD:
  assumes "owners_local view (sa_runtimes s)" and "joint_owner s kind binding = Inr owner"
  shows "i \<noteq> sn_runtime_id r \<Longrightarrow> view (snd (snd (jl_close owner c r note x))) i = view (snd x) i"
    and "view (snd (snd (jl_check_alive owner r x))) = view (snd x)"
proof -
  from assms(2) obtain reg where "sa_runtimes s kind = Some reg" "rg_joint_lifecycle reg = Some owner"
    by (auto simp: joint_owner_def registration_def ok_or_def split: sum.splits if_splits option.splits)
  then show "i \<noteq> sn_runtime_id r \<Longrightarrow> view (snd (snd (jl_close owner c r note x))) i = view (snd x) i"
    and "view (snd (snd (jl_check_alive owner r x))) = view (snd x)"
    using assms(1) unfolding owners_local_def by blast+
qed

lemma call_joint_stored_at:
  "(\<And>x. view (snd (snd (f x))) i = view (snd x) i) \<Longrightarrow> keeps (stored_at repo view i) s (call_joint f s)"
  by (simp add: keeps_def stored_at_def call_joint_def split_beta Let_def)

text \<open>No call registers a runtime.\<close>

lemma runtimes_of_memory: "keeps app_memory s m \<Longrightarrow> keeps sa_runtimes s m"
  by (simp add: keeps_def app_memory_def app_config_def)

lemmas runtimes_frame = memory_frame [THEN runtimes_of_memory]

lemma forget_runtimes [simp]:
  "sa_runtimes (forget_closed i s) = sa_runtimes s" "sa_runtimes (release_slot slot s) = sa_runtimes s"
  by (simp_all add: release_slot_def release_tenant_session_def forget_closed_def split: option.split)

lemma finalize_closed_runtimes: "keeps sa_runtimes s (finalize_closed_session ctx r i note s)"
  unfolding finalize_closed_session_def finalize_split_def finalize_joint_def Let_def
  by (intro frame runtimes_frame; simp add: keeps_def)

lemma close_runtimes: "keeps sa_runtimes s (close_impl ctx j lease s)"
  unfolding close_impl_def by (intro keeps_and_then runtimes_frame finalize_closed_runtimes)

lemma reclaim_runtimes: "keeps sa_runtimes s (reclaim_impl ctx j s)"
  unfolding reclaim_impl_def by (intro keeps_and_then keeps_if keeps_pure runtimes_frame finalize_closed_runtimes)

lemma reap_one_runtimes: "keeps sa_runtimes s (reap_one_record_with_threshold j threshold s)"
proof -
  obtain clock t where clock: "call_ambient (sa_lease_clock s) s = (clock, t)" by (cases "call_ambient (sa_lease_clock s) s")
  have "sa_runtimes t = sa_runtimes s" by (rule keepsD [OF runtimes_of_memory [OF call_ambient_memory] clock])
  then show ?thesis
    using clock keeps_snd [OF close_runtimes, of "admin ''system:orphan-reaper''" j default_SessionLeaseClaim t]
    by (auto simp: reap_one_record_with_threshold_def keeps_def split: prod.split sum.split)
qed

lemma sweep_one_runtimes: "keeps sa_runtimes s (sweep_one_record ctx j s)"
proof -
  obtain x t where alive: "check_alive ctx j s = (x, t)" by (cases "check_alive ctx j s")
  have "sa_runtimes t = sa_runtimes s" by (rule keepsD [OF runtimes_of_memory [OF check_alive_memory] alive])
  then show ?thesis
    using alive keeps_snd [OF reclaim_runtimes, of ctx j t]
    by (auto simp: sweep_one_record_def keeps_def split: prod.split sum.split)
qed

context session_repository
begin

lemma save_record_stored_at:
  assumes "i \<noteq> sn_runtime_id r"
  shows "keeps (stored_at repo view i) s (save_record r s)"
  using save_other [of r "sa_repo s" "fst (sp_save repo r (sa_repo s))" "snd (sp_save repo r (sa_repo s))" i] assms
  by (auto simp: keeps_def stored_at_def save_record_def call_repo_def split_beta)

lemma finalize_split_stored_at:
  assumes "i \<noteq> sn_runtime_id r"
  shows "keeps (stored_at repo view i) s (finalize_split r j note s)"
  unfolding finalize_split_def Let_def
  by (intro keeps_and_then keeps_pure stored_at_of_stored [OF stop_runtime_stored]
      stored_at_of_stored [OF destroy_instance_stored] keeps_let [OF stored_at_of_stored [OF now_ms_stored]]
      save_record_stored_at; simp add: assms keeps_def)

lemma joint_context_stored_at: "keeps (stored_at repo view i) s (joint_context ctx r b opr target ck s)"
  unfolding joint_context_def Let_def
  by (intro keeps_let [OF stored_at_of_stored [OF call_ambient_stored]] keeps_pure)

lemma finalize_joint_stored_at:
  assumes "i \<noteq> sn_runtime_id r" and "owners_local view (sa_runtimes s)"
  shows "keeps (stored_at repo view i) s (finalize_joint ctx r binding j note s)"
  unfolding finalize_joint_def
proof (rule keeps_and_then [OF keeps_pure])
  fix owner t
  assume "(joint_owner s (rs_runtime_kind (sn_runtime r)) binding, s) = (Inr owner, t)"
  then have owner: "joint_owner s (rs_runtime_kind (sn_runtime r)) binding = Inr owner" and "t = s" by auto
  then show "keeps (stored_at repo view i) t (let (context, s) = joint_context ctx r binding ''close'' (Some j) None t
       in and_then (call_joint (jl_close owner context r note) s) (\<lambda>committed s.
          and_then (validate_committed_session committed context (jl_owner_kind owner), s) (\<lambda>_ s.
            if sn_status committed \<noteq> SsClosed then (Inl (unsupported_joint ''uncommitted_close''), s)
            else
              and_then (get_record j s) (\<lambda>found s.
                if found \<noteq> Some committed then (Inl (unsupported_joint ''uncommitted_close''), s)
                else (Inr (closed_response j (sn_updated_at_ms committed)), forget_closed j s)))))"
    unfolding Let_def
    by (intro keeps_let [OF joint_context_stored_at] keeps_and_then keeps_if keeps_pure call_joint_stored_at
        owners_localD(1) [OF assms(2) owner assms(1)] stored_at_of_stored [OF get_record_stored])
      (simp add: keeps_def stored_at_def forget_closed_def)
qed

lemma finalize_closed_stored_at:
  "i \<noteq> sn_runtime_id r \<Longrightarrow> owners_local view (sa_runtimes s) \<Longrightarrow>
     keeps (stored_at repo view i) s (finalize_closed_session ctx r j note s)"
  by (cases "joint (sn_execution_backing r)")
    (simp_all add: finalize_closed_session_def finalize_split_stored_at finalize_joint_stored_at)

lemma require_then_stored_at:
  assumes "own_id (view (sa_repo s)) j" and "sa_records s = repo"
    and "\<And>r t. sn_runtime_id r = j \<Longrightarrow> sa_runtimes t = sa_runtimes s \<Longrightarrow> keeps (stored_at repo view i) t (k r t)"
  shows "keeps (stored_at repo view i) s (and_then (require_session ctx j s) k)"
proof (rule keeps_and_then)
  show "keeps (stored_at repo view i) s (require_session ctx j s)"
    by (rule stored_at_of_stored [OF require_session_stored])
  show "keeps (stored_at repo view i) t (k r t)" if req: "require_session ctx j s = (Inr r, t)" for r t
    using require_session_found [OF req assms(2)] assms(1) keepsD [OF runtimes_of_memory [OF require_session_memory] req]
    by (intro assms(3)) (auto simp: own_id_def)
qed

lemma close_stored_at:
  assumes "own_id (view (sa_repo s)) j" and "sa_records s = repo" and "i \<noteq> j" and "owners_local view (sa_runtimes s)"
  shows "keeps (stored_at repo view i) s (close_impl ctx j lease s)"
  unfolding close_impl_def
proof (rule keeps_and_then)
  show "keeps (stored_at repo view i) s (get_record j s)" by (rule stored_at_of_stored [OF get_record_stored])
  fix found t
  assume got: "get_record j s = (Inr found, t)"
  have "stored repo view storable t = stored repo view storable s" by (rule keepsD [OF get_record_stored got])
  then have t: "own_id (view (sa_repo t)) j" "sa_records t = repo" using assms by (simp_all add: stored_eq)
  have runtimes: "sa_runtimes t = sa_runtimes s" by (rule keepsD [OF runtimes_of_memory [OF get_record_memory] got])
  show "keeps (stored_at repo view i) t (and_then (require_session ctx j t) (\<lambda>r s.
       and_then (check_lease_holder j lease s) (\<lambda>_ s. finalize_closed_session ctx r j None s)))"
  proof (rule require_then_stored_at [OF t], rule keeps_and_then)
    fix r :: SessionRecord and a and u v :: "('a, 'r) SessionApplication"
    assume r: "sn_runtime_id r = j" "sa_runtimes u = sa_runtimes t"
    show "keeps (stored_at repo view i) u (check_lease_holder j lease u)"
      by (rule stored_at_of_stored [OF check_lease_holder_stored])
    assume "check_lease_holder j lease u = (Inr a, v)"
    then have "sa_runtimes v = sa_runtimes u" by (rule keepsD [OF runtimes_of_memory [OF check_lease_holder_memory]])
    then show "keeps (stored_at repo view i) v (finalize_closed_session ctx r j None v)"
      using assms(3,4) r runtimes by (intro finalize_closed_stored_at) simp_all
  qed
qed

lemma reclaim_stored_at:
  assumes "own_id (view (sa_repo s)) j" and "sa_records s = repo" and "i \<noteq> j" and "owners_local view (sa_runtimes s)"
  shows "keeps (stored_at repo view i) s (reclaim_impl ctx j s)"
  unfolding reclaim_impl_def
  using assms
  by (intro require_then_stored_at keeps_if keeps_pure finalize_closed_stored_at) simp_all

lemma check_alive_stored_at:
  assumes "owners_local view (sa_runtimes s)"
  shows "keeps (stored_at repo view i) s (check_alive ctx j s)"
  unfolding check_alive_def
proof (rule keeps_and_then [OF stored_at_of_stored [OF require_session_stored]])
  fix r t
  assume req: "require_session ctx j s = (Inr r, t)"
  have runtimes: "sa_runtimes t = sa_runtimes s" by (rule keepsD [OF runtimes_of_memory [OF require_session_memory] req])
  have local: "keeps (stored_at repo view i) u (call_joint (jl_check_alive owner r) u)"
    if "joint_owner t kind binding = Inr owner" for kind binding owner u
    using owners_localD(2) [OF _ that] assms runtimes by (intro call_joint_stored_at) simp
  show "keeps (stored_at repo view i) t (case joint (sn_execution_backing r) of
         Some binding \<Rightarrow>
           and_then (joint_owner t (rs_runtime_kind (sn_runtime r)) binding, t) (\<lambda>owner s.
             call_joint (jl_check_alive owner r) s)
       | None \<Rightarrow>
           and_then (registration_for_record t r, t) (\<lambda>reg s.
           and_then (runtime_call (ar_check_alive (rg_runtime reg) j) s) (\<lambda>runtime_alive s.
           and_then (provider_for_isolation reg (sn_isolation r), s) (\<lambda>(_, h) s.
             on_err (call_manager h (inspect_instance j) s)
               (\<lambda>e s. if is_provider_not_found e then (Inr False, s) else (Inl (map_provider_error e), s))
               (\<lambda>_ s. (Inr runtime_alive, s))))))"
    by (intro keeps_option keeps_and_then keeps_case_prod_arg keeps_on_err keeps_if keeps_pure
        stored_at_of_stored [OF runtime_call_stored] stored_at_of_stored [OF call_manager_stored])
      (auto intro: local)
qed

text \<open>An operation on a session without a joint owner that fails leaves it alone too.\<close>

lemma require_then_failing:
  assumes "\<not> bound_joint (view (sa_repo s)) j" and "sa_records s = repo"
    and "\<And>r t. joint (sn_execution_backing r) = None \<Longrightarrow> failing_keeps (stored repo view storable) t (k r t)"
  shows "failing_keeps (stored repo view storable) s (and_then (require_session ctx j s) k)"
proof (rule failing_and_then [OF require_session_stored])
  show "failing_keeps (stored repo view storable) t (k r t)" if "require_session ctx j s = (Inr r, t)" for r t
    using require_session_found [OF that assms(2)] assms(1) by (intro assms(3)) (auto simp: bound_joint_def)
qed

lemma close_failing:
  assumes "\<not> bound_joint (view (sa_repo s)) j" and "sa_records s = repo"
  shows "failing_keeps (stored repo view storable) s (close_impl ctx j lease s)"
  unfolding close_impl_def
proof (rule failing_and_then [OF get_record_stored])
  fix found t
  assume got: "get_record j s = (Inr found, t)"
  have "stored repo view storable t = stored repo view storable s" by (rule keepsD [OF get_record_stored got])
  then have "\<not> bound_joint (view (sa_repo t)) j" "sa_records t = repo" using assms by (simp_all add: stored_eq)
  then show "failing_keeps (stored repo view storable) t (and_then (require_session ctx j t) (\<lambda>r s.
       and_then (check_lease_holder j lease s) (\<lambda>_ s. finalize_closed_session ctx r j None s)))"
    by (intro require_then_failing failing_and_then [OF check_lease_holder_stored])
      (simp_all add: finalize_closed_session_def finalize_split_failing)
qed

lemma reclaim_failing:
  assumes "\<not> bound_joint (view (sa_repo s)) j" and "sa_records s = repo"
  shows "failing_keeps (stored repo view storable) s (reclaim_impl ctx j s)"
  unfolding reclaim_impl_def
  using assms
  by (intro require_then_failing) (simp_all add: finalize_closed_session_def finalize_split_failing failing_keeps_def [of _ _ "(Inr _, _)"])

lemma stored_stored_at:
  "stored repo view storable t = stored repo view storable s \<Longrightarrow> stored_at repo view i t = stored_at repo view i s"
  by (auto simp: stored_def stored_at_def split: if_splits)

end

text \<open>Which outcomes may have changed the session they are reported for: a close, and a failed close where a joint owner
  was asked to close.\<close>

fun reap_touches :: "bool \<Rightarrow> ReapOutcome \<Rightarrow> bool" where
  "reap_touches joint_bound StillLive = False"
| "reap_touches joint_bound ReapClosed = True"
| "reap_touches joint_bound (CloseFailed e) = joint_bound"

fun sweep_touches :: "bool \<Rightarrow> SweepOutcome \<Rightarrow> bool" where
  "sweep_touches joint_bound SweepAlive = False"
| "sweep_touches joint_bound SweepClosed = True"
| "sweep_touches joint_bound (CheckFailed e) = False"
| "sweep_touches joint_bound (ReclaimFailed e) = joint_bound"

context session_repository
begin

lemma reap_one_effect:
  assumes "own_id (view (sa_repo s)) j" and "sa_records s = repo" and "owners_local view (sa_runtimes s)"
    and "reap_one_record_with_threshold j threshold s = (outcome, t)"
    and "i \<noteq> j \<or> \<not> reap_touches (bound_joint (view (sa_repo s)) j) outcome"
  shows "stored_at repo view i t = stored_at repo view i s"
proof -
  let ?close = "close_impl (admin ''system:orphan-reaper'') j default_SessionLeaseClaim"
  obtain clock u where clock: "call_ambient (sa_lease_clock s) s = (clock, u)" by (cases "call_ambient (sa_lease_clock s) s")
  have u: "stored repo view storable u = stored repo view storable s" by (rule keepsD [OF call_ambient_stored clock])
  then have u': "own_id (view (sa_repo u)) j" "sa_records u = repo" "view (sa_repo u) = view (sa_repo s)"
    using assms by (simp_all add: stored_eq)
  have runtimes: "sa_runtimes u = sa_runtimes s" by (rule keepsD [OF runtimes_of_memory [OF call_ambient_memory] clock])
  from assms(4) clock consider "t = u" "outcome = StillLive"
    | (closed) x where "?close u = (x, t)" "outcome = (case x of Inr _ \<Rightarrow> ReapClosed | Inl e \<Rightarrow> CloseFailed e)"
    by (auto simp: reap_one_record_with_threshold_def split: prod.splits sum.splits if_splits)
  then have "stored_at repo view i t = stored_at repo view i u"
  proof cases
    case closed
    show ?thesis
    proof (cases "i = j")
      case False
      then show ?thesis using keepsD [OF close_stored_at [OF u'(1,2)] closed(1)] assms(3) runtimes by simp
    next
      case True
      with assms(5) closed u'(3) obtain e where "x = Inl e" "\<not> bound_joint (view (sa_repo u)) j"
        by (cases x) auto
      then have "stored repo view storable t = stored repo view storable u"
        using close_failing [OF _ u'(2)] closed(1) by (auto simp: failing_keeps_def)
      then show ?thesis by (rule stored_stored_at)
    qed
  qed simp
  with stored_stored_at [OF u] show ?thesis by simp
qed

lemma sweep_one_effect:
  assumes "own_id (view (sa_repo s)) j" and "sa_records s = repo" and "owners_local view (sa_runtimes s)"
    and "sweep_one_record ctx j s = (outcome, t)"
    and "i \<noteq> j \<or> \<not> sweep_touches (bound_joint (view (sa_repo s)) j) outcome"
  shows "stored_at repo view i t = stored_at repo view i s"
proof -
  obtain a u where alive: "check_alive ctx j s = (a, u)" by (cases "check_alive ctx j s")
  have u: "stored_at repo view k u = stored_at repo view k s" for k
    by (rule keepsD [OF check_alive_stored_at [OF assms(3)] alive])
  from u [of j] have u': "own_id (view (sa_repo u)) j" "sa_records u = repo" "view (sa_repo u) j = view (sa_repo s) j"
    using assms(1,2) by (auto simp: stored_at_def own_id_def split: if_splits)
  have runtimes: "sa_runtimes u = sa_runtimes s" by (rule keepsD [OF runtimes_of_memory [OF check_alive_memory] alive])
  from assms(4) alive consider "t = u"
    | (reclaimed) x where "reclaim_impl ctx j u = (x, t)" "outcome = (case x of Inr _ \<Rightarrow> SweepClosed | Inl e \<Rightarrow> ReclaimFailed e)"
    by (auto simp: sweep_one_record_def split: prod.splits sum.splits if_splits)
  then have "stored_at repo view i t = stored_at repo view i u"
  proof cases
    case reclaimed
    show ?thesis
    proof (cases "i = j")
      case False
      then show ?thesis using keepsD [OF reclaim_stored_at [OF u'(1,2)] reclaimed(1)] assms(3) runtimes by simp
    next
      case True
      with assms(5) reclaimed u'(3) obtain e where "x = Inl e" "\<not> bound_joint (view (sa_repo u)) j"
        by (cases x) (auto simp: bound_joint_def)
      then have "stored repo view storable t = stored repo view storable u"
        using reclaim_failing [OF _ u'(2)] reclaimed(1) by (auto simp: failing_keeps_def)
      then show ?thesis by (rule stored_stored_at)
    qed
  qed simp
  with u show ?thesis by simp
qed

text \<open>What one round leaves for the rounds after it.\<close>

lemma stored_at_others:
  assumes "\<And>i. i \<noteq> j \<Longrightarrow> stored_at repo view i t = stored_at repo view i s" and "sa_records s = repo"
  shows "sa_records t = repo" and "k \<noteq> j \<Longrightarrow> own_id (view (sa_repo s)) k \<Longrightarrow> own_id (view (sa_repo t)) k"
proof -
  have "\<exists>i :: string. i \<noteq> j" by (rule exI [of _ "''x'' @ j"]) (simp add: append_eq_Cons_conv)
  then show records: "sa_records t = repo" using assms by (auto simp: stored_at_def)
  show "own_id (view (sa_repo t)) k" if "k \<noteq> j" and "own_id (view (sa_repo s)) k"
    using assms(1) [OF that(1)] that(2) records assms(2) by (simp add: stored_at_def own_id_def)
qed

lemma reap_entries_effect:
  assumes "reap_entries now threshold entries s = (outcomes, s')" and "sa_records s = repo"
    and "distinct (map fst entries)" and "\<And>j. j \<in> fst ` set entries \<Longrightarrow> own_id (view (sa_repo s)) j"
    and "owners_local view (sa_runtimes s)"
    and "\<And>outcome. (i, outcome) \<in> set outcomes \<Longrightarrow> \<not> reap_touches (bound_joint (view (sa_repo s)) i) outcome"
  shows "stored_at repo view i s' = stored_at repo view i s"
  using assms
proof (induction entries arbitrary: s outcomes)
  case (Cons entry entries)
  obtain j holder hb where entry: "entry = (j, holder, hb)" by (cases entry)
  show ?case
  proof (cases "saturating_sub now hb \<le> threshold")
    case True
    with Cons entry show ?thesis by simp
  next
    case False
    with Cons.prems(1) obtain reaped t later where one: "reap_one_record_with_threshold j threshold s = (reaped, t)"
        and rest: "reap_entries now threshold entries t = (later, s')" and outcomes: "outcomes = (j, reaped) # later"
      by (auto simp: entry split: prod.splits)
    have pl: "own_id (view (sa_repo s)) j" using Cons.prems(4) by (simp add: entry)
    note effect = reap_one_effect [OF pl Cons.prems(2,5) one]
    have other: "stored_at repo view k t = stored_at repo view k s" if "k \<noteq> j" for k
      using effect that by simp
    have own: "stored_at repo view i t = stored_at repo view i s"
    proof (rule effect)
      show "i \<noteq> j \<or> \<not> reap_touches (bound_joint (view (sa_repo s)) j) reaped"
        using Cons.prems(6) [of reaped] outcomes by auto
    qed
    note records = stored_at_others(1) [OF other Cons.prems(2)]
    have "view (sa_repo t) i = view (sa_repo s) i" using own records Cons.prems(2) by (simp add: stored_at_def)
    then have bound: "bound_joint (view (sa_repo t)) i = bound_joint (view (sa_repo s)) i" by (simp add: bound_joint_def)
    have "stored_at repo view i s' = stored_at repo view i t"
    proof (rule Cons.IH [OF rest records])
      show "distinct (map fst entries)" using Cons.prems(3) by simp
      show "own_id (view (sa_repo t)) k" if "k \<in> fst ` set entries" for k
      proof (rule stored_at_others(2) [OF other Cons.prems(2)])
        show "k \<noteq> j" using that Cons.prems(3) by (auto simp: entry)
        show "own_id (view (sa_repo s)) k" using Cons.prems(4) that by simp
      qed
      show "owners_local view (sa_runtimes t)" using keepsD [OF reap_one_runtimes one] Cons.prems(5) by simp
      show "\<not> reap_touches (bound_joint (view (sa_repo t)) i) outcome" if "(i, outcome) \<in> set later" for outcome
        using Cons.prems(6) outcomes bound that by simp
    qed
    with own show ?thesis by simp
  qed
qed simp

lemma sweep_records_effect:
  assumes "sweep_records ctx rs s = (outcomes, s')" and "sa_records s = repo"
    and "distinct (map sn_runtime_id rs)" and "\<And>r. r \<in> set rs \<Longrightarrow> own_id (view (sa_repo s)) (sn_runtime_id r)"
    and "owners_local view (sa_runtimes s)"
    and "\<And>outcome. (i, outcome) \<in> set outcomes \<Longrightarrow> \<not> sweep_touches (bound_joint (view (sa_repo s)) i) outcome"
  shows "stored_at repo view i s' = stored_at repo view i s"
  using assms
proof (induction rs arbitrary: s outcomes)
  case (Cons r rs)
  from Cons.prems(1) obtain swept t later where one: "sweep_one_record ctx (sn_runtime_id r) s = (swept, t)"
      and rest: "sweep_records ctx rs t = (later, s')" and outcomes: "outcomes = (sn_runtime_id r, swept) # later"
    by (auto split: prod.splits)
  have pl: "own_id (view (sa_repo s)) (sn_runtime_id r)" using Cons.prems(4) by simp
  note effect = sweep_one_effect [OF pl Cons.prems(2,5) one]
  have other: "stored_at repo view k t = stored_at repo view k s" if "k \<noteq> sn_runtime_id r" for k
    using effect that by simp
  have own: "stored_at repo view i t = stored_at repo view i s"
  proof (rule effect)
    show "i \<noteq> sn_runtime_id r \<or> \<not> sweep_touches (bound_joint (view (sa_repo s)) (sn_runtime_id r)) swept"
      using Cons.prems(6) [of swept] outcomes by auto
  qed
  note records = stored_at_others(1) [OF other Cons.prems(2)]
  have "view (sa_repo t) i = view (sa_repo s) i" using own records Cons.prems(2) by (simp add: stored_at_def)
  then have bound: "bound_joint (view (sa_repo t)) i = bound_joint (view (sa_repo s)) i" by (simp add: bound_joint_def)
  have "stored_at repo view i s' = stored_at repo view i t"
  proof (rule Cons.IH [OF rest records])
    show "distinct (map sn_runtime_id rs)" using Cons.prems(3) by simp
    show "own_id (view (sa_repo t)) (sn_runtime_id q)" if "q \<in> set rs" for q
    proof (rule stored_at_others(2) [OF other Cons.prems(2)])
      show "sn_runtime_id q \<noteq> sn_runtime_id r" using imageI [OF that, of sn_runtime_id] Cons.prems(3) by auto
      show "own_id (view (sa_repo s)) (sn_runtime_id q)" using Cons.prems(4) that by simp
    qed
    show "owners_local view (sa_runtimes t)" using keepsD [OF sweep_one_runtimes one] Cons.prems(5) by simp
    show "\<not> sweep_touches (bound_joint (view (sa_repo t)) i) outcome" if "(i, outcome) \<in> set later" for outcome
      using Cons.prems(6) outcomes bound that by simp
  qed
  with own show ?case by simp
qed simp

end

lemma reap_entries_stale:
  assumes "reap_entries now threshold entries s = (outcomes, s')" and "(i, outcome) \<in> set outcomes"
  shows "\<exists>holder hb. (i, holder, hb) \<in> set entries \<and> threshold < saturating_sub now hb"
  using assms
proof (induction entries arbitrary: s outcomes)
  case (Cons entry entries)
  then show ?case by (cases entry) (fastforce split: if_splits prod.splits)
qed simp

lemma lease_snapshot_distinct: "lease_wf t \<Longrightarrow> distinct (map fst (lease_snapshot t))"
  using lease_entries_distinct [of t] by (simp add: lease_snapshot_entries comp_def split_beta)

text \<open>C11. The sweeps change only the sessions they report as closed, or, for a session bound to a joint owner, as one
  whose close failed. After a sweep of the orphan reaper every other session is stored as before, and it
  reports only sessions whose lease, when the sweep began, had no heartbeat for longer than the threshold.
  The same holds for the reclaim sweeper and its reports. The sessions are stored under their own identifiers,
  the listing that the reclaim sweeper works on names each session once, and of the joint owners it is only
  assumed that closing a session stores no other one and that asking whether it is alive stores none.\<close>

theorem sweeps_close_only_reported:
  assumes "session_repository (sa_records s) view storable" and "\<And>j. own_id (view (sa_repo s)) j"
    and "owners_local view (sa_runtimes s)"
    and "sa_lease_table s = Some table" and "lease_wf table"
    and "orphan_sweep_once config s = (reaped, s1)" and "reclaim_sweep_once s = (swept, s2)"
    and "\<And>page. fst (sp_list_active (sa_records s) None RECLAIM_SWEEP_MAX_CANDIDATES (sa_repo s)) = Inr page \<Longrightarrow>
           distinct (map sn_runtime_id (lp_sessions page))"
  shows "((\<forall>outcome. (i, outcome) \<in> set reaped \<longrightarrow> \<not> reap_touches (bound_joint (view (sa_repo s)) i) outcome) \<longrightarrow>
       view (sa_repo s1) i = view (sa_repo s) i) \<and>
    ((i, outcome) \<in> set reaped \<longrightarrow> (\<exists>now lease. fst (sa_lease_clock s (sa_world s)) = Some now \<and>
       lease_get table i = Some lease \<and> threshold_ms_of config < saturating_sub now (sl_last_heartbeat_ms lease))) \<and>
    ((\<forall>outcome. (i, outcome) \<in> set swept \<longrightarrow> \<not> sweep_touches (bound_joint (view (sa_repo s)) i) outcome) \<longrightarrow>
       view (sa_repo s2) i = view (sa_repo s) i)"
proof (intro conjI impI)
  let ?f = "stored (sa_records s) view storable" and ?at = "stored_at (sa_records s) view i"
  have at: "view (sa_repo t) i = view (sa_repo s) i" if "?at t = ?at s" for t
    using that by (auto simp: stored_at_def split: if_splits)
  obtain clock u where clock: "call_ambient (sa_lease_clock s) s = (clock, u)" by (cases "call_ambient (sa_lease_clock s) s")
  have u: "?f u = ?f s" by (rule keepsD [OF call_ambient_stored clock])
  have table: "sa_lease_table u = Some table" and fst_clock: "fst (sa_lease_clock s (sa_world s)) = clock"
    using clock assms(4) by (auto simp: call_ambient_def Let_def split: prod.splits)
  show "view (sa_repo s1) i = view (sa_repo s) i" if kept: "\<forall>outcome. (i, outcome) \<in> set reaped \<longrightarrow> \<not> reap_touches (bound_joint (view (sa_repo s)) i) outcome"
  proof (cases clock)
    case None
    with assms(6) clock u show ?thesis by (simp add: orphan_sweep_once_def stored_eq)
  next
    case (Some now)
    with assms(6) clock table have run: "reap_entries now (threshold_ms_of config) (lease_snapshot table) u = (reaped, s1)"
      by (simp add: orphan_sweep_once_def)
    have "?at s1 = ?at u"
      using session_repository.reap_entries_effect [OF assms(1) run _ lease_snapshot_distinct [OF assms(5)], of i] u assms(2,3) kept
        keepsD [OF runtimes_of_memory [OF call_ambient_memory] clock]
      by (simp add: stored_eq)
    then show ?thesis using at session_repository.stored_stored_at [OF assms(1) u, of i] by simp
  qed
  show "\<exists>now lease. fst (sa_lease_clock s (sa_world s)) = Some now \<and>
       lease_get table i = Some lease \<and> threshold_ms_of config < saturating_sub now (sl_last_heartbeat_ms lease)"
    if "(i, outcome) \<in> set reaped"
  proof (cases clock)
    case None
    with assms(6) clock that show ?thesis by (simp add: orphan_sweep_once_def)
  next
    case (Some now)
    with assms(6) clock table have run: "reap_entries now (threshold_ms_of config) (lease_snapshot table) u = (reaped, s1)"
      by (simp add: orphan_sweep_once_def)
    from reap_entries_stale [OF run that] lease_snapshot_set [OF assms(5)] fst_clock Some show ?thesis by auto
  qed
  show "view (sa_repo s2) i = view (sa_repo s) i" if kept: "\<forall>outcome. (i, outcome) \<in> set swept \<longrightarrow> \<not> sweep_touches (bound_joint (view (sa_repo s)) i) outcome"
  proof -
    obtain x v where listed: "call_repo (sp_list_active (sa_records s) None RECLAIM_SWEEP_MAX_CANDIDATES) s = (x, v)"
      by (cases "call_repo (sp_list_active (sa_records s) None RECLAIM_SWEEP_MAX_CANDIDATES) s")
    have "keeps ?f s (call_repo (sp_list_active (sa_records s) None RECLAIM_SWEEP_MAX_CANDIDATES) s)"
      by (rule session_repository.call_repo_stored [OF assms(1)], rule session_repository.list_view [OF assms(1)])
    from keepsD [OF this listed] have v: "?f v = ?f s" .
    show ?thesis
    proof (cases x)
      case (Inl e)
      with assms(7) listed v show ?thesis
        by (simp add: reclaim_sweep_once_def list_active_sessions_for_reclaim_sweep_def stored_eq)
    next
      case (Inr page)
      with assms(7) listed have run: "sweep_records (admin ''system:reclaim-sweeper'') (lp_sessions page) v = (swept, s2)"
        by (simp add: reclaim_sweep_once_def list_active_sessions_for_reclaim_sweep_def)
      have "distinct (map sn_runtime_id (lp_sessions page))"
        using listed Inr assms(8) by (auto simp: call_repo_def split: prod.splits)
      then have "?at s2 = ?at v"
        using session_repository.sweep_records_effect [OF assms(1) run, of i] v assms(2,3) kept
          keepsD [OF runtimes_of_memory [OF call_repo_memory] listed] by (simp add: stored_eq)
      then show ?thesis using at session_repository.stored_stored_at [OF assms(1) v, of i] by simp
    qed
  qed
qed

text \<open>A session with a heartbeat two milliseconds ago.\<close>

definition demo_lease_table :: SessionLeaseTable where
  "demo_lease_table =
     lease_put ''r2'' \<lparr> sl_client_id = ''c1'', sl_client_pid = None, sl_client_hostname = None,
       sl_last_heartbeat_ms = 5 \<rparr> (with_stale_threshold_ms (\<lambda>i. 0) 45000)"

definition demo_sweep_app :: "(demo_world, demo_store) SessionApplication" where
  "demo_sweep_app = with_lease_table demo_lease_table
     (demo_app [''be''] [demo_record ''r2'' ''globex'' SsIdle] [''globex'' \<mapsto> 1])"

theorem sweeps_close_only_reported_witness:
  "demo_sessions (sa_repo (snd (orphan_sweep_once default_OrphanReaperConfig demo_sweep_app))) ''r2''
     = Some (demo_record ''r2'' ''globex'' SsIdle)"
proof -
  let ?s = "demo_sweep_app"
  have app: "sa_records ?s = demo_repository" "sa_lease_table ?s = Some demo_lease_table"
      "demo_sessions (sa_repo ?s) = map_of [(''r2'', demo_record ''r2'' ''globex'' SsIdle)]"
      "sa_repo ?s = demo_store_of [demo_record ''r2'' ''globex'' SsIdle]"
      "fst (sa_lease_clock ?s (sa_world ?s)) = Some 7"
    by (simp_all add: demo_sweep_app_def with_lease_table_def demo_app_def demo_sessions_def demo_store_of_def demo_record_def)
  have repo: "session_repository (sa_records ?s) demo_sessions (\<lambda>w r. True)"
    using demo_store.session_repository_axioms app by simp
  have own: "own_id (demo_sessions (sa_repo ?s)) j" for j
    unfolding app(3) by (simp add: own_id_def demo_record_def)
  have owners: "owners_local demo_sessions (sa_runtimes ?s)"
    by (simp add: owners_local_def demo_sweep_app_def with_lease_table_def demo_app_def demo_registration_def
        new_RuntimeRegistration_def)
  have wf: "lease_wf demo_lease_table"
    unfolding demo_lease_table_def by (intro lease_wf_put lease_wf_new)
  have lease: "sl_last_heartbeat_ms l = 5" if "lease_get demo_lease_table ''r2'' = Some l" for l
    using that by (auto simp: demo_lease_table_def lease_get_put [OF lease_wf_new])
  have distinct: "distinct (map sn_runtime_id (lp_sessions page))"
    if "fst (sp_list_active (sa_records ?s) None RECLAIM_SWEEP_MAX_CANDIDATES (sa_repo ?s)) = Inr page" for page
    using that by (auto simp: app demo_repository_def demo_active_def demo_store_of_def RECLAIM_SWEEP_MAX_CANDIDATES_def)
  note swept = sweeps_close_only_reported [OF repo own owners app(2) wf prod.collapse [symmetric] prod.collapse [symmetric] distinct]
  have "(''r2'', outcome) \<notin> set (fst (orphan_sweep_once default_OrphanReaperConfig ?s))" for outcome
  proof
    assume "(''r2'', outcome) \<in> set (fst (orphan_sweep_once default_OrphanReaperConfig ?s))"
    then have "threshold_ms_of default_OrphanReaperConfig < saturating_sub 7 5"
      using swept [where i = "''r2''" and config = default_OrphanReaperConfig and outcome = outcome] lease app(5) by auto
    then show False
      by (simp add: threshold_ms_of_def default_OrphanReaperConfig_def ORPHAN_SESSION_THRESHOLD_MS_def saturating_sub_def)
  qed
  then show ?thesis using swept [where i = "''r2''" and config = default_OrphanReaperConfig and outcome = ReapClosed] app(3) by simp
qed

end
