(* ===== verification/Application_Invariant.thy ===== *)
theory Application_Invariant
  imports Session_Sweepers
begin

text \<open>
  The well-formedness of the session application. Its state holds a registry of runtimes, a counter of
  open sessions per tenant, a lease table and the receipt windows of the turn gate; \<open>app_wf\<close> says what each
  of them looks like, and every operation of the application, every task it spawns and every sweep
  preserves it. The operations are the steps of \<open>app_step\<close>.
\<close>

section \<open>Well-formed applications\<close>

text \<open>Runtimes are registered under their trimmed, nonempty kinds, the default kind among them.\<close>

definition registry_wf :: "('w, 'r) SessionApplication \<Rightarrow> bool" where
  "registry_wf s \<longleftrightarrow> sa_runtimes s (sa_default_runtime_kind s) \<noteq> None \<and>
     (\<forall>kind reg. sa_runtimes s kind = Some reg \<longrightarrow> kind = trim (ar_runtime_kind (rg_runtime reg)) \<and> kind \<noteq> [])"

definition gate_wf :: "TurnGate \<Rightarrow> bool" where
  "gate_wf g \<longleftrightarrow> (\<forall>i w. tg_receipts g i = Some w \<longrightarrow> (\<exists>receipts. window_of receipts w))"

text \<open>The application over the repository \<open>records\<close>.\<close>

definition app_wf :: "'r SessionRepository \<Rightarrow> ('w, 'r) SessionApplication \<Rightarrow> bool" where
  "app_wf records s \<longleftrightarrow> sa_records s = records \<and> registry_wf s \<and>
     (\<forall>t. sa_tenant_sessions s t \<noteq> Some 0) \<and>
     (\<forall>table. sa_lease_table s = Some table \<longrightarrow> lease_wf table) \<and> gate_wf (sa_turn_gate s)"

lemma app_wf_memory: "app_memory t = app_memory s \<Longrightarrow> app_wf records t = app_wf records s"
  by (simp add: app_wf_def registry_wf_def app_memory_def app_config_def)

lemma memory_preserves: "keeps app_memory s m \<Longrightarrow> preserves (app_wf records) s m"
  unfolding keeps_def preserves_def by (drule app_wf_memory [of _ _ records]) simp

lemmas wf_frame = memory_frame [THEN memory_preserves]

lemma preserves_last: "(P s \<Longrightarrow> P t) \<Longrightarrow> preserves P s (a, t)"
  by (simp add: preserves_def)

lemma preserves_before: "(P s \<Longrightarrow> P t) \<Longrightarrow> preserves P t m \<Longrightarrow> preserves P s m"
  by (simp add: preserves_def)

lemma preservesD: "preserves P s m \<Longrightarrow> P s \<Longrightarrow> P (snd m)"
  by (simp add: preserves_def)

lemma preserves_result: "preserves P s m \<Longrightarrow> m = (a, t) \<Longrightarrow> P s \<Longrightarrow> P t"
  by (simp add: preserves_def)

section \<open>The parts of the state\<close>

lemma wf_quietly [simp]:
  "app_wf records (stop_runtime_quietly reg i s) = app_wf records s"
  "app_wf records (stop_instance_quietly h i s) = app_wf records s"
  "app_wf records (delete_state_quietly reg st s) = app_wf records s"
  "app_wf records (delete_snapshot_quietly h p i s) = app_wf records s"
  "app_wf records (mark_restoration_failed r e s) = app_wf records s"
  by (rule app_wf_memory, simp)+

lemma wf_release_slot [simp]: "app_wf records s \<Longrightarrow> app_wf records (release_slot t s)"
  by (auto simp: app_wf_def registry_wf_def release_slot_def release_tenant_session_def split: option.split)

lemma wf_reserve_slot: "preserves (app_wf records) s (reserve_slot ctx s)"
  by (auto simp: preserves_def app_wf_def registry_wf_def reserve_slot_def reserve_tenant_session_def Let_def
      split: option.split)

lemma wf_abandon [simp]:
  "app_wf records s \<Longrightarrow> app_wf records (abandon_instance ctx h i s)"
  "app_wf records s \<Longrightarrow> app_wf records (abandon_runtime ctx reg h i s)"
  by (simp_all add: abandon_instance_def abandon_runtime_def)

lemma wf_lease_ops:
  assumes "lease_wf table"
  shows "lease_wf (ensure_unclaimed clock i table)" and "lease_wf (detach i c table)"
    and "lease_wf (lease_remove i table)" and "lease_wf (snd (heartbeat clock i c p h table))"
  using assms
  by (auto simp: lease_op_defs leases.wf_put leases.wf_del split: option.split)

lemma wf_lease_table: "app_wf records s \<Longrightarrow> lease_wf table \<Longrightarrow> app_wf records (s\<lparr>sa_lease_table := Some table\<rparr>)"
  by (simp add: app_wf_def registry_wf_def)

lemma wf_update_leases [simp]:
  assumes "app_wf records s"
  shows "app_wf records (update_leases (\<lambda>clock. ensure_unclaimed clock i) s)"
  using assms
  by (auto simp: update_leases_def call_ambient_def app_wf_def registry_wf_def wf_lease_ops Let_def
      split: option.split prod.split)

lemma gate_wf_claims [simp]:
  "gate_wf (g\<lparr>tg_active := a\<rparr>) = gate_wf g"
  "gate_wf (release i t g) = gate_wf g"
  by (simp_all add: gate_wf_def release_def)

lemma gate_wf_forget: "gate_wf g \<Longrightarrow> gate_wf (forget_session i g)"
  by (simp add: gate_wf_def forget_session_def)

lemma gate_wf_claim: "claim i t g = (r, g') \<Longrightarrow> tg_receipts g' = tg_receipts g"
  by (auto simp: claim_def split: option.splits)

lemma gate_wf_remember:
  assumes "gate_wf g" and "replayed_receipt i q g = None"
  shows "gate_wf (remember_receipt i q t g)"
proof -
  define w where "w = (case tg_receipts g i of Some w \<Rightarrow> w | None \<Rightarrow> default_ReceiptWindow)"
  obtain receipts where window: "window_of receipts w"
  proof (cases "tg_receipts g i")
    case None
    have "window_of [] w" by (simp add: None w_def window_of_def default_ReceiptWindow_def)
    then show ?thesis by (rule that)
  next
    case (Some v)
    with assms(1) obtain xs where "window_of xs v" unfolding gate_wf_def by blast
    with Some show ?thesis by (intro that) (simp add: w_def)
  qed
  have "map_of (rw_by_request w) q = None"
    using assms(2) by (cases "tg_receipts g i") (simp_all add: replayed_receipt_def w_def default_ReceiptWindow_def)
  with window have "q \<notin> fst ` set receipts"
    by (simp add: window_of_def map_of_eq_None_iff)
  from push_receipt_window [OF window this, of t] assms(1) show ?thesis
    by (auto simp: remember_receipt_def gate_wf_def Let_def w_def [symmetric])
qed

lemma wf_release_claim [simp]: "app_wf records (release_claim i t s) = app_wf records s"
  by (simp add: app_wf_def registry_wf_def release_claim_def)

lemma wf_gate: "gate_wf g \<Longrightarrow> app_wf records s \<Longrightarrow> app_wf records (s\<lparr>sa_turn_gate := g\<rparr>)"
  by (simp add: app_wf_def registry_wf_def)

lemma app_wf_gate: "app_wf records s \<Longrightarrow> gate_wf (sa_turn_gate s)"
  by (simp add: app_wf_def)

lemma wf_forget_closed [simp]: "app_wf records s \<Longrightarrow> app_wf records (forget_closed i s)"
  by (auto simp: app_wf_def registry_wf_def forget_closed_def wf_lease_ops gate_wf_forget)

lemma claimed_wf:
  assumes "claim i t (sa_turn_gate s) = (r, g)" and "app_wf records s"
  shows "app_wf records (s\<lparr>sa_turn_gate := g\<rparr>)"
proof (rule wf_gate [OF _ assms(2)])
  show "gate_wf g"
    using app_wf_gate [OF assms(2)] gate_wf_claim [OF assms(1)] by (simp add: gate_wf_def)
qed

lemma wf_claim_operation: "preserves (app_wf records) s (claim_operation i s)"
proof -
  have "preserves (app_wf records) t
      (case claim i op_id (sa_turn_gate t) of
         (Inl active, gate) \<Rightarrow> (Inl (e active), t\<lparr>sa_turn_gate := gate\<rparr>)
       | (Inr _, gate) \<Rightarrow> (Inr op_id, t\<lparr>sa_turn_gate := gate\<rparr>))" for t op_id and e :: "string \<Rightarrow> SessionDomainError"
  proof -
    obtain r g where c: "claim i op_id (sa_turn_gate t) = (r, g)" by (cases "claim i op_id (sa_turn_gate t)")
    show ?thesis unfolding c using claimed_wf [OF c, of records] by (cases r) (auto simp: preserves_def)
  qed
  then show ?thesis
    unfolding claim_operation_def Let_def by (rule preserves_let [OF memory_preserves [OF call_ambient_memory]])
qed

lemma wf_guarded:
  assumes "\<And>t. preserves (app_wf records) t (body t)"
  shows "preserves (app_wf records) s (guarded i body s)"
  unfolding guarded_def Let_def
  by (rule preserves_and_then [OF wf_claim_operation], rule preserves_let [OF assms], rule preserves_last) simp

section \<open>The operations\<close>

lemma wf_open_started: "preserves (app_wf records) s (open_started ctx request i reg n wire now h backend s)"
  unfolding open_started_def Let_def
  by (intro preserves_on_err preserves_case_prod_arg wf_frame preserves_last; simp)

lemma wf_open_split: "preserves (app_wf records) s (open_split ctx request i reg n wire s)"
  unfolding open_split_def Let_def
  by (intro preserves_and_then preserves_on_err preserves_let preserves_case_prod_arg preserves_pure wf_reserve_slot
      wf_open_started wf_frame preserves_last; simp)

lemma wf_open_new: "preserves (app_wf records) s (open_new ctx request i s)"
  unfolding open_new_def Let_def
  by (intro preserves_and_then preserves_map_err preserves_option preserves_pure wf_open_split wf_frame)

lemma wf_open: "preserves (app_wf records) s (open_impl ctx request s)"
  unfolding open_impl_def Let_def
  by (intro preserves_and_then preserves_let preserves_option preserves_pure wf_open_new wf_frame)

lemma wf_load_split: "preserves (app_wf records) s (load_split ctx request i c reg s)"
  unfolding load_split_def Let_def
  by (intro preserves_and_then preserves_on_err preserves_let preserves_case_prod_arg preserves_pure wf_reserve_slot
      wf_frame preserves_last; simp)

lemma wf_load: "preserves (app_wf records) s (load_checkpoint ctx request s)"
  unfolding load_checkpoint_def Let_def
  by (intro preserves_and_then preserves_let preserves_option preserves_if preserves_map_err preserves_pure
      wf_load_split wf_frame)

lemma wf_publish_fork: "preserves (app_wf records) s (publish_fork ctx request parent i now h reg st llm s)"
  unfolding publish_fork_def Let_def
  by (intro preserves_and_then preserves_on_err preserves_ensure_that preserves_pure wf_frame preserves_last; simp)

lemma wf_fork_from_snapshot:
  "preserves (app_wf records) s (fork_from_snapshot ctx request parent i now p h reg exported snapshot s)"
proof -
  have exported: "preserves (app_wf records) t (export_runtime_snapshot reg i (delete_state_quietly reg exported t))" for t
    by (rule preserves_before [OF _ memory_preserves [OF export_runtime_snapshot_memory]]) simp
  have deleted: "preserves (app_wf records) t (r, delete_snapshot_quietly h p snapshot t)" for t and r :: "(SessionDomainError, 'a OperationBackend) result"
    by (rule preserves_last) simp
  show ?thesis
    unfolding fork_from_snapshot_def Let_def
    by (intro preserves_let preserves_on_err preserves_case_prod_arg deleted exported wf_publish_fork
        wf_frame preserves_last; simp)
qed

lemma wf_fork_reserved: "preserves (app_wf records) s (fork_reserved codec ctx request parent i now reg s)"
  unfolding fork_reserved_def Let_def
  by (intro preserves_and_then preserves_on_err preserves_if preserves_case_prod_arg preserves_pure
      wf_fork_from_snapshot wf_frame preserves_last; simp)

lemma wf_fork: "preserves (app_wf records) s (fork_impl codec ctx request s)"
  unfolding fork_impl_def Let_def
  by (intro preserves_and_then wf_guarded preserves_let preserves_option preserves_ensure_that preserves_pure
      wf_reserve_slot wf_fork_reserved wf_frame)

lemma wf_finalize_split: "preserves (app_wf records) s (finalize_split r i remark s)"
  unfolding finalize_split_def Let_def
  by (intro preserves_and_then preserves_on_err preserves_let preserves_if preserves_pure wf_frame preserves_last; simp)

lemma wf_finalize_joint: "preserves (app_wf records) s (finalize_joint ctx r binding i remark s)"
  unfolding finalize_joint_def Let_def
  by (intro preserves_and_then preserves_let preserves_if preserves_pure wf_frame preserves_last; simp)

lemma wf_finalize: "preserves (app_wf records) s (finalize_closed_session ctx r i remark s)"
  unfolding finalize_closed_session_def by (intro preserves_option wf_finalize_split wf_finalize_joint)

lemma wf_close: "preserves (app_wf records) s (close_impl ctx i lease s)"
  unfolding close_impl_def by (intro preserves_and_then wf_finalize wf_frame)

lemma wf_reclaim: "preserves (app_wf records) s (reclaim_impl ctx i s)"
  unfolding reclaim_impl_def by (intro preserves_and_then preserves_if preserves_pure wf_finalize wf_frame)

lemma wf_detach: "preserves (app_wf records) s (detach_impl ctx i lease s)"
  unfolding detach_impl_def
  by (intro preserves_and_then wf_frame preserves_last)
    (auto simp: app_wf_def registry_wf_def wf_lease_ops split: option.split)

lemma wf_heartbeat: "preserves (app_wf records) s (heartbeat_impl ctx i lease s)"
proof -
  have beat: "preserves (app_wf records) t
      (let (clock, u) = call_ambient (sa_lease_clock t) t; (res, table') = heartbeat clock i c p h table
       in and_then (map_err f (res, u\<lparr>sa_lease_table := Some table'\<rparr>)) (\<lambda>_ s. let (now, s) = now_ms s in (Inr (g now table'), s)))"
    if "sa_lease_table t = Some table"
    for t :: "('a, 'b) SessionApplication" and table c p h and f :: "LeaseCheckFailure \<Rightarrow> SessionDomainError"
      and g :: "u64 \<Rightarrow> SessionLeaseTable \<Rightarrow> SessionHeartbeatResponse"
  proof -
    have "preserves (app_wf records) t (case heartbeat clock i c p h table of (res, table') \<Rightarrow>
        and_then (map_err f (res, u\<lparr>sa_lease_table := Some table'\<rparr>)) (\<lambda>_ s. case now_ms s of (now, s) \<Rightarrow> (Inr (g now table'), s)))"
      if u: "call_ambient (sa_lease_clock t) t = (clock, u)" for clock u
    proof (cases "heartbeat clock i c p h table")
      case (Pair res table')
      have start: "app_wf records (u\<lparr>sa_lease_table := Some table'\<rparr>)" if "app_wf records t"
      proof (rule wf_lease_table)
        show "app_wf records u"
          by (rule preserves_result [OF memory_preserves [OF call_ambient_memory] u that])
        show "lease_wf table'"
          using that \<open>sa_lease_table t = Some table\<close> wf_lease_ops(4) [of table clock i c p h] Pair by (simp add: app_wf_def)
      qed
      show ?thesis
        unfolding Pair prod.case
        by (intro preserves_and_then preserves_map_err preserves_last preserves_let preserves_pure wf_frame start)
    qed
    then show ?thesis unfolding Let_def by (auto simp: preserves_def split: prod.split)
  qed
  show ?thesis
    unfolding heartbeat_impl_def
    by (intro preserves_and_then preserves_option preserves_pure wf_frame beat) (auto simp: ok_or_def split: option.splits)
qed

lemma wf_routed:
  assumes "\<And>t. preserves (app_wf records) t (f t)" and "\<And>t. preserves (app_wf records) t (g t)"
  shows "preserves (app_wf records) s (routed ctx i f g s)"
  unfolding routed_def by (intro preserves_and_then preserves_if wf_frame assms)

lemma wf_joint_host:
  assumes "\<And>host t. preserves (app_wf records) t (body host t)"
  shows "preserves (app_wf records) s (joint_host_access ctx i lease capability request body s)"
  unfolding joint_host_access_def Let_def
  by (intro preserves_and_then wf_guarded preserves_let preserves_pure wf_frame assms)

lemma wf_operation_backend:
  assumes "\<And>backend t. preserves (app_wf records) t (body backend t)"
  shows "preserves (app_wf records) s (operation_backend ctx i lease capability body s)"
  unfolding operation_backend_def
  by (intro preserves_and_then wf_guarded preserves_map_err preserves_case_prod_arg preserves_pure wf_frame assms)

lemma wf_exec: "preserves (app_wf records) s (exec_impl ctx request s)"
  unfolding exec_impl_def exec_joint_def exec_split_def Let_def
  by (intro wf_routed wf_joint_host wf_operation_backend preserves_and_then preserves_ensure_that preserves_list
      preserves_option preserves_if preserves_pure wf_frame)

lemma wf_read: "preserves (app_wf records) s (read_file_impl b ctx request s)"
  unfolding read_file_impl_def Let_def
  by (intro wf_routed wf_joint_host wf_operation_backend preserves_and_then preserves_pure wf_frame)

lemma wf_write: "preserves (app_wf records) s (write_file_impl b ctx request s)"
  unfolding write_file_impl_def write_file_joint_def write_file_split_def create_parents_of_def Let_def
  by (intro wf_routed wf_joint_host wf_operation_backend preserves_and_then preserves_option preserves_if
      preserves_pure wf_frame; simp split: prod.split add: preserves_if preserves_pure wf_frame)

lemma wf_checkpoint: "preserves (app_wf records) s (checkpoint codec ctx request s)"
  unfolding checkpoint_def
  by (intro preserves_and_then wf_guarded preserves_ensure_that preserves_option preserves_pure wf_frame)

text \<open>A turn's receipt is remembered only when the request had none, and nothing in between touches the
  receipts.\<close>

lemma wf_start_turn:
  assumes "\<And>q. tq_client_request_id request = Some q \<Longrightarrow> replayed_receipt (tq_runtime_id request) q (sa_turn_gate s) = None"
  shows "preserves (app_wf records) s (start_turn reg request s)"
proof -
  let ?i = "tq_runtime_id request"
  obtain turn u where u: "call_ambient (sa_turn_ids s) s = (turn, u)" by (cases "call_ambient (sa_turn_ids s) s")
  obtain r g where g: "claim ?i turn (sa_turn_gate u) = (r, g)" by (cases "claim ?i turn (sa_turn_gate u)")
  have gate: "sa_turn_gate u = sa_turn_gate s" by (rule keepsD [OF memory_gate [OF call_ambient_memory] u])
  have fresh: "replayed_receipt ?i q g = None" if "tq_client_request_id request = Some q" for q
    using assms [OF that] gate_wf_claim [OF g] gate by (simp add: replayed_receipt_def)
  have wf_u: "app_wf records (u\<lparr>sa_turn_gate := g\<rparr>)" if "app_wf records s"
    by (rule claimed_wf [OF g], rule preserves_result [OF memory_preserves [OF call_ambient_memory] u that])
  obtain a v where v: "runtime_call (ar_submit_turn (rg_runtime reg) (runtime_turn_request request turn)) (u\<lparr>sa_turn_gate := g\<rparr>) = (a, v)"
    by (cases "runtime_call (ar_submit_turn (rg_runtime reg) (runtime_turn_request request turn)) (u\<lparr>sa_turn_gate := g\<rparr>)")
  have gv: "sa_turn_gate v = g" using keepsD [OF memory_gate [OF runtime_call_memory] v] by simp
  have wf_v: "app_wf records v" if "app_wf records s"
    by (rule preserves_result [OF memory_preserves [OF runtime_call_memory] v wf_u [OF that]])
  have wf_last: "app_wf records (v\<lparr>sa_turn_gate := remember_receipt ?i q turn g\<rparr>)"
    if "app_wf records s" and "tq_client_request_id request = Some q" for q
    using app_wf_gate [OF wf_v [OF that(1)]] fresh [OF that(2)]
    by (intro wf_gate gate_wf_remember wf_v [OF that(1)]) (simp_all add: gv)
  show ?thesis
    using wf_u wf_v wf_last
    by (cases r; cases a; cases "tq_client_request_id request") (simp_all add: start_turn_def u g v gv preserves_def Let_def)
qed

lemma wf_submit_joint: "preserves (app_wf records) s (submit_joint_turn ctx r binding request s)"
  unfolding submit_joint_turn_def Let_def
  by (intro preserves_and_then preserves_let preserves_option preserves_pure wf_frame preserves_last wf_gate)
    (simp_all add: app_wf_gate)

lemma wf_submit: "preserves (app_wf records) s (submit_turn_impl ctx request s)"
  unfolding submit_turn_impl_def
  by (intro preserves_and_then preserves_option preserves_map_err preserves_ensure_that preserves_pure
      wf_submit_joint wf_start_turn wf_frame) simp

lemma wf_settle: "preserves (app_wf records) s (settle_event reg i turn event s)"
  unfolding settle_event_def Let_def
  by (intro preserves_if preserves_let preserves_pure wf_frame preserves_last) simp

lemma wf_forward_loop: "preserves (app_wf records) s (forward_loop reg i turn deliver k events s)"
proof (induction events arbitrary: k s)
  case Nil
  show ?case by (simp add: preserves_def)
next
  case (Cons event events)
  show ?case
    unfolding forward_loop.simps Let_def
    by (intro preserves_let preserves_if preserves_pure wf_settle)
      (use Cons.IH in \<open>auto simp: preserves_def split: prod.split\<close>)
qed

lemma wf_forward: "preserves (app_wf records) s (forward_turn reg i turn deliver events s)"
proof -
  obtain sent terminal abandoned t where loop: "forward_loop reg i turn deliver 0 events s = ((sent, terminal, abandoned), t)"
    by (cases "forward_loop reg i turn deliver 0 events s") (metis prod.exhaust)
  have "app_wf records t" if "app_wf records s"
    by (rule preserves_result [OF wf_forward_loop loop that])
  moreover have "app_wf records (snd (call_ambient f t))" if "app_wf records t" for f :: "'a \<Rightarrow> (RuntimeError, unit) result \<times> 'a"
    by (rule preservesD [OF memory_preserves [OF call_ambient_memory] that])
  ultimately show ?thesis
    by (simp add: preserves_def forward_turn_def loop Let_def)
qed

lemma wf_forward_joint: "preserves (app_wf records) s (forward_joint_turn i turn deliver terminal s)"
  unfolding forward_joint_turn_def Let_def
  by (rule preserves_let [OF memory_preserves [OF call_joint_memory]]) (simp add: preserves_def split: prod.split)

section \<open>The sweeps\<close>

lemma wf_reap_one: "preserves (app_wf records) s (reap_one_record_with_threshold i threshold s)"
  unfolding reap_one_record_with_threshold_def Let_def
  by (intro preserves_let preserves_sum preserves_if preserves_pure wf_close wf_frame)

lemma wf_reap_entries: "preserves (app_wf records) s (reap_entries now threshold entries s)"
proof (induction entries arbitrary: s)
  case (Cons entry entries)
  show ?case
    by (cases entry) (auto simp: Let_def intro!: preserves_let wf_reap_one Cons.IH preserves_pure)
qed (simp add: preserves_def)

lemma wf_orphan_sweep: "preserves (app_wf records) s (orphan_sweep_once config s)"
  unfolding orphan_sweep_once_def Let_def
  by (intro preserves_let preserves_option preserves_pure wf_reap_entries wf_frame)

lemma wf_sweep_one: "preserves (app_wf records) s (sweep_one_record ctx i s)"
  unfolding sweep_one_record_def
  by (intro preserves_let preserves_sum preserves_if preserves_pure wf_reclaim wf_frame)

lemma wf_sweep_records: "preserves (app_wf records) s (sweep_records ctx rs s)"
proof (induction rs arbitrary: s)
  case (Cons r rs)
  show ?case
    by (auto simp: Let_def intro!: preserves_let wf_sweep_one Cons.IH preserves_pure)
qed (simp add: preserves_def)

lemma wf_reclaim_sweep: "preserves (app_wf records) s (reclaim_sweep_once s)"
  unfolding reclaim_sweep_once_def list_active_sessions_for_reclaim_sweep_def
  by (intro preserves_let preserves_sum preserves_pure wf_sweep_records wf_frame)

section \<open>Runs of the application\<close>

text \<open>An application as it is built, with or without a lease table.\<close>

definition app_init :: "'r SessionRepository \<Rightarrow> ('w, 'r) SessionApplication \<Rightarrow> bool" where
  "app_init records s \<longleftrightarrow>
     (\<exists>kind regs parts built. with_runtime_registry kind regs parts = Inr built \<and> as_records parts = records \<and>
        (s = built \<or> (\<exists>table. lease_wf table \<and> s = with_lease_table table built)))"

text \<open>Its steps: the calls of clients on sessions, the calls that list, the deletion of checkpoints, the tasks that
  forward the events of a turn, the recovery at start, and the sweeps.\<close>

inductive app_step :: "Base64 \<Rightarrow> SnapshotCodec \<Rightarrow> ('w, 'r) SessionApplication \<Rightarrow> ('w, 'r) SessionApplication \<Rightarrow> bool"
  for b codec where
  step_call: "app_step b codec s (snd (perform b codec ctx call s))"
| step_delete: "app_step b codec s (snd (delete_checkpoint_impl codec ctx dq s))"
| step_list: "app_step b codec s (snd (list_sessions_impl ctx limit s))"
| step_list_checkpoints: "app_step b codec s (snd (list_checkpoints_impl ctx within limit s))"
| step_forward: "app_step b codec s (snd (forward_turn reg i turn deliver events s))"
| step_forward_joint: "app_step b codec s (snd (forward_joint_turn i turn deliver terminal s))"
| step_restore: "app_step b codec s (snd (restore_tenant_session_counts s))"
| step_reconcile: "app_step b codec s (snd (reconcile_snapshot_intents codec wait s))"
| step_reap: "app_step b codec s (snd (orphan_sweep_once config s))"
| step_sweep: "app_step b codec s (snd (reclaim_sweep_once s))"

lemma register_runtimes_kinds:
  assumes "register_runtimes regs runtimes = Inr found"
    and "\<And>kind reg. runtimes kind = Some reg \<Longrightarrow> kind = trim (ar_runtime_kind (rg_runtime reg)) \<and> kind \<noteq> []"
    and "found kind = Some reg"
  shows "kind = trim (ar_runtime_kind (rg_runtime reg)) \<and> kind \<noteq> []"
  using assms
proof (induction regs arbitrary: runtimes)
  case (Cons r regs)
  let ?kind = "trim (ar_runtime_kind (rg_runtime r))"
  have fresh: "?kind \<noteq> []" "register_runtimes regs (runtimes(?kind \<mapsto> r)) = Inr found"
    using Cons.prems(1) by (auto simp: Let_def split: if_splits)
  show ?case
    by (rule Cons.IH [OF fresh(2) _ Cons.prems(3)]) (use Cons.prems(2) fresh(1) in \<open>auto split: if_splits\<close>)
qed simp

lemma wf_built:
  assumes "with_runtime_registry kind regs parts = Inr built"
  shows "app_wf (as_records parts) built \<and> sa_lease_table built = None"
proof -
  obtain runtimes where found: "register_runtimes regs Map.empty = Inr runtimes" and "runtimes kind \<noteq> None"
    and built: "sa_runtimes built = runtimes" "sa_default_runtime_kind built = kind" "sa_records built = as_records parts"
      "sa_lease_table built = None" "sa_turn_gate built = default_TurnGate" "sa_tenant_sessions built = Map.empty"
    using assms by (auto simp: with_runtime_registry_def split: sum.splits if_splits)
  then show ?thesis
    using register_runtimes_kinds [OF found]
    by (auto simp: app_wf_def registry_wf_def gate_wf_def default_TurnGate_def)
qed

lemma wf_init: "app_init records s \<Longrightarrow> app_wf records s"
  unfolding app_init_def using wf_built by (fastforce simp: with_lease_table_def intro: wf_lease_table)

lemma wf_erased: "preserves (app_wf records) s m \<Longrightarrow> preserves (app_wf records) s (erased m)"
  unfolding erased_def by (intro preserves_and_then preserves_pure)

lemma wf_perform: "preserves (app_wf records) s (perform b codec ctx call s)"
  by (cases call)
    (auto simp: check_visible_def intro!: wf_erased preserves_and_then preserves_pure wf_open wf_load wf_submit wf_close wf_reclaim
      wf_detach wf_heartbeat wf_exec wf_read wf_write wf_checkpoint wf_fork wf_frame)

context session_repository
begin

lemma wf_restore: "preserves (app_wf repo) s (restore_tenant_session_counts s)"
  using counts_positive
  by (auto simp: preserves_def restore_tenant_session_counts_def call_repo_def app_wf_def registry_wf_def Let_def
      and_then_def split: prod.splits sum.splits)

lemma wf_step: "app_step b codec s t \<Longrightarrow> app_wf repo s \<Longrightarrow> app_wf repo t"
  by (induction rule: app_step.induct)
    (erule preservesD [rotated]; rule wf_perform wf_forward wf_forward_joint wf_restore wf_orphan_sweep
      wf_reclaim_sweep wf_frame)+

end

sublocale session_repository \<subseteq> application: invariant_system "app_init repo" "app_step b codec" "app_wf repo" for b codec
  by unfold_locales (auto intro: wf_init wf_step)

context session_repository
begin

lemma well_formed: "reach (app_init repo) (app_step b codec) s \<Longrightarrow> app_wf repo s"
  by (rule application.reach_inv)

end

text \<open>C1. However calls, tasks and sweeps follow each other, the state of the application stays well
  formed: every runtime is registered under its trimmed, nonempty kind and the default kind is among
  them; a tenant without open sessions has no counter; the lease table keeps every lease once, in the
  shard of its session; and the receipts of a session form a window of at most 64 requests, each
  answered by one turn, in the order in which they came.\<close>

theorem application_well_formed:
  assumes "session_repository records view storable" and "reach (app_init records) (app_step b codec) s"
  shows "app_wf records s"
  by (rule session_repository.well_formed [OF assms])

definition demo_assembly :: "(demo_world, demo_store) Assembly" where
  "demo_assembly =
     \<lparr> as_records = demo_repository, as_turn_ids = (\<lambda>w. (''t1'', w)), as_runtime_ids = (\<lambda>w. (''r1'', w)),
       as_clock = (\<lambda>w. (7, w)), as_lease_clock = (\<lambda>w. (Some 7, w)), as_managers = (\<lambda>h. demo_provider [''i1'']),
       as_repo = demo_store_of [], as_world = im_world (demo_provider [''i1'']) \<rparr>"

theorem application_well_formed_witness:
  "\<exists>s. with_runtime_registry ''pi'' [demo_registration [''be'']] demo_assembly = Inr s \<and>
     app_wf demo_repository (snd (orphan_sweep_once default_OrphanReaperConfig (with_lease_table demo_lease_table s)))"
proof -
  have "ar_runtime_kind (rg_runtime (demo_registration [''be''])) = ''pi''"
    by (simp add: demo_registration_def new_RuntimeRegistration_def demo_runtime_def)
  moreover have "trim ''pi'' = ''pi''" by code_simp
  ultimately obtain s where s: "with_runtime_registry ''pi'' [demo_registration [''be'']] demo_assembly = Inr s"
    by (simp add: with_runtime_registry_def Let_def)
  have "lease_wf demo_lease_table"
    unfolding demo_lease_table_def by (intro lease_wf_put lease_wf_new)
  then have "app_init demo_repository (with_lease_table demo_lease_table s)"
    unfolding app_init_def using s by (force simp: demo_assembly_def)
  then have "reach (app_init demo_repository) (app_step b codec)
      (snd (orphan_sweep_once default_OrphanReaperConfig (with_lease_table demo_lease_table s)))" for b codec
    by (rule reach_step [OF reach_init]) (rule app_step.step_reap)
  then have "app_wf demo_repository (snd (orphan_sweep_once default_OrphanReaperConfig (with_lease_table demo_lease_table s)))"
    by (intro application_well_formed [OF demo_store.session_repository_axioms])
  with s show ?thesis by blast
qed

end
