(* ===== verification/Turn_Cancellation.thy ===== *)
theory Turn_Cancellation
  imports Gov_Prelude
begin

text \<open>
  The registry through which an adapter cancels its running turn (\<open>src/crates/core/src/turn_cancellation.rs\<close>).
  The channel of a turn carries at most one signal; its two ends are identified by a number. What the
  receiving task sees of its channel is \<open>Waiting\<close>, \<open>Fired\<close>, or \<open>SenderDropped\<close> when the sending end
  was dropped without a signal. The lock of the registry makes each operation one step.
\<close>

section \<open>Channels\<close>

datatype Signal = Waiting | Fired | SenderDropped

record Channel =
  ch_signal :: Signal
  ch_receiver_alive :: bool

type_synonym Channels = "nat \<Rightarrow> Channel"

definition drop_sender :: "nat \<Rightarrow> Channels \<Rightarrow> Channels" where
  "drop_sender n cs =
     (if ch_signal (cs n) = Waiting then cs(n := (cs n)\<lparr>ch_signal := SenderDropped\<rparr>) else cs)"

text \<open>Sending takes the sending end with it: the channel is fired, or its receiver was gone.\<close>

definition send :: "nat \<Rightarrow> Channels \<Rightarrow> bool \<times> Channels" where
  "send n cs =
     (if ch_receiver_alive (cs n) then (True, cs(n := (cs n)\<lparr>ch_signal := Fired\<rparr>)) else (False, drop_sender n cs))"

section \<open>The registry\<close>

record ActiveTurn =
  at_turn_id :: string
  at_cancel_tx :: nat

record TurnCancellationRegistry =
  tr_active :: "string \<rightharpoonup> ActiveTurn"
  tr_channels :: Channels
  tr_next :: nat

definition new_TurnCancellationRegistry :: TurnCancellationRegistry where
  "new_TurnCancellationRegistry =
     \<lparr> tr_active = Map.empty, tr_channels = (\<lambda>n. \<lparr> ch_signal = Waiting, ch_receiver_alive = True \<rparr>), tr_next = 0 \<rparr>"

definition drop_active :: "string \<Rightarrow> TurnCancellationRegistry \<Rightarrow> Channels" where
  "drop_active runtime_id g =
     (case tr_active g runtime_id of None \<Rightarrow> tr_channels g | Some active \<Rightarrow> drop_sender (at_cancel_tx active) (tr_channels g))"

definition begin_turn :: "string \<Rightarrow> string \<Rightarrow> TurnCancellationRegistry \<Rightarrow> nat \<times> TurnCancellationRegistry" where
  "begin_turn runtime_id turn_id g =
     (tr_next g,
      g\<lparr>tr_active := (tr_active g)(runtime_id \<mapsto> \<lparr> at_turn_id = turn_id, at_cancel_tx = tr_next g \<rparr>),
        tr_channels := drop_active runtime_id g, tr_next := Suc (tr_next g)\<rparr>)"

definition names_turn :: "string option \<Rightarrow> ActiveTurn \<Rightarrow> bool" where
  "names_turn turn_id active = (case turn_id of None \<Rightarrow> True | Some expected \<Rightarrow> expected = at_turn_id active)"

definition fire :: "string \<Rightarrow> string option \<Rightarrow> TurnCancellationRegistry \<Rightarrow> bool \<times> TurnCancellationRegistry" where
  "fire runtime_id turn_id g =
     (case tr_active g runtime_id of
        None \<Rightarrow> (False, g)
      | Some active \<Rightarrow>
          if \<not> names_turn turn_id active then (False, g)
          else (let (sent, cs) = send (at_cancel_tx active) (tr_channels g)
                in (sent, g\<lparr>tr_active := (tr_active g)(runtime_id := None), tr_channels := cs\<rparr>)))"

definition end_turn :: "string \<Rightarrow> string \<Rightarrow> TurnCancellationRegistry \<Rightarrow> TurnCancellationRegistry" where
  "end_turn runtime_id turn_id g =
     (case tr_active g runtime_id of
        None \<Rightarrow> g
      | Some active \<Rightarrow>
          if at_turn_id active = turn_id
          then g\<lparr>tr_active := (tr_active g)(runtime_id := None), tr_channels := drop_active runtime_id g\<rparr>
          else g)"

text \<open>The task of a turn drops its end of the channel when it is over.\<close>

definition drop_receiver :: "nat \<Rightarrow> TurnCancellationRegistry \<Rightarrow> TurnCancellationRegistry" where
  "drop_receiver n g = g\<lparr>tr_channels := (tr_channels g)(n := (tr_channels g n)\<lparr>ch_receiver_alive := False\<rparr>)\<rparr>"

section \<open>Runs\<close>

datatype registry_op =
    BeginTurn string string | FireTurn string "string option" | EndTurn string string | DropReceiver nat

fun registry_step :: "registry_op \<Rightarrow> TurnCancellationRegistry \<Rightarrow> TurnCancellationRegistry" where
  "registry_step (BeginTurn r t) g = snd (begin_turn r t g)"
| "registry_step (FireTurn r t) g = snd (fire r t g)"
| "registry_step (EndTurn r t) g = end_turn r t g"
| "registry_step (DropReceiver n) g = drop_receiver n g"

text \<open>Every active turn has a channel of its own, which is waiting.\<close>

definition registry_inv :: "TurnCancellationRegistry \<Rightarrow> bool" where
  "registry_inv g \<longleftrightarrow>
     (\<forall>r a. tr_active g r = Some a \<longrightarrow> at_cancel_tx a < tr_next g \<and> ch_signal (tr_channels g (at_cancel_tx a)) = Waiting) \<and>
     (\<forall>r r' a a'. tr_active g r = Some a \<longrightarrow> tr_active g r' = Some a' \<longrightarrow> r \<noteq> r' \<longrightarrow> at_cancel_tx a \<noteq> at_cancel_tx a') \<and>
     (\<forall>n. tr_next g \<le> n \<longrightarrow> ch_signal (tr_channels g n) = Waiting)"

lemma registry_inv_new: "registry_inv new_TurnCancellationRegistry"
  by (simp add: registry_inv_def new_TurnCancellationRegistry_def)

lemmas registry_defs = begin_turn_def fire_def end_turn_def drop_receiver_def drop_active_def drop_sender_def send_def

lemma registry_invD:
  assumes "registry_inv g"
  shows "tr_active g r = Some a \<Longrightarrow> at_cancel_tx a < tr_next g"
    and "tr_active g r = Some a \<Longrightarrow> ch_signal (tr_channels g (at_cancel_tx a)) = Waiting"
    and "tr_active g r = Some a \<Longrightarrow> tr_active g r' = Some a' \<Longrightarrow> at_cancel_tx a = at_cancel_tx a' \<Longrightarrow> r = r'"
    and "tr_next g \<le> n \<Longrightarrow> ch_signal (tr_channels g n) = Waiting"
  using assms unfolding registry_inv_def by blast+

lemma registry_invI:
  assumes "\<And>r a. tr_active g r = Some a \<Longrightarrow> at_cancel_tx a < tr_next g"
    and "\<And>r a. tr_active g r = Some a \<Longrightarrow> ch_signal (tr_channels g (at_cancel_tx a)) = Waiting"
    and "\<And>r r' a a'. tr_active g r = Some a \<Longrightarrow> tr_active g r' = Some a' \<Longrightarrow> at_cancel_tx a = at_cancel_tx a' \<Longrightarrow> r = r'"
    and "\<And>n. tr_next g \<le> n \<Longrightarrow> ch_signal (tr_channels g n) = Waiting"
  shows "registry_inv g"
  unfolding registry_inv_def using assms by blast

text \<open>A turn leaves the registry together with its sending end.\<close>

lemma registry_inv_drop:
  assumes "registry_inv g" and "tr_active g r = Some a" and "\<And>n. n \<noteq> at_cancel_tx a \<Longrightarrow> ch_signal (cs n) = ch_signal (tr_channels g n)"
  shows "registry_inv (g\<lparr>tr_active := (tr_active g)(r := None), tr_channels := cs\<rparr>)"
proof (rule registry_invI)
  fix r' a'
  assume "tr_active (g\<lparr>tr_active := (tr_active g)(r := None), tr_channels := cs\<rparr>) r' = Some a'"
  then have r': "tr_active g r' = Some a'" "r' \<noteq> r" by (auto split: if_splits)
  then show "at_cancel_tx a' < tr_next (g\<lparr>tr_active := (tr_active g)(r := None), tr_channels := cs\<rparr>)"
    using registry_invD(1) [OF assms(1)] by simp
  have "at_cancel_tx a' \<noteq> at_cancel_tx a" using registry_invD(3) [OF assms(1) r'(1) assms(2)] r'(2) by blast
  then show "ch_signal (tr_channels (g\<lparr>tr_active := (tr_active g)(r := None), tr_channels := cs\<rparr>) (at_cancel_tx a')) = Waiting"
    using registry_invD(2) [OF assms(1) r'(1)] assms(3) by simp
next
  fix n
  assume "tr_next (g\<lparr>tr_active := (tr_active g)(r := None), tr_channels := cs\<rparr>) \<le> n"
  then have "tr_next g \<le> n" and "n \<noteq> at_cancel_tx a" using registry_invD(1) [OF assms(1,2)] by auto
  then show "ch_signal (tr_channels (g\<lparr>tr_active := (tr_active g)(r := None), tr_channels := cs\<rparr>) n) = Waiting"
    using registry_invD(4) [OF assms(1)] assms(3) by simp
qed (auto dest: registry_invD(3) [OF assms(1)] split: if_splits)

lemma registry_inv_begin:
  assumes "registry_inv g" and "tr_active g r = None"
  shows "registry_inv (g\<lparr>tr_active := (tr_active g)(r \<mapsto> \<lparr> at_turn_id = t, at_cancel_tx = tr_next g \<rparr>), tr_next := Suc (tr_next g)\<rparr>)"
proof -
  have "at_cancel_tx a' \<noteq> tr_next g" if "tr_active g r' = Some a'" for r' a'
    using registry_invD(1) [OF assms(1) that] by simp
  then show ?thesis
    by (intro registry_invI)
      (use registry_invD [OF assms(1)] in \<open>fastforce split: if_splits intro: less_SucI\<close>)+
qed

lemma registry_inv_end: "registry_inv g \<Longrightarrow> registry_inv (g\<lparr>tr_active := (tr_active g)(r := None), tr_channels := drop_active r g\<rparr>)"
proof (cases "tr_active g r")
  case (Some a)
  assume "registry_inv g"
  then show ?thesis
    by (rule registry_inv_drop [OF _ Some]) (simp add: drop_active_def drop_sender_def Some)
next
  case None
  moreover assume "registry_inv g"
  ultimately show ?thesis by (simp add: drop_active_def fun_upd_idem)
qed

lemma registry_inv_step: "registry_inv g \<Longrightarrow> registry_inv (registry_step op g)"
proof (induction op)
  case (BeginTurn r t)
  from registry_inv_begin [OF registry_inv_end [OF this, of r], of r t] show ?case
    by (cases g) (simp add: begin_turn_def)
next
  case (FireTurn r x)
  then show ?case
    by (cases "tr_active g r") (auto simp: fire_def send_def drop_sender_def registry_invD(2) intro: registry_inv_drop)
next
  case (EndTurn r t)
  then show ?case by (auto simp: end_turn_def registry_inv_end split: option.split)
next
  case (DropReceiver n)
  then show ?case
    by (intro registry_invI) (use registry_invD [OF DropReceiver] in \<open>auto simp: drop_receiver_def\<close>)
qed

lemma registry_inv_run: "registry_inv g \<Longrightarrow> registry_inv (fold registry_step ops g)"
  by (induction ops arbitrary: g) (simp_all add: registry_inv_step)

text \<open>The operations that end the turn \<open>t\<close> of the runtime \<open>r\<close> or give up its channel \<open>n\<close>.\<close>

fun ends_turn :: "string \<Rightarrow> string \<Rightarrow> nat \<Rightarrow> registry_op \<Rightarrow> bool" where
  "ends_turn r t n (BeginTurn r' t') = (r' = r)"
| "ends_turn r t n (FireTurn r' x) = (r' = r \<and> (x = None \<or> x = Some t))"
| "ends_turn r t n (EndTurn r' t') = (r' = r \<and> t' = t)"
| "ends_turn r t n (DropReceiver m) = (m = n)"

lemma turn_stays_active:
  assumes "tr_active g r = Some \<lparr> at_turn_id = t, at_cancel_tx = n \<rparr>" and "ch_receiver_alive (tr_channels g n)"
    and "\<not> ends_turn r t n op"
  shows "tr_active (registry_step op g) r = Some \<lparr> at_turn_id = t, at_cancel_tx = n \<rparr> \<and>
    ch_receiver_alive (tr_channels (registry_step op g) n)"
  using assms
  by (cases op) (auto simp: registry_defs names_turn_def Let_def split: option.splits if_splits)

lemma turn_stays_active_run:
  assumes "tr_active g r = Some \<lparr> at_turn_id = t, at_cancel_tx = n \<rparr>" and "ch_receiver_alive (tr_channels g n)"
    and "\<forall>op \<in> set ops. \<not> ends_turn r t n op"
  shows "tr_active (fold registry_step ops g) r = Some \<lparr> at_turn_id = t, at_cancel_tx = n \<rparr> \<and>
    ch_receiver_alive (tr_channels (fold registry_step ops g) n)"
  using assms by (induction ops arbitrary: g) (simp_all add: turn_stays_active)

text \<open>C19. However the operations on the registry interleave: while the turn that was begun on a runtime is
  neither ended nor cancelled nor succeeded by another one and its task still listens, a cancellation of
  that runtime that names the turn, or none, reaches exactly the channel of that turn and reports so; one
  that names another turn reaches nobody and reports that.\<close>

theorem cancel_reaches_current_turn:
  assumes "g = fold registry_step before new_TurnCancellationRegistry" and "begin_turn r t g = (n, g1)"
    and "ch_receiver_alive (tr_channels g1 n)" and "\<forall>op \<in> set later. \<not> ends_turn r t n op"
    and "g2 = fold registry_step later g1"
  shows "(x = None \<or> x = Some t \<longrightarrow>
      fire r x g2 = (True, snd (fire r x g2)) \<and> ch_signal (tr_channels g2 n) = Waiting \<and>
      ch_signal (tr_channels (snd (fire r x g2)) n) = Fired \<and>
      (\<forall>m. m \<noteq> n \<longrightarrow> tr_channels (snd (fire r x g2)) m = tr_channels g2 m)) \<and>
    (x \<noteq> None \<and> x \<noteq> Some t \<longrightarrow> fire r x g2 = (False, g2))"
proof -
  have "registry_inv g2"
    using registry_inv_run [OF registry_inv_run [OF registry_inv_new], of later "before @ [BeginTurn r t]"] assms(1,2,5)
    by simp
  moreover have "tr_active g1 r = Some \<lparr> at_turn_id = t, at_cancel_tx = n \<rparr>"
    using assms(2) by (auto simp: begin_turn_def)
  from turn_stays_active_run [OF this assms(3,4)] assms(5)
  have "tr_active g2 r = Some \<lparr> at_turn_id = t, at_cancel_tx = n \<rparr>" "ch_receiver_alive (tr_channels g2 n)" by simp_all
  ultimately show ?thesis
    using registry_invD(2) [of g2 r] by (auto simp: fire_def names_turn_def send_def split: option.splits)
qed

theorem cancel_reaches_current_turn_witness:
  "fst (fire ''r1'' (Some ''t2'') (snd (begin_turn ''r1'' ''t2''
     (fold registry_step [BeginTurn ''r1'' ''t1''] new_TurnCancellationRegistry))))"
proof -
  let ?g = "fold registry_step [BeginTurn ''r1'' ''t1''] new_TurnCancellationRegistry"
  let ?g1 = "snd (begin_turn ''r1'' ''t2'' ?g)"
  have run: "begin_turn ''r1'' ''t2'' ?g = (1, ?g1)"
    by (simp add: begin_turn_def new_TurnCancellationRegistry_def)
  have alive: "ch_receiver_alive (tr_channels ?g1 1)"
    by (simp add: registry_defs new_TurnCancellationRegistry_def)
  have "fire ''r1'' (Some ''t2'') ?g1 = (True, snd (fire ''r1'' (Some ''t2'') ?g1))"
    using cancel_reaches_current_turn [OF refl run alive, where later = "[]" and ?g2.0 = ?g1 and x = "Some ''t2''"]
    by (simp only: fold_simps id_apply list.set simp_thms ball_empty HOL.refl)
  then show ?thesis by (metis fst_conv)
qed

end
