(* ===== verification/Line_Diff.thy ===== *)
theory Line_Diff
  imports Gov_Prelude "HOL-Library.Sublist"
begin

text \<open>
  Line statistics of file changes (\<open>src/crates/protocol/operation/src/diff.rs\<close>): the dynamic program
  with two rolling rows, the cheap comparison of prefix and suffix for large files, and the counts
  reported from them. The dynamic program is proved to compute the length of a longest common
  subsequence; the cheap comparison is proved to be a lower bound of it.
\<close>

section \<open>The computation\<close>

text \<open>\<open>str::lines\<close>: the pieces before each line feed, without one carriage return at their end, and
  a last piece that is not empty.\<close>

definition strip_cr :: "string \<Rightarrow> string" where
  "strip_cr s = (if s \<noteq> [] \<and> last s = CHR 0x0D then butlast s else s)"

definition str_lines :: "string \<Rightarrow> string list" where
  "str_lines text =
     (let pieces = split_at (CHR 0x0A) text
      in map strip_cr (butlast pieces) @ (if last pieces = [] then [] else [last pieces]))"

definition text_lines :: "string \<Rightarrow> string list" where
  "text_lines text = (if text = [] then [] else str_lines text)"

definition text_line_count :: "string \<Rightarrow> u32" where
  "text_line_count text = word_of_nat (length (text_lines text))"

text \<open>One cell of the table: the entry after \<open>j\<close> in the row under construction.\<close>

definition lcs_cell :: "'a \<Rightarrow> 'a list \<Rightarrow> nat list \<Rightarrow> nat list \<Rightarrow> nat \<Rightarrow> nat list" where
  "lcs_cell line after previous current j =
     current[j + 1 := (if line = after ! j then previous ! j + 1
                       else max (current ! j) (previous ! (j + 1)))]"

definition lcs_row :: "'a \<Rightarrow> 'a list \<Rightarrow> nat list \<Rightarrow> nat list \<Rightarrow> nat list" where
  "lcs_row line after previous current =
     foldl (lcs_cell line after previous) current [0..<length after]"

text \<open>The rows are swapped after each line and the new current row is filled with zeros.\<close>

definition lcs_line_count :: "'a list \<Rightarrow> 'a list \<Rightarrow> nat" where
  "lcs_line_count before after =
     (let (previous, current) =
        foldl (\<lambda>(previous, current) line.
                (lcs_row line after previous current, map (\<lambda>_. 0) previous))
          (replicate (length after + 1) 0, replicate (length after + 1) 0) before
      in previous ! length after)"

function common_prefix :: "'a list \<Rightarrow> 'a list \<Rightarrow> nat \<Rightarrow> nat" where
  "common_prefix before after pre =
     (if pre < min (length before) (length after) \<and> before ! pre = after ! pre
      then common_prefix before after (pre + 1) else pre)"
  by pat_completeness auto
termination by (relation "measure (\<lambda>(b, a, p). length b - p)") auto

function common_suffix :: "'a list \<Rightarrow> 'a list \<Rightarrow> nat \<Rightarrow> nat \<Rightarrow> nat" where
  "common_suffix before after pre suf =
     (if suf < length before - pre \<and> suf < length after - pre
         \<and> before ! (length before - 1 - suf) = after ! (length after - 1 - suf)
      then common_suffix before after pre (suf + 1) else suf)"
  by pat_completeness auto
termination by (relation "measure (\<lambda>(b, a, p, s). length b - s)") auto

declare common_prefix.simps [simp del] common_suffix.simps [simp del]

definition coarse_common_line_count :: "'a list \<Rightarrow> 'a list \<Rightarrow> nat" where
  "coarse_common_line_count before after =
     (let pre = common_prefix before after 0
      in pre + common_suffix before after pre 0)"

definition line_change_counts :: "string \<Rightarrow> string \<Rightarrow> u32 \<times> u32" where
  "line_change_counts before after =
     (if before = after then (0, 0)
      else
        let before_lines = text_lines before; after_lines = text_lines after
        in if before_lines = [] then (word_of_nat (length after_lines), 0)
           else if after_lines = [] then (0, word_of_nat (length before_lines))
           else
             let common = (if 20000 < length before_lines * length after_lines
                           then coarse_common_line_count before_lines after_lines
                           else lcs_line_count before_lines after_lines)
             in (word_of_nat (length after_lines - common), word_of_nat (length before_lines - common)))"

record FileChangeDelta =
  fd_path :: string
  fd_additions :: u32
  fd_deletions :: u32

definition from_contents :: "string \<Rightarrow> string option \<Rightarrow> string option \<Rightarrow> FileChangeDelta option" where
  "from_contents path before after =
     (let (additions, deletions) =
        (case (before, after) of
           (Some b, Some a) \<Rightarrow> line_change_counts b a
         | (None, Some a) \<Rightarrow> (text_line_count a, 0)
         | (Some b, None) \<Rightarrow> (0, text_line_count b)
         | (None, None) \<Rightarrow> (0, 0))
      in if additions = 0 \<and> deletions = 0 then None
         else Some \<lparr> fd_path = path, fd_additions = additions, fd_deletions = deletions \<rparr>)"

section \<open>Longest common subsequences\<close>

definition common_subseqs :: "'a list \<Rightarrow> 'a list \<Rightarrow> 'a list set" where
  "common_subseqs xs ys = {zs. subseq zs xs \<and> subseq zs ys}"

text \<open>\<open>n\<close> is the length of a longest common subsequence.\<close>

definition is_lcs_length :: "'a list \<Rightarrow> 'a list \<Rightarrow> nat \<Rightarrow> bool" where
  "is_lcs_length xs ys n \<longleftrightarrow>
     (\<exists>zs \<in> common_subseqs xs ys. length zs = n) \<and> (\<forall>zs \<in> common_subseqs xs ys. length zs \<le> n)"

lemma is_lcs_length_unique: "is_lcs_length xs ys n \<Longrightarrow> is_lcs_length xs ys m \<Longrightarrow> n = m"
  unfolding is_lcs_length_def by (metis order_antisym)

fun lcs :: "'a list \<Rightarrow> 'a list \<Rightarrow> nat" where
  "lcs [] ys = 0"
| "lcs xs [] = 0"
| "lcs (x # xs) (y # ys) =
     (if x = y then lcs xs ys + 1 else max (lcs xs (y # ys)) (lcs (x # xs) ys))"

lemma lcs_Nil [simp]: "lcs xs [] = 0"
  by (cases xs) simp_all

lemma subseq_Cons_skip: "subseq zs (x # xs) \<Longrightarrow> zs = [] \<or> hd zs \<noteq> x \<Longrightarrow> subseq zs xs"
  by (cases zs) auto

lemma is_lcs_length_lcs: "is_lcs_length xs ys (lcs xs ys)"
proof (induction xs ys rule: lcs.induct)
  case (3 x xs y ys)
  show ?case
  proof (cases "x = y")
    case True
    obtain zs where "zs \<in> common_subseqs xs ys" and "length zs = lcs xs ys"
      using 3(1) [OF True] by (auto simp: is_lcs_length_def)
    then have "x # zs \<in> common_subseqs (x # xs) (y # ys) \<and> length (x # zs) = lcs (x # xs) (y # ys)"
      using True by (simp add: common_subseqs_def)
    moreover have "length ws \<le> lcs (x # xs) (y # ys)" if ws: "ws \<in> common_subseqs (x # xs) (y # ys)" for ws
    proof -
      have "\<exists>vs \<in> common_subseqs xs ys. length ws \<le> Suc (length vs)"
      proof (cases "ws \<noteq> [] \<and> hd ws = x")
        case True
        with ws \<open>x = y\<close> show ?thesis by (cases ws) (auto simp: common_subseqs_def)
      next
        case False
        with ws \<open>x = y\<close> have "ws \<in> common_subseqs xs ys"
          by (auto simp: common_subseqs_def dest: subseq_Cons_skip)
        then show ?thesis by (auto intro: le_SucI)
      qed
      then show ?thesis
        using 3(1) [OF True] True by (fastforce simp: is_lcs_length_def)
    qed
    ultimately show ?thesis unfolding is_lcs_length_def by blast
  next
    case False
    have left: "is_lcs_length xs (y # ys) (lcs xs (y # ys))"
      and right: "is_lcs_length (x # xs) ys (lcs (x # xs) ys)"
      using 3(2,3) False by blast+
    have split: "common_subseqs (x # xs) (y # ys) = common_subseqs xs (y # ys) \<union> common_subseqs (x # xs) ys"
    proof -
      have "zs \<in> common_subseqs xs (y # ys) \<or> zs \<in> common_subseqs (x # xs) ys"
        if "zs \<in> common_subseqs (x # xs) (y # ys)" for zs
        using that False by (cases "zs = [] \<or> hd zs \<noteq> x") (auto simp: common_subseqs_def dest: subseq_Cons_skip)
      then show ?thesis by (auto simp: common_subseqs_def)
    qed
    show ?thesis
    proof (cases "lcs xs (y # ys) \<le> lcs (x # xs) ys")
      case True
      with left right False show ?thesis
        unfolding is_lcs_length_def split by (fastforce simp: max_def)
    next
      case more: False
      with left right False show ?thesis
        unfolding is_lcs_length_def split by (fastforce simp: max_def)
    qed
  qed
qed (auto simp: is_lcs_length_def common_subseqs_def)


lemma subseq_rev [simp]: "subseq (rev xs) (rev ys) \<longleftrightarrow> subseq xs ys"
proof -
  have mono: "subseq xs ys \<Longrightarrow> subseq (rev xs) (rev ys)" for xs ys :: "'a list"
    by (induction rule: list_emb.induct) (auto intro: list_emb_append_mono)
  show ?thesis using mono [of xs ys] mono [of "rev xs" "rev ys"] by auto
qed

lemma is_lcs_length_rev: "is_lcs_length xs ys n \<Longrightarrow> is_lcs_length (rev xs) (rev ys) n"
proof -
  have "zs \<in> common_subseqs (rev xs) (rev ys) \<longleftrightarrow> rev zs \<in> common_subseqs xs ys" for zs
    using subseq_rev [of "rev zs" xs] subseq_rev [of "rev zs" ys] by (simp add: common_subseqs_def)
  then show "is_lcs_length xs ys n \<Longrightarrow> is_lcs_length (rev xs) (rev ys) n"
    unfolding is_lcs_length_def by (metis length_rev rev_rev_ident)
qed

lemma lcs_rev [simp]: "lcs (rev xs) (rev ys) = lcs xs ys"
  using is_lcs_length_unique [OF is_lcs_length_lcs is_lcs_length_rev [OF is_lcs_length_lcs]] .

text \<open>The recurrence of the table, on prefixes.\<close>

lemma lcs_snoc:
  "lcs (xs @ [x]) (ys @ [y]) =
     (if x = y then lcs xs ys + 1 else max (lcs xs (ys @ [y])) (lcs (xs @ [x]) ys))"
  using lcs_rev [of "xs @ [x]" "ys @ [y]"] lcs_rev [of xs ys]
    lcs_rev [of xs "ys @ [y]"] lcs_rev [of "xs @ [x]" ys]
  by (cases "x = y") (simp_all del: lcs_rev)

section \<open>The dynamic program computes it\<close>

text \<open>A row that holds, at every index, the value for that prefix of the new lines.\<close>

definition row_for :: "'a list \<Rightarrow> 'a list \<Rightarrow> nat \<Rightarrow> nat list \<Rightarrow> bool" where
  "row_for seen after n row \<longleftrightarrow>
     length row = length after + 1 \<and> (\<forall>k \<le> n. row ! k = lcs seen (take k after))"

lemma lcs_cell_step:
  assumes "row_for seen after (length after) previous" and "row_for (seen @ [line]) after j current"
    and "j < length after"
  shows "row_for (seen @ [line]) after (Suc j) (lcs_cell line after previous current j)"
  using assms by (auto simp: row_for_def lcs_cell_def nth_list_update take_Suc_conv_app_nth lcs_snoc le_Suc_eq)

lemma lcs_row_correct:
  assumes "row_for seen after (length after) previous" and "row_for (seen @ [line]) after 0 current"
  shows "row_for (seen @ [line]) after (length after) (lcs_row line after previous current)"
proof -
  have "row_for (seen @ [line]) after n (foldl (lcs_cell line after previous) current [0..<n])"
    if "n \<le> length after" for n
    using that by (induction n) (simp_all add: assms lcs_cell_step [OF assms(1)])
  then show ?thesis by (simp add: lcs_row_def)
qed

lemma row_for_zeros: "length row = length after + 1 \<Longrightarrow> row_for seen after 0 (map (\<lambda>_. 0) row)"
  by (simp add: row_for_def)

lemma lcs_rows:
  "row_for before after (length after)
     (fst (foldl (\<lambda>(previous, current) line. (lcs_row line after previous current, map (\<lambda>_. 0) previous))
        (replicate (length after + 1) 0, replicate (length after + 1) 0) before))
   \<and> row_for seen after 0
     (snd (foldl (\<lambda>(previous, current) line. (lcs_row line after previous current, map (\<lambda>_. 0) previous))
        (replicate (length after + 1) 0, replicate (length after + 1) 0) before))"
proof (induction before arbitrary: seen rule: rev_induct)
  case Nil
  show ?case by (simp add: row_for_def nth_append replicate_append_same [symmetric] nth_Cons')
next
  case (snoc line before)
  obtain previous current where rows:
      "foldl (\<lambda>(previous, current) line. (lcs_row line after previous current, map (\<lambda>_. 0) previous))
         (replicate (length after + 1) 0, replicate (length after + 1) 0) before = (previous, current)"
    by (cases "foldl (\<lambda>(previous, current) line. (lcs_row line after previous current, map (\<lambda>_. 0) previous))
         (replicate (length after + 1) 0, replicate (length after + 1) 0) before")
  have prev: "row_for before after (length after) previous"
    and cur: "row_for (before @ [line]) after 0 current"
    using snoc [of "before @ [line]"] rows by simp_all
  from prev have "length previous = length after + 1" by (simp add: row_for_def)
  then show ?case
    using lcs_row_correct [OF prev cur] row_for_zeros rows by simp
qed

lemma lcs_line_count_lcs: "lcs_line_count before after = lcs before after"
  using lcs_rows [of before after] by (auto simp: lcs_line_count_def row_for_def split: prod.splits)

section \<open>The cheap comparison is a lower bound\<close>

lemma common_prefix_correct:
  "take p before = take p after \<Longrightarrow> p \<le> min (length before) (length after) \<Longrightarrow>
   r = common_prefix before after p \<Longrightarrow> take r before = take r after \<and> r \<le> min (length before) (length after)"
proof (induction before after p rule: common_prefix.induct)
  case (1 before after p)
  show ?case
  proof (cases "p < min (length before) (length after) \<and> before ! p = after ! p")
    case True
    then have "take (p + 1) before = take (p + 1) after" using 1(2) by (simp add: take_Suc_conv_app_nth)
    with 1(1) [OF True] True 1(4) show ?thesis by (simp add: common_prefix.simps [of before after p])
  next
    case False
    with 1 show ?thesis by (simp only: common_prefix.simps [of before after p]) simp
  qed
qed

lemma drop_step:
  assumes "s < length xs" shows "drop (length xs - Suc s) xs = xs ! (length xs - 1 - s) # drop (length xs - s) xs"
  using Cons_nth_drop_Suc [of "length xs - Suc s" xs] assms by (simp add: Suc_diff_Suc)

lemma common_suffix_correct:
  "drop (length before - s) before = drop (length after - s) after \<Longrightarrow>
   s \<le> length before - p \<Longrightarrow> s \<le> length after - p \<Longrightarrow> r = common_suffix before after p s \<Longrightarrow>
   drop (length before - r) before = drop (length after - r) after
     \<and> r \<le> length before - p \<and> r \<le> length after - p"
proof (induction before after p s rule: common_suffix.induct)
  case (1 before after p s)
  show ?case
  proof (cases "s < length before - p \<and> s < length after - p
      \<and> before ! (length before - 1 - s) = after ! (length after - 1 - s)")
    case True
    then have "drop (length before - (s + 1)) before = drop (length after - (s + 1)) after"
      using 1(2) drop_step [of s before] drop_step [of s after] by auto
    with 1(1) [OF True] True 1(5) show ?thesis by (simp add: common_suffix.simps [of before after p s])
  next
    case False
    with 1 show ?thesis by (simp only: common_suffix.simps [of before after p s]) simp
  qed
qed

lemma subseq_ends: "p + s \<le> length xs \<Longrightarrow> subseq (take p xs @ drop (length xs - s) xs) xs"
proof -
  assume "p + s \<le> length xs"
  then have "drop (length xs - s) xs = drop (length xs - s - p) (drop p xs)" by simp
  then have "subseq (drop (length xs - s) xs) (drop p xs)"
    by (metis suffix_drop suffix_imp_subseq)
  then have "subseq (take p xs @ drop (length xs - s) xs) (take p xs @ drop p xs)"
    by (intro list_emb_append_mono) auto
  then show ?thesis by simp
qed

lemma coarse_common: "\<exists>zs \<in> common_subseqs before after. length zs = coarse_common_line_count before after"
proof -
  define p where "p = common_prefix before after 0"
  define s where "s = common_suffix before after p 0"
  have pre: "take p before = take p after" "p \<le> length before" "p \<le> length after"
    using common_prefix_correct [of 0 before after p] by (simp_all add: p_def)
  have suf: "drop (length before - s) before = drop (length after - s) after"
      "s \<le> length before - p" "s \<le> length after - p"
    using common_suffix_correct [of before 0 after p s] by (simp_all add: s_def)
  have "take p before @ drop (length before - s) before \<in> common_subseqs before after"
    using subseq_ends [of p s before] subseq_ends [of p s after] pre suf
    by (simp add: common_subseqs_def)
  moreover have "length (take p before @ drop (length before - s) before) = p + s"
    using pre suf by simp
  moreover have "coarse_common_line_count before after = p + s"
    by (simp add: coarse_common_line_count_def p_def s_def Let_def)
  ultimately show ?thesis by (intro bexI) simp_all
qed


lemma common_prefix_self: "p \<le> length xs \<Longrightarrow> common_prefix xs xs p = length xs"
proof (induction "length xs - p" arbitrary: p)
  case 0
  then show ?case by (simp add: common_prefix.simps [of xs xs p])
next
  case (Suc n)
  then show ?case using Suc(1) [of "Suc p"] by (simp add: common_prefix.simps [of xs xs p])
qed

lemma coarse_self: "coarse_common_line_count xs xs = length xs"
  by (simp add: coarse_common_line_count_def common_prefix_self common_suffix.simps [of xs xs "length xs" 0])

section \<open>What the counts mean\<close>

text \<open>The number of lines that \<open>line_change_counts\<close> takes as common.\<close>

definition counts_from :: "string list \<Rightarrow> string list \<Rightarrow> nat \<Rightarrow> u32 \<times> u32" where
  "counts_from before after common =
     (word_of_nat (length after - common), word_of_nat (length before - common))"

lemma lcs_self [simp]: "lcs xs xs = length xs"
  by (induction xs) simp_all

lemma lcs_bound: "zs \<in> common_subseqs xs ys \<Longrightarrow> length zs \<le> lcs xs ys"
  using is_lcs_length_lcs [of xs ys] by (simp add: is_lcs_length_def)

lemma coarse_le_lcs: "coarse_common_line_count xs ys \<le> lcs xs ys"
  using coarse_common [of xs ys] lcs_bound by force

lemma line_change_counts_common:
  obtains m where "m \<le> lcs (text_lines before) (text_lines after)"
    and "length (text_lines before) * length (text_lines after) \<le> 20000 \<longrightarrow>
           m = lcs (text_lines before) (text_lines after)"
    and "line_change_counts before after = counts_from (text_lines before) (text_lines after) m"
proof
  let ?B = "text_lines before" and ?A = "text_lines after"
  let ?m = "if before \<noteq> after \<and> 20000 < length ?B * length ?A
            then coarse_common_line_count ?B ?A else lcs ?B ?A"
  show "?m \<le> lcs ?B ?A" by (simp add: coarse_le_lcs)
  show "length ?B * length ?A \<le> 20000 \<longrightarrow> ?m = lcs ?B ?A" by simp
  show "line_change_counts before after = counts_from ?B ?A ?m"
    by (auto simp: line_change_counts_def counts_from_def Let_def lcs_line_count_lcs)
qed

text \<open>C39. The reported additions and deletions are those of a longest common subsequence of the lines
  when the table has at most 20000 cells; for larger files they are those of some common subsequence,
  so never smaller.\<close>

theorem line_change_counts_lcs:
  assumes "is_lcs_length (text_lines before) (text_lines after) n"
  shows "(length (text_lines before) * length (text_lines after) \<le> 20000 \<longrightarrow>
            line_change_counts before after = counts_from (text_lines before) (text_lines after) n)
     \<and> (\<exists>m \<le> n. line_change_counts before after = counts_from (text_lines before) (text_lines after) m)"
proof -
  have n: "n = lcs (text_lines before) (text_lines after)"
    using is_lcs_length_unique [OF assms is_lcs_length_lcs] .
  show ?thesis
    unfolding n by (rule line_change_counts_common [of before after]) auto
qed

theorem line_change_counts_lcs_witness:
  "line_change_counts [CHR ''a'', CHR 0x0A, CHR ''b''] [CHR ''b'', CHR 0x0A, CHR ''c''] = (1, 1)"
proof -
  have lines: "text_lines [CHR ''a'', CHR 0x0A, CHR ''b''] = [''a'', ''b'']"
      "text_lines [CHR ''b'', CHR 0x0A, CHR ''c''] = [''b'', ''c'']"
    by (simp_all add: text_lines_def str_lines_def strip_cr_def Let_def)
  have "is_lcs_length [''a'', ''b''] [''b'', ''c''] 1"
    using is_lcs_length_lcs [of "[''a'', ''b'']" "[''b'', ''c'']"] by simp
  then show ?thesis
    using line_change_counts_lcs [of "[CHR ''a'', CHR 0x0A, CHR ''b'']" "[CHR ''b'', CHR 0x0A, CHR ''c'']" 1]
    by (simp add: lines counts_from_def)
qed

lemma subseq_full: "subseq zs xs \<Longrightarrow> length xs \<le> length zs \<Longrightarrow> zs = xs"
  by (metis list_emb_length order_antisym subseq_same_length)

lemma lcs_full:
  assumes "length xs \<le> lcs xs ys" and "length ys \<le> lcs xs ys" shows "xs = ys"
proof -
  obtain zs where "subseq zs xs" and "subseq zs ys" and "length zs = lcs xs ys"
    using is_lcs_length_lcs [of xs ys] by (auto simp: is_lcs_length_def common_subseqs_def)
  then show ?thesis using subseq_full [of zs xs] subseq_full [of zs ys] assms by simp
qed

lemma u32_of_nat_zero: "n < 2 ^ 32 \<Longrightarrow> (word_of_nat n :: u32) = 0 \<longleftrightarrow> n = 0"
  by (auto simp: word_of_nat_eq_0_iff dest: dvd_imp_le)

lemma line_change_counts_zero:
  assumes "length (text_lines before) < 2 ^ 32" and "length (text_lines after) < 2 ^ 32"
  shows "line_change_counts before after = (0, 0) \<longleftrightarrow> text_lines before = text_lines after"
proof -
  let ?B = "text_lines before" and ?A = "text_lines after"
  obtain m where m: "m \<le> lcs ?B ?A" and c: "line_change_counts before after = counts_from ?B ?A m"
    by (rule line_change_counts_common [of before after])
  have "counts_from ?B ?A m = (0, 0) \<longleftrightarrow> length ?A \<le> m \<and> length ?B \<le> m"
    using assms by (simp add: counts_from_def u32_of_nat_zero)
  moreover have "?B = ?A" if "length ?A \<le> m \<and> length ?B \<le> m"
    using that m by (intro lcs_full) auto
  moreover have "line_change_counts before after = (0, 0)" if "?B = ?A"
  proof (cases "20000 < length ?B * length ?A")
    case True
    have "lcs_line_count ?B ?A = coarse_common_line_count ?B ?A"
      using that by (simp add: lcs_line_count_lcs coarse_self)
    then show ?thesis using that
      by (auto simp: line_change_counts_def Let_def lcs_line_count_lcs)
  qed (use that in \<open>auto simp: line_change_counts_def Let_def lcs_line_count_lcs\<close>)
  ultimately show ?thesis using c by metis
qed

definition file_lines :: "string option \<Rightarrow> string list" where
  "file_lines content = (case content of None \<Rightarrow> [] | Some text \<Rightarrow> text_lines text)"

text \<open>A change of a file is reported exactly when its lines differ, an absent file counting as one
  without lines. Contents that differ only in carriage returns before line feeds or in the line feed at
  the end have the same lines, so such a change is not reported.\<close>

lemma from_contents_reports:
  assumes "length (file_lines before) < 2 ^ 32" and "length (file_lines after) < 2 ^ 32"
  shows "from_contents path before after = None \<longleftrightarrow> file_lines before = file_lines after"
proof -
  have "from_contents path before after = None \<longleftrightarrow>
     (case (before, after) of (Some b, Some a) \<Rightarrow> line_change_counts b a = (0, 0)
      | _ \<Rightarrow> file_lines before = [] \<and> file_lines after = [])"
    using assms
    by (auto simp: from_contents_def file_lines_def text_line_count_def u32_of_nat_zero
        split: option.splits prod.splits)
  then show ?thesis
    using assms line_change_counts_zero
    by (auto simp: file_lines_def split: option.splits)
qed

end
