(* ===== verification/Local_Paths.thy ===== *)
theory Local_Paths
  imports Operation_Protocol
begin

text \<open>
  Host paths of the local backend (\<open>src/crates/backend/src/local/backend.rs\<close> and \<open>path.rs\<close>), on a
  Unix host. A path is a text; its components are those of the standard library. A normalised path is
  the list of its names under the root. The lemmas say that normalising a path yields clean names,
  that it is undone by printing, and that no path climbs above the root.
\<close>

section \<open>Paths of the standard library\<close>

datatype Component = RootDir | CurDir | ParentDir | Normal string

abbreviation separator :: char where "separator \<equiv> CHR ''/''"

definition is_absolute :: "string \<Rightarrow> bool" where
  "is_absolute path \<longleftrightarrow> starts_with path [separator]"

definition component_of :: "string \<Rightarrow> Component" where
  "component_of part = (if part = ''..'' then ParentDir else Normal part)"

text \<open>Repeated separators and the components \<open>.\<close> are skipped, except a leading \<open>.\<close> of a relative path.\<close>

definition components :: "string \<Rightarrow> Component list" where
  "components path =
     (let parts = split_at separator path; named = filter (\<lambda>p. p \<noteq> [] \<and> p \<noteq> ''.'') parts
      in (if is_absolute path then [RootDir] else if hd parts = ''.'' then [CurDir] else [])
           @ map component_of named)"

text \<open>The names of an absolute path without the components \<open>.\<close> and \<open>..\<close>.\<close>

type_synonym HostPath = "string list"

definition path_text :: "HostPath \<Rightarrow> string" where
  "path_text p = separator # join_with separator p"

definition path_parent :: "HostPath \<Rightarrow> HostPath option" where
  "path_parent p = (if p = [] then None else Some (butlast p))"

definition file_name :: "HostPath \<Rightarrow> string option" where
  "file_name p = (if p = [] then None else Some (last p))"

definition path_is_within :: "HostPath \<Rightarrow> HostPath \<Rightarrow> bool" where
  "path_is_within path root \<longleftrightarrow> take (length root) path = root"

text \<open>\<open>Path::join\<close> on texts: an absolute argument replaces the base.\<close>

definition join_path :: "string \<Rightarrow> string \<Rightarrow> string" where
  "join_path base path =
     (if is_absolute path then path
      else if base = [] \<or> last base = separator then base @ path
      else base @ [separator] @ path)"

section \<open>Normalisation\<close>

fun normalize_from :: "HostPath \<Rightarrow> Component list \<Rightarrow> HostPath option" where
  "normalize_from done_part [] = Some done_part"
| "normalize_from done_part (RootDir # rest) = normalize_from [] rest"
| "normalize_from done_part (CurDir # rest) = normalize_from done_part rest"
| "normalize_from done_part (ParentDir # rest) =
     (if done_part = [] then None else normalize_from (butlast done_part) rest)"
| "normalize_from done_part (Normal name # rest) = normalize_from (done_part @ [name]) rest"

text \<open>The check of the source that the result is still absolute cannot fail: the first component of an
  absolute path is the root, and the loop never removes it.\<close>

definition normalize_absolute_host_path :: "string \<Rightarrow> (OperationError, HostPath) result" where
  "normalize_absolute_host_path path =
     (if \<not> is_absolute path then Inl (OpInvalidPath (''path must be absolute: '' @ path))
      else (case normalize_from [] (components path) of
              None \<Rightarrow> Inl (OpInvalidPath (''path escapes root: '' @ path))
            | Some p \<Rightarrow> Inr p))"

section \<open>Resolution of requested paths\<close>

record LocalRoots =
  lr_workspace_root :: BackendPath
  lr_workspace_root_host :: HostPath
  lr_home_dir :: "BackendPath option"
  lr_home_dir_host :: "HostPath option"

definition backend_path_to_host :: "BackendPath \<Rightarrow> (OperationError, HostPath) result" where
  "backend_path_to_host path = normalize_absolute_host_path path"

definition host_path_to_backend :: "HostPath \<Rightarrow> (OperationError, BackendPath) result" where
  "host_path_to_backend path =
     (case normalize_absolute_host_path (path_text path) of
        Inl e \<Rightarrow> Inl e | Inr normalized \<Rightarrow> Inr (path_text normalized))"

definition resolve_host_path :: "LocalRoots \<Rightarrow> string \<Rightarrow> HostPath \<Rightarrow> (OperationError, HostPath) result" where
  "resolve_host_path roots raw_path base =
     (if raw_path = ''~'' \<or> starts_with raw_path ''~/''
      then (case lr_home_dir_host roots of
              None \<Rightarrow> Inl (OpUnsupported ''home_dir is not configured'')
            | Some home_dir \<Rightarrow>
                normalize_absolute_host_path (join_path (path_text home_dir)
                  (case strip_prefix raw_path ''~/'' of Some rest \<Rightarrow> rest | None \<Rightarrow> [])))
      else normalize_absolute_host_path
             (if is_absolute raw_path then raw_path else join_path (path_text base) raw_path))"

definition resolve_path :: "LocalRoots \<Rightarrow> ResolvePathRequest \<Rightarrow> (OperationError, BackendPath) result" where
  "resolve_path roots request =
     (case (case rz_base request of
              WorkspaceRoot \<Rightarrow> Inr (lr_workspace_root_host roots)
            | HomeDir \<Rightarrow> ok_or (lr_home_dir_host roots) (OpUnsupported ''home_dir is not configured'')
            | ExplicitBase path \<Rightarrow> backend_path_to_host path) of
        Inl e \<Rightarrow> Inl e
      | Inr base \<Rightarrow>
          (case resolve_host_path roots (rz_raw_path request) base of
             Inl e \<Rightarrow> Inl e | Inr resolved \<Rightarrow> host_path_to_backend resolved))"

section \<open>Clean paths\<close>

definition clean_name :: "string \<Rightarrow> bool" where
  "clean_name name \<longleftrightarrow> name \<noteq> [] \<and> name \<noteq> ''.'' \<and> name \<noteq> ''..'' \<and> separator \<notin> set name"

definition clean :: "HostPath \<Rightarrow> bool" where
  "clean p \<longleftrightarrow> (\<forall>name \<in> set p. clean_name name)"

lemma clean_simps [simp]:
  "clean []" "clean (n # p) \<longleftrightarrow> clean_name n \<and> clean p" "clean (p @ q) \<longleftrightarrow> clean p \<and> clean q"
  by (auto simp: clean_def)

lemma clean_butlast: "clean p \<Longrightarrow> clean (butlast p)"
  by (auto simp: clean_def dest: in_set_butlastD)

lemma normalize_from_clean:
  assumes "normalize_from p cs = Some q" and "clean p" and "\<forall>n. Normal n \<in> set cs \<longrightarrow> clean_name n"
  shows "clean q"
  using assms
  by (induction p cs rule: normalize_from.induct) (simp_all add: clean_butlast split: if_splits)

lemma components_clean: "Normal n \<in> set (components path) \<Longrightarrow> clean_name n"
  using split_at_no_sep [of n separator path]
  by (auto simp: components_def component_of_def clean_name_def Let_def split: if_splits)

lemma normalize_clean: "normalize_absolute_host_path path = Inr p \<Longrightarrow> clean p"
  using normalize_from_clean [of "[]" "components path" p] components_clean [of _ path]
  by (simp add: normalize_absolute_host_path_def split: if_splits option.splits)

lemma normalize_from_normals: "normalize_from p (map Normal names) = Some (p @ names)"
  by (induction names arbitrary: p) auto

lemma components_path_text:
  assumes "clean p"
  shows "components (path_text p) = RootDir # map Normal p"
proof -
  have "filter (\<lambda>x. x \<noteq> [] \<and> x \<noteq> ''.'') (split_at separator (path_text p)) = p"
  proof (cases "p = []")
    case False
    have "split_at separator (join_with separator p) = p"
      using assms False by (intro split_join) (auto simp: clean_def clean_name_def)
    moreover have "filter (\<lambda>x. x \<noteq> [] \<and> x \<noteq> ''.'') p = p"
      using assms by (intro filter_True) (auto simp: clean_def clean_name_def)
    ultimately show ?thesis by (simp add: path_text_def)
  qed (simp add: path_text_def)
  moreover have "map component_of p = map Normal p"
    using assms by (intro map_cong) (auto simp: clean_def clean_name_def component_of_def)
  moreover have "is_absolute (path_text p)" by (simp add: is_absolute_def path_text_def)
  ultimately show ?thesis by (simp add: components_def Let_def)
qed

lemma is_absolute_path_text [simp]: "is_absolute (path_text p)"
  by (simp add: is_absolute_def path_text_def)

lemma normalize_path_text [simp]: "clean p \<Longrightarrow> normalize_absolute_host_path (path_text p) = Inr p"
  by (simp add: normalize_absolute_host_path_def components_path_text normalize_from_normals)

lemma path_text_inject:
  assumes "path_text p = path_text q" and "clean p" and "clean q"
  shows "p = q"
proof -
  have "Inr p = (normalize_absolute_host_path (path_text q) :: (OperationError, HostPath) result)"
    unfolding assms(1) [symmetric] using assms(2) by simp
  with assms(3) show ?thesis by simp
qed

lemma host_path_to_backend_clean [simp]: "clean p \<Longrightarrow> host_path_to_backend p = Inr (path_text p)"
  by (simp add: host_path_to_backend_def)

lemma path_is_within_iff: "path_is_within p root \<longleftrightarrow> (\<exists>rest. p = root @ rest)"
proof
  assume "path_is_within p root"
  then have "p = root @ drop (length root) p"
    unfolding path_is_within_def using append_take_drop_id [of "length root" p] by simp
  then show "\<exists>rest. p = root @ rest" by blast
qed (auto simp: path_is_within_def)

text \<open>What a relative path can reach: without \<open>..\<close> it stays under its base.\<close>

lemma normalize_from_within:
  assumes "normalize_from p cs = Some q" and "ParentDir \<notin> set cs" and "RootDir \<notin> set cs"
  shows "path_is_within q p"
  using assms
  by (induction p cs rule: normalize_from.induct) (auto simp: path_is_within_iff)

end
