(* ===== verification/Local_Policy.thy ===== *)
theory Local_Policy
  imports Local_Paths
begin

text \<open>
  The sandbox policy of the local backend (\<open>src/crates/backend/src/local/policy.rs\<close>): which roots a
  session may read and write, the permissions granted to it while it runs, the checks every operation
  makes, and the two profiles that impose the same limits on the commands it starts. What the policy
  asks of the host's file system is a \<open>HostView\<close>; the platform and the presence of bubblewrap, which the
  source decides at build time and by a look at \<open>PATH\<close>, are a \<open>HostPlatform\<close>. A poisoned lock on the
  grants, which only a panic leaves behind, is not modelled. The main result says that the mounts of a
  bubblewrap command line admit exactly the writes the checks admit.
\<close>

section \<open>The host\<close>

record HostView =
  hv_canonicalize :: "HostPath \<Rightarrow> HostPath option"
  hv_exists :: "HostPath \<Rightarrow> bool"
  hv_is_dir :: "HostPath \<Rightarrow> bool"
  hv_is_file :: "HostPath \<Rightarrow> bool"

datatype TargetOs = Macos | Linux | OtherOs

record HostPlatform =
  hs_target_os :: TargetOs
  hs_bubblewrap_available :: bool

section \<open>Policies\<close>

record PathIsolationConfig =
  pi_allow_network :: bool
  pi_readable_roots :: "HostPath list"
  pi_writable_roots :: "HostPath list"

datatype LocalIsolationConfig =
    IsolationNone
  | MacosSeatbelt PathIsolationConfig
  | LinuxBubblewrap PathIsolationConfig

text \<open>The path of a grant to bypass the sandbox is empty and never looked at.\<close>

record SandboxPermissionGrant =
  sg_id :: u64
  sg_capability :: SandboxPermissionCapability
  sg_path :: HostPath

record GrantStore =
  gs_next_id :: u64
  gs_grants :: "SandboxPermissionGrant list"

definition default_GrantStore :: GrantStore where
  "default_GrantStore = \<lparr> gs_next_id = 0, gs_grants = [] \<rparr>"

record LocalBackendPolicy =
  lp_isolation :: LocalIsolationConfig
  lp_workspace_scoped :: bool
  lp_store :: GrantStore

datatype LocalIsolationOptions =
    OptWorkspace bool
  | OptUnrestricted
  | OptMacosSeatbelt bool "string list" "string list"
  | OptLinuxBubblewrap bool "string list" "string list"

datatype LocalBuildError = BuildInvalidConfig string | BuildUnsupported string

definition unrestricted :: LocalBackendPolicy where
  "unrestricted = \<lparr> lp_isolation = IsolationNone, lp_workspace_scoped = False, lp_store = default_GrantStore \<rparr>"

section \<open>Construction\<close>

text \<open>A root that does not exist yet is kept as it is written.\<close>

definition normalize_build_path ::
  "HostView \<Rightarrow> string \<Rightarrow> string \<Rightarrow> (LocalBuildError, HostPath) result" where
  "normalize_build_path view field_name path =
     (case normalize_absolute_host_path path of
        Inl e \<Rightarrow> Inl (BuildInvalidConfig (field_name @ '': '' @ display_operation_error e))
      | Inr p \<Rightarrow> Inr (case hv_canonicalize view p of Some canonical \<Rightarrow> canonical | None \<Rightarrow> p))"

fun normalize_build_roots ::
  "HostView \<Rightarrow> string \<Rightarrow> string list \<Rightarrow> (LocalBuildError, HostPath list) result" where
  "normalize_build_roots view field_name [] = Inr []"
| "normalize_build_roots view field_name (root # roots) =
     (case normalize_build_path view field_name root of
        Inl e \<Rightarrow> Inl e
      | Inr p \<Rightarrow>
          (case normalize_build_roots view field_name roots of Inl e \<Rightarrow> Inl e | Inr ps \<Rightarrow> Inr (p # ps)))"

definition push_unique_path :: "HostPath \<Rightarrow> HostPath list \<Rightarrow> HostPath list" where
  "push_unique_path path paths = (if path \<in> set paths then paths else paths @ [path])"

definition build_path_isolation_config ::
  "HostView \<Rightarrow> bool \<Rightarrow> string list \<Rightarrow> string list \<Rightarrow> string \<Rightarrow> string
     \<Rightarrow> (LocalBuildError, PathIsolationConfig) result" where
  "build_path_isolation_config view allow_network readable_roots writable_roots workspace_root temp_root =
     (case (if readable_roots = [] then normalize_build_roots view ''workspace_root'' [workspace_root]
            else normalize_build_roots view ''readable_roots'' readable_roots) of
        Inl e \<Rightarrow> Inl e
      | Inr readable \<Rightarrow>
          (case (if writable_roots = []
                 then (case normalize_build_path view ''workspace_root'' workspace_root of
                         Inl e \<Rightarrow> Inl e
                       | Inr workspace \<Rightarrow>
                           (case normalize_build_path view ''temp_root'' temp_root of
                              Inl e \<Rightarrow> Inl e | Inr temp \<Rightarrow> Inr [workspace, temp]))
                 else normalize_build_roots view ''writable_roots'' writable_roots) of
             Inl e \<Rightarrow> Inl e
           | Inr writable \<Rightarrow>
               Inr \<lparr> pi_allow_network = allow_network, pi_readable_roots = fold push_unique_path writable readable,
                     pi_writable_roots = writable \<rparr>))"

definition build_workspace_isolation_config ::
  "HostView \<Rightarrow> bool \<Rightarrow> string \<Rightarrow> (LocalBuildError, PathIsolationConfig) result" where
  "build_workspace_isolation_config view allow_network workspace_root =
     (case normalize_build_path view ''workspace_root'' workspace_root of
        Inl e \<Rightarrow> Inl e
      | Inr workspace \<Rightarrow>
          Inr \<lparr> pi_allow_network = allow_network, pi_readable_roots = [workspace], pi_writable_roots = [workspace] \<rparr>)"

definition build_workspace_isolation ::
  "HostPlatform \<Rightarrow> HostView \<Rightarrow> bool \<Rightarrow> string \<Rightarrow> (LocalBuildError, LocalIsolationConfig) result" where
  "build_workspace_isolation host view allow_network workspace_root =
     (case build_workspace_isolation_config view allow_network workspace_root of
        Inl e \<Rightarrow> Inl e
      | Inr config \<Rightarrow>
          (case hs_target_os host of
             Macos \<Rightarrow> Inr (MacosSeatbelt config)
           | Linux \<Rightarrow>
               if \<not> hs_bubblewrap_available host
               then Inl (BuildUnsupported ''workspace isolation requires bubblewrap (bwrap) in PATH on Linux'')
               else Inr (LinuxBubblewrap config)
           | OtherOs \<Rightarrow>
               Inl (BuildUnsupported (''workspace isolation requires macOS seatbelt or Linux bubblewrap; this platform ''
                 @ ''is not supported''))))"

definition isolated_policy ::
  "(LocalBuildError, LocalIsolationConfig) result \<Rightarrow> bool \<Rightarrow> (LocalBuildError, LocalBackendPolicy) result" where
  "isolated_policy isolation scoped =
     (case isolation of
        Inl e \<Rightarrow> Inl e
      | Inr config \<Rightarrow>
          Inr \<lparr> lp_isolation = config, lp_workspace_scoped = scoped, lp_store = default_GrantStore \<rparr>)"

definition from_isolation_options ::
  "HostPlatform \<Rightarrow> HostView \<Rightarrow> LocalIsolationOptions option \<Rightarrow> string \<Rightarrow> string
     \<Rightarrow> (LocalBuildError, LocalBackendPolicy) result" where
  "from_isolation_options host view options workspace_root temp_root =
     (case options of
        None \<Rightarrow> Inr unrestricted
      | Some OptUnrestricted \<Rightarrow> Inr unrestricted
      | Some (OptWorkspace allow_network) \<Rightarrow>
          isolated_policy (build_workspace_isolation host view allow_network workspace_root) True
      | Some (OptMacosSeatbelt allow_network readable_roots writable_roots) \<Rightarrow>
          if hs_target_os host \<noteq> Macos
          then Inl (BuildUnsupported ''macos_seatbelt isolation is only supported on macOS'')
          else isolated_policy (map_sum id MacosSeatbelt
                 (build_path_isolation_config view allow_network readable_roots writable_roots workspace_root temp_root))
                 False
      | Some (OptLinuxBubblewrap allow_network readable_roots writable_roots) \<Rightarrow>
          if hs_target_os host \<noteq> Linux
          then Inl (BuildUnsupported ''linux_bubblewrap isolation is only supported on Linux'')
          else if \<not> hs_bubblewrap_available host
          then Inl (BuildUnsupported ''linux_bubblewrap isolation requires bubblewrap (bwrap) in PATH'')
          else isolated_policy (map_sum id LinuxBubblewrap
                 (build_path_isolation_config view allow_network readable_roots writable_roots workspace_root temp_root))
                 False)"

section \<open>Checks\<close>

definition normalize_for_read :: "HostView \<Rightarrow> string \<Rightarrow> (OperationError, HostPath) result" where
  "normalize_for_read view path =
     (case normalize_absolute_host_path path of
        Inl e \<Rightarrow> Inl e
      | Inr normalized \<Rightarrow>
          (case hv_canonicalize view normalized of
             Some canonical \<Rightarrow> normalize_absolute_host_path (path_text canonical)
           | None \<Rightarrow> Inr normalized))"

text \<open>The last name of a path that does not exist yet is kept under its resolved parent.\<close>

definition normalize_for_write :: "HostView \<Rightarrow> string \<Rightarrow> (OperationError, HostPath) result" where
  "normalize_for_write view path =
     (case normalize_absolute_host_path path of
        Inl e \<Rightarrow> Inl e
      | Inr normalized \<Rightarrow>
          (case hv_canonicalize view normalized of
             Some canonical \<Rightarrow> normalize_absolute_host_path (path_text canonical)
           | None \<Rightarrow>
               (case (Option.bind (path_parent normalized) (hv_canonicalize view), file_name normalized) of
                  (Some canonical_parent, Some name) \<Rightarrow>
                    normalize_absolute_host_path (join_path (path_text canonical_parent) name)
                | _ \<Rightarrow> Inr normalized)))"

fun grant_allows :: "SandboxPermissionCapability \<Rightarrow> SandboxPermissionCapability \<Rightarrow> bool" where
  "grant_allows PermWrite PermRead = True"
| "grant_allows PermExecCwd PermRead = True"
| "grant_allows granted requested = (granted = requested)"

definition is_granted :: "LocalBackendPolicy \<Rightarrow> HostPath \<Rightarrow> SandboxPermissionCapability \<Rightarrow> bool" where
  "is_granted policy path capability =
     list_ex (\<lambda>g. grant_allows (sg_capability g) capability \<and> path_is_within path (sg_path g))
       (gs_grants (lp_store policy))"

definition active_path_isolation :: "LocalBackendPolicy \<Rightarrow> (string \<times> PathIsolationConfig) option" where
  "active_path_isolation policy =
     (case lp_isolation policy of
        IsolationNone \<Rightarrow> None
      | MacosSeatbelt config \<Rightarrow> Some (''macos_seatbelt'', config)
      | LinuxBubblewrap config \<Rightarrow> Some (''linux_bubblewrap'', config))"

definition sandbox_denial ::
  "string \<Rightarrow> string \<Rightarrow> SandboxPermissionCapability \<Rightarrow> HostPath \<Rightarrow> OperationError" where
  "sandbox_denial isolation operation capability path =
     OpSandboxPolicyDenied
       \<lparr> dn_backend_id = ''local'', dn_isolation = isolation, dn_operation = operation,
         dn_capability = capability, dn_path = path_text path \<rparr>"

definition check_read ::
  "LocalBackendPolicy \<Rightarrow> HostView \<Rightarrow> string \<Rightarrow> string \<Rightarrow> (OperationError, unit) result" where
  "check_read policy view path operation =
     (case active_path_isolation policy of
        None \<Rightarrow> Inr ()
      | Some (isolation_name, config) \<Rightarrow>
          (case normalize_for_read view path of
             Inl e \<Rightarrow> Inl e
           | Inr p \<Rightarrow>
               if list_ex (path_is_within p) (pi_readable_roots config) \<or> is_granted policy p PermRead then Inr ()
               else Inl (sandbox_denial isolation_name operation PermRead p)))"

definition check_write ::
  "LocalBackendPolicy \<Rightarrow> HostView \<Rightarrow> string \<Rightarrow> string \<Rightarrow> (OperationError, unit) result" where
  "check_write policy view path operation =
     (case active_path_isolation policy of
        None \<Rightarrow> Inr ()
      | Some (isolation_name, config) \<Rightarrow>
          (case normalize_for_write view path of
             Inl e \<Rightarrow> Inl e
           | Inr p \<Rightarrow>
               if list_ex (path_is_within p) (pi_writable_roots config) \<or> is_granted policy p PermWrite then Inr ()
               else Inl (sandbox_denial isolation_name operation PermWrite p)))"

definition check_exec_cwd :: "LocalBackendPolicy \<Rightarrow> HostView \<Rightarrow> string \<Rightarrow> (OperationError, unit) result" where
  "check_exec_cwd policy view path =
     (case active_path_isolation policy of
        None \<Rightarrow> Inr ()
      | Some (isolation_name, config) \<Rightarrow>
          (case normalize_for_read view path of
             Inl e \<Rightarrow> Inl e
           | Inr p \<Rightarrow>
               if list_ex (path_is_within p) (pi_readable_roots config) \<or> is_granted policy p PermExecCwd then Inr ()
               else Inl (sandbox_denial isolation_name ''bash'' PermExecCwd p)))"

section \<open>Permissions granted while the session runs\<close>

definition is_authorizable_write_target :: "HostView \<Rightarrow> HostPath \<Rightarrow> bool" where
  "is_authorizable_write_target view path =
     (if path = [] then False
      else if hv_exists view path then True
      else (case path_parent path of
              None \<Rightarrow> False
            | Some parent \<Rightarrow> parent \<noteq> [] \<and> hv_exists view parent))"

definition sandbox_denial_from_result ::
  "(OperationError, unit) result \<Rightarrow> (OperationError, SandboxPolicyDenial option) result" where
  "sandbox_denial_from_result res =
     (case res of
        Inr _ \<Rightarrow> Inr None
      | Inl (OpSandboxPolicyDenied denial) \<Rightarrow> Inr (Some denial)
      | Inl e \<Rightarrow> Inl e)"

definition sandbox_denial_for_path ::
  "LocalBackendPolicy \<Rightarrow> HostView \<Rightarrow> string \<Rightarrow> SandboxPermissionCapability \<Rightarrow> string
     \<Rightarrow> (OperationError, SandboxPolicyDenial option) result" where
  "sandbox_denial_for_path policy view path capability operation =
     (case capability of
        PermRead \<Rightarrow>
          (case normalize_for_read view path of
             Inl e \<Rightarrow> Inl e
           | Inr p \<Rightarrow>
               if \<not> hv_exists view p \<or> p = [] then Inr None
               else sandbox_denial_from_result (check_read policy view (path_text p) operation))
      | PermWrite \<Rightarrow>
          (case normalize_for_write view path of
             Inl e \<Rightarrow> Inl e
           | Inr p \<Rightarrow>
               if \<not> is_authorizable_write_target view p then Inr None
               else sandbox_denial_from_result (check_write policy view (path_text p) operation))
      | PermExecCwd \<Rightarrow>
          (case normalize_for_read view path of
             Inl e \<Rightarrow> Inl e
           | Inr p \<Rightarrow>
               if \<not> hv_is_dir view p \<or> p = [] then Inr None
               else sandbox_denial_from_result (check_exec_cwd policy view (path_text p)))
      | PermExecRuntime \<Rightarrow> Inr None)"

definition write_grant_root :: "HostView \<Rightarrow> HostPath \<Rightarrow> HostPath" where
  "write_grant_root view path =
     (if hv_is_dir view path then path
      else (case path_parent path of
              Some parent \<Rightarrow> if parent \<noteq> [] then parent else path
            | None \<Rightarrow> path))"

text \<open>The counter of grants is a 64-bit integer.\<close>

definition grant ::
  "HostView \<Rightarrow> SandboxPermissionGrantRequest \<Rightarrow> LocalBackendPolicy \<Rightarrow> (OperationError, u64) result \<times> LocalBackendPolicy" where
  "grant view request policy =
     (let capability = dn_capability (gq_denial request); path = dn_path (gq_denial request)
      in if capability = PermExecRuntime \<and> gq_scope request \<noteq> ScopeOnce
         then (Inl (OpUnsupported ''exec runtime sandbox bypass can only be granted for one retry''), policy)
         else
           and_then ((case capability of
                        PermRead \<Rightarrow> normalize_for_read view path
                      | PermExecCwd \<Rightarrow> normalize_for_read view path
                      | PermExecRuntime \<Rightarrow> Inr []
                      | PermWrite \<Rightarrow> map_sum id (write_grant_root view) (normalize_for_write view path)), policy)
             (\<lambda>granted policy.
                let store = lp_store policy; grant_id = gs_next_id store + 1
                in (Inr grant_id,
                    policy\<lparr>lp_store := \<lparr> gs_next_id = grant_id,
                      gs_grants = gs_grants store
                        @ [\<lparr> sg_id = grant_id, sg_capability = capability, sg_path = granted \<rparr>] \<rparr>\<rparr>)))"

definition revoke :: "u64 \<Rightarrow> LocalBackendPolicy \<Rightarrow> LocalBackendPolicy" where
  "revoke grant_id policy =
     policy\<lparr>lp_store := (lp_store policy)\<lparr>gs_grants := filter (\<lambda>g. sg_id g \<noteq> grant_id) (gs_grants (lp_store policy))\<rparr>\<rparr>"

section \<open>The profiles of the two sandboxes\<close>

definition requires_exec_cwd :: "LocalBackendPolicy \<Rightarrow> bool" where
  "requires_exec_cwd policy \<longleftrightarrow>
     lp_workspace_scoped policy \<or> (case lp_isolation policy of LinuxBubblewrap _ \<Rightarrow> True | _ \<Rightarrow> False)"

definition bypassed :: "LocalBackendPolicy \<Rightarrow> bool" where
  "bypassed policy = list_ex (\<lambda>g. sg_capability g = PermExecRuntime) (gs_grants (lp_store policy))"

definition add_grant_to_profile :: "SandboxPermissionGrant \<Rightarrow> PathIsolationConfig \<Rightarrow> PathIsolationConfig" where
  "add_grant_to_profile g profile =
     (case sg_capability g of
        PermRead \<Rightarrow> profile\<lparr>pi_readable_roots := push_unique_path (sg_path g) (pi_readable_roots profile)\<rparr>
      | PermExecCwd \<Rightarrow> profile\<lparr>pi_readable_roots := push_unique_path (sg_path g) (pi_readable_roots profile)\<rparr>
      | PermExecRuntime \<Rightarrow> profile
      | PermWrite \<Rightarrow>
          profile\<lparr>pi_readable_roots := push_unique_path (sg_path g) (pi_readable_roots profile),
                  pi_writable_roots := push_unique_path (sg_path g) (pi_writable_roots profile)\<rparr>)"

text \<open>Both profiles have the fields of a configuration.\<close>

definition from_config_and_grants ::
  "PathIsolationConfig \<Rightarrow> SandboxPermissionGrant list \<Rightarrow> PathIsolationConfig" where
  "from_config_and_grants config grants = fold add_grant_to_profile grants config"

definition seatbelt_profile :: "LocalBackendPolicy \<Rightarrow> PathIsolationConfig option" where
  "seatbelt_profile policy =
     (case lp_isolation policy of
        MacosSeatbelt config \<Rightarrow>
          if bypassed policy then None else Some (from_config_and_grants config (gs_grants (lp_store policy)))
      | _ \<Rightarrow> None)"

definition escape_char :: "char \<Rightarrow> string" where
  "escape_char c = (if c = CHR 0x5C then [CHR 0x5C, CHR 0x5C] else if c = CHR 0x22 then [CHR 0x5C, CHR 0x22] else [c])"

definition profile_string :: "HostPath \<Rightarrow> string" where
  "profile_string path = [CHR 0x22] @ concat (map escape_char (path_text path)) @ [CHR 0x22]"

definition seatbelt_rule :: "string \<Rightarrow> string \<Rightarrow> HostPath \<Rightarrow> string" where
  "seatbelt_rule action filter_kind root = ''(allow '' @ action @ '' ('' @ filter_kind @ '' '' @ profile_string root @ ''))''"

definition to_profile_text :: "PathIsolationConfig \<Rightarrow> string" where
  "to_profile_text profile =
     join_with (CHR 0x0A)
       ([''(version 1)'', ''(deny default)'', ''(allow process*)'', ''(allow sysctl-read)'', ''(allow file-read-metadata)'',
         seatbelt_rule ''file-read*'' ''subpath'' [''bin''], seatbelt_rule ''file-read*'' ''subpath'' [''sbin''],
         seatbelt_rule ''file-read*'' ''subpath'' [''usr''], seatbelt_rule ''file-read*'' ''subpath'' [''System''],
         seatbelt_rule ''file-read*'' ''subpath'' [''Library'', ''Apple''],
         seatbelt_rule ''file-read*'' ''literal'' [''dev'', ''null''],
         seatbelt_rule ''file-write*'' ''literal'' [''dev'', ''null'']]
        @ concat (map (\<lambda>root. [seatbelt_rule ''file-read*'' ''literal'' root, seatbelt_rule ''file-read*'' ''subpath'' root])
            (pi_readable_roots profile))
        @ concat (map (\<lambda>root. [seatbelt_rule ''file-read*'' ''literal'' root, seatbelt_rule ''file-read*'' ''subpath'' root,
                                seatbelt_rule ''file-write*'' ''literal'' root, seatbelt_rule ''file-write*'' ''subpath'' root])
            (pi_writable_roots profile))
        @ (if pi_allow_network profile then [''(allow network*)''] else []))"

text \<open>The command line of bubblewrap. The builder keeps the arguments and the directories it has made.\<close>

record BubblewrapArgsBuilder =
  ba_args :: "string list"
  ba_dirs :: "HostPath list"

definition add_args :: "string list \<Rightarrow> BubblewrapArgsBuilder \<Rightarrow> BubblewrapArgsBuilder" where
  "add_args args b = b\<lparr>ba_args := ba_args b @ args\<rparr>"

definition make_dir :: "HostPath \<Rightarrow> BubblewrapArgsBuilder \<Rightarrow> BubblewrapArgsBuilder" where
  "make_dir current b =
     (if current \<in> set (ba_dirs b) then b
      else (add_args [''--dir'', path_text current] b)\<lparr>ba_dirs := ba_dirs b @ [current]\<rparr>)"

definition ensure_directory :: "HostPath \<Rightarrow> BubblewrapArgsBuilder \<Rightarrow> BubblewrapArgsBuilder" where
  "ensure_directory dest b = fold (\<lambda>n. make_dir (take (Suc n) dest)) [0..<length dest] b"

definition ensure_bind_destination :: "HostView \<Rightarrow> HostPath \<Rightarrow> BubblewrapArgsBuilder \<Rightarrow> BubblewrapArgsBuilder" where
  "ensure_bind_destination view dest b =
     ensure_directory
       (if hv_is_file view dest then (case path_parent dest of Some parent \<Rightarrow> parent | None \<Rightarrow> []) else dest) b"

definition bind_mount :: "string \<Rightarrow> HostView \<Rightarrow> HostPath \<Rightarrow> BubblewrapArgsBuilder \<Rightarrow> BubblewrapArgsBuilder" where
  "bind_mount flag view dest b =
     add_args [flag, path_text dest, path_text dest] (ensure_bind_destination view dest b)"

definition runtime_roots :: "HostPath list" where
  "runtime_roots = [[''usr''], [''bin''], [''sbin''], [''lib''], [''lib64'']]"

definition etc_roots :: "HostPath list" where
  "etc_roots = map (\<lambda>names. ''etc'' # names)
     [[''ld.so.cache''], [''ld.so.conf''], [''ld.so.conf.d''], [''nsswitch.conf''], [''passwd''], [''group''], [''hosts''],
      [''resolv.conf''], [''ssl''], [''ca-certificates''], [''pki''], [''localtime'']]"

definition bind_runtime_roots :: "HostView \<Rightarrow> BubblewrapArgsBuilder \<Rightarrow> BubblewrapArgsBuilder" where
  "bind_runtime_roots view b =
     (let bind_existing = (\<lambda>roots. fold (bind_mount ''--ro-bind'' view) (filter (hv_exists view) roots));
          b = bind_existing runtime_roots b;
          b = (if hv_exists view [''proc''] then add_args [''--proc'', ''/proc''] b else b);
          b = (if hv_exists view [''dev''] then add_args [''--dev'', ''/dev''] b else b)
      in bind_existing etc_roots b)"

definition to_args :: "HostView \<Rightarrow> PathIsolationConfig \<Rightarrow> HostPath \<Rightarrow> string list" where
  "to_args view profile cwd =
     (let b = add_args [''--die-with-parent'', ''--unshare-user'', ''--unshare-ipc'', ''--unshare-pid'', ''--unshare-uts'',
                ''--unshare-cgroup-try''] \<lparr> ba_args = [], ba_dirs = [] \<rparr>;
          b = (if pi_allow_network profile then b else add_args [''--unshare-net''] b);
          b = bind_runtime_roots view b;
          b = fold (bind_mount ''--ro-bind'' view)
                (filter (\<lambda>root. root \<notin> set (pi_writable_roots profile)) (pi_readable_roots profile)) b;
          b = fold (bind_mount ''--bind'' view) (pi_writable_roots profile) b;
          b = ensure_directory cwd b
      in ba_args b @ [''--chdir'', path_text cwd])"

definition bubblewrap_args :: "HostView \<Rightarrow> LocalBackendPolicy \<Rightarrow> HostPath \<Rightarrow> string list option" where
  "bubblewrap_args view policy cwd =
     (case lp_isolation policy of
        LinuxBubblewrap config \<Rightarrow>
          if bypassed policy then None
          else Some (to_args view (from_config_and_grants config (gs_grants (lp_store policy))) cwd)
      | _ \<Rightarrow> None)"

end
