(* ===== verification/Local_Backend.thy ===== *)
theory Local_Backend
  imports Local_Policy Utf8_Lossy Line_Diff Secret_Scan "HOL-Library.List_Lexorder" "HOL-Library.Char_ord"
begin

text \<open>
  The operations of the local backend (\<open>filesystem.rs\<close>, \<open>export.rs\<close>, \<open>search.rs\<close> and \<open>exec.rs\<close> under
  \<open>src/crates/backend/src/local\<close>) over a host whose file system and processes are parameters. The state
  carries a record of the paths handed to the host, which the source does not have: the theorems are
  about it. Only opening for writing, renaming and creating change the host; the process a command
  becomes is run by a parameter. The depth to which a directory tree is searched is bounded by fuel,
  since links may form cycles; running out of it is an outcome of its own. Glob patterns are third-party
  code and parameters.
\<close>

section \<open>The host\<close>

datatype IoErrorKind = IoNotFound | IoAlreadyExists | IoPermissionDenied | IoOther

record IoError =
  io_kind :: IoErrorKind
  io_text :: string

definition io_error_for_path :: "string \<Rightarrow> IoError \<Rightarrow> OperationError" where
  "io_error_for_path path e =
     (case io_kind e of
        IoNotFound \<Rightarrow> OpNotFound path
      | IoAlreadyExists \<Rightarrow> OpAlreadyExists path
      | IoPermissionDenied \<Rightarrow> OpPermissionDenied path
      | IoOther \<Rightarrow> OpTransport (path @ '': '' @ io_text e))"

definition transport_for_path :: "string \<Rightarrow> IoError \<Rightarrow> OperationError" where
  "transport_for_path path e = OpTransport (path @ '': '' @ io_text e)"

record PathMetadata =
  mt_kind :: PathKind
  mt_len :: u64
  mt_modified :: "nat option"

datatype OpenMode = OpenCreateNew | OpenCreateTruncate

record LocalCommand =
  lc_program :: string
  lc_args :: "string list"
  lc_env :: "(string \<times> string) list"
  lc_cwd :: "HostPath option"

record 'w LocalHost =
  lh_view :: "'w \<Rightarrow> HostView"
  lh_symlink_metadata :: "string \<Rightarrow> 'w \<Rightarrow> (IoError, PathMetadata) result"
  lh_metadata :: "string \<Rightarrow> 'w \<Rightarrow> (IoError, PathMetadata) result"
  lh_read :: "string \<Rightarrow> 'w \<Rightarrow> (IoError, string) result"
  lh_read_dir :: "string \<Rightarrow> 'w \<Rightarrow> (IoError, (IoError, string) result list) result"
  lh_open :: "OpenMode \<Rightarrow> string \<Rightarrow> 'w \<Rightarrow> (IoError, unit) result \<times> 'w"
  lh_write_all :: "string \<Rightarrow> string \<Rightarrow> 'w \<Rightarrow> (IoError, unit) result \<times> 'w"
  lh_rename :: "string \<Rightarrow> string \<Rightarrow> 'w \<Rightarrow> (IoError, unit) result \<times> 'w"
  lh_create_dir_all :: "string \<Rightarrow> 'w \<Rightarrow> (IoError, unit) result \<times> 'w"
  lh_create_dir :: "string \<Rightarrow> 'w \<Rightarrow> (IoError, unit) result \<times> 'w"
  lh_process_id :: nat
  lh_now_ms :: "'w \<Rightarrow> nat"
  lh_run :: "LocalCommand \<Rightarrow> u64 option \<Rightarrow> 'w \<Rightarrow> (string, ExecResult) result \<times> 'w"

datatype Access = AccessStat | AccessRead | AccessWrite

record 'w LocalWorld =
  lw_world :: 'w
  lw_log :: "(Access \<times> string) list"

definition peek :: "Access \<Rightarrow> string \<Rightarrow> ('w \<Rightarrow> 'a) \<Rightarrow> 'w LocalWorld \<Rightarrow> 'a \<times> 'w LocalWorld" where
  "peek kind path f s = (f (lw_world s), s\<lparr>lw_log := lw_log s @ [(kind, path)]\<rparr>)"

definition touch :: "string \<Rightarrow> ('w \<Rightarrow> 'a \<times> 'w) \<Rightarrow> 'w LocalWorld \<Rightarrow> 'a \<times> 'w LocalWorld" where
  "touch path f s =
     (let (a, w) = f (lw_world s) in (a, s\<lparr>lw_world := w, lw_log := lw_log s @ [(AccessWrite, path)]\<rparr>))"

record LocalBackendState =
  ls_backend_id :: string
  ls_roots :: LocalRoots
  ls_temp_root_host :: string
  ls_default_shell :: "string option"
  ls_policy :: LocalBackendPolicy

section \<open>Files\<close>

definition may_read :: "'w LocalHost \<Rightarrow> LocalBackendState \<Rightarrow> string \<Rightarrow> string \<Rightarrow> 'w LocalWorld
     \<Rightarrow> (OperationError, unit) result \<times> 'w LocalWorld" where
  "may_read host st path operation s = (check_read (ls_policy st) (lh_view host (lw_world s)) path operation, s)"

definition may_write :: "'w LocalHost \<Rightarrow> LocalBackendState \<Rightarrow> string \<Rightarrow> string \<Rightarrow> 'w LocalWorld
     \<Rightarrow> (OperationError, unit) result \<times> 'w LocalWorld" where
  "may_write host st path operation s = (check_write (ls_policy st) (lh_view host (lw_world s)) path operation, s)"

definition stat_for_path ::
  "'w LocalHost \<Rightarrow> string \<Rightarrow> 'w LocalWorld \<Rightarrow> (OperationError, PathStat) result \<times> 'w LocalWorld" where
  "stat_for_path host path s =
     on_err (peek AccessStat path (lh_symlink_metadata host path) s)
       (\<lambda>e s. if io_kind e = IoNotFound
              then (Inr \<lparr> ps_exists = False, ps_kind = None, ps_size_bytes = None, ps_modified_at = None \<rparr>, s)
              else (Inl (io_error_for_path path e), s))
       (\<lambda>m s. (Inr \<lparr> ps_exists = True, ps_kind = Some (mt_kind m), ps_size_bytes = Some (mt_len m),
                     ps_modified_at = mt_modified m \<rparr>, s))"

definition ensure_is_directory ::
  "'w LocalHost \<Rightarrow> string \<Rightarrow> 'w LocalWorld \<Rightarrow> (OperationError, unit) result \<times> 'w LocalWorld" where
  "ensure_is_directory host path s =
     and_then (map_err (io_error_for_path path) (peek AccessStat path (lh_metadata host path) s)) (\<lambda>m s.
       ensure_that (mt_kind m = Directory) (OpNotDirectory path) s)"

definition ensure_is_file ::
  "'w LocalHost \<Rightarrow> string \<Rightarrow> 'w LocalWorld \<Rightarrow> (OperationError, unit) result \<times> 'w LocalWorld" where
  "ensure_is_file host path s =
     and_then (map_err (io_error_for_path path) (peek AccessStat path (lh_metadata host path) s)) (\<lambda>m s.
       ensure_that (mt_kind m = File) (OpNotFile path) s)"

definition local_stat ::
  "'w LocalHost \<Rightarrow> LocalBackendState \<Rightarrow> BackendPath \<Rightarrow> 'w LocalWorld \<Rightarrow> (OperationError, PathStat) result \<times> 'w LocalWorld" where
  "local_stat host st path s =
     and_then (backend_path_to_host path, s) (\<lambda>p s.
     and_then (may_read host st (path_text p) ''stat'' s) (\<lambda>_ s.
       stat_for_path host (path_text p) s))"

definition local_read_bytes ::
  "'w LocalHost \<Rightarrow> LocalBackendState \<Rightarrow> BackendPath \<Rightarrow> 'w LocalWorld \<Rightarrow> (OperationError, string) result \<times> 'w LocalWorld" where
  "local_read_bytes host st path s =
     and_then (backend_path_to_host path, s) (\<lambda>p s.
     and_then (may_read host st (path_text p) ''file_read'' s) (\<lambda>_ s.
     and_then (ensure_is_file host (path_text p) s) (\<lambda>_ s.
       map_err (io_error_for_path (path_text p)) (peek AccessRead (path_text p) (lh_read host (path_text p)) s))))"

text \<open>The name of a temporary entry carries the process and the time.\<close>

definition temp_entry_path :: "'w LocalHost \<Rightarrow> string \<Rightarrow> string \<Rightarrow> string \<Rightarrow> 'w LocalWorld \<Rightarrow> string" where
  "temp_entry_path host parent before after s =
     join_path parent (before @ show_nat (lh_process_id host) @ ''-'' @ show_nat (lh_now_ms host (lw_world s)) @ after)"

definition file_name_string :: "HostPath \<Rightarrow> (OperationError, string) result" where
  "file_name_string path =
     ok_or (file_name path) (OpInvalidPath (''path does not contain a valid file name: '' @ path_text path))"

definition write_new ::
  "'w LocalHost \<Rightarrow> OpenMode \<Rightarrow> string \<Rightarrow> string \<Rightarrow> 'w LocalWorld \<Rightarrow> (OperationError, unit) result \<times> 'w LocalWorld" where
  "write_new host mode path content s =
     and_then (map_err (io_error_for_path path) (touch path (lh_open host mode path) s)) (\<lambda>_ s.
       map_err (transport_for_path path) (touch path (lh_write_all host path content) s))"

definition local_write_bytes ::
  "'w LocalHost \<Rightarrow> LocalBackendState \<Rightarrow> WriteBytesRequest \<Rightarrow> 'w LocalWorld
     \<Rightarrow> (OperationError, WriteBytesOutcome) result \<times> 'w LocalWorld" where
  "local_write_bytes host st request s =
     and_then (backend_path_to_host (wb_path request), s) (\<lambda>p s.
     let path = path_text p in
     and_then (may_write host st path ''file_write'' s) (\<lambda>_ s.
     and_then (ok_or (path_parent p) (OpInvalidPath (''path does not have a parent directory: '' @ path)), s) (\<lambda>parent s.
     and_then (may_write host st (path_text parent) ''file_write'' s) (\<lambda>_ s.
     and_then (ensure_is_directory host (path_text parent) s) (\<lambda>_ s.
     let (existed, s) = peek AccessStat path (\<lambda>w. hv_exists (lh_view host w) p) s in
     and_then (case wb_mode request of
                 WriteCreate \<Rightarrow> write_new host OpenCreateNew path (wb_content request) s
               | Overwrite \<Rightarrow> write_new host OpenCreateTruncate path (wb_content request) s
               | AtomicOverwrite \<Rightarrow>
                   and_then (file_name_string p, s) (\<lambda>name s.
                   let temp = temp_entry_path host (path_text parent) (''.'' @ name @ ''.atomic-'') ''.tmp'' s in
                   and_then (may_write host st temp ''file_write'' s) (\<lambda>_ s.
                   and_then (write_new host OpenCreateNew temp (wb_content request) s) (\<lambda>_ s.
                     map_err (io_error_for_path path) (touch path (lh_rename host temp path) s))))) (\<lambda>_ s.
       (Inr \<lparr> wo_path = wb_path request, wo_created = \<not> existed \<rparr>, s)))))))"

definition local_create_dir_all ::
  "'w LocalHost \<Rightarrow> LocalBackendState \<Rightarrow> BackendPath \<Rightarrow> 'w LocalWorld \<Rightarrow> (OperationError, unit) result \<times> 'w LocalWorld" where
  "local_create_dir_all host st path s =
     and_then (backend_path_to_host path, s) (\<lambda>p s.
     and_then (may_write host st (path_text p) ''create_dir_all'' s) (\<lambda>_ s.
       map_err (io_error_for_path (path_text p)) (touch (path_text p) (lh_create_dir_all host (path_text p)) s)))"

definition local_temp_path ::
  "'w LocalHost \<Rightarrow> LocalBackendState \<Rightarrow> TempPathRequest \<Rightarrow> 'w LocalWorld \<Rightarrow> (OperationError, BackendPath) result \<times> 'w LocalWorld" where
  "local_temp_path host st request s =
     and_then (case tp_preferred_parent request of
                 Some path \<Rightarrow> (map_sum id path_text (backend_path_to_host path), s)
               | None \<Rightarrow> (Inr (ls_temp_root_host st), s)) (\<lambda>parent s.
     and_then (may_write host st parent ''temp_path'' s) (\<lambda>_ s.
     and_then (ensure_is_directory host parent s) (\<lambda>_ s.
     let generated = temp_entry_path host parent
           (case tp_prefix request of Some before \<Rightarrow> before | None \<Rightarrow> ''tmp-'')
           (case tp_suffix request of Some after \<Rightarrow> after | None \<Rightarrow> []) s in
     and_then (may_write host st generated ''temp_path'' s) (\<lambda>_ s.
     and_then (map_err (io_error_for_path generated)
                 (case tp_kind request of
                    TempFile \<Rightarrow> touch generated (lh_open host OpenCreateNew generated) s
                  | TempDirectory \<Rightarrow> touch generated (lh_create_dir host generated) s)) (\<lambda>_ s.
       (map_sum id path_text (normalize_absolute_host_path generated), s))))))"

section \<open>Export\<close>

record ExportedFileMeta =
  xm_file_name :: string
  xm_size_bytes :: "u64 option"

definition local_export_file ::
  "'w LocalHost \<Rightarrow> LocalBackendState \<Rightarrow> BackendPath \<Rightarrow> string option \<Rightarrow> 'w LocalWorld
     \<Rightarrow> (OperationError, HostPath \<times> ExportedFileMeta) result \<times> 'w LocalWorld" where
  "local_export_file host st path preferred_name s =
     and_then (backend_path_to_host path, s) (\<lambda>p s.
     and_then (may_read host st (path_text p) ''export'' s) (\<lambda>_ s.
     and_then (ensure_is_file host (path_text p) s) (\<lambda>_ s.
     and_then (map_err (io_error_for_path (path_text p)) (peek AccessStat (path_text p) (lh_metadata host (path_text p)) s)) (\<lambda>m s.
     and_then (case preferred_name of Some name \<Rightarrow> (Inr name, s) | None \<Rightarrow> (file_name_string p, s)) (\<lambda>name s.
       (Inr (p, \<lparr> xm_file_name = name, xm_size_bytes = Some (mt_len m) \<rparr>), s))))))"

definition local_open_exported ::
  "'w LocalHost \<Rightarrow> LocalBackendState \<Rightarrow> HostPath \<Rightarrow> 'w LocalWorld \<Rightarrow> (OperationError, string) result \<times> 'w LocalWorld" where
  "local_open_exported host st p s =
     and_then (may_read host st (path_text p) ''export'' s) (\<lambda>_ s.
       map_err (io_error_for_path (path_text p)) (peek AccessRead (path_text p) (lh_read host (path_text p)) s))"

section \<open>Search\<close>

record 'p GlobLib =
  gb_new :: "string \<Rightarrow> (string, 'p) result"
  gb_matches :: "'p \<Rightarrow> string \<Rightarrow> bool"
  gb_matches_path :: "'p \<Rightarrow> string \<Rightarrow> bool"

text \<open>An error of the source is \<open>Some\<close> error; \<open>None\<close> says that the fuel ran out.\<close>

type_synonym ('a, 'w) search_outcome = "(OperationError option, 'a) result \<times> 'w LocalWorld"

definition strip_root :: "HostPath \<Rightarrow> HostPath \<Rightarrow> string" where
  "strip_root root path = (if path_is_within path root then join_with separator (drop (length root) path) else [])"

definition selected :: "'p GlobLib \<Rightarrow> 'p \<Rightarrow> HostPath \<Rightarrow> HostPath \<Rightarrow> bool" where
  "selected lib pattern root path \<longleftrightarrow>
     gb_matches lib pattern (strip_root root path) \<or> gb_matches_path lib pattern (path_text path)"

text \<open>One step of a directory traversal: the entry may be read, and is asked what it is.\<close>

definition is_dir_at :: "'w LocalHost \<Rightarrow> HostPath \<Rightarrow> 'w LocalWorld \<Rightarrow> bool \<times> 'w LocalWorld" where
  "is_dir_at host path s = peek AccessStat (path_text path) (\<lambda>w. hv_is_dir (lh_view host w) path) s"

definition is_file_at :: "'w LocalHost \<Rightarrow> HostPath \<Rightarrow> 'w LocalWorld \<Rightarrow> bool \<times> 'w LocalWorld" where
  "is_file_at host path s = peek AccessStat (path_text path) (\<lambda>w. hv_is_file (lh_view host w) path) s"

definition read_dir_at ::
  "'w LocalHost \<Rightarrow> LocalBackendState \<Rightarrow> string \<Rightarrow> HostPath \<Rightarrow> 'w LocalWorld
     \<Rightarrow> ((IoError, string) result list, 'w) search_outcome" where
  "read_dir_at host st operation current s =
     map_err Some (and_then (may_read host st (path_text current) operation s) (\<lambda>_ s.
       map_err (io_error_for_path (path_text current))
         (peek AccessRead (path_text current) (lh_read_dir host (path_text current)) s)))"

definition entry_at ::
  "'w LocalHost \<Rightarrow> LocalBackendState \<Rightarrow> string \<Rightarrow> HostPath \<Rightarrow> (IoError, string) result \<Rightarrow> 'w LocalWorld
     \<Rightarrow> (HostPath, 'w) search_outcome" where
  "entry_at host st operation current entry s =
     map_err Some (and_then (map_err (io_error_for_path (path_text current)) (entry, s)) (\<lambda>name s.
       let path = current @ [name] in
       and_then (may_read host st (path_text path) operation s) (\<lambda>_ s. (Inr path, s))))"

function (sequential) collect_paths ::
  "'w LocalHost \<Rightarrow> LocalBackendState \<Rightarrow> (HostPath \<Rightarrow> bool) \<Rightarrow> nat \<Rightarrow> HostPath \<Rightarrow> HostPath list \<Rightarrow> 'w LocalWorld
     \<Rightarrow> (HostPath list, 'w) search_outcome"
and collect_path_entries ::
  "'w LocalHost \<Rightarrow> LocalBackendState \<Rightarrow> (HostPath \<Rightarrow> bool) \<Rightarrow> nat \<Rightarrow> HostPath \<Rightarrow> (IoError, string) result list
     \<Rightarrow> HostPath list \<Rightarrow> 'w LocalWorld \<Rightarrow> (HostPath list, 'w) search_outcome"
where
  "collect_paths host st wanted 0 current found s = (Inl None, s)"
| "collect_paths host st wanted (Suc fuel) current found s =
     and_then (read_dir_at host st ''glob'' current s) (\<lambda>entries s.
       collect_path_entries host st wanted fuel current entries found s)"
| "collect_path_entries host st wanted fuel current [] found s = (Inr found, s)"
| "collect_path_entries host st wanted fuel current (entry # entries) found s =
     and_then (entry_at host st ''glob'' current entry s) (\<lambda>path s.
     let found = (if wanted path then found @ [path] else found);
         (directory, s) = is_dir_at host path s in
     and_then (if directory then collect_paths host st wanted fuel path found s else (Inr found, s)) (\<lambda>found s.
       collect_path_entries host st wanted fuel current entries found s))"
  by pat_completeness auto
termination
  by (relation "measures [\<lambda>x. case x of Inl (_, _, _, fuel, _) \<Rightarrow> fuel | Inr (_, _, _, fuel, _) \<Rightarrow> fuel,
        \<lambda>x. case x of Inl _ \<Rightarrow> 0 | Inr (_, _, _, _, _, entries, _) \<Rightarrow> Suc (length entries)]") auto

function (sequential) collect_files ::
  "'w LocalHost \<Rightarrow> LocalBackendState \<Rightarrow> nat \<Rightarrow> HostPath \<Rightarrow> HostPath list \<Rightarrow> 'w LocalWorld
     \<Rightarrow> (HostPath list, 'w) search_outcome"
and collect_file_entries ::
  "'w LocalHost \<Rightarrow> LocalBackendState \<Rightarrow> nat \<Rightarrow> HostPath \<Rightarrow> (IoError, string) result list
     \<Rightarrow> HostPath list \<Rightarrow> 'w LocalWorld \<Rightarrow> (HostPath list, 'w) search_outcome"
where
  "collect_files host st 0 current found s = (Inl None, s)"
| "collect_files host st (Suc fuel) current found s =
     and_then (read_dir_at host st ''grep'' current s) (\<lambda>entries s.
       collect_file_entries host st fuel current entries found s)"
| "collect_file_entries host st fuel current [] found s = (Inr found, s)"
| "collect_file_entries host st fuel current (entry # entries) found s =
     and_then (entry_at host st ''grep'' current entry s) (\<lambda>path s.
     let (directory, s) = is_dir_at host path s in
     and_then (if directory then collect_files host st fuel path found s
               else (let (plain, s) = is_file_at host path s in (Inr (if plain then found @ [path] else found), s))) (\<lambda>found s.
       collect_file_entries host st fuel current entries found s))"
  by pat_completeness auto
termination
  by (relation "measures [\<lambda>x. case x of Inl (_, _, fuel, _) \<Rightarrow> fuel | Inr (_, _, fuel, _) \<Rightarrow> fuel,
        \<lambda>x. case x of Inl _ \<Rightarrow> 0 | Inr (_, _, _, _, entries, _) \<Rightarrow> Suc (length entries)]") auto

definition limit_reached :: "nat option \<Rightarrow> 'a list \<Rightarrow> bool" where
  "limit_reached limit entries = (case limit of None \<Rightarrow> False | Some n \<Rightarrow> n \<le> length entries)"

fun take_entries :: "nat option \<Rightarrow> HostPath list \<Rightarrow> BackendPath list \<Rightarrow> (OperationError, BackendPath list) result" where
  "take_entries limit [] entries = Inr entries"
| "take_entries limit (path # paths) entries =
     (case host_path_to_backend path of
        Inl e \<Rightarrow> Inl e
      | Inr p \<Rightarrow>
          if limit_reached limit (entries @ [p]) then Inr (entries @ [p]) else take_entries limit paths (entries @ [p]))"

definition local_glob ::
  "'p GlobLib \<Rightarrow> 'w LocalHost \<Rightarrow> LocalBackendState \<Rightarrow> nat \<Rightarrow> GlobRequest \<Rightarrow> 'w LocalWorld
     \<Rightarrow> (BackendPath list, 'w) search_outcome" where
  "local_glob lib host st fuel request s =
     and_then (map_err Some (case gl_base_dir request of
                               Some path \<Rightarrow> (backend_path_to_host path, s)
                             | None \<Rightarrow> (Inr (lr_workspace_root_host (ls_roots st)), s))) (\<lambda>base s.
     and_then (map_err Some (may_read host st (path_text base) ''glob'' s)) (\<lambda>_ s.
     and_then (map_err Some (ensure_is_directory host (path_text base) s)) (\<lambda>_ s.
     and_then (map_err (\<lambda>e. Some (OpInvalidPath (''invalid glob pattern: '' @ e))) (gb_new lib (gl_pattern request), s)) (\<lambda>pattern s.
     and_then (collect_paths host st (selected lib pattern base) fuel base [] s) (\<lambda>paths s.
       map_err Some (take_entries (gl_limit request) (sort paths) [], s))))))"

definition matched_lines :: "string \<Rightarrow> string \<Rightarrow> string list" where
  "matched_lines query content = filter (\<lambda>line. query = [] \<or> has_window query line) (str_lines (from_utf8_lossy content))"

fun push_until :: "nat option \<Rightarrow> string list \<Rightarrow> string list \<Rightarrow> string list" where
  "push_until limit [] entries = entries"
| "push_until limit (line # lines) entries =
     (if limit_reached limit (entries @ [line]) then entries @ [line] else push_until limit lines (entries @ [line]))"

definition grep_entries :: "GrepMode \<Rightarrow> BackendPath \<Rightarrow> string list \<Rightarrow> string list" where
  "grep_entries mode path lines =
     (case mode of
        FilesWithMatches \<Rightarrow> [path]
      | Content \<Rightarrow> map (\<lambda>line. path @ '':'' @ line) lines
      | CountMatches \<Rightarrow> [path @ '':'' @ show_nat (length lines)])"

fun grep_files ::
  "'p GlobLib \<Rightarrow> 'w LocalHost \<Rightarrow> LocalBackendState \<Rightarrow> GrepRequest \<Rightarrow> 'p option \<Rightarrow> HostPath \<Rightarrow> HostPath list
     \<Rightarrow> string list \<Rightarrow> 'w LocalWorld \<Rightarrow> (OperationError, string list) result \<times> 'w LocalWorld" where
  "grep_files lib host st request include_pattern root [] entries s = (Inr entries, s)"
| "grep_files lib host st request include_pattern root (path # paths) entries s =
     (if (case include_pattern of None \<Rightarrow> False | Some pattern \<Rightarrow> \<not> selected lib pattern root path)
      then grep_files lib host st request include_pattern root paths entries s
      else
        and_then (may_read host st (path_text path) ''grep'' s) (\<lambda>_ s.
        and_then (map_err (io_error_for_path (path_text path))
                    (peek AccessRead (path_text path) (lh_read host (path_text path)) s)) (\<lambda>content s.
        let lines = matched_lines (gp_query request) content in
        if lines = [] then grep_files lib host st request include_pattern root paths entries s
        else
          and_then (host_path_to_backend path, s) (\<lambda>shown s.
          let entries = push_until (gp_head_limit request) (grep_entries (gp_mode request) shown lines) entries in
          if limit_reached (gp_head_limit request) entries then (Inr entries, s)
          else grep_files lib host st request include_pattern root paths entries s))))"

definition local_grep ::
  "'p GlobLib \<Rightarrow> 'w LocalHost \<Rightarrow> LocalBackendState \<Rightarrow> nat \<Rightarrow> GrepRequest \<Rightarrow> 'w LocalWorld
     \<Rightarrow> (string list, 'w) search_outcome" where
  "local_grep lib host st fuel request s =
     and_then (map_err Some (backend_path_to_host (gp_base_dir request), s)) (\<lambda>target s.
     and_then (map_err Some (may_read host st (path_text target) ''grep'' s)) (\<lambda>_ s.
     and_then (map_err Some (ensure_is_directory host (path_text target) s)) (\<lambda>_ s.
     and_then (map_err (\<lambda>e. Some (OpInvalidPath (''invalid include pattern: '' @ e)))
                 (case gp_include request of None \<Rightarrow> Inr None | Some text \<Rightarrow> map_sum id Some (gb_new lib text), s)) (\<lambda>pattern s.
     and_then (collect_files host st fuel target [] s) (\<lambda>files s.
       map_err Some (grep_files lib host st request pattern target (sort files) [] s))))))"

section \<open>Commands\<close>

record LocalCommandSpec =
  cs_program :: string
  cs_args :: "string list"

definition build_command_spec :: "ExecRequest \<Rightarrow> (OperationError, LocalCommandSpec) result" where
  "build_command_spec request =
     (if trim (exq_command request) = [] then Inl (OpExecutionFailed ''command cannot be empty'')
      else (case exq_shell request of
              Some shell \<Rightarrow>
                if exq_args request \<noteq> [] then Inl (OpUnsupported ''shell execution does not support args'')
                else Inr \<lparr> cs_program = shell, cs_args = [''-c'', exq_command request] \<rparr>
            | None \<Rightarrow> Inr \<lparr> cs_program = exq_command request, cs_args = exq_args request \<rparr>))"

definition command_from_spec ::
  "HostView \<Rightarrow> LocalBackendPolicy \<Rightarrow> LocalCommandSpec \<Rightarrow> HostPath option \<Rightarrow> string \<times> string list" where
  "command_from_spec view policy spec cwd =
     (case seatbelt_profile policy of
        Some profile \<Rightarrow> (''sandbox-exec'', [''-p'', to_profile_text profile, cs_program spec] @ cs_args spec)
      | None \<Rightarrow>
          (case Option.bind cwd (bubblewrap_args view policy) of
             Some args \<Rightarrow> (''bwrap'', args @ [cs_program spec] @ cs_args spec)
           | None \<Rightarrow> (cs_program spec, cs_args spec)))"

definition exec_cwd ::
  "'w LocalHost \<Rightarrow> LocalBackendState \<Rightarrow> ExecRequest \<Rightarrow> 'w LocalWorld
     \<Rightarrow> (OperationError, HostPath option) result \<times> 'w LocalWorld" where
  "exec_cwd host st request s =
     and_then (case exq_cwd request of
                 Some path \<Rightarrow> (map_sum id Some (backend_path_to_host path), s)
               | None \<Rightarrow>
                   (Inr (if requires_exec_cwd (ls_policy st) then Some (lr_workspace_root_host (ls_roots st)) else None), s)) (\<lambda>cwd s.
       case cwd of
         None \<Rightarrow> (Inr None, s)
       | Some p \<Rightarrow>
           and_then (check_exec_cwd (ls_policy st) (lh_view host (lw_world s)) (path_text p), s) (\<lambda>_ s.
           and_then (ensure_is_directory host (path_text p) s) (\<lambda>_ s. (Inr (Some p), s))))"

text \<open>Variables set later replace those set before, as \<open>Command::env\<close> does.\<close>

definition command_env :: "LocalBackendState \<Rightarrow> ExecRequest \<Rightarrow> (string \<times> string) list" where
  "command_env st request =
     (let temp = ls_temp_root_host st;
          scoped = (if lp_workspace_scoped (ls_policy st)
                    then [(''TMPDIR'', temp), (''TMP'', temp), (''TEMP'', temp)] else [])
      in fold (\<lambda>(k, v). AList.update k v)
           (scoped @ (case exq_env request of None \<Rightarrow> [] | Some vars \<Rightarrow> vars)) [])"

definition local_exec ::
  "'w LocalHost \<Rightarrow> LocalBackendState \<Rightarrow> ExecRequest \<Rightarrow> 'w LocalWorld
     \<Rightarrow> (OperationError, LocalCommand \<times> ExecResult) result \<times> 'w LocalWorld" where
  "local_exec host st request s =
     and_then (build_command_spec request, s) (\<lambda>spec s.
     and_then (exec_cwd host st request s) (\<lambda>cwd s.
     let (program, args) = command_from_spec (lh_view host (lw_world s)) (ls_policy st) spec cwd;
         command = \<lparr> lc_program = program, lc_args = args, lc_env = command_env st request, lc_cwd = cwd \<rparr>;
         (res, w) = lh_run host command (exq_timeout_ms request) (lw_world s) in
     map_err OpExecutionFailed (map_sum id (Pair command) res, s\<lparr>lw_world := w\<rparr>)))"

end
