(* ===== verification/Local_Sandbox.thy ===== *)
theory Local_Sandbox
  imports Local_Policy
begin

text \<open>
  The command line of the local sandbox against the checks of the policy
  (\<open>src/crates/backend/src/local/policy.rs\<close>). The arguments are read back as the options they are, each with the
  number of arguments that the manual of bubblewrap gives it; what bubblewrap then does is not modelled. The
  other part concerns the text of a seatbelt profile, whose string literals are read back.
\<close>

section \<open>Well-formed policies\<close>

text \<open>What the standard library documents of a canonical path: it has no links and no dots.\<close>

definition view_ok :: "HostView \<Rightarrow> bool" where
  "view_ok view \<longleftrightarrow> (\<forall>p q. hv_canonicalize view p = Some q \<longrightarrow> clean q)"

definition config_wf :: "PathIsolationConfig \<Rightarrow> bool" where
  "config_wf config \<longleftrightarrow> list_all clean (pi_readable_roots config) \<and>
     set (pi_writable_roots config) \<subseteq> set (pi_readable_roots config)"

definition policy_wf :: "LocalBackendPolicy \<Rightarrow> bool" where
  "policy_wf policy \<longleftrightarrow> list_all (\<lambda>g. clean (sg_path g)) (gs_grants (lp_store policy)) \<and>
     (case lp_isolation policy of
        IsolationNone \<Rightarrow> True | MacosSeatbelt config \<Rightarrow> config_wf config | LinuxBubblewrap config \<Rightarrow> config_wf config)"

lemma normalize_for_read_clean: "view_ok view \<Longrightarrow> normalize_for_read view path = Inr p \<Longrightarrow> clean p"
  by (auto simp: normalize_for_read_def split: sum.splits option.splits dest: normalize_clean)

lemma normalize_for_write_clean: "view_ok view \<Longrightarrow> normalize_for_write view path = Inr p \<Longrightarrow> clean p"
  by (auto simp: normalize_for_write_def split: sum.splits option.splits dest: normalize_clean)

lemma normalize_build_path_clean: "view_ok view \<Longrightarrow> normalize_build_path view name path = Inr p \<Longrightarrow> clean p"
  by (auto simp: normalize_build_path_def view_ok_def split: sum.splits option.splits dest: normalize_clean)

lemma normalize_build_roots_clean:
  "view_ok view \<Longrightarrow> normalize_build_roots view name roots = Inr ps \<Longrightarrow> list_all clean ps"
  by (induction roots arbitrary: ps) (auto split: sum.splits dest: normalize_build_path_clean)

lemma set_push_unique [simp]: "set (push_unique_path p ps) = insert p (set ps)"
  by (auto simp: push_unique_path_def)

lemma set_fold_push_unique: "set (fold push_unique_path ps qs) = set ps \<union> set qs"
  by (induction ps arbitrary: qs) auto

lemma config_wf_built:
  assumes "view_ok view" and "build_path_isolation_config view net rs ws root temp = Inr config"
  shows "config_wf config"
proof -
  define R where "R = (if rs = [] then normalize_build_roots view ''workspace_root'' [root]
    else normalize_build_roots view ''readable_roots'' rs)"
  define W where "W = (if ws = []
    then (case normalize_build_path view ''workspace_root'' root of
            Inl e \<Rightarrow> Inl e
          | Inr workspace \<Rightarrow>
              (case normalize_build_path view ''temp_root'' temp of Inl e \<Rightarrow> Inl e | Inr temp \<Rightarrow> Inr [workspace, temp]))
    else normalize_build_roots view ''writable_roots'' ws)"
  have "list_all clean readable" if "R = Inr readable" for readable
    using that normalize_build_roots_clean [OF assms(1)] unfolding R_def by (metis (full_types))
  moreover have "list_all clean writable" if "W = Inr writable" for writable
    using that normalize_build_roots_clean [OF assms(1)] normalize_build_path_clean [OF assms(1)]
    by (auto simp: W_def split: if_splits sum.splits)
  moreover obtain readable writable where "R = Inr readable" and "W = Inr writable"
    and "config = \<lparr> pi_allow_network = net, pi_readable_roots = fold push_unique_path writable readable,
           pi_writable_roots = writable \<rparr>"
    using assms(2) unfolding build_path_isolation_config_def R_def [symmetric] W_def [symmetric]
    by (auto split: sum.splits)
  ultimately show ?thesis
    by (auto simp: config_wf_def list_all_iff set_fold_push_unique)
qed

lemma policy_wf_built:
  assumes "view_ok view" and "from_isolation_options host view options root temp = Inr policy"
  shows "policy_wf policy"
proof -
  have "config_wf config" if "build_workspace_isolation_config view net root = Inr config" for net config
    using that normalize_build_path_clean [OF assms(1)]
    by (auto simp: build_workspace_isolation_config_def config_wf_def split: sum.splits)
  moreover have "config_wf config" if "build_path_isolation_config view net rs ws root temp = Inr config" for net rs ws config
    by (rule config_wf_built [OF assms(1) that])
  ultimately show ?thesis
    using assms(2)
    by (auto simp: from_isolation_options_def policy_wf_def isolated_policy_def unrestricted_def default_GrantStore_def
        build_workspace_isolation_def map_sum_def split: option.splits LocalIsolationOptions.splits sum.splits if_splits TargetOs.splits)
qed

datatype policy_op = GrantOp HostView SandboxPermissionGrantRequest | RevokeOp u64

fun policy_step :: "policy_op \<Rightarrow> LocalBackendPolicy \<Rightarrow> LocalBackendPolicy" where
  "policy_step (GrantOp view request) policy = snd (grant view request policy)"
| "policy_step (RevokeOp grant_id) policy = revoke grant_id policy"

fun op_ok :: "policy_op \<Rightarrow> bool" where
  "op_ok (GrantOp view request) = view_ok view"
| "op_ok (RevokeOp grant_id) = True"

lemma write_grant_root_clean: "clean p \<Longrightarrow> clean (write_grant_root view p)"
  by (auto simp: write_grant_root_def path_parent_def clean_butlast split: option.splits)

lemma grant_outcome:
  assumes "view_ok view"
  obtains (refused) e where "grant view request policy = (Inl e, policy)"
  | (granted) p where "clean p" and "grant view request policy = (Inr (gs_next_id (lp_store policy) + 1),
      policy\<lparr>lp_store := \<lparr> gs_next_id = gs_next_id (lp_store policy) + 1, gs_grants = gs_grants (lp_store policy)
        @ [\<lparr> sg_id = gs_next_id (lp_store policy) + 1, sg_capability = dn_capability (gq_denial request), sg_path = p \<rparr>] \<rparr>\<rparr>)"
proof -
  define path where "path = dn_path (gq_denial request)"
  define G where "G = (case dn_capability (gq_denial request) of
      PermRead \<Rightarrow> normalize_for_read view path | PermExecCwd \<Rightarrow> normalize_for_read view path
    | PermExecRuntime \<Rightarrow> Inr []
    | PermWrite \<Rightarrow> map_sum id (write_grant_root view) (normalize_for_write view path))"
  have clean: "clean p" if "G = Inr p" for p
    using that normalize_for_read_clean [OF assms, of path] normalize_for_write_clean [OF assms, of path]
      write_grant_root_clean [of _ view]
    by (cases "normalize_for_write view path") (auto simp: G_def split: SandboxPermissionCapability.splits)
  have g: "grant view request policy =
      (if dn_capability (gq_denial request) = PermExecRuntime \<and> gq_scope request \<noteq> ScopeOnce
       then (Inl (OpUnsupported ''exec runtime sandbox bypass can only be granted for one retry''), policy)
       else and_then (G, policy) (\<lambda>granted policy.
         (Inr (gs_next_id (lp_store policy) + 1),
          policy\<lparr>lp_store := \<lparr> gs_next_id = gs_next_id (lp_store policy) + 1, gs_grants = gs_grants (lp_store policy)
            @ [\<lparr> sg_id = gs_next_id (lp_store policy) + 1, sg_capability = dn_capability (gq_denial request),
                 sg_path = granted \<rparr>] \<rparr>\<rparr>)))"
    unfolding grant_def Let_def G_def path_def by (rule refl)
  show ?thesis
  proof (cases G)
    case (Inl e)
    then show ?thesis using g that(1) by (cases "dn_capability (gq_denial request) = PermExecRuntime \<and> gq_scope request \<noteq> ScopeOnce") auto
  next
    case (Inr p)
    then show ?thesis using g that(1) that(2) [OF clean [OF Inr]]
      by (cases "dn_capability (gq_denial request) = PermExecRuntime \<and> gq_scope request \<noteq> ScopeOnce") auto
  qed
qed

lemma policy_wf_grant:
  assumes "view_ok view" and "policy_wf policy"
  shows "policy_wf (snd (grant view request policy))"
  by (rule grant_outcome [OF assms(1), of request policy]) (use assms(2) in \<open>auto simp: policy_wf_def\<close>)

lemma policy_wf_revoke: "policy_wf policy \<Longrightarrow> policy_wf (revoke grant_id policy)"
  by (auto simp: policy_wf_def revoke_def list_all_iff)

lemma policy_wf_run: "policy_wf policy \<Longrightarrow> list_all op_ok ops \<Longrightarrow> policy_wf (fold policy_step ops policy)"
proof (induction ops arbitrary: policy)
  case (Cons a ops)
  have "policy_wf (policy_step a policy)"
    using Cons.prems by (cases a) (auto intro: policy_wf_grant policy_wf_revoke)
  with Cons show ?case by simp
qed simp

section \<open>The mounts of a bubblewrap command line\<close>

text \<open>The mounts an argument list asks for, in their order. A bind has two arguments, its source and its
  destination; the other options with an argument have one; everything else is a flag. Of the options with an
  argument \<open>--dir\<close> and \<open>--chdir\<close> mount nothing.\<close>

datatype SandboxMount = ReadOnlyBind string string | WritableBind string string | ProcMount string | DevMount string

definition binds :: "string \<Rightarrow> bool" where
  "binds a \<longleftrightarrow> a = ''--ro-bind'' \<or> a = ''--bind''"

definition bind_of :: "string \<Rightarrow> string \<Rightarrow> string \<Rightarrow> SandboxMount" where
  "bind_of a source dest = (if a = ''--bind'' then WritableBind source dest else ReadOnlyBind source dest)"

definition takes_path :: "string \<Rightarrow> bool" where
  "takes_path a \<longleftrightarrow> a = ''--dir'' \<or> a = ''--proc'' \<or> a = ''--dev'' \<or> a = ''--chdir''"

definition special_of :: "string \<Rightarrow> string \<Rightarrow> SandboxMount list" where
  "special_of a path = (if a = ''--proc'' then [ProcMount path] else if a = ''--dev'' then [DevMount path] else [])"

fun mounts_of :: "string list \<Rightarrow> SandboxMount list" where
  "mounts_of [] = []"
| "mounts_of [a] = []"
| "mounts_of [a, b] = (if binds a then [] else if takes_path a then special_of a b else mounts_of [b])"
| "mounts_of (a # b # c # rest) =
     (if binds a then bind_of a b c # mounts_of rest
      else if takes_path a then special_of a b @ mounts_of (c # rest)
      else mounts_of (b # c # rest))"

lemma options [simp]:
  "binds ''--ro-bind''" "binds ''--bind''" "takes_path ''--dir''" "takes_path ''--proc''" "takes_path ''--dev''"
  "takes_path ''--chdir''"
  by (simp_all add: binds_def takes_path_def)

lemma takes_path_not_binds: "takes_path a \<Longrightarrow> \<not> binds a"
  by (auto simp: binds_def takes_path_def)

lemma mounts_of_path: "takes_path a \<Longrightarrow> mounts_of (a # d # args) = special_of a d @ mounts_of args"
  by (cases args) (simp_all add: takes_path_not_binds)

lemma mounts_of_flag: "\<not> binds a \<Longrightarrow> \<not> takes_path a \<Longrightarrow> mounts_of (a # args) = mounts_of args"
  by (cases args rule: mounts_of.cases) simp_all

text \<open>Whether a path lies at or below the destination of a mount.\<close>

definition covers :: "string \<Rightarrow> HostPath \<Rightarrow> bool" where
  "covers dest p = (case normalize_absolute_host_path dest of Inr root \<Rightarrow> path_is_within p root | Inl _ \<Rightarrow> False)"

lemma covers_path_text [simp]: "clean root \<Longrightarrow> covers (path_text root) p = path_is_within p root"
  by (simp add: covers_def)

text \<open>A builder whose arguments are whole options that ask for the mounts \<open>ms\<close>.\<close>

definition makes :: "SandboxMount list \<Rightarrow> BubblewrapArgsBuilder \<Rightarrow> bool" where
  "makes ms b \<longleftrightarrow> (\<forall>args. mounts_of (ba_args b @ args) = ms @ mounts_of args)"

lemma makes_flag:
  assumes "makes ms b" and "\<forall>a \<in> set flags. \<not> binds a \<and> \<not> takes_path a"
  shows "makes ms (add_args flags b)"
proof -
  have "mounts_of (flags @ args) = mounts_of args" for args
    using assms(2) by (induction flags) (simp_all add: mounts_of_flag)
  with assms(1) show ?thesis by (simp add: makes_def add_args_def)
qed

lemma makes_dir: "makes ms b \<Longrightarrow> makes ms (make_dir d b)"
  by (simp add: makes_def make_dir_def add_args_def mounts_of_path special_of_def)

lemma makes_fold: "(\<And>x b. makes ms b \<Longrightarrow> makes ms (f x b)) \<Longrightarrow> makes ms b \<Longrightarrow> makes ms (fold f xs b)"
  by (induction xs arbitrary: b) auto

lemma makes_directory: "makes ms b \<Longrightarrow> makes ms (ensure_directory d b)"
  unfolding ensure_directory_def by (rule makes_fold) (rule makes_dir)

abbreviation bind_at :: "string \<Rightarrow> HostPath \<Rightarrow> SandboxMount" where
  "bind_at flag d \<equiv> bind_of flag (path_text d) (path_text d)"

lemma makes_bind:
  assumes "makes ms b" and "binds flag"
  shows "makes (ms @ [bind_at flag d]) (bind_mount flag view d b)"
  using makes_directory [OF assms(1)] assms(2)
  by (simp add: makes_def bind_mount_def ensure_bind_destination_def add_args_def)

lemma makes_binds:
  assumes "makes ms b" and "binds flag"
  shows "makes (ms @ map (bind_at flag) ds) (fold (bind_mount flag view) ds b)"
  using assms(1)
proof (induction ds arbitrary: ms b)
  case (Cons d ds)
  from Cons.IH [OF makes_bind [OF Cons.prems assms(2)], of d view] show ?case by simp
qed simp

lemma makes_special:
  assumes "makes ms b"
  shows "makes (ms @ (if c then [ProcMount x] else [])) (if c then add_args [''--proc'', x] b else b)"
    and "makes (ms @ (if c then [DevMount x] else [])) (if c then add_args [''--dev'', x] b else b)"
  using assms by (simp_all add: makes_def add_args_def mounts_of_path special_of_def)

text \<open>What every command line mounts: the directories of the system that exist, and the two special file systems.\<close>

definition system_mounts :: "HostView \<Rightarrow> SandboxMount list" where
  "system_mounts view =
     map (bind_at ''--ro-bind'') (filter (hv_exists view) runtime_roots)
     @ (if hv_exists view [''proc''] then [ProcMount ''/proc''] else [])
     @ (if hv_exists view [''dev''] then [DevMount ''/dev''] else [])
     @ map (bind_at ''--ro-bind'') (filter (hv_exists view) etc_roots)"

definition system_roots :: "HostView \<Rightarrow> HostPath list" where
  "system_roots view = filter (hv_exists view) (runtime_roots @ etc_roots)"

lemma makes_runtime:
  assumes "makes ms b"
  shows "makes (ms @ system_mounts view) (bind_runtime_roots view b)"
  using makes_binds [OF makes_special(2) [OF makes_special(1) [OF makes_binds [OF assms, of "''--ro-bind''"]]], of "''--ro-bind''"]
  unfolding bind_runtime_roots_def Let_def system_mounts_def by simp

lemma to_args_mounts:
  "mounts_of (to_args view profile cwd) =
     system_mounts view
     @ map (bind_at ''--ro-bind'') (filter (\<lambda>root. root \<notin> set (pi_writable_roots profile)) (pi_readable_roots profile))
     @ map (bind_at ''--bind'') (pi_writable_roots profile)"
proof -
  let ?flags = "[''--die-with-parent'', ''--unshare-user'', ''--unshare-ipc'', ''--unshare-pid'', ''--unshare-uts'', ''--unshare-cgroup-try'']"
  let ?ro = "filter (\<lambda>root. root \<notin> set (pi_writable_roots profile)) (pi_readable_roots profile)"
  define b where "b = (if pi_allow_network profile then add_args ?flags \<lparr> ba_args = [], ba_dirs = [] \<rparr>
    else add_args [''--unshare-net''] (add_args ?flags \<lparr> ba_args = [], ba_dirs = [] \<rparr>))"
  define c where "c = ensure_directory cwd (fold (bind_mount ''--bind'' view) (pi_writable_roots profile)
    (fold (bind_mount ''--ro-bind'' view) ?ro (bind_runtime_roots view b)))"
  have "makes [] \<lparr> ba_args = [], ba_dirs = [] \<rparr>" by (simp add: makes_def)
  then have "makes [] (add_args ?flags \<lparr> ba_args = [], ba_dirs = [] \<rparr>)"
    by (rule makes_flag) (simp add: binds_def takes_path_def)
  moreover from this have "makes [] (add_args [''--unshare-net''] (add_args ?flags \<lparr> ba_args = [], ba_dirs = [] \<rparr>))"
    by (rule makes_flag) (simp add: binds_def takes_path_def)
  ultimately have "makes [] b" by (simp add: b_def)
  note system = makes_runtime [OF this, of view]
  note readable = makes_binds [OF system, of "''--ro-bind''" ?ro view]
  note writable = makes_binds [OF readable, of "''--bind''" "pi_writable_roots profile" view]
  from makes_directory [OF writable, of cwd]
  have "makes (system_mounts view @ map (bind_at ''--ro-bind'') ?ro @ map (bind_at ''--bind'') (pi_writable_roots profile)) c"
    unfolding c_def by simp
  moreover have "to_args view profile cwd = ba_args c @ [''--chdir'', path_text cwd]"
    unfolding to_args_def Let_def c_def b_def by (rule refl)
  moreover have "mounts_of [''--chdir'', path_text cwd] = []" by (simp add: special_of_def binds_def)
  ultimately show ?thesis unfolding makes_def by simp
qed

text \<open>Only the network flag itself cuts the network off.\<close>

lemma path_text_no_flag [simp]: "path_text d \<noteq> CHR ''-'' # flag" "CHR ''-'' # flag \<noteq> path_text d"
  by (auto simp: path_text_def)

lemma unshare_fold:
  assumes "\<And>x b. ''--unshare-net'' \<in> set (ba_args (f x b)) \<longleftrightarrow> ''--unshare-net'' \<in> set (ba_args b)"
  shows "''--unshare-net'' \<in> set (ba_args (fold f xs b)) \<longleftrightarrow> ''--unshare-net'' \<in> set (ba_args b)"
  by (induction xs arbitrary: b) (simp_all add: assms)

lemma unshare_directory: "''--unshare-net'' \<in> set (ba_args (ensure_directory d b)) \<longleftrightarrow> ''--unshare-net'' \<in> set (ba_args b)"
  unfolding ensure_directory_def by (rule unshare_fold) (simp add: make_dir_def add_args_def)

lemma unshare_bind:
  "binds flag \<Longrightarrow> ''--unshare-net'' \<in> set (ba_args (bind_mount flag view d b)) \<longleftrightarrow> ''--unshare-net'' \<in> set (ba_args b)"
  by (auto simp: bind_mount_def ensure_bind_destination_def add_args_def unshare_directory binds_def)

lemma unshare_runtime:
  "''--unshare-net'' \<in> set (ba_args (bind_runtime_roots view b)) \<longleftrightarrow> ''--unshare-net'' \<in> set (ba_args b)"
  unfolding bind_runtime_roots_def Let_def by (simp add: unshare_fold unshare_bind add_args_def)

lemma to_args_network: "''--unshare-net'' \<in> set (to_args view profile cwd) \<longleftrightarrow> \<not> pi_allow_network profile"
  unfolding to_args_def Let_def
  by (simp add: unshare_directory unshare_fold unshare_bind unshare_runtime add_args_def)

section \<open>Checks and mounts\<close>

lemma profile_roots:
  "set (pi_writable_roots (from_config_and_grants config grants)) =
     set (pi_writable_roots config) \<union> sg_path ` {g \<in> set grants. sg_capability g = PermWrite}"
  "set (pi_readable_roots (from_config_and_grants config grants)) =
     set (pi_readable_roots config) \<union> sg_path ` {g \<in> set grants. grant_allows (sg_capability g) PermRead}"
  "pi_allow_network (from_config_and_grants config grants) = pi_allow_network config"
proof (induction grants arbitrary: config)
  case (Cons g grants)
  { case 1 show ?case using Cons(1) by (cases "sg_capability g") (auto simp: from_config_and_grants_def add_grant_to_profile_def) }
  { case 2 show ?case using Cons(2) by (cases "sg_capability g") (auto simp: from_config_and_grants_def add_grant_to_profile_def) }
  { case 3 show ?case using Cons(3) by (cases "sg_capability g") (auto simp: from_config_and_grants_def add_grant_to_profile_def) }
qed (auto simp: from_config_and_grants_def)

lemma grant_allows_write: "grant_allows c PermWrite \<longleftrightarrow> c = PermWrite"
  by (cases c) auto

text \<open>What an argument list grants a path: a bind that covers it.\<close>

definition bound_for_write :: "string list \<Rightarrow> HostPath \<Rightarrow> bool" where
  "bound_for_write args p \<longleftrightarrow> (\<exists>m \<in> set (mounts_of args). case m of WritableBind source dest \<Rightarrow> covers dest p | _ \<Rightarrow> False)"

definition bound_for_read :: "string list \<Rightarrow> HostPath \<Rightarrow> bool" where
  "bound_for_read args p \<longleftrightarrow>
     (\<exists>m \<in> set (mounts_of args). case m of
        WritableBind source dest \<Rightarrow> covers dest p | ReadOnlyBind source dest \<Rightarrow> covers dest p | _ \<Rightarrow> False)"

text \<open>A mount in its place: a bind shows a path under its own name, and the special file systems are the two of the
  system.\<close>

fun in_place :: "SandboxMount \<Rightarrow> bool" where
  "in_place (ReadOnlyBind source dest) \<longleftrightarrow> dest = source"
| "in_place (WritableBind source dest) \<longleftrightarrow> dest = source"
| "in_place (ProcMount dest) \<longleftrightarrow> dest = ''/proc''"
| "in_place (DevMount dest) \<longleftrightarrow> dest = ''/dev''"

fun is_writable_bind :: "SandboxMount \<Rightarrow> bool" where
  "is_writable_bind (WritableBind source dest) = True"
| "is_writable_bind _ = False"

lemma bind_of_simps [simp]:
  "bind_of ''--ro-bind'' x y = ReadOnlyBind x y" "bind_of ''--bind'' x y = WritableBind x y"
  by (simp_all add: bind_of_def)

lemma to_args_in_place: "list_all in_place (mounts_of (to_args view profile cwd))"
  unfolding to_args_mounts system_mounts_def by (auto simp: list_all_iff)

lemma to_args_order:
  "sorted_wrt (\<lambda>m m'. is_writable_bind m \<longrightarrow> is_writable_bind m') (mounts_of (to_args view profile cwd))"
proof -
  have read_only: "sorted_wrt (\<lambda>m m'. is_writable_bind m \<longrightarrow> is_writable_bind m') ms"
    if "\<forall>m \<in> set ms. \<not> is_writable_bind m" for ms
    using that by (induction ms) auto
  have writable: "sorted_wrt (\<lambda>m m'. is_writable_bind m \<longrightarrow> is_writable_bind m') ms"
    if "\<forall>m \<in> set ms. is_writable_bind m" for ms
    using that by (induction ms) auto
  let ?ro = "system_mounts view
     @ map (bind_at ''--ro-bind'') (filter (\<lambda>root. root \<notin> set (pi_writable_roots profile)) (pi_readable_roots profile))"
  have "\<forall>m \<in> set ?ro. \<not> is_writable_bind m" by (auto simp: system_mounts_def)
  with read_only [of ?ro] writable [of "map (bind_at ''--bind'') (pi_writable_roots profile)"] show ?thesis
    unfolding to_args_mounts append_assoc [symmetric] sorted_wrt_append by auto
qed

lemma to_args_bound:
  assumes "\<And>root. root \<in> set (pi_readable_roots profile) \<union> set (pi_writable_roots profile) \<Longrightarrow> clean root"
  shows "bound_for_write (to_args view profile cwd) p \<longleftrightarrow> (\<exists>root \<in> set (pi_writable_roots profile). path_is_within p root)"
    and "bound_for_read (to_args view profile cwd) p \<longleftrightarrow>
      (\<exists>root \<in> set (pi_writable_roots profile) \<union> set (pi_readable_roots profile). path_is_within p root) \<or>
      list_ex (path_is_within p) (system_roots view)"
proof -
  have "list_all clean (runtime_roots @ etc_roots)" by code_simp
  then have system: "clean root" if "root \<in> set runtime_roots \<union> set etc_roots" for root
    using that by (auto simp: list_all_iff)
  let ?W = "set (pi_writable_roots profile)" and ?R = "set (pi_readable_roots profile)"
  have "bound_for_write (to_args view profile cwd) p \<longleftrightarrow> (\<exists>root \<in> ?W. covers (path_text root) p)"
    unfolding bound_for_write_def to_args_mounts system_mounts_def set_append bex_Un by (simp add: bex_simps)
  with assms show "bound_for_write (to_args view profile cwd) p \<longleftrightarrow> (\<exists>root \<in> ?W. path_is_within p root)" by simp
  have "bound_for_read (to_args view profile cwd) p \<longleftrightarrow>
      (\<exists>root \<in> ?W \<union> ?R. covers (path_text root) p) \<or> (\<exists>root \<in> set (system_roots view). covers (path_text root) p)"
    unfolding bound_for_read_def to_args_mounts system_mounts_def system_roots_def set_append bex_Un by auto
  moreover have "(\<exists>root \<in> ?W \<union> ?R. covers (path_text root) p) \<longleftrightarrow> (\<exists>root \<in> ?W \<union> ?R. path_is_within p root)"
    using assms by (intro bex_cong) auto
  moreover have "(\<exists>root \<in> set (system_roots view). covers (path_text root) p) \<longleftrightarrow> list_ex (path_is_within p) (system_roots view)"
    unfolding list_ex_iff using system by (intro bex_cong) (auto simp: system_roots_def)
  ultimately show "bound_for_read (to_args view profile cwd) p \<longleftrightarrow>
      (\<exists>root \<in> ?W \<union> ?R. path_is_within p root) \<or> list_ex (path_is_within p) (system_roots view)"
    by simp
qed

text \<open>C9. The command line of the Linux sandbox binds what the checks of the operations admit. Take a policy with
  bubblewrap isolation in any state it reaches by grants and revocations from its construction, with no live
  grant to bypass the sandbox, and a path that is resolved, so that both normalisations of the checks leave it
  alone. The command line binds a directory for writing that covers the path exactly when a write to the path
  passes the check, and binds one at all exactly when a read passes the check or the path lies in the
  directories of the system that every command line binds. It binds every directory under its own name, mounts
  besides only \<open>/proc\<close> and \<open>/dev\<close>, puts the binds for writing after all others, and asks for a network
  namespace exactly when the configuration forbids the network.\<close>

theorem sandbox_mounts_agree:
  assumes "from_isolation_options host view0 options workspace temp = Inr start" and "view_ok view0"
    and "policy = fold policy_step ops start" and "list_all op_ok ops"
    and "lp_isolation policy = LinuxBubblewrap config" and "\<not> bypassed policy"
    and "normalize_for_read view (path_text p) = Inr p" and "normalize_for_write view (path_text p) = Inr p"
  shows "\<exists>args. bubblewrap_args view policy cwd = Some args \<and>
    (bound_for_write args p \<longleftrightarrow> check_write policy view (path_text p) operation = Inr ()) \<and>
    (bound_for_read args p \<longleftrightarrow> check_read policy view (path_text p) operation = Inr () \<or>
       list_ex (path_is_within p) (system_roots view)) \<and>
    list_all in_place (mounts_of args) \<and>
    sorted_wrt (\<lambda>m m'. is_writable_bind m \<longrightarrow> is_writable_bind m') (mounts_of args) \<and>
    (''--unshare-net'' \<in> set args \<longleftrightarrow> \<not> pi_allow_network config)"
proof -
  let ?profile = "from_config_and_grants config (gs_grants (lp_store policy))"
  let ?args = "to_args view ?profile cwd"
  have wf: "policy_wf policy"
    unfolding assms(3) by (rule policy_wf_run [OF policy_wf_built [OF assms(2,1)] assms(4)])
  have clean: "clean root" if "root \<in> set (pi_readable_roots ?profile) \<union> set (pi_writable_roots ?profile)" for root
    using that wf assms(5) unfolding profile_roots by (auto simp: policy_wf_def config_wf_def list_all_iff)
  have "check_write policy view (path_text p) operation = Inr () \<longleftrightarrow>
      (\<exists>root \<in> set (pi_writable_roots ?profile). path_is_within p root)"
    unfolding profile_roots
    by (auto simp: check_write_def active_path_isolation_def assms(5,8) is_granted_def list_ex_iff grant_allows_write)
  then have "bound_for_write ?args p \<longleftrightarrow> check_write policy view (path_text p) operation = Inr ()"
    using to_args_bound(1) [OF clean] by simp
  moreover have "check_read policy view (path_text p) operation = Inr () \<longleftrightarrow>
      (\<exists>root \<in> set (pi_writable_roots ?profile) \<union> set (pi_readable_roots ?profile). path_is_within p root)"
    using wf assms(5) unfolding profile_roots
    by (auto simp: check_read_def active_path_isolation_def assms(7) is_granted_def list_ex_iff policy_wf_def config_wf_def)
  then have "bound_for_read ?args p \<longleftrightarrow> check_read policy view (path_text p) operation = Inr () \<or>
      list_ex (path_is_within p) (system_roots view)"
    using to_args_bound(2) [OF clean] by simp
  moreover have "bubblewrap_args view policy cwd = Some ?args"
    by (simp add: bubblewrap_args_def assms(5,6))
  moreover have "''--unshare-net'' \<in> set ?args \<longleftrightarrow> \<not> pi_allow_network config"
    unfolding to_args_network profile_roots ..
  ultimately show ?thesis using to_args_in_place to_args_order by (intro exI [of _ ?args] conjI)
qed

text \<open>A host on which no path exists yet.\<close>

definition demo_view :: HostView where
  "demo_view = \<lparr> hv_canonicalize = (\<lambda>p. None), hv_exists = (\<lambda>p. False), hv_is_dir = (\<lambda>p. False), hv_is_file = (\<lambda>p. False) \<rparr>"

definition demo_workspace_policy :: LocalBackendPolicy where
  "demo_workspace_policy =
     \<lparr> lp_isolation = LinuxBubblewrap \<lparr> pi_allow_network = False, pi_readable_roots = [[''ws'']], pi_writable_roots = [[''ws'']] \<rparr>,
       lp_workspace_scoped = True, lp_store = default_GrantStore \<rparr>"

definition demo_write_grant :: SandboxPermissionGrantRequest where
  "demo_write_grant =
     \<lparr> gq_denial = \<lparr> dn_backend_id = ''local'', dn_isolation = ''linux_bubblewrap'', dn_operation = ''file_write'',
         dn_capability = PermWrite, dn_path = ''/data/out/a.txt'' \<rparr>, gq_scope = ScopeSession \<rparr>"

lemma demo_workspace_built:
  "from_isolation_options \<lparr> hs_target_os = Linux, hs_bubblewrap_available = True \<rparr> demo_view (Some (OptWorkspace False)) ''/ws'' ''/tmp''
     = Inr demo_workspace_policy"
proof -
  have "normalize_absolute_host_path ''/ws'' = Inr [''ws'']" by code_simp
  then show ?thesis
    by (simp add: from_isolation_options_def isolated_policy_def build_workspace_isolation_def
        build_workspace_isolation_config_def normalize_build_path_def demo_view_def demo_workspace_policy_def)
qed

theorem sandbox_mounts_agree_witness:
  "\<exists>args. bubblewrap_args demo_view (policy_step (GrantOp demo_view demo_write_grant) demo_workspace_policy) [''ws''] = Some args \<and>
     bound_for_write args [''data'', ''out'', ''b.txt''] \<and> ''--unshare-net'' \<in> set args"
proof -
  let ?policy = "policy_step (GrantOp demo_view demo_write_grant) demo_workspace_policy" and ?p = "[''data'', ''out'', ''b.txt'']"
  have granted: "normalize_absolute_host_path ''/data/out/a.txt'' = Inr [''data'', ''out'', ''a.txt'']" by code_simp
  have policy: "?policy = demo_workspace_policy\<lparr>lp_store :=
      \<lparr> gs_next_id = 1, gs_grants = [\<lparr> sg_id = 1, sg_capability = PermWrite, sg_path = [''data'', ''out''] \<rparr>] \<rparr>\<rparr>"
    by (simp add: grant_def Let_def demo_write_grant_def normalize_for_write_def granted demo_view_def path_parent_def
        write_grant_root_def demo_workspace_policy_def default_GrantStore_def)
  have "clean ?p" by code_simp
  then have resolved: "normalize_for_read demo_view (path_text ?p) = Inr ?p" "normalize_for_write demo_view (path_text ?p) = Inr ?p"
    by (simp_all add: normalize_for_read_def normalize_for_write_def demo_view_def path_parent_def)
  have "check_write ?policy demo_view (path_text ?p) ''file_write'' = Inr ()"
    unfolding policy
    by (simp add: check_write_def active_path_isolation_def resolved demo_workspace_policy_def is_granted_def path_is_within_def)
  moreover have "\<exists>args. bubblewrap_args demo_view ?policy [''ws''] = Some args \<and>
      (bound_for_write args ?p \<longleftrightarrow> check_write ?policy demo_view (path_text ?p) ''file_write'' = Inr ()) \<and>
      (bound_for_read args ?p \<longleftrightarrow> check_read ?policy demo_view (path_text ?p) ''file_write'' = Inr () \<or>
         list_ex (path_is_within ?p) (system_roots demo_view)) \<and>
      list_all in_place (mounts_of args) \<and>
      sorted_wrt (\<lambda>m m'. is_writable_bind m \<longrightarrow> is_writable_bind m') (mounts_of args) \<and>
      (''--unshare-net'' \<in> set args \<longleftrightarrow> \<not> pi_allow_network
         \<lparr> pi_allow_network = False, pi_readable_roots = [[''ws'']], pi_writable_roots = [[''ws'']] \<rparr>)"
  proof (rule sandbox_mounts_agree [OF demo_workspace_built, where ops = "[GrantOp demo_view demo_write_grant]"])
    show "view_ok demo_view" by (simp add: view_ok_def demo_view_def)
    then show "list_all op_ok [GrantOp demo_view demo_write_grant]" by simp
    show "?policy = fold policy_step [GrantOp demo_view demo_write_grant] demo_workspace_policy" by simp
    show "lp_isolation ?policy =
        LinuxBubblewrap \<lparr> pi_allow_network = False, pi_readable_roots = [[''ws'']], pi_writable_roots = [[''ws'']] \<rparr>"
      unfolding policy by (simp add: demo_workspace_policy_def)
    show "\<not> bypassed ?policy" unfolding policy by (simp add: bypassed_def)
  qed (use resolved in auto)
  ultimately show ?thesis by auto
qed

section \<open>The literals of a seatbelt profile\<close>

text \<open>How a string literal of a profile is read, after its opening quote: up to the next quote that no
  backslash precedes.\<close>

fun read_literal :: "string \<Rightarrow> (string \<times> string) option" where
  "read_literal [] = None"
| "read_literal (c # cs) =
     (if c = CHR 0x22 then Some ([], cs)
      else if c = CHR 0x5C
      then (case cs of [] \<Rightarrow> None | d # ds \<Rightarrow> map_option (\<lambda>(s, rest). (d # s, rest)) (read_literal ds))
      else map_option (\<lambda>(s, rest). (c # s, rest)) (read_literal cs))"

lemma read_escaped: "read_literal (concat (map escape_char s) @ CHR 0x22 # rest) = Some (s, rest)"
  by (induction s) (simp_all add: escape_char_def)

text \<open>A path in a profile is read back as it is, whatever characters it has: no path of a root can end the
  literal early and add a rule of its own.\<close>

lemma profile_string_read: "\<exists>text. profile_string path @ rest = CHR 0x22 # text \<and> read_literal text = Some (path_text path, rest)"
  by (simp add: profile_string_def read_escaped)

end
