(* ===== verification/Local_Provider.thy ===== *)
theory Local_Provider
  imports Local_Backend Local_Sandbox Instance_Manager "HOL-Library.AList"
begin

text \<open>
  The provider of instances on the host itself (\<open>factory.rs\<close> and \<open>provider.rs\<close> under
  \<open>src/crates/backend/src/local\<close>): the construction of a backend from the options of a request, and the
  lifecycle the manager drives. A backend is shared by reference in the source, so the provider keeps its
  backends in a store and hands out places in it. Reading the isolation options is generated code and a
  parameter, as are the messages of failed readings. The registry is a table without an order of its own;
  here it lists its instances in the order of their insertion.
\<close>

section \<open>The construction of a backend\<close>

record 'w LocalBuildHost =
  bh_host :: "'w LocalHost"
  bh_platform :: HostPlatform
  bh_canonicalize :: "string \<Rightarrow> 'w \<Rightarrow> (IoError, HostPath) result"
  bh_exists :: "string \<Rightarrow> 'w \<Rightarrow> bool"
  bh_temp_dir :: string
  bh_read_isolation :: "json \<Rightarrow> (string, LocalIsolationOptions) result"
  bh_read_error :: "json \<Rightarrow> string"

definition absolute_dir ::
  "'w LocalBuildHost \<Rightarrow> string \<Rightarrow> string \<Rightarrow> 'w \<Rightarrow> (LocalBuildError, HostPath) result" where
  "absolute_dir env field value w =
     (if \<not> is_absolute value then Inl (BuildInvalidConfig (field @ '' must be an absolute path: '' @ value))
      else (case bh_canonicalize env value w of
              Inl e \<Rightarrow> Inl (BuildInvalidConfig (''failed to read '' @ field @ '': '' @ io_text e))
            | Inr p \<Rightarrow>
                (case lh_metadata (bh_host env) (path_text p) w of
                   Inl e \<Rightarrow> Inl (BuildInvalidConfig (''failed to read '' @ field @ '': '' @ io_text e))
                 | Inr m \<Rightarrow>
                     if mt_kind m \<noteq> Directory
                     then Inl (BuildInvalidConfig (field @ '' must point to a directory: '' @ value))
                     else Inr p)))"

function ensure_workspace_dir ::
  "'w LocalHost \<Rightarrow> HostPath \<Rightarrow> 'w \<Rightarrow> (LocalBuildError, unit) result \<times> 'w" where
  "ensure_workspace_dir host p w =
     and_then (case path_parent p of
                 None \<Rightarrow> (Inr (), w)
               | Some parent \<Rightarrow> if parent \<noteq> [] then ensure_workspace_dir host parent w else (Inr (), w)) (\<lambda>_ w.
       on_err (lh_create_dir host (path_text p) w)
         (\<lambda>e w.
            if io_kind e = IoAlreadyExists
            then (case lh_symlink_metadata host (path_text p) w of
                    Inl e \<Rightarrow> (Inl (BuildInvalidConfig
                      (''failed to inspect workspace temp directory '' @ path_text p @ '': '' @ io_text e)), w)
                  | Inr m \<Rightarrow>
                      if mt_kind m \<noteq> Directory
                      then (Inl (BuildInvalidConfig
                        (''workspace temp path '' @ path_text p @ '' must be a real directory, not a symlink/file'')), w)
                      else (Inr (), w))
            else (Inl (BuildInvalidConfig
              (''failed to create workspace temp directory '' @ path_text p @ '': '' @ io_text e)), w))
         (\<lambda>_ w. (Inr (), w)))"
  by pat_completeness auto

termination
  by (relation "measure (\<lambda>(host, p, w). length p)") (auto simp: path_parent_def split: if_splits)

definition is_workspace_option :: "LocalIsolationOptions option \<Rightarrow> bool" where
  "is_workspace_option isolation = (case isolation of Some (OptWorkspace _) \<Rightarrow> True | _ \<Rightarrow> False)"

definition workspace_temp :: "'w LocalBuildHost \<Rightarrow> HostPath \<Rightarrow> 'w \<Rightarrow> (LocalBuildError, string) result \<times> 'w" where
  "workspace_temp env root w =
     (let temp = root @ [''.xgovernor'', ''tmp''] in
      and_then (ensure_workspace_dir (bh_host env) temp w) (\<lambda>_ w.
        case bh_canonicalize env (path_text temp) w of
          Inl e \<Rightarrow> (Inl (BuildInvalidConfig
            (''failed to resolve workspace temp directory '' @ path_text temp @ '': '' @ io_text e)), w)
        | Inr canonical \<Rightarrow>
            if \<not> path_is_within canonical root
            then (Inl (BuildInvalidConfig (''workspace temp directory '' @ path_text canonical
              @ '' resolves outside the workspace '' @ path_text root)), w)
            else (Inr (path_text canonical), w)))"

definition local_backend_with_isolation ::
  "'w LocalBuildHost \<Rightarrow> string \<Rightarrow> string option \<Rightarrow> string option \<Rightarrow> string option \<Rightarrow> json option \<Rightarrow> 'w
     \<Rightarrow> (LocalBuildError, LocalBackendState) result \<times> 'w" where
  "local_backend_with_isolation env workspace_root home_dir temp_root default_shell isolation w =
     and_then (absolute_dir env ''workspace_root'' workspace_root w, w) (\<lambda>root w.
     and_then ((case home_dir of None \<Rightarrow> Inr None | Some text \<Rightarrow> map_sum id Some (absolute_dir env ''home_dir'' text w)), w) (\<lambda>home w.
     and_then (map_err (\<lambda>e. BuildInvalidConfig (''invalid local backend isolation options: '' @ e))
                 (case isolation of None \<Rightarrow> Inr None | Some j \<Rightarrow> map_sum id Some (bh_read_isolation env j), w)) (\<lambda>options w.
     and_then (if is_workspace_option options then workspace_temp env root w
               else (Inr (case temp_root of None \<Rightarrow> bh_temp_dir env | Some text \<Rightarrow> text), w)) (\<lambda>temp w.
     and_then (from_isolation_options (bh_platform env) (lh_view (bh_host env) w) options (path_text root) temp, w) (\<lambda>policy w.
       (Inr \<lparr> ls_backend_id = ''local'',
              ls_roots = \<lparr> lr_workspace_root = path_text root, lr_workspace_root_host = root,
                          lr_home_dir = map_option path_text home, lr_home_dir_host = home \<rparr>,
              ls_temp_root_host = temp, ls_default_shell = default_shell, ls_policy = policy \<rparr>, w))))))"

section \<open>The options of a request\<close>

record LocalProviderOptions =
  lo_workspace_root :: string
  lo_home_dir :: "string option"
  lo_temp_root :: "string option"
  lo_default_shell :: "string option"
  lo_isolation :: "json option"

definition option_fields :: "string list" where
  "option_fields = [''workspace_root'', ''home_dir'', ''temp_root'', ''default_shell'', ''isolation'']"

text \<open>A structure is read from an object of its fields and no others, or from the sequence of their values. A missing
  or null optional field is none.\<close>

fun fields_of :: "json \<Rightarrow> (string \<times> json) list option" where
  "fields_of (JObj kvs) = (if list_all (\<lambda>(k, _). List.member option_fields k) kvs then Some kvs else None)"
| "fields_of (JArr vs) = (if length vs \<le> length option_fields then Some (zip option_fields vs) else None)"
| "fields_of _ = None"

fun optional_string :: "json option \<Rightarrow> string option option" where
  "optional_string None = Some None"
| "optional_string (Some JNull) = Some None"
| "optional_string (Some (JStr s)) = Some (Some s)"
| "optional_string _ = None"

definition optional_value :: "json option \<Rightarrow> json option" where
  "optional_value v = (if v = Some JNull then None else v)"

definition read_options :: "json \<Rightarrow> LocalProviderOptions option" where
  "read_options j =
     Option.bind (fields_of j) (\<lambda>kvs.
     Option.bind (Option.bind (map_of kvs ''workspace_root'') as_str) (\<lambda>root.
     Option.bind (optional_string (map_of kvs ''home_dir'')) (\<lambda>home.
     Option.bind (optional_string (map_of kvs ''temp_root'')) (\<lambda>temp.
     Option.bind (optional_string (map_of kvs ''default_shell'')) (\<lambda>shell.
       Some \<lparr> lo_workspace_root = root, lo_home_dir = home, lo_temp_root = temp, lo_default_shell = shell,
              lo_isolation = optional_value (map_of kvs ''isolation'') \<rparr>)))))"

definition json_option :: "('a \<Rightarrow> json) \<Rightarrow> 'a option \<Rightarrow> json" where
  "json_option f v = (case v of None \<Rightarrow> JNull | Some a \<Rightarrow> f a)"

definition write_options :: "LocalProviderOptions \<Rightarrow> json" where
  "write_options options =
     obj_of [(''workspace_root'', JStr (lo_workspace_root options)),
             (''home_dir'', json_option JStr (lo_home_dir options)),
             (''temp_root'', json_option JStr (lo_temp_root options)),
             (''default_shell'', json_option JStr (lo_default_shell options)),
             (''isolation'', json_option id (lo_isolation options))]"

definition build_from_options ::
  "'w LocalBuildHost \<Rightarrow> LocalProviderOptions \<Rightarrow> 'w \<Rightarrow> (LocalBuildError, LocalBackendState) result \<times> 'w" where
  "build_from_options env options w =
     local_backend_with_isolation env (lo_workspace_root options) (lo_home_dir options) (lo_temp_root options)
       (lo_default_shell options) (lo_isolation options) w"

section \<open>The provider\<close>

text \<open>Backends are kept in a store; a handle is a place in it.\<close>

type_synonym BackendHandle = nat

record LocalInstanceRecord =
  ln_instance :: ProviderInstance
  ln_backend :: BackendHandle
  ln_workspace_root_host :: string

record 'w LocalProvider =
  lv_registry :: "(string \<times> LocalInstanceRecord) list"
  lv_next_sequence :: u64
  lv_backends :: "LocalBackendState list"
  lv_world :: 'w

definition LOCAL_KIND :: ProviderKind where
  "LOCAL_KIND = ''local''"

definition new_LocalProvider :: "'w \<Rightarrow> 'w LocalProvider" where
  "new_LocalProvider w = \<lparr> lv_registry = [], lv_next_sequence = 0, lv_backends = [], lv_world = w \<rparr>"

definition local_now_ms :: "'w LocalBuildHost \<Rightarrow> 'w LocalProvider \<Rightarrow> u64" where
  "local_now_ms env v = of_nat (lh_now_ms (bh_host env) (lv_world v))"

definition next_instance_id :: "'w LocalBuildHost \<Rightarrow> 'w LocalProvider \<Rightarrow> string \<times> 'w LocalProvider" where
  "next_instance_id env v =
     (''local-'' @ show_nat (lh_process_id (bh_host env)) @ ''-'' @ show_nat (unat (lv_next_sequence v)),
      v\<lparr>lv_next_sequence := lv_next_sequence v + 1\<rparr>)"

fun local_build_error_to_control_error :: "LocalBuildError \<Rightarrow> ProviderControlError" where
  "local_build_error_to_control_error (BuildInvalidConfig message) = InvalidRequest message"
| "local_build_error_to_control_error (BuildUnsupported message) = ProviderFailure LOCAL_KIND message JNull"

text \<open>A backend built and placed in the store.\<close>

definition build_backend ::
  "'w LocalBuildHost \<Rightarrow> LocalProviderOptions \<Rightarrow> 'w LocalProvider \<Rightarrow> (ProviderControlError, BackendHandle) result \<times> 'w LocalProvider" where
  "build_backend env options v =
     (case build_from_options env options (lv_world v) of
        (Inl e, w) \<Rightarrow> (Inl (local_build_error_to_control_error e), v\<lparr>lv_world := w\<rparr>)
      | (Inr backend, w) \<Rightarrow> (Inr (length (lv_backends v)), v\<lparr>lv_world := w, lv_backends := lv_backends v @ [backend]\<rparr>))"

definition insert_record :: "string \<Rightarrow> LocalInstanceRecord \<Rightarrow> 'w LocalProvider \<Rightarrow> 'w LocalProvider" where
  "insert_record instance_id r v = v\<lparr>lv_registry := AList.update instance_id r (lv_registry v)\<rparr>"

definition local_capabilities :: ProviderCapabilities where
  "local_capabilities =
     \<lparr> pc_lifecycle = [CapPause],
       pc_operation_plane = \<lparr> oc_exec = True, oc_file_read = True, oc_file_write = True, oc_search = True,
         oc_export_file = True, oc_lsp = True, oc_network = True \<rparr> \<rparr>"

definition completed ::
  "ProviderLifecycleState option \<Rightarrow> ProviderLifecycleOperation \<Rightarrow> (ProviderControlError, ProviderLifecycleState) result" where
  "completed current opr =
     (case begin_op current opr of Inl e \<Rightarrow> Inl e | Inr state \<Rightarrow> complete_success state opr)"

definition local_create ::
  "'w LocalBuildHost \<Rightarrow> ProviderCreateRequest \<Rightarrow> 'w LocalProvider
     \<Rightarrow> (ProviderControlError, ProviderInstance) result \<times> 'w LocalProvider" where
  "local_create env request v =
     and_then (ok_or (read_options (cr_provider_options request))
                (InvalidRequest (''invalid local provider_options: '' @ bh_read_error env (cr_provider_options request))), v) (\<lambda>options v.
     and_then (build_backend env options v) (\<lambda>backend v.
     and_then (completed None Create, v) (\<lambda>state v.
     let now = local_now_ms env v; (instance_id, v) = next_instance_id env v;
         inst = \<lparr> pi_backend_id = cr_backend_id request, pi_provider = LOCAL_KIND, pi_instance_id = instance_id,
                  pi_state = state, pi_endpoint = Some EpLocal, pi_snapshot = None, pi_capabilities = local_capabilities,
                  pi_resources = \<lparr> ra_vcpu_count = None, ra_memory_mb = None, ra_disk_mb = None \<rparr>,
                  pi_metadata = obj_of [(''provider_options'', write_options options)],
                  pi_created_at_ms = now, pi_updated_at_ms = now \<rparr>
     in (Inr inst, insert_record instance_id
           \<lparr> ln_instance = inst, ln_backend = backend, ln_workspace_root_host = lo_workspace_root options \<rparr> v))))"

text \<open>The operations on a registered instance look it up first; what they change of it is put back under its key.\<close>

definition record_of :: "string \<Rightarrow> 'w LocalProvider \<Rightarrow> (ProviderControlError, LocalInstanceRecord) result" where
  "record_of instance_id v = ok_or (map_of (lv_registry v) instance_id) (NotFound instance_id)"

definition local_load ::
  "'w LocalBuildHost \<Rightarrow> ProviderLoadRequest \<Rightarrow> 'w LocalProvider
     \<Rightarrow> (ProviderControlError, ProviderInstance) result \<times> 'w LocalProvider" where
  "local_load env request v =
     (case lr_source request of
        SrcInstance instance_id \<Rightarrow>
          and_then (record_of instance_id v, v) (\<lambda>r v.
          and_then (completed (Some (pi_state (ln_instance r))) Load, v) (\<lambda>state v.
          let inst = (ln_instance r)\<lparr>pi_state := state, pi_updated_at_ms := local_now_ms env v\<rparr>
          in (Inr inst, insert_record instance_id (r\<lparr>ln_instance := inst\<rparr>) v)))
      | _ \<Rightarrow> (Inl (UnsupportedCapability LOCAL_KIND ''load_from_snapshot_or_serialized_handle''), v))"

definition local_pause ::
  "'w LocalBuildHost \<Rightarrow> ProviderPauseRequest \<Rightarrow> 'w LocalProvider
     \<Rightarrow> (ProviderControlError, ProviderSnapshot) result \<times> 'w LocalProvider" where
  "local_pause env request v =
     (let instance_id = pr_instance_id request in
      and_then (record_of instance_id v, v) (\<lambda>r v.
      and_then (completed (Some (pi_state (ln_instance r))) Pause, v) (\<lambda>state v.
      let snapshot = \<lparr> ps_snapshot_id = instance_id @ ''-snapshot'', ps_provider = LOCAL_KIND,
                       ps_source_instance_id = Some instance_id, ps_serialized_handle = None,
                       ps_metadata = obj_of [(''instance_id'', JStr instance_id)],
                       ps_created_at_ms = local_now_ms env v \<rparr>;
          inst = (ln_instance r)\<lparr>pi_state := state, pi_updated_at_ms := local_now_ms env v, pi_snapshot := Some snapshot\<rparr>
      in (Inr snapshot, insert_record instance_id (r\<lparr>ln_instance := inst\<rparr>) v))))"

definition local_checkpoint ::
  "ProviderCheckpointRequest \<Rightarrow> 'w LocalProvider \<Rightarrow> (ProviderControlError, ProviderSnapshot) result \<times> 'w LocalProvider" where
  "local_checkpoint request v = (Inl (UnsupportedCapability LOCAL_KIND ''checkpoint''), v)"

definition local_delete ::
  "ProviderDeleteRequest \<Rightarrow> 'w LocalProvider \<Rightarrow> (ProviderControlError, ProviderDeleteOutcome) result \<times> 'w LocalProvider" where
  "local_delete request v =
     (case dr_instance_id request of
        None \<Rightarrow>
          (Inl (if dr_snapshot_id request \<noteq> None then UnsupportedCapability LOCAL_KIND ''delete_by_snapshot_id''
                else InvalidRequest ''delete requires instance_id for the local provider''), v)
      | Some instance_id \<Rightarrow>
          and_then (case map_of (lv_registry v) instance_id of
                      None \<Rightarrow> (Inr False, v)
                    | Some r \<Rightarrow>
                        and_then (completed (Some (pi_state (ln_instance r))) Delete, v) (\<lambda>_ v.
                          (Inr True, v\<lparr>lv_registry := AList.delete instance_id (lv_registry v)\<rparr>))) (\<lambda>deleted v.
          (Inr \<lparr> do_backend_id = dr_backend_id request, do_provider = LOCAL_KIND, do_instance_id = Some instance_id,
                 do_deleted = deleted, do_retained_snapshots = [], do_deleted_snapshots = [],
                 do_correlation = dr_correlation request \<rparr>, v)))"

definition local_inspect ::
  "'w LocalBuildHost \<Rightarrow> ProviderInspectRequest \<Rightarrow> 'w LocalProvider
     \<Rightarrow> (ProviderControlError, ProviderInstanceStatus) result \<times> 'w LocalProvider" where
  "local_inspect env request v =
     (case ir_instance_id request of
        None \<Rightarrow> (Inl (InvalidRequest ''inspect requires instance_id for the local provider''), v)
      | Some instance_id \<Rightarrow>
          and_then (record_of instance_id v, v) (\<lambda>r v.
          let gone = \<not> bh_exists env (ln_workspace_root_host r) (lv_world v);
              inst = (ln_instance r)\<lparr>pi_state := (if gone then Failed else pi_state (ln_instance r)),
                                      pi_updated_at_ms := local_now_ms env v\<rparr>
          in (Inr \<lparr> st_backend_id = pi_backend_id inst, st_provider = LOCAL_KIND, st_instance_id = Some (pi_instance_id inst),
                    st_state = pi_state inst, st_endpoint = pi_endpoint inst, st_snapshot = pi_snapshot inst,
                    st_capabilities = pi_capabilities inst, st_resources = pi_resources inst,
                    st_last_error = (if gone then Some (''workspace_root no longer exists: '' @ ln_workspace_root_host r) else None),
                    st_metadata = pi_metadata inst, st_updated_at_ms = pi_updated_at_ms inst \<rparr>,
              insert_record instance_id (r\<lparr>ln_instance := inst\<rparr>) v)))"

definition local_list_instances ::
  "'w LocalProvider \<Rightarrow> (ProviderControlError, ProviderInstance list) result \<times> 'w LocalProvider" where
  "local_list_instances v = (Inr (map (ln_instance \<circ> snd) (lv_registry v)), v)"

definition local_attach :: "'w LocalBuildHost \<Rightarrow> ('w LocalProvider, BackendHandle) OperationAttach" where
  "local_attach env inst v =
     (let instance_id = pi_instance_id inst in
      case map_of (lv_registry v) instance_id of
        Some r \<Rightarrow> (Inr (ln_backend r), v)
      | None \<Rightarrow>
          and_then (case json_get (pi_metadata inst) ''provider_options'' of
                      None \<Rightarrow> Inl (NotFound instance_id)
                    | Some j \<Rightarrow> ok_or (read_options j) (ProviderFailure LOCAL_KIND
                        (''cannot reattach local instance '' @ instance_id @ '': stored provider_options is malformed: ''
                           @ bh_read_error env j) JNull), v) (\<lambda>options v.
          and_then (ensure_that (bh_exists env (lo_workspace_root options) (lv_world v)) (NotFound instance_id) v) (\<lambda>_ v.
          and_then (build_backend env options v) (\<lambda>backend v.
            (Inr backend, insert_record instance_id
               \<lparr> ln_instance = inst, ln_backend = backend, ln_workspace_root_host = lo_workspace_root options \<rparr> v)))))"

definition local_lifecycle :: "'w LocalBuildHost \<Rightarrow> 'w LocalProvider ProviderLifecycle" where
  "local_lifecycle env =
     \<lparr> pl_create = local_create env, pl_load = local_load env, pl_pause = local_pause env,
       pl_checkpoint = local_checkpoint, pl_delete = local_delete, pl_inspect = local_inspect env,
       pl_list_instances = local_list_instances \<rparr>"

end
