(* ===== verification/Local_Mediation.thy ===== *)
theory Local_Mediation
  imports Local_Backend Local_Sandbox State_Frames
begin

text \<open>
  Complete mediation of the local backend: every path an operation hands to the host was admitted by the
  policy, with the file system as it was when the operation began, and a command runs bare only where
  the policy has no sandbox. The proofs follow the operations in the calculus of frames, with one
  relation for operations that only look and one for those that also change the host.
\<close>

section \<open>Complete mediation\<close>

text \<open>An access the policy admits, with the file system as it is in \<open>view\<close>. Looking at a path is admitted
  to those who may read or write it.\<close>

fun permitted :: "LocalBackendPolicy \<Rightarrow> HostView \<Rightarrow> Access \<times> string \<Rightarrow> bool" where
  "permitted policy view (AccessStat, path) \<longleftrightarrow>
     check_read policy view path [] = Inr () \<or> check_write policy view path [] = Inr ()"
| "permitted policy view (AccessRead, path) \<longleftrightarrow> check_read policy view path [] = Inr ()"
| "permitted policy view (AccessWrite, path) \<longleftrightarrow> check_write policy view path [] = Inr ()"

lemma check_read_operation: "check_read policy view path operation = Inr () \<longleftrightarrow> check_read policy view path [] = Inr ()"
  by (auto simp: check_read_def split: option.splits sum.splits)

lemma check_write_operation: "check_write policy view path operation = Inr () \<longleftrightarrow> check_write policy view path [] = Inr ()"
  by (auto simp: check_write_def split: option.splits sum.splits)

lemma is_granted_mono: "is_granted policy p PermExecCwd \<Longrightarrow> is_granted policy p PermRead"
proof -
  have "grant_allows c PermExecCwd \<Longrightarrow> grant_allows c PermRead" for c by (cases c) auto
  then show "is_granted policy p PermExecCwd \<Longrightarrow> is_granted policy p PermRead"
    unfolding is_granted_def list_ex_iff by blast
qed

lemma check_exec_cwd_reads: "check_exec_cwd policy view path = Inr () \<Longrightarrow> check_read policy view path [] = Inr ()"
  by (auto simp: check_exec_cwd_def check_read_def is_granted_mono split: option.splits sum.splits if_splits)

text \<open>What an operation may do: the host is only looked at, or may also change; in both cases the accesses
  it adds are admitted by the policy on the file system \<open>view\<close>.\<close>

definition looks :: "'w LocalHost \<Rightarrow> LocalBackendState \<Rightarrow> 'w LocalWorld \<Rightarrow> 'w LocalWorld \<Rightarrow> bool" where
  "looks host st s t \<longleftrightarrow> lw_world t = lw_world s \<and>
     (\<exists>added. lw_log t = lw_log s @ added \<and> list_all (permitted (ls_policy st) (lh_view host (lw_world s))) added)"

definition acts :: "LocalBackendState \<Rightarrow> HostView \<Rightarrow> 'w LocalWorld \<Rightarrow> 'w LocalWorld \<Rightarrow> bool" where
  "acts st view s t \<longleftrightarrow> (\<exists>added. lw_log t = lw_log s @ added \<and> list_all (permitted (ls_policy st) view) added)"

interpretation looking: frame_relation "looks host st" for host st
  by unfold_locales (auto simp: looks_def)

interpretation acting: frame_relation "acts st view" for st view
  by unfold_locales (auto simp: acts_def)

lemma looks_may_read:
  assumes "check_read (ls_policy st) (lh_view host (lw_world s)) path [] = Inr () \<Longrightarrow> steps (looks host st) s (k () s)"
  shows "steps (looks host st) s (and_then (may_read host st path operation s) k)"
  using assms check_read_operation [of "ls_policy st" "lh_view host (lw_world s)" path operation]
  by (cases "check_read (ls_policy st) (lh_view host (lw_world s)) path operation")
    (simp_all add: may_read_def looking.steps_pure)

lemma looks_then:
  assumes "steps (looks host st) s m" and "\<And>a t. lw_world t = lw_world s \<Longrightarrow> steps (looks host st) t (k a t)"
  shows "steps (looks host st) s (and_then m k)"
  using assms by (intro looking.steps_and_then) (auto simp: steps_def looks_def)

lemma looks_let:
  assumes "steps (looks host st) s m" and "\<And>a t. lw_world t = lw_world s \<Longrightarrow> steps (looks host st) t (k a t)"
  shows "steps (looks host st) s (case m of (a, t) \<Rightarrow> k a t)"
  using assms by (intro looking.steps_let) (auto simp: steps_def looks_def)

lemma looks_peek:
  "permitted (ls_policy st) (lh_view host (lw_world s)) (kind, path) \<Longrightarrow> steps (looks host st) s (peek kind path f s)"
  by (simp add: steps_def looks_def peek_def)

lemmas look_rules = looks_may_read looks_then looking.steps_pure looking.steps_map_err looks_let looking.steps_option
  looking.steps_if looking.steps_ensure_that looks_peek

lemma looks_directory:
  "permitted (ls_policy st) (lh_view host (lw_world s)) (AccessStat, path) \<Longrightarrow>
     steps (looks host st) s (ensure_is_directory host path s)"
  "permitted (ls_policy st) (lh_view host (lw_world s)) (AccessStat, path) \<Longrightarrow>
     steps (looks host st) s (ensure_is_file host path s)"
  unfolding ensure_is_directory_def ensure_is_file_def
  by (intro looks_then looking.steps_map_err looks_peek looking.steps_ensure_that; assumption)+

lemma looks_stat: "steps (looks host st) s (local_stat host st path s)"
  unfolding local_stat_def stat_for_path_def
  by (intro looks_then looks_may_read looking.steps_pure looking.steps_on_err looking.steps_if looks_peek) simp

lemma looks_read: "steps (looks host st) s (local_read_bytes host st path s)"
  unfolding local_read_bytes_def
  by (intro looks_then looks_may_read looking.steps_pure looking.steps_map_err looks_directory looks_peek) simp_all

lemma looks_export: "steps (looks host st) s (local_export_file host st path name s)"
  unfolding local_export_file_def
  by (intro looks_then looks_may_read looking.steps_pure looking.steps_map_err looking.steps_option looks_directory looks_peek) simp_all

lemma looks_open_exported: "steps (looks host st) s (local_open_exported host st p s)"
  unfolding local_open_exported_def
  by (intro looks_may_read looking.steps_map_err looks_peek) simp

lemma looks_read_dir: "steps (looks host st) s (read_dir_at host st operation current s)"
  unfolding read_dir_at_def
  by (intro looks_may_read looking.steps_map_err looks_peek) simp

lemma looks_entry:
  assumes "\<And>path. check_read (ls_policy st) (lh_view host (lw_world s)) (path_text path) [] = Inr () \<Longrightarrow>
    steps (looks host st) s (k path s)"
  shows "steps (looks host st) s (and_then (entry_at host st operation current entry s) k)"
proof (cases entry)
  case (Inl e)
  then show ?thesis by (simp add: entry_at_def looking.steps_pure)
next
  case (Inr name)
  let ?p = "current @ [name]"
  show ?thesis
    using Inr assms [of ?p] check_read_operation [of "ls_policy st" "lh_view host (lw_world s)" "path_text ?p" operation]
    by (cases "check_read (ls_policy st) (lh_view host (lw_world s)) (path_text ?p) operation")
      (simp_all add: entry_at_def may_read_def looking.steps_pure)
qed

lemma looks_kind:
  assumes "check_read (ls_policy st) (lh_view host (lw_world s)) (path_text path) [] = Inr ()"
  shows "steps (looks host st) s (is_dir_at host path s)" and "steps (looks host st) s (is_file_at host path s)"
  unfolding is_dir_at_def is_file_at_def using assms by (simp_all add: looks_peek)

lemma looks_path_entries:
  assumes "\<And>current found s. steps (looks host st) s (collect_paths host st wanted fuel current found s)"
  shows "steps (looks host st) s (collect_path_entries host st wanted fuel current entries found s)"
proof (induction entries arbitrary: found s)
  case (Cons entry entries)
  show ?case
    unfolding collect_path_entries.simps Let_def
    by (intro looks_entry looks_let looks_kind looks_then looking.steps_if looking.steps_pure assms Cons.IH)
qed (simp add: looking.steps_pure)

lemma looks_collect_paths: "steps (looks host st) s (collect_paths host st wanted fuel current found s)"
  by (induction fuel arbitrary: current found s)
    (simp_all add: looking.steps_pure, intro looks_then looks_read_dir looks_path_entries)

lemma looks_file_entries:
  assumes "\<And>current found s. steps (looks host st) s (collect_files host st fuel current found s)"
  shows "steps (looks host st) s (collect_file_entries host st fuel current entries found s)"
proof (induction entries arbitrary: found s)
  case (Cons entry entries)
  have plain: "steps (looks host st) u (case is_file_at host path u of (plain, s) \<Rightarrow> (Inr (f plain), s))"
    if "check_read (ls_policy st) (lh_view host (lw_world t)) (path_text path) [] = Inr ()" and "lw_world u = lw_world t"
    for path t u and f :: "bool \<Rightarrow> HostPath list"
    by (rule looks_let [OF looks_kind(2)]) (simp_all add: that looking.steps_pure)
  show ?case
    unfolding collect_file_entries.simps Let_def
    by (intro looks_entry looks_let looks_kind looks_then looking.steps_if looking.steps_pure assms Cons.IH plain)
qed (simp add: looking.steps_pure)

lemma looks_collect_files: "steps (looks host st) s (collect_files host st fuel current found s)"
  by (induction fuel arbitrary: current found s)
    (simp_all add: looking.steps_pure, intro looks_then looks_read_dir looks_file_entries)

lemma looks_grep_files: "steps (looks host st) s (grep_files lib host st request pattern root paths entries s)"
proof (induction paths arbitrary: entries s)
  case (Cons path paths)
  show ?case
    unfolding grep_files.simps Let_def
    by (intro looks_then looks_may_read looking.steps_if looking.steps_map_err looking.steps_pure looks_peek Cons.IH) simp
qed (simp add: looking.steps_pure)

lemma looks_may_read_some:
  assumes "check_read (ls_policy st) (lh_view host (lw_world s)) path [] = Inr () \<Longrightarrow> steps (looks host st) s (k () s)"
  shows "steps (looks host st) s (and_then (map_err f (may_read host st path operation s)) k)"
  using assms check_read_operation [of "ls_policy st" "lh_view host (lw_world s)" path operation]
  by (cases "check_read (ls_policy st) (lh_view host (lw_world s)) path operation")
    (simp_all add: may_read_def looking.steps_pure)

lemma looks_glob: "steps (looks host st) s (local_glob lib host st fuel request s)"
  unfolding local_glob_def
  by (intro looks_may_read_some looks_then looking.steps_map_err looking.steps_option looking.steps_pure looks_directory
      looks_collect_paths) simp

lemma looks_grep: "steps (looks host st) s (local_grep lib host st fuel request s)"
  unfolding local_grep_def
  by (intro looks_may_read_some looks_then looking.steps_map_err looking.steps_pure looks_directory
      looks_collect_files looks_grep_files) simp

section \<open>Operations that change the host\<close>

lemma acts_of_looks: "steps (looks host st) s m \<Longrightarrow> steps (acts st (lh_view host (lw_world s))) s m"
  by (auto simp: steps_def looks_def acts_def)

lemma acts_after_look:
  assumes "steps (looks host st) s m" and "view = lh_view host (lw_world s)"
    and "\<And>a t. m = (Inr a, t) \<Longrightarrow> lw_world t = lw_world s \<Longrightarrow> steps (acts st view) t (k a t)"
  shows "steps (acts st view) s (and_then m k)"
  using assms by (intro acting.steps_and_then) (auto simp: steps_def looks_def acts_def)

lemma acts_may_write:
  assumes "view = lh_view host (lw_world s)" and "check_write (ls_policy st) view path [] = Inr () \<Longrightarrow> steps (acts st view) s (k () s)"
  shows "steps (acts st view) s (and_then (may_write host st path operation s) k)"
  using assms check_write_operation [of "ls_policy st" view path operation]
  by (cases "check_write (ls_policy st) view path operation") (simp_all add: may_write_def acting.steps_pure)

lemma acts_touch: "check_write (ls_policy st) view path [] = Inr () \<Longrightarrow> steps (acts st view) s (touch path f s)"
  by (auto simp: steps_def acts_def touch_def Let_def split: prod.split)

lemma acts_write_new: "check_write (ls_policy st) view path [] = Inr () \<Longrightarrow> steps (acts st view) s (write_new host mode path content s)"
  unfolding write_new_def by (intro acting.steps_and_then acting.steps_map_err acts_touch)

lemma acts_create_dir_all: "steps (acts st (lh_view host (lw_world s))) s (local_create_dir_all host st path s)"
  unfolding local_create_dir_all_def
  by (rule acts_after_look [OF looking.steps_pure refl], rule acts_may_write, simp)
    (intro acting.steps_map_err acts_touch)

lemma acts_let_look:
  assumes "steps (looks host st) s m" and "view = lh_view host (lw_world s)"
    and "\<And>a t. lw_world t = lw_world s \<Longrightarrow> steps (acts st view) t (k a t)"
  shows "steps (acts st view) s (case m of (a, t) \<Rightarrow> k a t)"
  using assms by (intro acting.steps_let) (auto simp: steps_def looks_def acts_def)

lemma acts_write_bytes: "steps (acts st (lh_view host (lw_world s))) s (local_write_bytes host st request s)"
  unfolding local_write_bytes_def Let_def
  apply (rule acts_after_look [OF looking.steps_pure refl])
  apply (rule acts_may_write, simp)
  apply (rule acts_after_look [OF looking.steps_pure], simp)
  apply (rule acts_may_write, simp)
  apply (rule acts_after_look [OF looks_directory(1)], simp, simp)
  apply (rule acts_let_look [where host = host, OF looks_peek], simp, simp)
  apply (intro acting.steps_and_then acting.steps_pure)
  subgoal for p s1 parent s2 u s3 existed s4
    by (cases "wb_mode request")
      (auto intro!: acts_write_new acting.steps_and_then acting.steps_pure acts_may_write acting.steps_map_err acts_touch
        intro: acts_after_look [OF looking.steps_pure])
  done

lemma acts_temp_path: "steps (acts st (lh_view host (lw_world s))) s (local_temp_path host st request s)"
  unfolding local_temp_path_def Let_def
  apply (rule acts_after_look [OF _ refl])
   apply (auto intro: looking.steps_pure split: option.split)[1]
  apply (rule acts_may_write, simp)
  apply (rule acts_after_look [OF looks_directory(1)], simp, simp)
  apply (rule acts_may_write, simp)
  apply (intro acting.steps_and_then acting.steps_pure acting.steps_map_err)
  apply (cases "tp_kind request")
   apply (simp_all add: acts_touch)
  done

section \<open>The calls of a session\<close>

datatype FileCall =
    CallStat BackendPath
  | CallReadBytes BackendPath
  | CallWriteBytes WriteBytesRequest
  | CallCreateDirAll BackendPath
  | CallTempPath TempPathRequest
  | CallExportFile BackendPath "string option"
  | CallOpenExported HostPath
  | CallGlob GlobRequest
  | CallGrep GrepRequest

fun run_file_call ::
  "'p GlobLib \<Rightarrow> 'w LocalHost \<Rightarrow> LocalBackendState \<Rightarrow> nat \<Rightarrow> FileCall \<Rightarrow> 'w LocalWorld \<Rightarrow> 'w LocalWorld" where
  "run_file_call lib host st fuel (CallStat path) s = snd (local_stat host st path s)"
| "run_file_call lib host st fuel (CallReadBytes path) s = snd (local_read_bytes host st path s)"
| "run_file_call lib host st fuel (CallWriteBytes request) s = snd (local_write_bytes host st request s)"
| "run_file_call lib host st fuel (CallCreateDirAll path) s = snd (local_create_dir_all host st path s)"
| "run_file_call lib host st fuel (CallTempPath request) s = snd (local_temp_path host st request s)"
| "run_file_call lib host st fuel (CallExportFile path name) s = snd (local_export_file host st path name s)"
| "run_file_call lib host st fuel (CallOpenExported path) s = snd (local_open_exported host st path s)"
| "run_file_call lib host st fuel (CallGlob request) s = snd (local_glob lib host st fuel request s)"
| "run_file_call lib host st fuel (CallGrep request) s = snd (local_grep lib host st fuel request s)"

fun changes_files :: "FileCall \<Rightarrow> bool" where
  "changes_files (CallWriteBytes _) = True"
| "changes_files (CallCreateDirAll _) = True"
| "changes_files (CallTempPath _) = True"
| "changes_files _ = False"

lemma run_file_call_looks:
  "\<not> changes_files call \<Longrightarrow> looks host st s (run_file_call lib host st fuel call s)"
  using looks_stat looks_read looks_export looks_open_exported looks_glob looks_grep
  by (cases call) (simp_all add: steps_def)

lemma run_file_call_acts:
  "acts st (lh_view host (lw_world s)) s (run_file_call lib host st fuel call s)"
proof (cases "changes_files call")
  case True
  then show ?thesis
    using acts_write_bytes acts_create_dir_all acts_temp_path
    by (cases call) (simp_all add: steps_def)
next
  case False
  from run_file_call_looks [OF this, of host st s lib fuel] show ?thesis
    by (auto simp: looks_def acts_def)
qed

text \<open>Where an isolated policy lets a path be: what the path resolves to lies under one of the roots, or under
  the path of a grant whose capability is one of those listed.\<close>

definition contained_in ::
  "LocalBackendPolicy \<Rightarrow> HostPath list \<Rightarrow> SandboxPermissionCapability list \<Rightarrow> (OperationError, HostPath) result \<Rightarrow> bool" where
  "contained_in policy roots capabilities resolved =
     (case resolved of
        Inl _ \<Rightarrow> False
      | Inr p \<Rightarrow> list_ex (path_is_within p) roots \<or>
          list_ex (\<lambda>g. sg_capability g \<in> set capabilities \<and> path_is_within p (sg_path g)) (gs_grants (lp_store policy)))"

fun access_contained :: "LocalBackendPolicy \<Rightarrow> PathIsolationConfig \<Rightarrow> HostView \<Rightarrow> Access \<times> string \<Rightarrow> bool" where
  "access_contained policy config view (AccessWrite, path) \<longleftrightarrow>
     contained_in policy (pi_writable_roots config) [PermWrite] (normalize_for_write view path)"
| "access_contained policy config view (AccessRead, path) \<longleftrightarrow>
     contained_in policy (pi_readable_roots config) [PermRead, PermWrite, PermExecCwd] (normalize_for_read view path)"
| "access_contained policy config view (AccessStat, path) \<longleftrightarrow>
     contained_in policy (pi_readable_roots config) [PermRead, PermWrite, PermExecCwd] (normalize_for_read view path) \<or>
     contained_in policy (pi_writable_roots config) [PermWrite] (normalize_for_write view path)"

lemma grant_allows_read: "grant_allows c PermRead \<longleftrightarrow> c \<in> {PermRead, PermWrite, PermExecCwd}"
  by (cases c) auto

lemma permitted_contained:
  assumes "active_path_isolation policy = Some (name, config)" and "permitted policy view access"
  shows "access_contained policy config view access"
proof -
  have "contained_in policy (pi_readable_roots config) [PermRead, PermWrite, PermExecCwd] (normalize_for_read view path)"
    if "check_read policy view path [] = Inr ()" for path
    using that assms(1)
    by (auto simp: check_read_def contained_in_def is_granted_def grant_allows_read split: sum.splits if_splits)
  moreover have "contained_in policy (pi_writable_roots config) [PermWrite] (normalize_for_write view path)"
    if "check_write policy view path [] = Inr ()" for path
    using that assms(1)
    by (auto simp: check_write_def contained_in_def is_granted_def grant_allows_write split: sum.splits if_splits)
  ultimately show ?thesis
    using assms(2) by (cases "(policy, view, access)" rule: permitted.cases) auto
qed

text \<open>C8. Every path that a file operation of an isolated local backend hands to the host, also one that then
  fails, resolves, in the file system as it is when the operation begins, under a root of the configuration
  or of a live grant: for writing, a writable root or a write grant; for reading, a readable root or any
  grant of a path. A path resolves here as the checks of the policy resolve it: to its canonical form if it has
  one, for writing otherwise to its name in the canonical form of its parent directory, and otherwise to its
  lexical normal form, so that nothing is said of where a dangling link or a path with missing parents leads
  later. Reading operations leave the host as it was, and the policy is not the operations' to change.\<close>

theorem file_access_mediated:
  assumes "active_path_isolation (ls_policy st) = Some (name, config)"
  shows "\<exists>added. lw_log (run_file_call lib host st fuel call s) = lw_log s @ added \<and>
      list_all (access_contained (ls_policy st) config (lh_view host (lw_world s))) added \<and>
      (changes_files call \<or> lw_world (run_file_call lib host st fuel call s) = lw_world s)"
proof -
  obtain added where "lw_log (run_file_call lib host st fuel call s) = lw_log s @ added"
      and "list_all (permitted (ls_policy st) (lh_view host (lw_world s))) added"
    using run_file_call_acts [of st host s lib fuel call] by (auto simp: acts_def)
  with permitted_contained [OF assms] run_file_call_looks [of call host st s lib fuel] show ?thesis
    by (auto simp: list_all_iff looks_def)
qed

text \<open>A host on which every path is a directory, nothing can be resolved further, and every request succeeds.\<close>

definition demo_host :: "unit LocalHost" where
  "demo_host =
     \<lparr> lh_view = (\<lambda>_. demo_view),
       lh_symlink_metadata = (\<lambda>_ _. Inr \<lparr> mt_kind = Directory, mt_len = 0, mt_modified = None \<rparr>),
       lh_metadata = (\<lambda>_ _. Inr \<lparr> mt_kind = Directory, mt_len = 0, mt_modified = None \<rparr>),
       lh_read = (\<lambda>_ _. Inr []), lh_read_dir = (\<lambda>_ _. Inr []),
       lh_open = (\<lambda>_ _ w. (Inr (), w)), lh_write_all = (\<lambda>_ _ w. (Inr (), w)), lh_rename = (\<lambda>_ _ w. (Inr (), w)),
       lh_create_dir_all = (\<lambda>_ w. (Inr (), w)), lh_create_dir = (\<lambda>_ w. (Inr (), w)),
       lh_process_id = 7, lh_now_ms = (\<lambda>_. 42),
       lh_run = (\<lambda>_ _ w. (Inr \<lparr> exr_stdout = [], exr_stderr = [], exr_exit_code = Some 0, exr_timed_out = False \<rparr>, w)) \<rparr>"

definition demo_local_state :: LocalBackendState where
  "demo_local_state =
     \<lparr> ls_backend_id = ''local'',
       ls_roots = \<lparr> lr_workspace_root = ''/ws'', lr_workspace_root_host = [''ws''], lr_home_dir = None, lr_home_dir_host = None \<rparr>,
       ls_temp_root_host = ''/ws/tmp'', ls_default_shell = None, ls_policy = demo_workspace_policy \<rparr>"

definition demo_write :: WriteBytesRequest where
  "demo_write = \<lparr> wb_path = ''/ws/a.txt'', wb_content = ''hello'', wb_mode = Overwrite \<rparr>"

lemma demo_write_log:
  "lw_log (run_file_call lib demo_host demo_local_state fuel (CallWriteBytes demo_write) \<lparr> lw_world = (), lw_log = [] \<rparr>) =
     [(AccessStat, ''/ws''), (AccessStat, ''/ws/a.txt''), (AccessWrite, ''/ws/a.txt''), (AccessWrite, ''/ws/a.txt'')]"
proof -
  have path: "normalize_absolute_host_path ''/ws/a.txt'' = Inr [''ws'', ''a.txt'']" "normalize_absolute_host_path ''/ws'' = Inr [''ws'']"
    by code_simp+
  then have "backend_path_to_host ''/ws/a.txt'' = Inr [''ws'', ''a.txt'']" by (simp add: backend_path_to_host_def)
  moreover have "path_text [''ws'', ''a.txt''] = ''/ws/a.txt''" "path_text [''ws''] = ''/ws''" by code_simp+
  moreover have "check_write demo_workspace_policy demo_view ''/ws/a.txt'' ''file_write'' = Inr ()"
    "check_write demo_workspace_policy demo_view ''/ws'' ''file_write'' = Inr ()"
    by (simp_all add: check_write_def active_path_isolation_def demo_workspace_policy_def normalize_for_write_def path
        demo_view_def path_parent_def path_is_within_def)
  ultimately show ?thesis
    by (simp add: local_write_bytes_def demo_write_def may_write_def demo_host_def demo_local_state_def path_parent_def
        ensure_is_directory_def peek_def touch_def write_new_def ok_or_def Let_def)
qed

theorem file_access_mediated_witness:
  "list_all (access_contained demo_workspace_policy \<lparr> pi_allow_network = False, pi_readable_roots = [[''ws'']], pi_writable_roots = [[''ws'']] \<rparr> demo_view)
     [(AccessStat, ''/ws''), (AccessStat, ''/ws/a.txt''), (AccessWrite, ''/ws/a.txt''), (AccessWrite, ''/ws/a.txt'')]"
proof -
  have "active_path_isolation (ls_policy demo_local_state) =
      Some (''linux_bubblewrap'', \<lparr> pi_allow_network = False, pi_readable_roots = [[''ws'']], pi_writable_roots = [[''ws'']] \<rparr>)"
    by (simp add: demo_local_state_def demo_workspace_policy_def active_path_isolation_def)
  from file_access_mediated [OF this, of undefined demo_host 0 "CallWriteBytes demo_write" "\<lparr> lw_world = (), lw_log = [] \<rparr>"]
  show ?thesis
    unfolding demo_write_log by (simp add: demo_local_state_def demo_host_def)
qed

section \<open>Commands\<close>

lemma exec_cwd_keeps: "lw_world (snd (exec_cwd host st request s)) = lw_world s"
  by (auto simp: exec_cwd_def ensure_is_directory_def peek_def and_then_def map_err_def ensure_that_def
      split: option.splits sum.splits prod.splits if_splits)

lemma exec_cwd_outcome:
  assumes "exec_cwd host st request s = (Inr cwd, t)"
  shows "case cwd of None \<Rightarrow> \<not> requires_exec_cwd (ls_policy st)
    | Some p \<Rightarrow> check_exec_cwd (ls_policy st) (lh_view host (lw_world s)) (path_text p) = Inr ()"
  using assms
  by (cases "case exq_cwd request of Some path \<Rightarrow> backend_path_to_host path | None \<Rightarrow> Inl OpCancelled")
    (auto simp: exec_cwd_def and_then_def map_sum_def split: option.splits sum.splits prod.splits if_splits)

text \<open>The command a sandbox runs for a request: its program is the sandbox, and what the request names follows the
  profile. A mount sandbox has a working directory, which the policy admits.\<close>

definition sandboxed :: "HostView \<Rightarrow> LocalBackendPolicy \<Rightarrow> LocalCommandSpec \<Rightarrow> LocalCommand \<Rightarrow> bool" where
  "sandboxed view policy spec command =
     (case lp_isolation policy of
        IsolationNone \<Rightarrow> False
      | MacosSeatbelt config \<Rightarrow>
          lc_program command = ''sandbox-exec'' \<and>
          lc_args command = [''-p'', to_profile_text (from_config_and_grants config (gs_grants (lp_store policy)))]
            @ cs_program spec # cs_args spec
      | LinuxBubblewrap config \<Rightarrow>
          lc_program command = ''bwrap'' \<and>
          (case lc_cwd command of
             None \<Rightarrow> False
           | Some cwd \<Rightarrow>
               check_exec_cwd policy view (path_text cwd) = Inr () \<and>
               lc_args command = to_args view (from_config_and_grants config (gs_grants (lp_store policy))) cwd
                 @ cs_program spec # cs_args spec))"

lemma command_from_spec_sandboxed:
  assumes "lp_isolation policy \<noteq> IsolationNone" and "\<not> bypassed policy"
    and "case cwd of None \<Rightarrow> \<not> requires_exec_cwd policy | Some p \<Rightarrow> check_exec_cwd policy view (path_text p) = Inr ()"
    and "command_from_spec view policy spec cwd = (program, args)"
  shows "sandboxed view policy spec \<lparr> lc_program = program, lc_args = args, lc_env = env, lc_cwd = cwd \<rparr>"
  using assms
  by (cases "lp_isolation policy")
    (auto simp: sandboxed_def command_from_spec_def seatbelt_profile_def bubblewrap_args_def requires_exec_cwd_def
      split: option.splits)

text \<open>C34. With isolation configured and no live grant that lifts it, the host is given either no command at all or one
  command, and that command is the sandbox itself, with the profile of the configuration and the live grants
  and the program of the request behind it; a bubblewrap sandbox always has a working directory, and one that
  the policy admits. The answer is then the one of that run.\<close>

theorem exec_sandboxed:
  assumes "lp_isolation (ls_policy st) \<noteq> IsolationNone" and "\<not> bypassed (ls_policy st)"
    and "local_exec host st request s = (outcome, t)"
  shows "lw_world t = lw_world s \<and> (\<exists>e. outcome = Inl e) \<or>
    (\<exists>spec command. build_command_spec request = Inr spec \<and>
       sandboxed (lh_view host (lw_world s)) (ls_policy st) spec command \<and>
       lh_run host command (exq_timeout_ms request) (lw_world s) =
         ((case outcome of Inl e \<Rightarrow> Inl (case e of OpExecutionFailed text \<Rightarrow> text | _ \<Rightarrow> []) | Inr (_, res) \<Rightarrow> Inr res), lw_world t))"
proof (cases "build_command_spec request")
  case (Inl e)
  with assms(3) show ?thesis by (auto simp: local_exec_def)
next
  case (Inr spec)
  show ?thesis
  proof (cases "exec_cwd host st request s")
    case (Pair res u)
    have same: "lw_world u = lw_world s" using exec_cwd_keeps [of host st request s] Pair by simp
    show ?thesis
    proof (cases res)
      case (Inl e)
      with Inr Pair same assms(3) show ?thesis by (auto simp: local_exec_def)
    next
      case (Inr cwd)
      obtain program args where cmd: "command_from_spec (lh_view host (lw_world s)) (ls_policy st) spec cwd = (program, args)"
        by fastforce
      let ?command = "\<lparr> lc_program = program, lc_args = args, lc_env = command_env st request, lc_cwd = cwd \<rparr>"
      obtain ran w where run: "lh_run host ?command (exq_timeout_ms request) (lw_world s) = (ran, w)" by fastforce
      have "sandboxed (lh_view host (lw_world s)) (ls_policy st) spec ?command"
        using Pair Inr by (intro command_from_spec_sandboxed [OF assms(1,2) _ cmd] exec_cwd_outcome) simp
      moreover have "(outcome, t) = map_err OpExecutionFailed (map_sum id (Pair ?command) ran, u\<lparr>lw_world := w\<rparr>)"
        using assms(3) \<open>build_command_spec request = Inr spec\<close> Pair Inr same cmd run by (simp add: local_exec_def Let_def)
      ultimately show ?thesis
        using \<open>build_command_spec request = Inr spec\<close> run by (cases ran) auto
    qed
  qed
qed

definition demo_exec :: ExecRequest where
  "demo_exec = \<lparr> exq_command = ''ls'', exq_args = [''-l''], exq_shell = None, exq_cwd = None, exq_timeout_ms = Some 1000,
     exq_env = None, exq_extra = None \<rparr>"

theorem exec_sandboxed_witness:
  "\<exists>command. sandboxed demo_view demo_workspace_policy \<lparr> cs_program = ''ls'', cs_args = [''-l''] \<rparr> command \<and>
     fst (lh_run demo_host command (Some 1000) ()) =
       Inr \<lparr> exr_stdout = [], exr_stderr = [], exr_exit_code = Some 0, exr_timed_out = False \<rparr>"
proof -
  let ?s = "\<lparr> lw_world = (), lw_log = [] \<rparr> :: unit LocalWorld"
  have path: "normalize_absolute_host_path ''/ws'' = Inr [''ws'']" and shown: "path_text [''ws''] = ''/ws''" by code_simp+
  have "trim ''ls'' = ''ls''" by code_simp
  then have spec: "build_command_spec demo_exec = Inr \<lparr> cs_program = ''ls'', cs_args = [''-l''] \<rparr>"
    by (simp add: build_command_spec_def demo_exec_def)
  have "check_exec_cwd demo_workspace_policy demo_view ''/ws'' = Inr ()"
    by (simp add: check_exec_cwd_def active_path_isolation_def demo_workspace_policy_def normalize_for_read_def path
        demo_view_def path_is_within_def)
  then have "exec_cwd demo_host demo_local_state demo_exec ?s = (Inr (Some [''ws'']), ?s\<lparr>lw_log := [(AccessStat, ''/ws'')]\<rparr>)"
    by (simp add: exec_cwd_def demo_exec_def demo_local_state_def demo_host_def requires_exec_cwd_def shown
        ensure_is_directory_def peek_def)
      (simp add: demo_workspace_policy_def)
  with spec have ran: "\<exists>x. fst (local_exec demo_host demo_local_state demo_exec ?s) = Inr x"
    by (auto simp: local_exec_def demo_host_def Let_def split: prod.split)
  have "lp_isolation (ls_policy demo_local_state) \<noteq> IsolationNone" "\<not> bypassed (ls_policy demo_local_state)"
    by (simp_all add: demo_local_state_def demo_workspace_policy_def bypassed_def default_GrantStore_def)
  from exec_sandboxed [OF this, of demo_host demo_exec ?s "fst (local_exec demo_host demo_local_state demo_exec ?s)"
      "snd (local_exec demo_host demo_local_state demo_exec ?s)"] ran spec
  show ?thesis by (auto simp: demo_host_def demo_local_state_def demo_exec_def)
qed

end
