(* ===== verification/Local_Lifecycle.thy ===== *)
theory Local_Lifecycle
  imports Local_Provider Local_Mediation Manager_Invariant
begin

text \<open>
  What the local provider promises the manager: its registry stays well formed whatever is asked of it, a
  deletion always succeeds, and an instance attached again after a restart has the isolation it was created
  with.
\<close>

section \<open>The stored options\<close>

lemma read_options_isolation: "read_options j = Some options \<Longrightarrow> lo_isolation options \<noteq> Some JNull"
  by (auto simp: read_options_def optional_value_def split: Option.bind_splits if_splits)

lemma optional_string_json: "optional_string (Some (json_option JStr v)) = Some v"
  by (cases v) (simp_all add: json_option_def)

lemma optional_value_json: "v \<noteq> Some JNull \<Longrightarrow> optional_value (Some (json_option id v)) = v"
  by (cases v) (simp_all add: json_option_def optional_value_def)

lemma read_write_options:
  assumes "lo_isolation options \<noteq> Some JNull"
  shows "read_options (write_options options) = Some options"
proof -
  define h t d i where "h = json_option JStr (lo_home_dir options)" and "t = json_option JStr (lo_temp_root options)"
    and "d = json_option JStr (lo_default_shell options)" and "i = json_option id (lo_isolation options)"
  let ?kvs = "[(''default_shell'', d), (''home_dir'', h), (''isolation'', i), (''temp_root'', t),
      (''workspace_root'', JStr (lo_workspace_root options))]"
  have "write_options options = JObj ?kvs"
    unfolding write_options_def h_def [symmetric] t_def [symmetric] d_def [symmetric] i_def [symmetric]
    by (simp add: obj_of_def)
  moreover have "fields_of (JObj ?kvs) = Some ?kvs"
    by (simp add: option_fields_def)
  ultimately show ?thesis
    using assms unfolding read_options_def h_def t_def d_def i_def
    by (simp add: optional_string_json optional_value_json)
qed

section \<open>The isolation of a backend\<close>

text \<open>What options ask for: whether there is isolation and then whether the network is open, and whether the backend is
  confined to its workspace; and what a policy enforces of it.\<close>

definition demanded :: "LocalIsolationOptions option \<Rightarrow> bool option \<times> bool" where
  "demanded options =
     (case options of
        None \<Rightarrow> (None, False)
      | Some OptUnrestricted \<Rightarrow> (None, False)
      | Some (OptWorkspace allow_network) \<Rightarrow> (Some allow_network, True)
      | Some (OptMacosSeatbelt allow_network _ _) \<Rightarrow> (Some allow_network, False)
      | Some (OptLinuxBubblewrap allow_network _ _) \<Rightarrow> (Some allow_network, False))"

definition enforced :: "LocalBackendPolicy \<Rightarrow> bool option \<times> bool" where
  "enforced policy = (map_option (pi_allow_network \<circ> snd) (active_path_isolation policy), lp_workspace_scoped policy)"

lemma from_isolation_options_enforced:
  assumes "from_isolation_options platform view options workspace temp = Inr policy"
  shows "enforced policy = demanded options" and "gs_grants (lp_store policy) = []"
proof -
  have network: "pi_allow_network config = net" if "build_path_isolation_config view net rs ws workspace temp = Inr config" for net rs ws config
    using that by (auto simp: build_path_isolation_config_def split: sum.splits if_splits)
  show "enforced policy = demanded options"
    using assms
    by (auto simp: from_isolation_options_def enforced_def demanded_def unrestricted_def isolated_policy_def active_path_isolation_def
        build_workspace_isolation_def build_workspace_isolation_config_def map_sum_def network
        split: option.splits LocalIsolationOptions.splits sum.splits if_splits TargetOs.splits)
  show "gs_grants (lp_store policy) = []"
    using assms
    by (auto simp: from_isolation_options_def unrestricted_def isolated_policy_def default_GrantStore_def
        split: option.splits LocalIsolationOptions.splits sum.splits if_splits)
qed

definition isolation_of :: "'w LocalBuildHost \<Rightarrow> LocalProviderOptions \<Rightarrow> LocalIsolationOptions option" where
  "isolation_of env options =
     (case lo_isolation options of
        None \<Rightarrow> None
      | Some j \<Rightarrow> (case bh_read_isolation env j of Inl _ \<Rightarrow> None | Inr isolation \<Rightarrow> Some isolation))"

lemma and_then_InrD: "and_then m k = (Inr b, t) \<Longrightarrow> \<exists>a s. m = (Inr a, s) \<and> k a s = (Inr b, t)"
  by (cases m; cases "fst m") (auto simp: and_then_def)

lemma build_from_options_enforced:
  assumes "build_from_options env options w = (Inr backend, w')"
  shows "enforced (ls_policy backend) = demanded (isolation_of env options)" and "gs_grants (lp_store (ls_policy backend)) = []"
proof -
  obtain isolation view root temp where
      "(case lo_isolation options of None \<Rightarrow> Inr None | Some j \<Rightarrow> map_sum id Some (bh_read_isolation env j)) = Inr isolation"
      and policy: "from_isolation_options (bh_platform env) view isolation root temp = Inr (ls_policy backend)"
    using assms unfolding build_from_options_def local_backend_with_isolation_def
    by (fastforce dest!: and_then_InrD simp: map_err_def split: sum.splits)
  then have "isolation = isolation_of env options"
    by (auto simp: isolation_of_def map_sum_def split: option.splits sum.splits)
  with from_isolation_options_enforced [OF policy]
  show "enforced (ls_policy backend) = demanded (isolation_of env options)" "gs_grants (lp_store (ls_policy backend)) = []"
    by simp_all
qed

lemma build_backend_InrD:
  assumes "build_backend env options v = (Inr h, u)"
  obtains backend w where "build_from_options env options (lv_world v) = (Inr backend, w)" and "h = length (lv_backends v)"
    and "u = v\<lparr>lv_world := w, lv_backends := lv_backends v @ [backend]\<rparr>"
  using assms by (auto simp: build_backend_def split: prod.splits sum.splits)

text \<open>What a successful creation leaves behind.\<close>

lemma local_create_InrD:
  assumes "local_create env request v = (Inr inst, u)"
  obtains options backend w where "read_options (cr_provider_options request) = Some options"
    and "build_from_options env options (lv_world v) = (Inr backend, w)"
    and "pi_instance_id inst = fst (next_instance_id env v)" and "pi_state inst = Active"
    and "json_get (pi_metadata inst) ''provider_options'' = Some (write_options options)"
    and "u = insert_record (pi_instance_id inst) \<lparr> ln_instance = inst, ln_backend = length (lv_backends v),
        ln_workspace_root_host = lo_workspace_root options \<rparr>
      (v\<lparr>lv_world := w, lv_backends := lv_backends v @ [backend], lv_next_sequence := lv_next_sequence v + 1\<rparr>)"
proof -
  obtain options h u1 state where options: "read_options (cr_provider_options request) = Some options"
      and built: "build_backend env options v = (Inr h, u1)" and state: "completed None Create = Inr state"
    using assms unfolding local_create_def by (fastforce dest!: and_then_InrD simp: ok_or_def split: option.splits)
  have "state = Active" using state by (simp add: completed_def lifecycle_defs)
  from built obtain backend w where b: "build_from_options env options (lv_world v) = (Inr backend, w)" "h = length (lv_backends v)"
      "u1 = v\<lparr>lv_world := w, lv_backends := lv_backends v @ [backend]\<rparr>"
    by (rule build_backend_InrD)
  show thesis
    using assms options built state \<open>state = Active\<close> b
    by (intro that [OF options b(1)])
      (auto simp: local_create_def ok_or_def next_instance_id_def Let_def obj_of_def)
qed

lemma local_attach_InrD:
  assumes "local_attach env inst u = (Inr h, u')" and "map_of (lv_registry u) (pi_instance_id inst) = None"
    and "json_get (pi_metadata inst) ''provider_options'' = Some j"
  obtains options backend w where "read_options j = Some options"
    and "bh_exists env (lo_workspace_root options) (lv_world u)"
    and "build_from_options env options (lv_world u) = (Inr backend, w)" and "h = length (lv_backends u)"
    and "u' = insert_record (pi_instance_id inst) \<lparr> ln_instance = inst, ln_backend = h,
        ln_workspace_root_host = lo_workspace_root options \<rparr> (u\<lparr>lv_world := w, lv_backends := lv_backends u @ [backend]\<rparr>)"
proof -
  obtain options u1 where options: "read_options j = Some options"
      and "bh_exists env (lo_workspace_root options) (lv_world u)" and built: "build_backend env options u = (Inr h, u1)"
      and u': "u' = insert_record (pi_instance_id inst) \<lparr> ln_instance = inst, ln_backend = h,
          ln_workspace_root_host = lo_workspace_root options \<rparr> u1"
    using assms unfolding local_attach_def Let_def
    by (fastforce dest!: and_then_InrD simp: ok_or_def ensure_that_def split: option.splits if_splits)
  from built show thesis
    by (rule build_backend_InrD) (use that options u' \<open>bh_exists env _ _\<close> in simp)
qed

text \<open>C22. A restart lifts no isolation. When an instance that was created is attached to a provider that does not know
  it, a later run of the program on a host that may have changed, the new backend enforces what the options of
  the creation demand: isolation or none, the network, confinement to the workspace. It carries no permission
  granted before, and is the very same backend where the host is as it was; the instance is registered as it
  was handed over.\<close>

theorem reattach_keeps_isolation:
  assumes "local_create env request v = (Inr inst, v')"
    and "map_of (lv_registry u) (pi_instance_id inst) = None"
    and "local_attach env inst u = (Inr h, u')"
  shows "\<exists>options. read_options (cr_provider_options request) = Some options \<and>
    (let backend = last (lv_backends v'); again = lv_backends u' ! h in
     enforced (ls_policy again) = demanded (isolation_of env options) \<and>
     enforced (ls_policy backend) = demanded (isolation_of env options) \<and>
     gs_grants (lp_store (ls_policy again)) = [] \<and>
     (lv_world u = lv_world v \<longrightarrow> again = backend)) \<and>
    map_option ln_instance (map_of (lv_registry u') (pi_instance_id inst)) = Some inst"
proof -
  from assms(1) obtain options backend w where options: "read_options (cr_provider_options request) = Some options"
      and built: "build_from_options env options (lv_world v) = (Inr backend, w)"
      and stored: "json_get (pi_metadata inst) ''provider_options'' = Some (write_options options)"
      and v': "lv_backends v' = lv_backends v @ [backend]"
    by (rule local_create_InrD) (simp add: insert_record_def)
  have same: "read_options (write_options options) = Some options"
    by (rule read_write_options [OF read_options_isolation [OF options]])
  from assms(3,2) stored obtain again w' where built': "build_from_options env options (lv_world u) = (Inr again, w')"
      and h: "h = length (lv_backends u)" "lv_backends u' = lv_backends u @ [again]"
      and "map_option ln_instance (map_of (lv_registry u') (pi_instance_id inst)) = Some inst"
    by (rule local_attach_InrD) (use same in \<open>simp add: insert_record_def update_conv'\<close>)
  with options v' built build_from_options_enforced [OF built] build_from_options_enforced [OF built'] show ?thesis
    by (intro exI [of _ options]) (auto simp: Let_def)
qed

text \<open>A host with bubblewrap on which every path is a directory, and a request for a confined workspace.\<close>

definition demo_build :: "unit LocalBuildHost" where
  "demo_build =
     \<lparr> bh_host = demo_host, bh_platform = \<lparr> hs_target_os = Linux, hs_bubblewrap_available = True \<rparr>,
       bh_canonicalize = (\<lambda>path _. map_sum (\<lambda>_. \<lparr> io_kind = IoOther, io_text = [] \<rparr>) id (normalize_absolute_host_path path)),
       bh_exists = (\<lambda>_ _. True), bh_temp_dir = ''/tmp'',
       bh_read_isolation = (\<lambda>_. Inr (OptWorkspace False)), bh_read_error = (\<lambda>_. []) \<rparr>"

definition demo_create_request :: ProviderCreateRequest where
  "demo_create_request =
     \<lparr> cr_backend_id = ''be'', cr_owner_ref = ''tenant-a'', cr_reason = Acquire,
       cr_resource_limits = \<lparr> rl_vcpu_count = None, rl_memory_mb = None, rl_disk_mb = None, rl_timeout_ms = None \<rparr>,
       cr_provider_options = JObj [(''isolation'', JObj [(''kind'', JStr ''workspace'')]), (''workspace_root'', JStr ''/ws'')],
       cr_correlation = JNull \<rparr>"

definition demo_options :: LocalProviderOptions where
  "demo_options = \<lparr> lo_workspace_root = ''/ws'', lo_home_dir = None, lo_temp_root = None, lo_default_shell = None,
     lo_isolation = Some (JObj [(''kind'', JStr ''workspace'')]) \<rparr>"

lemma demo_read_options: "read_options (cr_provider_options demo_create_request) = Some demo_options"
  by code_simp

lemma demo_built: "\<exists>backend. build_from_options demo_build demo_options () = (Inr backend, ())"
proof -
  have "(case fst (build_from_options demo_build demo_options ()) of Inl _ \<Rightarrow> False | Inr _ \<Rightarrow> True)" by code_simp
  then show ?thesis by (cases "build_from_options demo_build demo_options ()") (auto split: sum.splits)
qed

definition demo_created :: ProviderInstance where
  "demo_created = projr (fst (local_create demo_build demo_create_request (new_LocalProvider ())))"

lemma demo_completed: "completed None Create = Inr Active"
  by (simp add: completed_def lifecycle_defs)

lemma demo_create:
  "local_create demo_build demo_create_request (new_LocalProvider ()) =
     (Inr demo_created, snd (local_create demo_build demo_create_request (new_LocalProvider ())))"
  using demo_built demo_read_options demo_completed
  by (auto simp: demo_created_def local_create_def build_backend_def ok_or_def Let_def new_LocalProvider_def split: prod.split)

lemma demo_attach: "\<exists>u. local_attach demo_build demo_created (new_LocalProvider ()) = (Inr 0, u)"
proof -
  obtain options where "read_options (cr_provider_options demo_create_request) = Some options"
      and "json_get (pi_metadata demo_created) ''provider_options'' = Some (write_options options)"
    by (rule local_create_InrD [OF demo_create])
  moreover have "read_options (write_options demo_options) = Some demo_options"
    by (rule read_write_options) (simp add: demo_options_def)
  ultimately have "json_get (pi_metadata demo_created) ''provider_options'' = Some (write_options demo_options)"
    "read_options (write_options demo_options) = Some demo_options"
    by (simp_all add: demo_read_options)
  then show ?thesis
    using demo_built
    by (auto simp: local_attach_def new_LocalProvider_def build_backend_def ok_or_def ensure_that_def demo_build_def Let_def)
qed

theorem reattach_keeps_isolation_witness:
  "\<exists>u. local_attach demo_build demo_created (new_LocalProvider ()) = (Inr 0, u) \<and>
     enforced (ls_policy (lv_backends u ! 0)) = (Some False, True)"
proof -
  obtain u where attach: "local_attach demo_build demo_created (new_LocalProvider ()) = (Inr 0, u)"
    using demo_attach by blast
  have "map_of (lv_registry (new_LocalProvider ())) (pi_instance_id demo_created) = None"
    by (simp add: new_LocalProvider_def)
  from reattach_keeps_isolation [OF demo_create this attach] demo_read_options
  have "enforced (ls_policy (lv_backends u ! 0)) = demanded (isolation_of demo_build demo_options)"
    by (simp add: Let_def)
  also have "\<dots> = (Some False, True)"
    by (simp add: demanded_def isolation_of_def demo_options_def demo_build_def)
  finally show ?thesis using attach by blast
qed

section \<open>The registry\<close>

text \<open>An instance is at rest when no operation on it is under way and it is not deleted.\<close>

definition at_rest :: "ProviderLifecycleState \<Rightarrow> bool" where
  "at_rest state \<longleftrightarrow> state \<in> {Active, Paused, Failed}"

definition provider_wf :: "'w LocalProvider \<Rightarrow> bool" where
  "provider_wf v \<longleftrightarrow> distinct (map fst (lv_registry v)) \<and>
     list_all (\<lambda>(instance_id, r). pi_instance_id (ln_instance r) = instance_id \<and> at_rest (pi_state (ln_instance r)) \<and>
       ln_backend r < length (lv_backends v)) (lv_registry v)"

lemma set_update_subset: "set (AList.update k v al) \<subseteq> insert (k, v) (set al)"
  by (induction al) auto

lemma set_delete_subset: "set (AList.delete k al) \<subseteq> set al"
  by (auto simp: AList.delete_eq)

lemma provider_wf_insert:
  assumes "provider_wf v" and "pi_instance_id (ln_instance r) = instance_id" and "at_rest (pi_state (ln_instance r))"
    and "ln_backend r < length (lv_backends v)"
  shows "provider_wf (insert_record instance_id r v)"
  using assms distinct_update [of "lv_registry v" instance_id r] set_update_subset [of instance_id r "lv_registry v"]
  by (auto simp: provider_wf_def insert_record_def list_all_iff)

lemma provider_wf_grow: "provider_wf v \<Longrightarrow> provider_wf (v\<lparr>lv_world := w, lv_backends := lv_backends v @ bs, lv_next_sequence := n\<rparr>)"
  by (auto simp: provider_wf_def list_all_iff)

lemma provider_wf_lookup:
  assumes "provider_wf v" and "map_of (lv_registry v) instance_id = Some r"
  shows "pi_instance_id (ln_instance r) = instance_id" "at_rest (pi_state (ln_instance r))" "ln_backend r < length (lv_backends v)"
  using assms map_of_SomeD [OF assms(2)] by (auto simp: provider_wf_def list_all_iff)

text \<open>Completing an operation on an instance at rest leaves it at rest, and it can always be deleted.\<close>

lemma completed_at_rest: "completed (Some state) opr = Inr state' \<Longrightarrow> opr \<noteq> Delete \<Longrightarrow> at_rest state \<Longrightarrow> at_rest state'"
  by (cases state; cases opr) (auto simp: completed_def at_rest_def lifecycle_defs)

lemma completed_delete: "at_rest state \<Longrightarrow> completed (Some state) Delete = Inr Deleted"
  by (auto simp: completed_def at_rest_def lifecycle_defs)

lemma provider_wf_build:
  assumes "provider_wf v" and "build_backend env options v = (r, u)"
  shows "provider_wf u" and "r = Inr h \<Longrightarrow> h < length (lv_backends u)"
  using assms by (auto simp: build_backend_def provider_wf_def list_all_iff less_SucI split: prod.splits sum.splits)

lemma provider_wf_create: "provider_wf v \<Longrightarrow> provider_wf (snd (local_create env request v))"
proof (cases "fst (local_create env request v)")
  case (Inr inst)
  assume wf: "provider_wf v"
  from Inr have "local_create env request v = (Inr inst, snd (local_create env request v))" by (metis prod.collapse)
  then show ?thesis
    by (rule local_create_InrD) (use wf in \<open>auto intro!: provider_wf_insert provider_wf_grow simp: at_rest_def\<close>)
next
  case (Inl e)
  assume wf: "provider_wf v"
  have "completed None Create = Inr Active" by (simp add: completed_def lifecycle_defs)
  with Inl wf show ?thesis
    by (auto simp: local_create_def and_then_def ok_or_def Let_def dest: provider_wf_build(1) split: option.splits sum.splits prod.splits)
qed

lemma provider_wf_put:
  assumes "provider_wf v" and "map_of (lv_registry v) instance_id = Some r" and "at_rest (pi_state inst)"
    and "pi_instance_id inst = pi_instance_id (ln_instance r)"
  shows "provider_wf (insert_record instance_id (r\<lparr>ln_instance := inst\<rparr>) v)"
  using assms provider_wf_lookup [OF assms(1,2)] by (intro provider_wf_insert) simp_all

lemma provider_wf_with_record:
  assumes "provider_wf v" and "\<And>r. map_of (lv_registry v) instance_id = Some r \<Longrightarrow> provider_wf (snd (k r v))"
  shows "provider_wf (snd (and_then (record_of instance_id v, v) k))"
  using assms by (cases "map_of (lv_registry v) instance_id") (simp_all add: record_of_def ok_or_def)

lemma provider_wf_completed:
  assumes "provider_wf v" and "map_of (lv_registry v) instance_id = Some r" and "opr \<noteq> Delete"
    and "\<And>state. at_rest state \<Longrightarrow> provider_wf (snd (k state v))"
  shows "provider_wf (snd (and_then (completed (Some (pi_state (ln_instance r))) opr, v) k))"
  using assms completed_at_rest [OF _ assms(3) provider_wf_lookup(2) [OF assms(1,2)]]
  by (cases "completed (Some (pi_state (ln_instance r))) opr") simp_all

lemma provider_wf_load: "provider_wf v \<Longrightarrow> provider_wf (snd (local_load env request v))"
  unfolding local_load_def Let_def
  by (cases "lr_source request") (simp_all, intro provider_wf_with_record provider_wf_completed, simp_all add: provider_wf_put)

lemma provider_wf_pause: "provider_wf v \<Longrightarrow> provider_wf (snd (local_pause env request v))"
  unfolding local_pause_def Let_def
  by (intro provider_wf_with_record provider_wf_completed, simp_all add: provider_wf_put)

lemma provider_wf_remove: "provider_wf v \<Longrightarrow> provider_wf (v\<lparr>lv_registry := AList.delete instance_id (lv_registry v)\<rparr>)"
  using set_delete_subset [of instance_id "lv_registry v"] distinct_delete [of "lv_registry v" instance_id]
  by (auto simp: provider_wf_def list_all_iff)

lemma provider_wf_delete: "provider_wf v \<Longrightarrow> provider_wf (snd (local_delete request v))"
  by (auto simp: local_delete_def and_then_def provider_wf_remove split: option.split sum.split)

lemma provider_wf_inspect:
  assumes "provider_wf v"
  shows "provider_wf (snd (local_inspect env request v))"
proof (cases "ir_instance_id request")
  case (Some instance_id)
  show ?thesis
    unfolding local_inspect_def Let_def Some option.case
    by (rule provider_wf_with_record [OF assms], unfold snd_conv, rule provider_wf_put [OF assms], assumption)
      (use provider_wf_lookup(2) [OF assms] in \<open>auto simp: at_rest_def\<close>)
qed (use assms in \<open>simp add: local_inspect_def\<close>)

lemma provider_wf_attach:
  assumes "provider_wf v" and "at_rest (pi_state inst)"
  shows "provider_wf (snd (local_attach env inst v))"
  using assms
  by (auto simp: local_attach_def and_then_def ok_or_def ensure_that_def Let_def
      intro!: provider_wf_insert dest: provider_wf_build split: option.splits sum.splits prod.splits)

lemma provider_wf_outside:
  "provider_wf v \<Longrightarrow> provider_wf (v\<lparr>lv_backends := (lv_backends v)[h := backend]\<rparr>)" "provider_wf v \<Longrightarrow> provider_wf (v\<lparr>lv_world := w\<rparr>)"
  by (simp_all add: provider_wf_def)

text \<open>A run of the provider: its operations in any order, permissions granted and revoked on its backends, and the host
  changing outside of it.\<close>

inductive provider_step :: "'w LocalBuildHost \<Rightarrow> 'w LocalProvider \<Rightarrow> 'w LocalProvider \<Rightarrow> bool" for env where
  create: "provider_step env v (snd (local_create env request v))"
| load: "provider_step env v (snd (local_load env request v))"
| pause: "provider_step env v (snd (local_pause env request v))"
| delete: "provider_step env v (snd (local_delete request v))"
| inspect: "provider_step env v (snd (local_inspect env request v))"
| attach: "at_rest (pi_state inst) \<Longrightarrow> provider_step env v (snd (local_attach env inst v))"
| permission: "provider_step env v (v\<lparr>lv_backends := (lv_backends v)[h := backend]\<rparr>)"
| outside: "provider_step env v (v\<lparr>lv_world := w\<rparr>)"

definition provider_init :: "'w LocalProvider \<Rightarrow> bool" where
  "provider_init v \<longleftrightarrow> (\<exists>w. v = new_LocalProvider w)"

interpretation local_provider: invariant_system provider_init "provider_step env" provider_wf for env
proof unfold_locales
  show "provider_wf v" if "provider_init v" for v :: "'a LocalProvider"
    using that by (auto simp: provider_init_def new_LocalProvider_def provider_wf_def)
  show "provider_wf u" if "provider_wf v" "provider_step env v u" for v u :: "'a LocalProvider"
    using that(2,1)
    by cases (auto intro: provider_wf_create provider_wf_load provider_wf_pause provider_wf_delete provider_wf_inspect provider_wf_attach provider_wf_outside)
qed

text \<open>A deletion succeeds, reports whether there was an instance, and changes nothing else.\<close>

lemma local_delete_outcome:
  assumes "provider_wf v" and "dr_instance_id request = Some instance_id"
  obtains outcome where "do_deleted outcome \<longleftrightarrow> map_of (lv_registry v) instance_id \<noteq> None"
    and "local_delete request v = (Inr outcome, v\<lparr>lv_registry := AList.delete instance_id (lv_registry v)\<rparr>)"
proof (cases "map_of (lv_registry v) instance_id")
  case None
  then have "AList.delete instance_id (lv_registry v) = lv_registry v"
    by (simp add: map_of_eq_None_iff)
  with None assms(2) show thesis by (intro that) (simp_all add: local_delete_def)
next
  case (Some r)
  with provider_wf_lookup(2) [OF assms(1) Some] assms(2) show thesis
    by (intro that) (simp_all add: local_delete_def completed_delete)
qed

text \<open>C23. Above the local provider the manager never has a release to retry: in every run of the provider, with the host
  changing as it likes, stopping a registered instance succeeds, whether the provider has it active, paused or
  failed or has never heard of it. The instance leaves both registries, and the queue of releases stays as it was.\<close>

theorem local_stop_releases:
  assumes "reach provider_init (provider_step env) (im_world s)" and "im_lifecycle s = local_lifecycle env"
    and "im_instances s runtime_id = Some bound"
  shows "\<exists>v s'. stop_instance runtime_id s = (Inr (), s') \<and>
    im_instances s' = (im_instances s)(runtime_id := None) \<and> im_pending_release s' = im_pending_release s \<and>
    map_of (lv_registry v) = (map_of (lv_registry (im_world s)))(pi_instance_id (bi_instance bound) := None) \<and>
    im_world s' = snd (lg_record_deleted (im_ledger s) runtime_id v)"
proof -
  obtain outcome where del: "local_delete (release_request (bi_instance bound)) (im_world s) =
      (Inr outcome, (im_world s)\<lparr>lv_registry := AList.delete (pi_instance_id (bi_instance bound)) (lv_registry (im_world s))\<rparr>)"
    by (rule local_delete_outcome [OF local_provider.reach_inv [OF assms(1)],
          of "release_request (bi_instance bound)" "pi_instance_id (bi_instance bound)"])
      (simp add: release_request_def)
  let ?v = "(im_world s)\<lparr>lv_registry := AList.delete (pi_instance_id (bi_instance bound)) (lv_registry (im_world s))\<rparr>"
  have world: "im_world (get_runtime_lock runtime_id s) = im_world s" "im_world (release_runtime_lock runtime_id t) = im_world t" for t
    by (simp_all add: get_runtime_lock_def release_runtime_lock_def Let_def split: option.split)
  have "delete_instance bound (get_runtime_lock runtime_id s) = (Inr (), (get_runtime_lock runtime_id s)\<lparr>im_world := ?v\<rparr>)"
    using assms(2) del by (simp add: delete_instance_def call_world_eq local_lifecycle_def world)
  then have "stop_instance runtime_id s =
      (Inr (), release_runtime_lock runtime_id (finish_release runtime_id bound ((get_runtime_lock runtime_id s)\<lparr>im_world := ?v\<rparr>)))"
    using assms(3) by (simp add: stop_instance_def stop_instance_locked_def)
  moreover have "im_world (finish_release runtime_id bound t) = snd (lg_record_deleted (im_ledger t) runtime_id (im_world t))"
    for t :: "('a LocalProvider, 'b) InstanceManager"
    by (simp add: finish_release_def call_world_eq Let_def release_instance_def split: option.split)
  ultimately show ?thesis
    by (auto intro!: exI [of _ ?v] simp: finish_release_frame delete_conv' world)
qed

text \<open>C29. Instance identifiers repeat after a restart. They are made of the process identifier and a counter that starts
  again at zero, while instances of an earlier run are attached under their old names. In a process with the
  identifier of the earlier one, as in a container, the first creation after such a reattachment gives out the name
  of the attached instance and puts the new record in its place: one registry entry for two instances, with the
  backend of the second.\<close>

theorem restart_reissues_instance_id:
  assumes "local_attach env inst (new_LocalProvider w) = (Inr h, u)"
    and "pi_instance_id inst = fst (next_instance_id env (new_LocalProvider w'))"
    and "local_create env request u = (Inr inst', u')"
  shows "pi_instance_id inst' = pi_instance_id inst \<and> map fst (lv_registry u') = [pi_instance_id inst] \<and>
    map_option ln_instance (map_of (lv_registry u') (pi_instance_id inst)) = Some inst' \<and>
    map_option ln_backend (map_of (lv_registry u') (pi_instance_id inst)) \<noteq> Some h"
proof -
  have fresh: "map_of (lv_registry (new_LocalProvider w)) (pi_instance_id inst) = None" by (simp add: new_LocalProvider_def)
  obtain j where j: "json_get (pi_metadata inst) ''provider_options'' = Some j"
    using assms(1) fresh by (auto simp: local_attach_def Let_def split: option.splits)
  from assms(1) fresh j obtain r backend where u: "h = 0" "lv_next_sequence u = 0" "lv_backends u = [backend]" "lv_registry u = [(pi_instance_id inst, r)]"
    by (rule local_attach_InrD) (auto simp: insert_record_def new_LocalProvider_def)
  from assms(3) show ?thesis
    by (rule local_create_InrD)
      (use u assms(2) in \<open>auto simp: next_instance_id_def new_LocalProvider_def insert_record_def\<close>)
qed

theorem restart_reissues_instance_id_witness:
  "\<exists>u inst u'. local_attach demo_build demo_created (new_LocalProvider ()) = (Inr 0, u) \<and>
     local_create demo_build demo_create_request u = (Inr inst, u') \<and> pi_instance_id inst = pi_instance_id demo_created \<and>
     map_option ln_backend (map_of (lv_registry u') (pi_instance_id inst)) \<noteq> Some 0"
proof -
  obtain u where attach: "local_attach demo_build demo_created (new_LocalProvider ()) = (Inr 0, u)"
    using demo_attach by blast
  obtain inst u' where create: "local_create demo_build demo_create_request u = (Inr inst, u')"
    using demo_built demo_read_options demo_completed
    by (auto simp: local_create_def build_backend_def ok_or_def Let_def next_instance_id_def)
  have "pi_instance_id demo_created = fst (next_instance_id demo_build (new_LocalProvider ()))"
    by (rule local_create_InrD [OF demo_create])
  from restart_reissues_instance_id [OF attach this create] attach create show ?thesis by auto
qed

definition demo_local_manager :: "(unit LocalProvider, BackendHandle) InstanceManager" where
  "demo_local_manager =
     \<lparr> im_lifecycle = local_lifecycle demo_build, im_attach = local_attach demo_build,
       im_ledger = \<lparr> lg_record_created = (\<lambda>_ _ _ w. (Inr (), w)), lg_record_deleted = (\<lambda>_ w. (Inr (), w)),
         lg_list_active = (\<lambda>_ w. (Inr [], w)) \<rparr>,
       im_ambient = \<lparr> am_new_uuid = (\<lambda>w. ([], w)), am_now = (\<lambda>w. (0, w)), am_sleep = (\<lambda>_ w. w) \<rparr>,
       im_kind = LOCAL_KIND, im_config = new_InstanceManagerConfig 2 8,
       im_instances = [''r1'' \<mapsto> \<lparr> bi_instance = demo_created, bi_backend = 0 \<rparr>],
       im_quota = default_QuotaState, im_restore_errors = Map.empty, im_runtime_locks = Map.empty, im_pending_release = [],
       im_world = snd (local_create demo_build demo_create_request (new_LocalProvider ())) \<rparr>"

theorem local_stop_releases_witness:
  "\<exists>s'. stop_instance ''r1'' demo_local_manager = (Inr (), s') \<and> im_instances s' = Map.empty \<and>
     map_of (lv_registry (im_world s')) (pi_instance_id demo_created) = None"
proof -
  have "reach provider_init (provider_step demo_build) (new_LocalProvider ())"
    by (rule reach_init) (auto simp: provider_init_def)
  then have "reach provider_init (provider_step demo_build) (im_world demo_local_manager)"
    by (rule reach_step) (simp add: demo_local_manager_def provider_step.create)
  from local_stop_releases [OF this, of "''r1''" "\<lparr> bi_instance = demo_created, bi_backend = 0 \<rparr>"] show ?thesis
    by (auto simp: demo_local_manager_def)
qed

end
