(* ===== verification/Spec2Isabelle.thy ===== *)
theory Spec2Isabelle
  imports Manager_Properties Provider_Ledger Session_Lease Session_Projection Turn_Gate
    Sqlite_Repository Application_Invariant Turn_Cancellation Line_Diff Local_Lifecycle
begin

text \<open>
  A verification library for the agent session governor under \<open>src/\<close>.
\<close>

end
